(* ===== verification/Go_Prelude.thy ===== *)
theory Go_Prelude
  imports Main "HOL-Library.Char_ord" "HOL-Library.List_Lexorder" "HOL-Library.Sublist"
begin

text \<open>
  Shared vocabulary of the development: Go strings as lists of bytes, the string functions of
  the standard library that the repository calls, the SQL string functions and comparisons its
  queries use, and list lemmas about tables (a table is the list of its rows in rowid order).

  Strings are lists of 8-bit characters. Case mapping and white space are those of the ASCII
  range; bytes outside it are left as they are.
\<close>

named_theorems go_str \<open>facts about the modelled string functions\<close>
named_theorems table_simps \<open>rewrite rules for tables given as lists of rows\<close>

section \<open>Strings\<close>

subsection \<open>Case mapping and white space\<close>

definition ascii_lower :: "char \<Rightarrow> char" where
  "ascii_lower c = (let n = (of_char c :: nat) in
     if 65 \<le> n \<and> n \<le> 90 then char_of (n + 32) else c)"

definition to_lower :: "string \<Rightarrow> string" where
  "to_lower s = map ascii_lower s"

text \<open>The white space of \<^verbatim>\<open>strings.TrimSpace\<close>: tab, newline, vertical tab, form feed, return, blank.\<close>

definition is_space :: "char \<Rightarrow> bool" where
  "is_space c = ((of_char c :: nat) \<in> {9, 10, 11, 12, 13, 32})"

text \<open>The class \<^verbatim>\<open>\s\<close> of Go regular expressions, which has no vertical tab.\<close>

definition is_re_space :: "char \<Rightarrow> bool" where
  "is_re_space c = ((of_char c :: nat) \<in> {9, 10, 12, 13, 32})"

definition trim_by :: "(char \<Rightarrow> bool) \<Rightarrow> string \<Rightarrow> string" where
  "trim_by P s = rev (dropWhile P (rev (dropWhile P s)))"

definition trim_space :: "string \<Rightarrow> string" where
  "trim_space s = trim_by is_space s"

text \<open>SQLite's \<^verbatim>\<open>lower(trim(x))\<close>: \<^verbatim>\<open>trim\<close> strips blanks only, \<^verbatim>\<open>lower\<close> folds ASCII only.\<close>

definition sql_lower_trim :: "string \<Rightarrow> string" where
  "sql_lower_trim s = to_lower (trim_by (\<lambda>c. c = CHR '' '') s)"

lemma of_char_ascii_lower:
  "(of_char (ascii_lower c) :: nat) =
    (if 65 \<le> (of_char c :: nat) \<and> (of_char c :: nat) \<le> 90
     then of_char c + 32 else of_char c)"
  by (simp add: ascii_lower_def Let_def)

lemma ascii_lower_idem [simp]: "ascii_lower (ascii_lower c) = ascii_lower c"
proof -
  have "(of_char (ascii_lower (ascii_lower c)) :: nat) = of_char (ascii_lower c)"
    by (auto simp: of_char_ascii_lower)
  then show ?thesis by (metis char_of_char)
qed

lemma to_lower_idem [simp, go_str]: "to_lower (to_lower s) = to_lower s"
  by (simp add: to_lower_def comp_def)

lemma to_lower_Nil [simp]: "to_lower [] = []"
  by (simp add: to_lower_def)

lemma to_lower_eq_Nil [simp]: "to_lower s = [] \<longleftrightarrow> s = []"
  by (simp add: to_lower_def)

lemma is_space_ascii_lower [simp]: "is_space (ascii_lower c) = is_space c"
  by (auto simp: is_space_def of_char_ascii_lower)

lemma is_re_space_ascii_lower [simp]: "is_re_space (ascii_lower c) = is_re_space c"
  by (auto simp: is_re_space_def of_char_ascii_lower)

lemma is_re_space_is_space: "is_re_space c \<Longrightarrow> is_space c"
  by (auto simp: is_re_space_def is_space_def)

lemma is_space_blank [simp]: "is_space CHR '' ''" "is_re_space CHR '' ''"
  by (simp_all add: is_space_def is_re_space_def)

lemma ascii_lower_other:
  "\<not> (65 \<le> (of_char c :: nat) \<and> (of_char c :: nat) \<le> 90) \<Longrightarrow> ascii_lower c = c"
  unfolding ascii_lower_def Let_def by (simp only: if_False)

subsection \<open>Trimming\<close>

lemma dropWhile_map_inv:
  "(\<And>c. P (f c) = P c) \<Longrightarrow> dropWhile P (map f s) = map f (dropWhile P s)"
  by (induction s) auto

lemma trim_by_to_lower:
  "(\<And>c. P (ascii_lower c) = P c) \<Longrightarrow> trim_by P (to_lower s) = to_lower (trim_by P s)"
  by (simp add: trim_by_def to_lower_def dropWhile_map_inv rev_map)

lemma trim_space_to_lower [go_str]: "trim_space (to_lower s) = to_lower (trim_space s)"
  by (simp add: trim_space_def trim_by_to_lower)

lemma dropWhile_id: "(s = [] \<or> \<not> P (hd s)) \<Longrightarrow> dropWhile P s = s"
  by (cases s) auto

lemma hd_dropWhile_not: "dropWhile P s \<noteq> [] \<Longrightarrow> \<not> P (hd (dropWhile P s))"
  by (rule hd_dropWhile)

lemma dropWhile_rev_sublist: "\<exists>ys. dropWhile P s = rev (dropWhile P (rev (dropWhile P s))) @ ys"
proof -
  have "rev (dropWhile P s) = takeWhile P (rev (dropWhile P s)) @ dropWhile P (rev (dropWhile P s))"
    by simp
  then have "dropWhile P s = rev (dropWhile P (rev (dropWhile P s))) @ rev (takeWhile P (rev (dropWhile P s)))"
    by (metis rev_append rev_rev_ident)
  then show ?thesis by blast
qed

lemma trim_by_hd: "trim_by P s \<noteq> [] \<Longrightarrow> \<not> P (hd (trim_by P s))"
proof -
  assume ne: "trim_by P s \<noteq> []"
  obtain ys where ys: "dropWhile P s = trim_by P s @ ys"
    using dropWhile_rev_sublist [of P s] by (auto simp: trim_by_def)
  with ne have "hd (dropWhile P s) = hd (trim_by P s)" "dropWhile P s \<noteq> []"
    by auto
  with hd_dropWhile [of P s] show ?thesis by simp
qed

lemma trim_by_last: "trim_by P s \<noteq> [] \<Longrightarrow> \<not> P (last (trim_by P s))"
  by (simp add: trim_by_def last_rev hd_dropWhile)

lemma trim_by_trimmed:
  "s = [] \<or> \<not> P (hd s) \<and> \<not> P (last s) \<Longrightarrow> trim_by P s = s"
  by (auto simp: trim_by_def dropWhile_id hd_rev)

lemma trim_by_idem [simp]: "trim_by P (trim_by P s) = trim_by P s"
  by (rule trim_by_trimmed) (use trim_by_hd trim_by_last in blast)

lemma trim_space_idem [simp, go_str]: "trim_space (trim_space s) = trim_space s"
  by (simp add: trim_space_def)

lemma trim_by_infix: "\<exists>xs ys. s = xs @ trim_by P s @ ys"
proof -
  obtain ys where "dropWhile P s = trim_by P s @ ys"
    using dropWhile_rev_sublist [of P s] by (auto simp: trim_by_def)
  then have "s = takeWhile P s @ trim_by P s @ ys"
    by (metis takeWhile_dropWhile_id)
  then show ?thesis by blast
qed

lemma set_trim_by: "set (trim_by P s) \<subseteq> set s"
  using trim_by_infix [of s P] by (metis Un_iff set_append subsetI)

subsection \<open>Searching, splitting, joining\<close>

text \<open>\<^verbatim>\<open>strings.HasPrefix\<close> is \<^const>\<open>prefix\<close> of the library.\<close>

text \<open>\<^verbatim>\<open>strings.Cut\<close>: the text before and after the first occurrence of the separator.\<close>

fun str_cut :: "string \<Rightarrow> string \<Rightarrow> (string \<times> string) option" where
  "str_cut sep [] = (if sep = [] then Some ([], []) else None)"
| "str_cut sep (c # s) =
     (if prefix sep (c # s) then Some ([], drop (length sep) (c # s))
      else map_option (\<lambda>(a, b). (c # a, b)) (str_cut sep s))"

text \<open>\<^verbatim>\<open>strings.Split\<close> and \<^verbatim>\<open>strings.Join\<close> at a one-character separator.\<close>

fun split_on :: "char \<Rightarrow> string \<Rightarrow> string list" where
  "split_on d [] = [[]]"
| "split_on d (c # s) =
     (if c = d then [] # split_on d s
      else (case split_on d s of [] \<Rightarrow> [[c]] | w # ws \<Rightarrow> (c # w) # ws))"

fun join_with :: "string \<Rightarrow> string list \<Rightarrow> string" where
  "join_with d [] = []"
| "join_with d [w] = w"
| "join_with d (w # v # ws) = w @ d @ join_with d (v # ws)"

lemma str_cut_append:
  "str_cut sep s = Some (a, b) \<Longrightarrow> s = a @ sep @ b"
proof (induction s arbitrary: a b)
  case Nil
  then show ?case by (auto split: if_splits)
next
  case (Cons c s)
  then show ?case
    by (auto split: if_splits simp: prefix_def)
qed

lemma split_on_not_Nil [simp]: "split_on d s \<noteq> []"
  by (induction s) (auto split: list.splits)

lemma join_split_on [go_str]: "join_with [d] (split_on d s) = s"
proof (induction s)
  case Nil
  then show ?case by simp
next
  case (Cons c s)
  obtain w ws where w: "split_on d s = w # ws" by (cases "split_on d s") auto
  with Cons show ?case by (cases ws) auto
qed

lemma split_on_no_sep: "w \<in> set (split_on d s) \<Longrightarrow> d \<notin> set w"
proof (induction s arbitrary: w)
  case Nil
  then show ?case by simp
next
  case (Cons c s)
  obtain v vs where v: "split_on d s = v # vs" by (cases "split_on d s") auto
  with Cons show ?case by (auto split: if_splits)
qed

section \<open>Tables\<close>

text \<open>
  A SQL table is the list of its rows in rowid order, and \<open>key\<close> reads its primary key.
  \<open>tbl_get\<close> is a \<^verbatim>\<open>SELECT ... WHERE key = ?\<close>, \<open>tbl_upd\<close> an \<^verbatim>\<open>UPDATE\<close>, \<open>tbl_del\<close> a
  \<^verbatim>\<open>DELETE\<close>; \<open>tbl_ins\<close> is an \<^verbatim>\<open>INSERT\<close>, which fails when the key is taken.
\<close>

definition tbl_get :: "('r \<Rightarrow> 'k) \<Rightarrow> 'k \<Rightarrow> 'r list \<Rightarrow> 'r option" where
  "tbl_get key k rows = find (\<lambda>r. key r = k) rows"

definition tbl_has :: "('r \<Rightarrow> 'k) \<Rightarrow> 'k \<Rightarrow> 'r list \<Rightarrow> bool" where
  "tbl_has key k rows = list_ex (\<lambda>r. key r = k) rows"

definition tbl_ins :: "('r \<Rightarrow> 'k) \<Rightarrow> 'r \<Rightarrow> 'r list \<Rightarrow> 'r list option" where
  "tbl_ins key r rows = (if tbl_has key (key r) rows then None else Some (rows @ [r]))"

definition tbl_upd :: "('r \<Rightarrow> 'k) \<Rightarrow> 'k \<Rightarrow> ('r \<Rightarrow> 'r) \<Rightarrow> 'r list \<Rightarrow> 'r list" where
  "tbl_upd key k f rows = map (\<lambda>r. if key r = k then f r else r) rows"

definition tbl_del :: "('r \<Rightarrow> 'k) \<Rightarrow> 'k \<Rightarrow> 'r list \<Rightarrow> 'r list" where
  "tbl_del key k rows = filter (\<lambda>r. key r \<noteq> k) rows"

definition tbl_wf :: "('r \<Rightarrow> 'k) \<Rightarrow> 'r list \<Rightarrow> bool" where
  "tbl_wf key rows = distinct (map key rows)"

lemma tbl_has_iff [table_simps]: "tbl_has key k rows \<longleftrightarrow> k \<in> key ` set rows"
  by (auto simp: tbl_has_def list_ex_iff)

lemma tbl_get_Some_iff:
  "tbl_wf key rows \<Longrightarrow> tbl_get key k rows = Some r \<longleftrightarrow> r \<in> set rows \<and> key r = k"
proof (induction rows)
  case Nil
  then show ?case by (simp add: tbl_get_def)
next
  case (Cons a rows)
  have "tbl_wf key rows" and fresh: "key a \<notin> key ` set rows"
    using Cons.prems by (simp_all add: tbl_wf_def)
  then have IH: "tbl_get key k rows = Some r \<longleftrightarrow> r \<in> set rows \<and> key r = k"
    by (simp add: Cons.IH)
  show ?case
  proof (cases "key a = k")
    case True
    with fresh show ?thesis by (auto simp: tbl_get_def image_iff)
  next
    case False
    with IH show ?thesis by (auto simp: tbl_get_def)
  qed
qed

lemma tbl_get_SomeD: "tbl_get key k rows = Some r \<Longrightarrow> r \<in> set rows \<and> key r = k"
  by (auto simp: tbl_get_def find_Some_iff)

lemma tbl_get_None_iff [table_simps]: "tbl_get key k rows = None \<longleftrightarrow> k \<notin> key ` set rows"
  by (auto simp: tbl_get_def find_None_iff)

lemma tbl_get_key_in: "k \<in> key ` set rows \<Longrightarrow> \<exists>r. tbl_get key k rows = Some r"
  by (metis not_None_eq tbl_get_None_iff)

lemma tbl_ins_Some_iff [table_simps]:
  "tbl_ins key r rows = Some rows' \<longleftrightarrow> key r \<notin> key ` set rows \<and> rows' = rows @ [r]"
  by (auto simp: tbl_ins_def tbl_has_iff)

lemma tbl_wf_append [table_simps]:
  "tbl_wf key (rows @ [r]) \<longleftrightarrow> tbl_wf key rows \<and> key r \<notin> key ` set rows"
  by (auto simp: tbl_wf_def)

lemma tbl_wf_Nil [simp, table_simps]: "tbl_wf key []"
  by (simp add: tbl_wf_def)

lemma tbl_wf_filter [table_simps]: "tbl_wf key rows \<Longrightarrow> tbl_wf key (filter P rows)"
  by (auto simp: tbl_wf_def distinct_map inj_on_def)

lemma tbl_wf_del [table_simps]: "tbl_wf key rows \<Longrightarrow> tbl_wf key (tbl_del key' k rows)"
  by (simp add: tbl_del_def tbl_wf_filter)

lemma map_key_tbl_upd:
  "(\<And>r. key (f r) = key r) \<Longrightarrow> map key (tbl_upd key' k f rows) = map key rows"
  by (auto simp: tbl_upd_def)

lemma tbl_wf_upd [table_simps]:
  "(\<And>r. key (f r) = key r) \<Longrightarrow> tbl_wf key (tbl_upd key' k f rows) = tbl_wf key rows"
  by (simp add: tbl_wf_def map_key_tbl_upd)

lemma key_image_tbl_upd [table_simps]:
  "(\<And>r. key (f r) = key r) \<Longrightarrow> key ` set (tbl_upd key' k f rows) = key ` set rows"
  by (metis list.set_map map_key_tbl_upd)

lemma set_tbl_del [table_simps]: "set (tbl_del key k rows) = {r \<in> set rows. key r \<noteq> k}"
  by (auto simp: tbl_del_def)

lemma tbl_get_del [table_simps]:
  "tbl_get key k (tbl_del key k' rows) = (if k = k' then None else tbl_get key k rows)"
  by (induction rows) (auto simp: tbl_get_def tbl_del_def)

lemma tbl_get_upd [table_simps]:
  "(\<And>r. key (f r) = key r) \<Longrightarrow>
   tbl_get key k (tbl_upd key k' f rows) =
     (if k = k' then map_option f (tbl_get key k rows) else tbl_get key k rows)"
  by (induction rows) (auto simp: tbl_get_def tbl_upd_def)

lemma tbl_get_append [table_simps]:
  "tbl_get key k (rows @ [r]) =
     (case tbl_get key k rows of Some r' \<Rightarrow> Some r' | None \<Rightarrow> if key r = k then Some r else None)"
  by (induction rows) (auto simp: tbl_get_def)

lemma set_tbl_upd: "set (tbl_upd key k f rows) = (\<lambda>r. if key r = k then f r else r) ` set rows"
  by (simp add: tbl_upd_def)

text \<open>
  Every keyed table is a finite map. The locale states what the components rely on: reading back
  a row after an insert, update or delete, and that the operations keep the key unique.
\<close>

locale keyed_table =
  fixes key :: "'r \<Rightarrow> 'k"
    and get :: "'k \<Rightarrow> 'r list \<Rightarrow> 'r option"
    and ins :: "'r \<Rightarrow> 'r list \<Rightarrow> 'r list option"
    and del :: "'k \<Rightarrow> 'r list \<Rightarrow> 'r list"
    and wf :: "'r list \<Rightarrow> bool"
  assumes get_key: "get k rows = Some r \<Longrightarrow> key r = k"
    and ins_get: "ins r rows = Some rows' \<Longrightarrow>
          get k rows' = (if k = key r then Some r else get k rows)"
    and ins_fails: "ins r rows = None \<longleftrightarrow> get (key r) rows \<noteq> None"
    and del_get: "get k (del k' rows) = (if k = k' then None else get k rows)"
    and wf_ins: "wf rows \<Longrightarrow> ins r rows = Some rows' \<Longrightarrow> wf rows'"
    and wf_del: "wf rows \<Longrightarrow> wf (del k rows)"
begin

lemma get_after_insert: "ins r rows = Some rows' \<Longrightarrow> get (key r) rows' = Some r"
  by (simp add: ins_get)

lemma insert_after_delete: "key r = k \<Longrightarrow> \<exists>rows'. ins r (del k rows) = Some rows'"
  using ins_fails [of r "del k rows"] del_get [of k k rows] by (cases "ins r (del k rows)") auto

lemma insert_twice_fails: "ins r rows = Some rows' \<Longrightarrow> key r' = key r \<Longrightarrow> ins r' rows' = None"
  using ins_fails get_after_insert by (metis option.distinct(1))

lemma delete_twice: "get j (del k (del k rows)) = get j (del k rows)"
  by (simp add: del_get)

end

lemma keyed_table_tbl:
  "keyed_table key (tbl_get key) (tbl_ins key) (tbl_del key) (tbl_wf key)"
proof unfold_locales
  fix k r rows rows' k'
  show "tbl_get key k rows = Some r \<Longrightarrow> key r = k"
    by (drule tbl_get_SomeD) simp
  show "tbl_ins key r rows = Some rows' \<Longrightarrow>
      tbl_get key k rows' = (if k = key r then Some r else tbl_get key k rows)"
    by (cases "tbl_get key k rows")
       (auto simp: tbl_get_append tbl_ins_Some_iff rev_image_eqI dest: tbl_get_SomeD)
  show "(tbl_ins key r rows = None) = (tbl_get key (key r) rows \<noteq> None)"
    by (auto simp: tbl_ins_def table_simps)
  show "tbl_get key k (tbl_del key k' rows) = (if k = k' then None else tbl_get key k rows)"
    by (simp add: table_simps)
  show "tbl_wf key rows \<Longrightarrow> tbl_ins key r rows = Some rows' \<Longrightarrow> tbl_wf key rows'"
    by (simp add: table_simps)
  show "tbl_wf key rows \<Longrightarrow> tbl_wf key (tbl_del key k rows)"
    by (simp add: table_simps)
qed

section \<open>Sorting and paging\<close>

text \<open>\<^verbatim>\<open>ORDER BY key DESC\<close> over a numeric key; rows that tie stay in scan order.\<close>

definition order_desc :: "('r \<Rightarrow> int) \<Rightarrow> 'r list \<Rightarrow> 'r list" where
  "order_desc key rows = sort_key (\<lambda>r. - key r) rows"

lemma set_order_desc [simp]: "set (order_desc key rows) = set rows"
  by (simp add: order_desc_def)

lemma length_order_desc [simp]: "length (order_desc key rows) = length rows"
  by (simp add: order_desc_def)

lemma sorted_order_desc: "sorted_wrt (\<lambda>a b. key a \<ge> key b) (order_desc key rows)"
proof -
  have "sorted (map (\<lambda>r. - key r) (sort_key (\<lambda>r. - key r) rows))"
    by (rule sorted_sort_key)
  then show ?thesis
    by (simp add: order_desc_def sorted_map)
qed

text \<open>\<^verbatim>\<open>LIMIT ? OFFSET ?\<close>; a negative limit means no limit in SQLite, a negative offset means none.\<close>

definition limit_offset :: "int \<Rightarrow> int \<Rightarrow> 'r list \<Rightarrow> 'r list" where
  "limit_offset limit offset rows =
     (let rest = drop (nat offset) rows in if limit < 0 then rest else take (nat limit) rest)"

end
