(* ===== verification/Scope.thy ===== *)
theory Scope
  imports Go_Prelude
begin

text \<open>
  Taxonomy authorization (\<^verbatim>\<open>internal/db/scope.go\<close>): the scope an identity carries into a corpus,
  its Go predicates, and the SQL fragments the queries use in their place. A fragment is its
  syntax tree (\<open>clause\<close>), evaluated by \<open>clause_sat\<close> with SQLite's equality and \<^verbatim>\<open>LIKE\<close> on a
  nullable column.
\<close>

section \<open>The scope and its predicates\<close>

record scope =
  sc_all :: bool
  sc_read :: "string list"
  sc_write :: "string list"
  sc_titles :: "string list"

definition zero_scope :: scope where
  "zero_scope = \<lparr>sc_all = False, sc_read = [], sc_write = [], sc_titles = []\<rparr>"

definition full_scope :: scope where
  "full_scope = zero_scope\<lparr>sc_all := True\<rparr>"

definition new_scope :: "string list \<Rightarrow> string list \<Rightarrow> string list \<Rightarrow> scope" where
  "new_scope r w t = \<lparr>sc_all = False, sc_read = r, sc_write = w, sc_titles = t\<rparr>"

definition unrestricted :: "scope \<Rightarrow> bool" where
  "unrestricted s = sc_all s"

fun prefix_match :: "string list \<Rightarrow> string \<Rightarrow> bool" where
  "prefix_match [] t = False"
| "prefix_match (p # ps) t = (t = p \<or> prefix (p @ ''.'') t \<or> prefix_match ps t)"

definition can_read :: "scope \<Rightarrow> string \<Rightarrow> bool" where
  "can_read s t = (sc_all s \<or> prefix_match (sc_read s) t)"

definition can_write :: "scope \<Rightarrow> string \<Rightarrow> bool" where
  "can_write s t = (sc_all s \<or> prefix_match (sc_write s) t)"

definition title_visible :: "scope \<Rightarrow> string \<Rightarrow> bool" where
  "title_visible s t = (sc_all s \<or> prefix_match (sc_read s) t \<or> prefix_match (sc_titles s) t)"

section \<open>SQLite's LIKE\<close>

text \<open>
  \<^verbatim>\<open>%\<close> matches any text, \<^verbatim>\<open>_\<close> one UTF-8 encoded character, any other byte itself up to ASCII
  case (the default, since no \<^verbatim>\<open>PRAGMA case_sensitive_like\<close> is issued).
\<close>

definition utf8_rest :: "char \<Rightarrow> string \<Rightarrow> string" where
  "utf8_rest c s =
     (if 192 \<le> (of_char c :: nat)
      then dropWhile (\<lambda>d. 128 \<le> (of_char d :: nat) \<and> (of_char d :: nat) < 192) s else s)"

lemma length_utf8_rest [simp]: "length (utf8_rest c s) \<le> length s"
  by (simp add: utf8_rest_def length_dropWhile_le)

fun like :: "string \<Rightarrow> string \<Rightarrow> bool" where
  "like [] s = (s = [])"
| "like (p # ps) [] = (p = CHR ''%'' \<and> like ps [])"
| "like (p # ps) (c # s) =
     (if p = CHR ''%'' then like ps (c # s) \<or> like (p # ps) s
      else if p = CHR ''_'' then like ps (utf8_rest c s)
      else ascii_lower p = ascii_lower c \<and> like ps s)"

section \<open>SQL fragments\<close>

datatype clause =
    NoRestriction                           \<comment> \<open>the empty fragment\<close>
  | NeverTrue                               \<comment> \<open>\<^verbatim>\<open>0\<close>\<close>
  | AnyOf "(string \<times> string) list"          \<comment> \<open>\<^verbatim>\<open>(col = ? OR col LIKE ?) OR ...\<close> with its arguments\<close>

definition sql_under :: "string \<Rightarrow> string \<Rightarrow> string option \<Rightarrow> bool" where
  "sql_under eq lk col = (case col of None \<Rightarrow> False | Some t \<Rightarrow> t = eq \<or> like lk t)"

fun clause_sat :: "clause \<Rightarrow> string option \<Rightarrow> bool" where
  "clause_sat NoRestriction col = True"
| "clause_sat NeverTrue col = False"
| "clause_sat (AnyOf args) col = list_ex (\<lambda>(eq, lk). sql_under eq lk col) args"

definition clause_for :: "scope \<Rightarrow> string list \<Rightarrow> clause" where
  "clause_for s pfs =
     (if sc_all s then NoRestriction
      else if pfs = [] then NeverTrue
      else AnyOf (map (\<lambda>p. (p, p @ ''.%'')) pfs))"

definition read_clause :: "scope \<Rightarrow> clause" where
  "read_clause s = clause_for s (sc_read s)"

definition title_clause :: "scope \<Rightarrow> clause" where
  "title_clause s =
     (if sc_all s then NoRestriction else clause_for s (sc_read s @ sc_titles s))"

text \<open>The optional branch filter \<^verbatim>\<open>(taxonomy = ? OR taxonomy LIKE ?)\<close> of the listings.\<close>

definition branch_filter :: "string \<Rightarrow> string option \<Rightarrow> bool" where
  "branch_filter branch col = (branch = [] \<or> sql_under branch (branch @ ''.%'') col)"

section \<open>Facts about LIKE\<close>

lemma like_append_self:
  "like q s \<Longrightarrow> like (p @ q) (p @ s)"
proof (induction p)
  case (Cons c p)
  have "of_char CHR ''_'' < (192 :: nat)" by simp
  with Cons show ?case by (auto simp: utf8_rest_def split: if_splits) (cases "p @ s"; simp)+
qed simp

lemma like_any [simp]: "like ''%'' s"
  by (induction s) auto

definition like_safe :: "string \<Rightarrow> bool" where
  "like_safe p = (CHR ''%'' \<notin> set p \<and> CHR ''_'' \<notin> set p \<and> to_lower p = p)"

lemma like_literal_prefix:
  "CHR ''%'' \<notin> set p \<Longrightarrow> CHR ''_'' \<notin> set p \<Longrightarrow>
   like (p @ ''%'') s \<longleftrightarrow> prefix (to_lower p) (to_lower s)"
proof (induction p arbitrary: s)
  case Nil
  then show ?case by simp
next
  case (Cons c p)
  then show ?case by (cases s) (auto simp: to_lower_def)
qed

lemma ascii_lower_dot [simp]: "ascii_lower CHR ''.'' = CHR ''.''"
  by (rule ascii_lower_other) simp

lemma like_branch:
  assumes "like_safe p" and "to_lower t = t"
  shows "like (p @ ''.%'') t \<longleftrightarrow> prefix (p @ ''.'') t"
proof -
  have "like ((p @ ''.'') @ ''%'') t \<longleftrightarrow> prefix (to_lower (p @ ''.'')) (to_lower t)"
    by (rule like_literal_prefix) (use assms in \<open>auto simp: like_safe_def\<close>)
  moreover have "to_lower (p @ ''.'') = p @ ''.''"
    using assms(1) by (simp add: like_safe_def to_lower_def)
  ultimately show ?thesis using assms(2) by simp
qed

lemma prefix_match_iff: "prefix_match ps t \<longleftrightarrow> (\<exists>p \<in> set ps. t = p \<or> prefix (p @ ''.'') t)"
  by (induction ps) auto

lemma prefix_match_append [simp]: "prefix_match (ps @ qs) t \<longleftrightarrow> prefix_match ps t \<or> prefix_match qs t"
  by (auto simp: prefix_match_iff)

lemma clause_sat_for:
  "clause_sat (clause_for s ps) col \<longleftrightarrow>
     sc_all s \<or> (\<exists>p \<in> set ps. sql_under p (p @ ''.%'') col)"
  by (auto simp: clause_for_def list_ex_iff)

lemma clause_sat_title:
  "clause_sat (title_clause s) col \<longleftrightarrow>
     sc_all s \<or> (\<exists>p \<in> set (sc_read s @ sc_titles s). sql_under p (p @ ''.%'') col)"
  by (auto simp: title_clause_def clause_sat_for)

lemma clause_complete:
  assumes "prefix_match ps t"
  shows "clause_sat (clause_for s ps) (Some t)"
proof -
  from assms obtain p where p: "p \<in> set ps" "t = p \<or> prefix (p @ ''.'') t"
    by (auto simp: prefix_match_iff)
  have "like (p @ ''.%'') ((p @ ''.'') @ r)" for r
    using like_append_self [of "''%''" r "p @ ''.''"] by simp
  with p(2) have "sql_under p (p @ ''.%'') (Some t)"
    by (auto simp: sql_under_def prefix_def)
  with p(1) show ?thesis by (auto simp: clause_sat_for)
qed

lemma clause_exact:
  assumes "\<forall>p \<in> set ps. like_safe p" and "to_lower t = t"
  shows "clause_sat (clause_for s ps) (Some t) \<longleftrightarrow> sc_all s \<or> prefix_match ps t"
proof -
  have "sql_under p (p @ ''.%'') (Some t) \<longleftrightarrow> t = p \<or> prefix (p @ ''.'') t" if "p \<in> set ps" for p
    using that assms by (simp add: sql_under_def like_branch)
  then show ?thesis by (auto simp: clause_sat_for prefix_match_iff)
qed

lemma read_implies_title: "can_read s t \<Longrightarrow> title_visible s t"
  by (auto simp: can_read_def title_visible_def)

lemma read_clause_title: "clause_sat (read_clause s) col \<Longrightarrow> clause_sat (title_clause s) col"
  by (auto simp: read_clause_def clause_sat_for clause_sat_title)

lemma full_scope_simps [simp]:
  "sc_all full_scope" "can_read full_scope t" "can_write full_scope t" "title_visible full_scope t"
  "clause_sat (read_clause full_scope) col" "clause_sat (title_clause full_scope) col"
  by (simp_all add: full_scope_def can_read_def can_write_def title_visible_def
      read_clause_def title_clause_def clause_for_def)

section \<open>Two filters of one contract\<close>

text \<open>
  What a listing relies on: a filter on the taxonomy column that admits every row its Go predicate
  admits, and nothing at all when no prefix is granted. A listing built on such a filter is
  complete for the rows the caller may see and empty for a caller with no grants.
\<close>

locale scope_filter =
  fixes sat :: "scope \<Rightarrow> string option \<Rightarrow> bool"
    and allowed :: "scope \<Rightarrow> string \<Rightarrow> bool"
    and grants :: "scope \<Rightarrow> string list"
  assumes complete: "allowed s t \<Longrightarrow> sat s (Some t)"
    and deny: "\<not> sc_all s \<Longrightarrow> grants s = [] \<Longrightarrow> \<not> sat s col"
    and null_hidden: "\<not> sc_all s \<Longrightarrow> \<not> sat s None"
    and open_all: "sc_all s \<Longrightarrow> sat s col"
begin

lemma listing_complete:
  "r \<in> set rows \<Longrightarrow> col r = Some t \<Longrightarrow> allowed s t \<Longrightarrow> r \<in> set (filter (\<lambda>r. sat s (col r)) rows)"
  by (simp add: complete)

lemma listing_denied:
  "\<not> sc_all s \<Longrightarrow> grants s = [] \<Longrightarrow> filter (\<lambda>r. sat s (col r)) rows = []"
  by (simp add: deny)

lemma listing_open: "sc_all s \<Longrightarrow> filter (\<lambda>r. sat s (col r)) rows = rows"
  by (simp add: open_all)

end

interpretation read_filter: scope_filter "\<lambda>s. clause_sat (read_clause s)" can_read sc_read
proof unfold_locales
  fix s t col
  show "can_read s t \<Longrightarrow> clause_sat (read_clause s) (Some t)"
    using clause_complete [of "sc_read s" t s]
    by (auto simp: can_read_def read_clause_def clause_sat_for)
  show "\<not> sc_all s \<Longrightarrow> sc_read s = [] \<Longrightarrow> \<not> clause_sat (read_clause s) col"
    by (simp add: read_clause_def clause_for_def)
  show "\<not> sc_all s \<Longrightarrow> \<not> clause_sat (read_clause s) None"
    by (simp add: read_clause_def clause_sat_for sql_under_def)
  show "sc_all s \<Longrightarrow> clause_sat (read_clause s) col"
    by (simp add: read_clause_def clause_sat_for)
qed

interpretation title_filter: scope_filter "\<lambda>s. clause_sat (title_clause s)" title_visible
  "\<lambda>s. sc_read s @ sc_titles s"
proof unfold_locales
  fix s t col
  show "title_visible s t \<Longrightarrow> clause_sat (title_clause s) (Some t)"
    using clause_complete [of "sc_read s @ sc_titles s" t s]
    by (cases "sc_all s") (auto simp: title_visible_def title_clause_def)
  show "\<not> sc_all s \<Longrightarrow> sc_read s @ sc_titles s = [] \<Longrightarrow> \<not> clause_sat (title_clause s) col"
    by (simp add: title_clause_def clause_for_def)
  show "\<not> sc_all s \<Longrightarrow> \<not> clause_sat (title_clause s) None"
    by (simp add: clause_sat_title sql_under_def)
  show "sc_all s \<Longrightarrow> clause_sat (title_clause s) col"
    by (simp add: title_clause_def)
qed

end
