(* ===== verification/Wiki_Links.thy ===== *)
theory Wiki_Links
  imports Go_Prelude
begin

text \<open>
  The wiki-link parser (\<^verbatim>\<open>internal/db/links.go\<close>): code spans are removed, then every
  \<^verbatim>\<open>[[rel::Title]]\<close> is read, its relation recognised and its target normalized. The regular
  expressions are scanners: each takes the leftmost match and continues after it, as
  \<^verbatim>\<open>ReplaceAllString\<close> and \<^verbatim>\<open>FindAllStringSubmatch\<close> do.
\<close>

section \<open>Relations\<close>

definition rel_relates :: string where "rel_relates = ''relates''"
definition rel_depends_on :: string where "rel_depends_on = ''depends-on''"
definition rel_supersedes :: string where "rel_supersedes = ''supersedes''"
definition rel_contradicts :: string where "rel_contradicts = ''contradicts''"

definition valid_rels :: "string list" where
  "valid_rels = [rel_relates, rel_depends_on, rel_supersedes, rel_contradicts]"

record parsed_link =
  pl_rel :: string
  pl_raw :: string

section \<open>Normalization\<close>

function collapse_ws :: "string \<Rightarrow> string" where
  "collapse_ws [] = []"
| "collapse_ws (c # s) =
     (if is_re_space c then CHR '' '' # collapse_ws (dropWhile is_re_space s)
      else c # collapse_ws s)"
  by pat_completeness auto
termination
  by (relation "measure length") (auto simp: length_dropWhile_le le_imp_less_Suc)

definition normalize_link :: "string \<Rightarrow> string" where
  "normalize_link s = to_lower (trim_space (collapse_ws s))"

section \<open>Code spans\<close>

text \<open>The text after the first closing fence, if there is one.\<close>

fun after_fence :: "string \<Rightarrow> string option" where
  "after_fence [] = None"
| "after_fence (c # s) = (if prefix ''```'' (c # s) then Some (drop 3 (c # s)) else after_fence s)"

lemma after_fence_length: "after_fence s = Some r \<Longrightarrow> length r < length s"
  by (induction s) (auto split: if_splits)

function strip_fenced :: "string \<Rightarrow> string" where
  "strip_fenced [] = []"
| "strip_fenced (c # s) =
     (if prefix ''```'' (c # s)
      then (case after_fence (drop 3 (c # s)) of
              Some r \<Rightarrow> strip_fenced r
            | None \<Rightarrow> c # strip_fenced s)
      else c # strip_fenced s)"
  by pat_completeness auto
termination
  by (relation "measure length")
     (auto dest!: after_fence_length intro: less_le_trans)

fun after_tick :: "string \<Rightarrow> string option" where
  "after_tick [] = None"
| "after_tick (c # s) = (if c = CHR ''`'' then Some s else after_tick s)"

lemma after_tick_length: "after_tick s = Some r \<Longrightarrow> length r < length s"
  by (induction s) (auto split: if_splits)

function strip_inline :: "string \<Rightarrow> string" where
  "strip_inline [] = []"
| "strip_inline (c # s) =
     (if c = CHR ''`''
      then (case after_tick s of Some r \<Rightarrow> strip_inline r | None \<Rightarrow> c # strip_inline s)
      else c # strip_inline s)"
  by pat_completeness auto
termination
  by (relation "measure length") (auto dest!: after_tick_length)

section \<open>Links\<close>

definition not_bracket :: "char \<Rightarrow> bool" where
  "not_bracket c = (c \<noteq> CHR ''['' \<and> c \<noteq> CHR '']'')"

text \<open>One match of \<^verbatim>\<open>\[\[([^\[\]]+)\]\]\<close> at the head of the text: the group and the rest.\<close>

definition match_link :: "string \<Rightarrow> (string \<times> string) option" where
  "match_link s =
     (if prefix ''[['' s then
        (let body = takeWhile not_bracket (drop 2 s); rest = dropWhile not_bracket (drop 2 s)
         in if body \<noteq> [] \<and> prefix '']]'' rest then Some (body, drop 2 rest) else None)
      else None)"

lemma match_link_length: "match_link s = Some (b, r) \<Longrightarrow> length r < length s"
proof -
  assume m: "match_link s = Some (b, r)"
  then have pre: "prefix ''[['' s" and r: "r = drop 2 (dropWhile not_bracket (drop 2 s))"
    by (auto simp: match_link_def Let_def split: if_splits)
  have "length r \<le> length (drop 2 s)"
    using length_dropWhile_le [of not_bracket "drop 2 s"] by (simp add: r)
  moreover from pre have "2 \<le> length s" using prefix_length_le by fastforce
  ultimately show ?thesis by simp
qed

function find_links :: "string \<Rightarrow> string list" where
  "find_links [] = []"
| "find_links (c # s) =
     (case match_link (c # s) of
        Some (b, r) \<Rightarrow> b # find_links r
      | None \<Rightarrow> find_links s)"
  by pat_completeness auto
termination
  by (relation "measure length") (auto dest!: match_link_length)

definition split_rel :: "string \<Rightarrow> string \<times> string" where
  "split_rel inner =
     (case str_cut ''::'' inner of
        Some (pfx, rest) \<Rightarrow>
          (let candidate = to_lower (trim_space pfx)
           in if candidate \<in> set valid_rels then (candidate, normalize_link rest)
              else (rel_relates, normalize_link inner))
      | None \<Rightarrow> (rel_relates, normalize_link inner))"

text \<open>The loop over the matches: empty targets are skipped, repeated (rel, target) pairs dropped.\<close>

fun collect_links :: "(string \<times> string) list \<Rightarrow> string list \<Rightarrow> parsed_link list" where
  "collect_links seen [] = []"
| "collect_links seen (m # ms) =
     (let (rel, raw) = split_rel m in
      if raw = [] then collect_links seen ms
      else if (rel, raw) \<in> set seen then collect_links seen ms
      else \<lparr>pl_rel = rel, pl_raw = raw\<rparr> # collect_links ((rel, raw) # seen) ms)"

definition parse_links :: "string \<Rightarrow> parsed_link list" where
  "parse_links content = collect_links [] (find_links (strip_inline (strip_fenced content)))"

section \<open>Facts about normalization\<close>

fun collapsed :: "string \<Rightarrow> bool" where
  "collapsed [] = True"
| "collapsed [c] = (is_re_space c \<longrightarrow> c = CHR '' '')"
| "collapsed (c # d # s) =
     ((is_re_space c \<longrightarrow> c = CHR '' '' \<and> \<not> is_re_space d) \<and> collapsed (d # s))"

lemma collapsed_Cons:
  "collapsed (c # s) \<longleftrightarrow>
     (is_re_space c \<longrightarrow> c = CHR '' '' \<and> (s = [] \<or> \<not> is_re_space (hd s))) \<and> collapsed s"
  by (cases s) auto

lemma collapse_ws_hd:
  "collapse_ws s = [] \<longleftrightarrow> s = []"
  "s \<noteq> [] \<Longrightarrow> is_re_space (hd (collapse_ws s)) = is_re_space (hd s)"
  by (cases s; simp)+

lemma collapsed_collapse_ws: "collapsed (collapse_ws s)"
proof (induction s rule: collapse_ws.induct)
  case 1
  then show ?case by simp
next
  case (2 c s)
  have hd: "dropWhile is_re_space s = [] \<or> \<not> is_re_space (hd (dropWhile is_re_space s))"
    using hd_dropWhile by blast
  show ?case
  proof (cases "is_re_space c")
    case True
    with hd have "collapse_ws (dropWhile is_re_space s) = [] \<or>
        \<not> is_re_space (hd (collapse_ws (dropWhile is_re_space s)))"
      using collapse_ws_hd by metis
    with True 2 show ?thesis by (auto simp: collapsed_Cons)
  next
    case False
    with 2 show ?thesis by (simp add: collapsed_Cons)
  qed
qed

lemma collapse_ws_collapsed: "collapsed s \<Longrightarrow> collapse_ws s = s"
proof (induction s rule: collapse_ws.induct)
  case (2 c s)
  show ?case
  proof (cases "is_re_space c")
    case True
    with 2 have "dropWhile is_re_space s = s" by (intro dropWhile_id) (auto simp: collapsed_Cons)
    with True 2 show ?thesis by (auto simp: collapsed_Cons)
  next
    case False
    with 2 show ?thesis by (simp add: collapsed_Cons)
  qed
qed simp

lemma collapsed_append: "collapsed (xs @ ys) \<Longrightarrow> collapsed xs \<and> collapsed ys"
  by (induction xs) (auto simp: collapsed_Cons hd_append split: if_splits)

lemma ascii_lower_blank [simp]: "ascii_lower CHR '' '' = CHR '' ''"
  by (rule ascii_lower_other) simp

lemma collapsed_to_lower: "collapsed s \<Longrightarrow> collapsed (to_lower s)"
  by (induction s) (auto simp: collapsed_Cons to_lower_def hd_map)

lemma collapsed_trim_by: "collapsed s \<Longrightarrow> collapsed (trim_by P s)"
  using trim_by_infix [of s P] by (metis collapsed_append)

lemma collapsed_normalize_link: "collapsed (normalize_link s)"
  by (simp add: normalize_link_def trim_space_def collapsed_collapse_ws collapsed_to_lower
      collapsed_trim_by)

lemma normalize_link_idem [simp, go_str]: "normalize_link (normalize_link s) = normalize_link s"
proof -
  have "collapse_ws (normalize_link s) = normalize_link s"
    by (rule collapse_ws_collapsed, rule collapsed_normalize_link)
  moreover have "trim_space (normalize_link s) = normalize_link s"
    by (simp add: normalize_link_def trim_space_to_lower)
  ultimately show ?thesis
    by (simp add: normalize_link_def [of "normalize_link s"])
       (simp add: normalize_link_def)
qed

section \<open>Facts about the parser\<close>

lemma split_rel_valid: "fst (split_rel m) \<in> set valid_rels"
  by (auto simp: split_rel_def valid_rels_def Let_def split: option.splits prod.splits)

lemma split_rel_normal: "\<exists>x. snd (split_rel m) = normalize_link x"
  by (auto simp: split_rel_def Let_def split: option.splits prod.splits)

lemma collect_links_mem:
  "l \<in> set (collect_links seen ms) \<Longrightarrow>
     (\<exists>m \<in> set ms. split_rel m = (pl_rel l, pl_raw l)) \<and> pl_raw l \<noteq> []
     \<and> (pl_rel l, pl_raw l) \<notin> set seen"
proof (induction ms arbitrary: seen)
  case (Cons m ms)
  obtain a b where ab: "split_rel m = (a, b)" by fastforce
  show ?case
  proof (cases "b = [] \<or> (a, b) \<in> set seen")
    case True
    with ab Cons.prems have "l \<in> set (collect_links seen ms)" by (auto split: if_splits)
    with Cons.IH [of seen] show ?thesis by auto
  next
    case False
    with Cons.IH [of "(a, b) # seen"] Cons.prems ab show ?thesis by (auto split: if_splits)
  qed
qed simp

lemma collect_links_distinct: "distinct (map (\<lambda>l. (pl_rel l, pl_raw l)) (collect_links seen ms))"
proof (induction ms arbitrary: seen)
  case (Cons m ms)
  obtain a b where ab: "split_rel m = (a, b)" by fastforce
  then show ?case
    using Cons.IH [of seen] Cons.IH [of "(a, b) # seen"]
    by (auto dest: collect_links_mem)
qed simp

lemma collect_links_complete:
  "m \<in> set ms \<Longrightarrow> split_rel m = (rel, raw) \<Longrightarrow> raw \<noteq> [] \<Longrightarrow> (rel, raw) \<notin> set seen \<Longrightarrow>
   \<lparr>pl_rel = rel, pl_raw = raw\<rparr> \<in> set (collect_links seen ms)"
proof (induction ms arbitrary: seen)
  case (Cons m' ms)
  obtain a b where ab: "split_rel m' = (a, b)" by fastforce
  show ?case
  proof (cases "m = m'")
    case True
    with ab Cons.prems show ?thesis by auto
  next
    case False
    with Cons.prems have "m \<in> set ms" by simp
    with Cons.IH Cons.prems ab show ?thesis
      by (cases "(rel, raw) = (a, b)") auto
  qed
qed simp

lemma set_dropWhile_subset: "set (dropWhile P s) \<subseteq> set s"
  by (auto dest: set_dropWhileD)

lemma match_link_body:
  "match_link s = Some (b, r) \<Longrightarrow> b \<noteq> [] \<and> (\<forall>c \<in> set b. not_bracket c) \<and> s = ''[['' @ b @ '']]'' @ r"
proof -
  assume m: "match_link s = Some (b, r)"
  let ?t = "drop 2 s"
  from m have pre: "prefix ''[['' s" "prefix '']]'' (dropWhile not_bracket ?t)"
    and b: "b = takeWhile not_bracket ?t" "b \<noteq> []"
    and r: "r = drop 2 (dropWhile not_bracket ?t)"
    by (auto simp: match_link_def Let_def split: if_splits)
  from pre(1) have "s = ''[['' @ ?t" by (auto simp: prefix_def)
  moreover from pre(2) r have "dropWhile not_bracket ?t = '']]'' @ r" by (auto simp: prefix_def)
  ultimately have "s = ''[['' @ b @ '']]'' @ r"
    by (metis b(1) takeWhile_dropWhile_id)
  moreover have "\<forall>c \<in> set b. not_bracket c"
    unfolding b(1) by (blast dest: set_takeWhileD)
  ultimately show ?thesis using b(2) by blast
qed

lemma find_links_body:
  "b \<in> set (find_links s) \<Longrightarrow> b \<noteq> [] \<and> (\<forall>c \<in> set b. not_bracket c) \<and> (\<exists>u v. s = u @ ''[['' @ b @ '']]'' @ v)"
proof (induction s rule: find_links.induct)
  case (2 c s)
  show ?case
  proof (cases "match_link (c # s)")
    case None
    with 2 have ih: "b \<noteq> [] \<and> (\<forall>c \<in> set b. not_bracket c) \<and> (\<exists>u v. s = u @ ''[['' @ b @ '']]'' @ v)"
      by simp
    then obtain u v where "c # s = (c # u) @ ''[['' @ b @ '']]'' @ v" by auto
    with ih show ?thesis by blast
  next
    case (Some p)
    obtain b' r where p: "p = (b', r)" by (cases p)
    note m = match_link_body [OF Some [unfolded p]]
    from 2(3) Some p consider "b = b'" | "b \<in> set (find_links r)" by auto
    then show ?thesis
    proof cases
      case 1
      with m have "c # s = [] @ ''[['' @ b @ '']]'' @ r" by simp
      with 1 m show ?thesis by blast
    next
      case 2
      with "2.IH"(2) [OF Some, of b' r] p
      obtain u v where "r = u @ ''[['' @ b @ '']]'' @ v" and ok: "b \<noteq> []" "\<forall>c \<in> set b. not_bracket c"
        by auto
      with m have "c # s = (''[['' @ b' @ '']]'' @ u) @ ''[['' @ b @ '']]'' @ v" by simp
      with ok show ?thesis by blast
    qed
  qed
qed simp

lemma match_link_intro:
  assumes "b \<noteq> []" and "\<forall>c \<in> set b. not_bracket c"
  shows "match_link (''[['' @ b @ '']]'' @ r) = Some (b, r)"
proof -
  have nb: "\<not> not_bracket CHR '']''" by (simp add: not_bracket_def)
  have t: "takeWhile not_bracket (b @ CHR '']'' # x) = b" for x
    using assms(2) nb by (simp add: takeWhile_append2)
  have d: "dropWhile not_bracket (b @ CHR '']'' # x) = CHR '']'' # x" for x
    using assms(2) nb by (simp add: dropWhile_append2)
  show ?thesis using assms(1) by (simp add: match_link_def Let_def t d)
qed

text \<open>Text without an opening bracket in front of a link does not hide it.\<close>

lemma find_links_skip: "CHR ''['' \<notin> set u \<Longrightarrow> find_links (u @ s) = find_links s"
  by (induction u) (auto simp: match_link_def)

lemma find_links_link:
  assumes "CHR ''['' \<notin> set u" and "b \<noteq> []" and "\<forall>c \<in> set b. not_bracket c"
  shows "find_links (u @ ''[['' @ b @ '']]'' @ r) = b # find_links r"
proof -
  have "find_links (''[['' @ b @ '']]'' @ r) = b # find_links r"
    using match_link_intro [OF assms(2,3), of r] by simp
  with find_links_skip [OF assms(1)] show ?thesis by simp
qed

text \<open>Without back quotes nothing is stripped.\<close>

lemma strip_fenced_plain: "CHR ''`'' \<notin> set s \<Longrightarrow> strip_fenced s = s"
  by (induction s) auto

lemma strip_inline_plain: "CHR ''`'' \<notin> set s \<Longrightarrow> strip_inline s = s"
  by (induction s) auto

lemma strip_inline_span:
  assumes "CHR ''`'' \<notin> set u" and "CHR ''`'' \<notin> set code"
  shows "strip_inline (u @ ''`'' @ code @ ''`'' @ r) = u @ strip_inline r"
proof -
  have "after_tick (code @ CHR ''`'' # r) = Some r"
    using assms(2) by (induction code) auto
  then show ?thesis using assms(1) by (induction u) auto
qed

lemma split_rel_bare: "str_cut ''::'' m = None \<Longrightarrow> split_rel m = (rel_relates, normalize_link m)"
  by (simp add: split_rel_def)

lemma split_rel_unknown:
  "str_cut ''::'' m = Some (p, rest) \<Longrightarrow> to_lower (trim_space p) \<notin> set valid_rels \<Longrightarrow>
   split_rel m = (rel_relates, normalize_link m)"
  by (simp add: split_rel_def Let_def)

end
