(* ===== verification/Tenant_Data.thy ===== *)
theory Tenant_Data
  imports Complex_Main Scope Wiki_Links
begin

text \<open>
  The data of one tenant file: the rows of its tables as declared by \<^verbatim>\<open>MemoryDB.migrate\<close> and
  \<^verbatim>\<open>migrateMembers\<close>, the Go structs built from them, and the errors of the store layer. A NULL
  column is \<open>None\<close>; a stored timestamp is its Unix second (the code writes RFC 3339 in UTC, whose
  text order is the order of the seconds for the years 0 to 9999).
\<close>

section \<open>Rows\<close>

record mem_row =
  m_rowid :: nat
  m_id :: string
  m_title :: string
  m_content :: "string option"
  m_taxonomy :: "string option"
  m_format :: string
  m_created :: int
  m_updated :: int
  m_version :: int

record fts_row =
  f_rowid :: nat
  f_title :: string
  f_content :: "string option"

record edge =
  e_src :: string
  e_dst :: "string option"
  e_raw :: string
  e_rel :: string

record srs_row =
  s_id :: string
  s_ease :: rat
  s_interval :: int
  s_reps :: int
  s_due :: int
  s_last :: "int option"

record rev_row =
  r_id :: string
  r_version :: int
  r_title :: string
  r_content :: "string option"
  r_taxonomy :: "string option"
  r_format :: string
  r_author :: "string option"
  r_agent :: "string option"
  r_created :: int

record tombstone =
  t_id :: string
  t_title :: string
  t_taxonomy :: "string option"
  t_created :: int
  t_deleted :: int
  t_by :: "string option"
  t_final :: int

text \<open>A role is stored as its name; \<open>RoleOther\<close> is any text outside the closed set.\<close>

datatype role = RoleOwner | RoleAdmin | RoleEditor | RoleViewer | RoleOther string

record member_row =
  mb_id :: string
  mb_role :: role
  mb_added_at :: int
  mb_added_by :: "string option"

record grant_row =
  g_identity :: string
  g_kind :: string
  g_prefix :: string

text \<open>A saved template branch, ordered as \<^verbatim>\<open>ORDER BY sort, path\<close> does.\<close>

datatype branch = Branch (br_path: string) (br_description: string) (br_sort: int)

instantiation branch :: linorder
begin

definition less_eq_branch :: "branch \<Rightarrow> branch \<Rightarrow> bool" where
  "less_eq_branch a b \<longleftrightarrow>
     br_sort a < br_sort b \<or> br_sort a = br_sort b \<and>
       (br_path a < br_path b \<or> br_path a = br_path b \<and> br_description a \<le> br_description b)"

definition less_branch :: "branch \<Rightarrow> branch \<Rightarrow> bool" where
  "less_branch a b \<longleftrightarrow> a \<le> b \<and> \<not> b \<le> (a :: branch)"

instance
proof
  fix a b c :: branch
  show "a < b \<longleftrightarrow> a \<le> b \<and> \<not> b \<le> a" by (simp add: less_branch_def)
  show "a \<le> a" by (simp add: less_eq_branch_def)
  show "a \<le> b \<Longrightarrow> b \<le> c \<Longrightarrow> a \<le> c" by (auto simp: less_eq_branch_def)
  show "a \<le> b \<Longrightarrow> b \<le> a \<Longrightarrow> a = b" by (cases a; cases b) (auto simp: less_eq_branch_def)
  show "a \<le> b \<or> b \<le> a" by (auto simp: less_eq_branch_def)
qed

end

record store =
  st_mems :: "mem_row list"
  st_fts :: "fts_row list"
  st_edges :: "edge list"
  st_srs :: "srs_row list"
  st_revs :: "rev_row list"
  st_tombs :: "tombstone list"
  st_template :: "branch list"
  st_members :: "member_row list"
  st_grants :: "grant_row list"

definition empty_store :: store where
  "empty_store = \<lparr>st_mems = [], st_fts = [], st_edges = [], st_srs = [], st_revs = [],
     st_tombs = [], st_template = [], st_members = [], st_grants = []\<rparr>"

section \<open>Structs\<close>

record link_status =
  ls_target :: string
  ls_rel :: string
  ls_resolved :: bool
  ls_deleted :: bool

record scoped_memory =
  sm_id :: string
  sm_title :: string
  sm_taxonomy :: string
  sm_rel :: string

record memory =
  mem_id :: string
  mem_title :: string
  mem_content :: string
  mem_taxonomy :: string
  mem_format :: string
  mem_created :: int
  mem_updated :: int
  mem_version :: int
  mem_backlinks :: nat
  mem_superseded :: bool
  mem_linked_from :: "scoped_memory list"
  mem_links :: "link_status list"
  mem_in_review :: bool

record revision =
  rev_id :: string
  rev_version :: int
  rev_title :: string
  rev_content :: string
  rev_taxonomy :: string
  rev_format :: string
  rev_author :: string
  rev_agent :: string
  rev_created :: int

section \<open>Errors\<close>

datatype db_error =
    NotFound string
  | DeletedError tombstone
  | VersionConflict string int int
  | TitleConflict string string
  | RevisionNotFound int string
  | NotInDeck string
  | BadGrade int
  | UnknownRole role
  | MemberNotFound string
  | ConstraintFailed

section \<open>Conversions\<close>

definition null_str :: "string \<Rightarrow> string option" where
  "null_str s = (if s = [] then None else Some s)"

definition str_of :: "string option \<Rightarrow> string" where
  "str_of c = (case c of None \<Rightarrow> [] | Some s \<Rightarrow> s)"

definition format_or_default :: "string \<Rightarrow> string" where
  "format_or_default s = (if s = [] then ''markdown'' else s)"

lemma str_of_null_str [simp]: "str_of (null_str s) = s"
  by (simp add: str_of_def null_str_def)

lemma str_of_simps [simp]: "str_of None = []" "str_of (Some s) = s"
  by (simp_all add: str_of_def)

definition scan_memory :: "mem_row \<Rightarrow> memory" where
  "scan_memory r = \<lparr>mem_id = m_id r, mem_title = m_title r, mem_content = str_of (m_content r),
     mem_taxonomy = str_of (m_taxonomy r), mem_format = m_format r, mem_created = m_created r,
     mem_updated = m_updated r, mem_version = m_version r, mem_backlinks = 0,
     mem_superseded = False, mem_linked_from = [], mem_links = [], mem_in_review = False\<rparr>"

definition scan_revision :: "rev_row \<Rightarrow> revision" where
  "scan_revision r = \<lparr>rev_id = r_id r, rev_version = r_version r, rev_title = r_title r,
     rev_content = str_of (r_content r), rev_taxonomy = str_of (r_taxonomy r),
     rev_format = r_format r, rev_author = str_of (r_author r), rev_agent = str_of (r_agent r),
     rev_created = r_created r\<rparr>"

definition scoped_of :: "mem_row \<Rightarrow> scoped_memory" where
  "scoped_of r = \<lparr>sm_id = m_id r, sm_title = m_title r, sm_taxonomy = str_of (m_taxonomy r), sm_rel = []\<rparr>"

text \<open>\<^verbatim>\<open>CountTokens\<close>: about four characters a token; a rune starts at each byte that is not a continuation.\<close>

definition rune_count :: "string \<Rightarrow> nat" where
  "rune_count s = length (filter (\<lambda>c. \<not> (128 \<le> (of_char c :: nat) \<and> (of_char c :: nat) < 192)) s)"

definition count_tokens :: "string \<Rightarrow> nat" where
  "count_tokens text = (if text = [] then 0 else (rune_count text + 3) div 4)"

definition memory_tokens :: "memory \<Rightarrow> nat" where
  "memory_tokens m = count_tokens (mem_id m) + count_tokens (mem_title m)
     + count_tokens (mem_taxonomy m) + count_tokens (mem_content m)"

lemma scan_memory_simps [simp]:
  "mem_id (scan_memory r) = m_id r" "mem_title (scan_memory r) = m_title r"
  "mem_content (scan_memory r) = str_of (m_content r)"
  "mem_taxonomy (scan_memory r) = str_of (m_taxonomy r)" "mem_format (scan_memory r) = m_format r"
  "mem_version (scan_memory r) = m_version r" "mem_created (scan_memory r) = m_created r"
  "mem_updated (scan_memory r) = m_updated r"
  by (simp_all add: scan_memory_def)

lemma scoped_of_simps [simp]:
  "sm_id (scoped_of r) = m_id r" "sm_title (scoped_of r) = m_title r"
  "sm_taxonomy (scoped_of r) = str_of (m_taxonomy r)"
  by (simp_all add: scoped_of_def)

end
