(* ===== verification/Memory_Store.thy ===== *)
theory Memory_Store
  imports Tenant_Data
begin

text \<open>
  The write path of one tenant file (\<^verbatim>\<open>internal/db/memory.go\<close>): insert, update, delete, the
  revision series, the tombstones, and the link index that \<^verbatim>\<open>syncEdges\<close> keeps. Each operation runs
  in one transaction: an error value means the rollback, so the store is the one before the call.
  The identifier that \<^verbatim>\<open>uuid.New\<close> draws and the current second are arguments.
\<close>

section \<open>Rows with their triggers and foreign keys\<close>

definition fts_of :: "mem_row \<Rightarrow> fts_row" where
  "fts_of r = \<lparr>f_rowid = m_rowid r, f_title = m_title r, f_content = m_content r\<rparr>"

definition next_rowid :: "mem_row list \<Rightarrow> nat" where
  "next_rowid rows = Suc (fold max (map m_rowid rows) 0)"

text \<open>\<^verbatim>\<open>INSERT INTO memories\<close> with the trigger \<^verbatim>\<open>memories_ai\<close>.\<close>

definition insert_mem_row :: "mem_row \<Rightarrow> store \<Rightarrow> store option" where
  "insert_mem_row r st =
     (let r' = r\<lparr>m_rowid := next_rowid (st_mems st)\<rparr> in
      case tbl_ins m_id r' (st_mems st) of
        None \<Rightarrow> None
      | Some rows \<Rightarrow> Some (st\<lparr>st_mems := rows, st_fts := st_fts st @ [fts_of r']\<rparr>))"

text \<open>\<^verbatim>\<open>UPDATE memories ... WHERE id = ?\<close> with the trigger \<^verbatim>\<open>memories_au\<close>.\<close>

definition update_mem_row :: "string \<Rightarrow> (mem_row \<Rightarrow> mem_row) \<Rightarrow> store \<Rightarrow> store" where
  "update_mem_row i f st =
     (case tbl_get m_id i (st_mems st) of
        None \<Rightarrow> st
      | Some old \<Rightarrow>
          st\<lparr>st_mems := tbl_upd m_id i f (st_mems st),
             st_fts := filter (\<lambda>x. f_rowid x \<noteq> m_rowid old) (st_fts st) @ [fts_of (f old)]\<rparr>)"

text \<open>\<^verbatim>\<open>DELETE FROM memories WHERE id = ?\<close> with \<^verbatim>\<open>memories_ad\<close> and the cascades of its foreign keys.\<close>

definition delete_mem_row :: "string \<Rightarrow> store \<Rightarrow> store" where
  "delete_mem_row i st =
     (case tbl_get m_id i (st_mems st) of
        None \<Rightarrow> st
      | Some old \<Rightarrow>
          st\<lparr>st_mems := tbl_del m_id i (st_mems st),
             st_fts := filter (\<lambda>x. f_rowid x \<noteq> m_rowid old) (st_fts st),
             st_edges := filter (\<lambda>e. e_src e \<noteq> i) (st_edges st),
             st_srs := filter (\<lambda>x. s_id x \<noteq> i) (st_srs st),
             st_revs := filter (\<lambda>x. r_id x \<noteq> i) (st_revs st)\<rparr>)"

definition edge_key :: "edge \<Rightarrow> string \<times> string \<times> string" where
  "edge_key e = (e_src e, e_raw e, e_rel e)"

definition insert_edge :: "edge \<Rightarrow> store \<Rightarrow> store option" where
  "insert_edge e st =
     (if tbl_has m_id (e_src e) (st_mems st)
      then map_option (\<lambda>es. st\<lparr>st_edges := es\<rparr>) (tbl_ins edge_key e (st_edges st))
      else None)"

definition rev_key :: "rev_row \<Rightarrow> string \<times> int" where
  "rev_key r = (r_id r, r_version r)"

definition rev_of :: "memory \<Rightarrow> string \<Rightarrow> string \<Rightarrow> int \<Rightarrow> rev_row" where
  "rev_of mem author agent ts =
     \<lparr>r_id = mem_id mem, r_version = mem_version mem, r_title = mem_title mem,
      r_content = null_str (mem_content mem), r_taxonomy = null_str (mem_taxonomy mem),
      r_format = format_or_default (mem_format mem), r_author = null_str author,
      r_agent = null_str agent, r_created = ts\<rparr>"

definition insert_revision :: "memory \<Rightarrow> string \<Rightarrow> string \<Rightarrow> int \<Rightarrow> store \<Rightarrow> store option" where
  "insert_revision mem author agent ts st =
     (if tbl_has m_id (mem_id mem) (st_mems st)
      then map_option (\<lambda>rs. st\<lparr>st_revs := rs\<rparr>)
        (tbl_ins rev_key (rev_of mem author agent ts) (st_revs st))
      else None)"

section \<open>Titles and tombstones\<close>

definition title_conflict :: "store \<Rightarrow> string \<Rightarrow> string \<Rightarrow> string option" where
  "title_conflict st title exclude =
     map_option m_id
       (find (\<lambda>r. sql_lower_trim (m_title r) = to_lower (trim_space title) \<and> m_id r \<noteq> exclude)
         (st_mems st))"

definition tomb_row :: "memory \<Rightarrow> string \<Rightarrow> int \<Rightarrow> tombstone" where
  "tomb_row mem deleted_by now =
     \<lparr>t_id = mem_id mem, t_title = mem_title mem, t_taxonomy = null_str (mem_taxonomy mem),
      t_created = mem_created mem, t_deleted = now, t_by = null_str deleted_by,
      t_final = mem_version mem\<rparr>"

definition tombstone_of :: "store \<Rightarrow> string \<Rightarrow> tombstone option" where
  "tombstone_of st i = tbl_get t_id i (st_tombs st)"

definition title_taxonomy :: "store \<Rightarrow> string \<Rightarrow> string option" where
  "title_taxonomy st raw =
     map_option (\<lambda>r. str_of (m_taxonomy r))
       (find (\<lambda>r. sql_lower_trim (m_title r) = raw) (st_mems st))"

section \<open>The link index\<close>

definition deleted_targets :: "store \<Rightarrow> string \<Rightarrow> ((string \<times> string) \<times> string) list" where
  "deleted_targets st src =
     [((e_raw e, e_rel e), the (e_dst e)).
        e \<leftarrow> st_edges st, e_src e = src \<and>
          (case e_dst e of None \<Rightarrow> False | Some d \<Rightarrow> tbl_has t_id d (st_tombs st))]"

definition find_target :: "store \<Rightarrow> string \<Rightarrow> string \<Rightarrow> string option" where
  "find_target st raw src =
     map_option m_id
       (find (\<lambda>r. sql_lower_trim (m_title r) = raw \<and> m_id r \<noteq> src) (st_mems st))"

definition status_of :: "parsed_link \<Rightarrow> bool \<Rightarrow> bool \<Rightarrow> link_status" where
  "status_of l res del = \<lparr>ls_target = pl_raw l, ls_rel = pl_rel l, ls_resolved = res, ls_deleted = del\<rparr>"

definition link_edge :: "string \<Rightarrow> string option \<Rightarrow> parsed_link \<Rightarrow> edge" where
  "link_edge src dst l = \<lparr>e_src = src, e_dst = dst, e_raw = pl_raw l, e_rel = pl_rel l\<rparr>"

fun sync_loop ::
  "string \<Rightarrow> ((string \<times> string) \<times> string) list \<Rightarrow> parsed_link list \<Rightarrow> store
     \<Rightarrow> db_error + (link_status list \<times> store)" where
  "sync_loop src dels [] st = Inr ([], st)"
| "sync_loop src dels (l # ls) st =
     (case map_of dels (pl_raw l, pl_rel l) of
        Some d \<Rightarrow>
          (case insert_edge (link_edge src (Some d) l) st of
             None \<Rightarrow> Inl ConstraintFailed
           | Some st1 \<Rightarrow>
               (case sync_loop src dels ls st1 of
                  Inl e \<Rightarrow> Inl e
                | Inr (ss, st2) \<Rightarrow> Inr (status_of l False True # ss, st2)))
      | None \<Rightarrow>
          (let dst = find_target st (pl_raw l) src in
           case insert_edge (link_edge src dst l) st of
             None \<Rightarrow> Inl ConstraintFailed
           | Some st1 \<Rightarrow>
               (case sync_loop src dels ls st1 of
                  Inl e \<Rightarrow> Inl e
                | Inr (ss, st2) \<Rightarrow> Inr (status_of l (dst \<noteq> None) False # ss, st2))))"

definition heal_edges :: "string \<Rightarrow> string \<Rightarrow> store \<Rightarrow> store" where
  "heal_edges src raw st =
     st\<lparr>st_edges := map (\<lambda>e. if e_dst e = None \<and> e_raw e = raw \<and> e_src e \<noteq> src
                             then e\<lparr>e_dst := Some src\<rparr> else e) (st_edges st)\<rparr>"

definition sync_edges :: "string \<Rightarrow> string \<Rightarrow> string \<Rightarrow> store \<Rightarrow> db_error + (link_status list \<times> store)" where
  "sync_edges src title content st =
     (let dels = deleted_targets st src;
          st1 = st\<lparr>st_edges := filter (\<lambda>e. e_src e \<noteq> src) (st_edges st)\<rparr>
      in case sync_loop src dels (parse_links content) st1 of
           Inl e \<Rightarrow> Inl e
         | Inr (ss, st2) \<Rightarrow> Inr (ss, heal_edges src (normalize_link title) st2))"

section \<open>Insert, get, update, delete\<close>

record new_memory =
  nm_title :: string
  nm_content :: string
  nm_taxonomy :: string
  nm_format :: string

definition row_of :: "string \<Rightarrow> int \<Rightarrow> new_memory \<Rightarrow> mem_row" where
  "row_of newid now nm =
     \<lparr>m_rowid = 0, m_id = newid, m_title = nm_title nm, m_content = null_str (nm_content nm),
      m_taxonomy = null_str (nm_taxonomy nm), m_format = format_or_default (nm_format nm),
      m_created = now, m_updated = now, m_version = 1\<rparr>"

definition created :: "string \<Rightarrow> int \<Rightarrow> new_memory \<Rightarrow> memory" where
  "created newid now nm =
     \<lparr>mem_id = newid, mem_title = nm_title nm, mem_content = nm_content nm,
      mem_taxonomy = nm_taxonomy nm, mem_format = nm_format nm, mem_created = now,
      mem_updated = now, mem_version = 1, mem_backlinks = 0, mem_superseded = False,
      mem_linked_from = [], mem_links = [], mem_in_review = False\<rparr>"

definition insert_memory ::
  "string \<Rightarrow> int \<Rightarrow> new_memory \<Rightarrow> string \<Rightarrow> string \<Rightarrow> store \<Rightarrow> db_error + (memory \<times> store)" where
  "insert_memory newid now nm author agent st =
     (case title_conflict st (nm_title nm) newid of
        Some other \<Rightarrow> Inl (TitleConflict (nm_title nm) other)
      | None \<Rightarrow>
     (case insert_mem_row (row_of newid now nm) st of
        None \<Rightarrow> Inl ConstraintFailed
      | Some st1 \<Rightarrow>
     (let mem = created newid now nm in
      case insert_revision mem author agent now st1 of
        None \<Rightarrow> Inl ConstraintFailed
      | Some st2 \<Rightarrow>
     (case sync_edges newid (nm_title nm) (nm_content nm) st2 of
        Inl e \<Rightarrow> Inl e
      | Inr (ss, st3) \<Rightarrow> Inr (mem\<lparr>mem_links := ss\<rparr>, st3)))))"

definition get_memory :: "store \<Rightarrow> string \<Rightarrow> db_error + memory" where
  "get_memory st i =
     (case tbl_get m_id i (st_mems st) of
        Some r \<Rightarrow> Inr (scan_memory r)
      | None \<Rightarrow> (case tombstone_of st i of Some ts \<Rightarrow> Inl (DeletedError ts) | None \<Rightarrow> Inl (NotFound i)))"

text \<open>The update map of the callers: its keys are the four editable columns.\<close>

record updates =
  up_title :: "string option"
  up_content :: "string option"
  up_taxonomy :: "string option"
  up_format :: "string option"

definition apply_updates :: "updates \<Rightarrow> int \<Rightarrow> mem_row \<Rightarrow> mem_row" where
  "apply_updates u now r =
     r\<lparr>m_updated := now, m_version := m_version r + 1,
       m_title := (case up_title u of None \<Rightarrow> m_title r | Some t \<Rightarrow> t),
       m_content := (case up_content u of None \<Rightarrow> m_content r | Some c \<Rightarrow> Some c),
       m_taxonomy := (case up_taxonomy u of None \<Rightarrow> m_taxonomy r | Some t \<Rightarrow> Some t),
       m_format := (case up_format u of None \<Rightarrow> m_format r | Some f \<Rightarrow> f)\<rparr>"

definition update_title_clash :: "store \<Rightarrow> string \<Rightarrow> updates \<Rightarrow> db_error option" where
  "update_title_clash st i u =
     (case up_title u of
        None \<Rightarrow> None
      | Some t \<Rightarrow> map_option (TitleConflict t) (title_conflict st t i))"

definition update_memory ::
  "string \<Rightarrow> updates \<Rightarrow> string \<Rightarrow> string \<Rightarrow> int option \<Rightarrow> int \<Rightarrow> store \<Rightarrow> db_error + (memory \<times> store)" where
  "update_memory i u author agent base now st =
     (case tbl_get m_id i (st_mems st) of
        None \<Rightarrow> (case tombstone_of st i of Some ts \<Rightarrow> Inl (DeletedError ts) | None \<Rightarrow> Inl (NotFound i))
      | Some old \<Rightarrow>
     (if (case base of None \<Rightarrow> False | Some b \<Rightarrow> b \<noteq> m_version old)
      then Inl (VersionConflict i (the base) (m_version old)) else
     (case update_title_clash st i u of
        Some e \<Rightarrow> Inl e
      | None \<Rightarrow>
     (let st1 = update_mem_row i (apply_updates u now) st in
      case tbl_get m_id i (st_mems st1) of
        None \<Rightarrow> Inl (NotFound i)
      | Some r \<Rightarrow>
     (let mem = scan_memory r in
      case insert_revision mem author agent now st1 of
        None \<Rightarrow> Inl ConstraintFailed
      | Some st2 \<Rightarrow>
     (case sync_edges (mem_id mem) (mem_title mem) (mem_content mem) st2 of
        Inl e \<Rightarrow> Inl e
      | Inr (ss, st3) \<Rightarrow> Inr (mem\<lparr>mem_links := ss\<rparr>, st3)))))))"

definition delete_memory :: "string \<Rightarrow> string \<Rightarrow> int \<Rightarrow> store \<Rightarrow> db_error + store" where
  "delete_memory i deleted_by now st =
     (case tbl_get m_id i (st_mems st) of
        None \<Rightarrow> (case tombstone_of st i of Some ts \<Rightarrow> Inl (DeletedError ts) | None \<Rightarrow> Inl (NotFound i))
      | Some r \<Rightarrow>
     (let mem = scan_memory r in
      case tbl_ins t_id (tomb_row mem deleted_by now) (st_tombs st) of
        None \<Rightarrow> Inl ConstraintFailed
      | Some ts \<Rightarrow>
          (let st1 = st\<lparr>st_tombs := ts\<rparr>;
               st2 = st1\<lparr>st_revs := filter (\<lambda>x. r_id x \<noteq> i) (st_revs st1)\<rparr>
           in Inr (delete_mem_row i st2))))"

section \<open>History\<close>

definition revisions :: "store \<Rightarrow> string \<Rightarrow> revision list" where
  "revisions st i =
     map scan_revision (order_desc r_version (filter (\<lambda>r. r_id r = i) (st_revs st)))"

definition revision_at :: "store \<Rightarrow> string \<Rightarrow> int \<Rightarrow> db_error + revision" where
  "revision_at st i v =
     (case find (\<lambda>r. r_id r = i \<and> r_version r = v) (st_revs st) of
        None \<Rightarrow> Inl (RevisionNotFound v i)
      | Some r \<Rightarrow> Inr (scan_revision r))"

section \<open>Rebuilding the link index\<close>

fun rebuild_loop :: "mem_row list \<Rightarrow> store \<Rightarrow> db_error + store" where
  "rebuild_loop [] st = Inr st"
| "rebuild_loop (r # rs) st =
     (case sync_edges (m_id r) (m_title r) (str_of (m_content r)) st of
        Inl e \<Rightarrow> Inl e
      | Inr (ss, st') \<Rightarrow> rebuild_loop rs st')"

definition rebuild_edges :: "store \<Rightarrow> db_error + store" where
  "rebuild_edges st = rebuild_loop (st_mems st) (st\<lparr>st_edges := []\<rparr>)"

end
