(* ===== verification/Store_Invariant.thy ===== *)
theory Store_Invariant
  imports Memory_Store
begin

text \<open>
  The well-formedness of a tenant file and its preservation by every write: unique identifiers, the
  full-text index in step with the rows, edges that start at a live memory and end at a live or a
  deleted one, a complete revision series, tombstones apart from live memories.
\<close>

named_theorems store_simps \<open>field-wise effect of the store operations\<close>

section \<open>The invariant\<close>

abbreviation mem_ids :: "store \<Rightarrow> string set" where
  "mem_ids st \<equiv> m_id ` set (st_mems st)"

abbreviation tomb_ids :: "store \<Rightarrow> string set" where
  "tomb_ids st \<equiv> t_id ` set (st_tombs st)"

definition inv_mems :: "store \<Rightarrow> bool" where
  "inv_mems st \<longleftrightarrow> tbl_wf m_id (st_mems st) \<and> tbl_wf m_rowid (st_mems st)
     \<and> (\<forall>r \<in> set (st_mems st). 1 \<le> m_version r)"

definition inv_fts :: "store \<Rightarrow> bool" where
  "inv_fts st \<longleftrightarrow> tbl_wf f_rowid (st_fts st) \<and> set (st_fts st) = fts_of ` set (st_mems st)"

definition inv_tombs :: "store \<Rightarrow> bool" where
  "inv_tombs st \<longleftrightarrow> tbl_wf t_id (st_tombs st) \<and> mem_ids st \<inter> tomb_ids st = {}"

definition inv_edges :: "store \<Rightarrow> bool" where
  "inv_edges st \<longleftrightarrow> tbl_wf edge_key (st_edges st)
     \<and> (\<forall>e \<in> set (st_edges st). e_src e \<in> mem_ids st
          \<and> (\<forall>d. e_dst e = Some d \<longrightarrow> d \<in> mem_ids st \<union> tomb_ids st))"

text \<open>A revision row is the snapshot of a memory row, taken when that version was committed.\<close>

definition snapshot_of :: "mem_row \<Rightarrow> rev_row \<Rightarrow> bool" where
  "snapshot_of r x \<longleftrightarrow> r_id x = m_id r \<and> r_version x = m_version r \<and> r_title x = m_title r
     \<and> str_of (r_content x) = str_of (m_content r)
     \<and> str_of (r_taxonomy x) = str_of (m_taxonomy r)
     \<and> r_format x = format_or_default (m_format r)"

definition versions_of :: "store \<Rightarrow> string \<Rightarrow> int set" where
  "versions_of st i = r_version ` {x \<in> set (st_revs st). r_id x = i}"

definition inv_revs :: "store \<Rightarrow> bool" where
  "inv_revs st \<longleftrightarrow> tbl_wf rev_key (st_revs st)
     \<and> r_id ` set (st_revs st) \<subseteq> mem_ids st
     \<and> (\<forall>r \<in> set (st_mems st). versions_of st (m_id r) = {1 .. m_version r}
          \<and> (\<exists>x \<in> set (st_revs st). snapshot_of r x))"

definition inv_srs :: "store \<Rightarrow> bool" where
  "inv_srs st \<longleftrightarrow> tbl_wf s_id (st_srs st) \<and> s_id ` set (st_srs st) \<subseteq> mem_ids st"

definition store_inv :: "store \<Rightarrow> bool" where
  "store_inv st \<longleftrightarrow> inv_mems st \<and> inv_fts st \<and> inv_tombs st \<and> inv_edges st \<and> inv_revs st \<and> inv_srs st"

lemmas inv_defs = inv_mems_def inv_fts_def inv_tombs_def inv_edges_def inv_revs_def inv_srs_def

lemma store_inv_empty: "store_inv empty_store"
  by (simp add: store_inv_def inv_defs empty_store_def)

section \<open>The link index\<close>

definition link_target :: "store \<Rightarrow> string \<Rightarrow> ((string \<times> string) \<times> string) list \<Rightarrow> parsed_link \<Rightarrow> string option" where
  "link_target st src dels l =
     (case map_of dels (pl_raw l, pl_rel l) of
        Some d \<Rightarrow> Some d
      | None \<Rightarrow> find_target st (pl_raw l) src)"

definition link_report :: "store \<Rightarrow> string \<Rightarrow> ((string \<times> string) \<times> string) list \<Rightarrow> parsed_link \<Rightarrow> link_status" where
  "link_report st src dels l =
     (case map_of dels (pl_raw l, pl_rel l) of
        Some d \<Rightarrow> status_of l False True
      | None \<Rightarrow> status_of l (find_target st (pl_raw l) src \<noteq> None) False)"

lemma find_target_edges [simp]: "find_target (st\<lparr>st_edges := es\<rparr>) raw src = find_target st raw src"
  by (simp add: find_target_def)

lemma link_target_edges [simp]: "link_target (st\<lparr>st_edges := es\<rparr>) = link_target st"
  by (intro ext) (simp add: link_target_def split: option.splits)

lemma link_report_edges [simp]: "link_report (st\<lparr>st_edges := es\<rparr>) = link_report st"
  by (intro ext) (simp add: link_report_def split: option.splits)

lemma edge_key_link_edge [simp]: "edge_key (link_edge src d l) = (src, pl_raw l, pl_rel l)"
  by (simp add: edge_key_def link_edge_def)

lemma link_edge_simps [simp]:
  "e_src (link_edge src d l) = src" "e_dst (link_edge src d l) = d"
  "e_raw (link_edge src d l) = pl_raw l" "e_rel (link_edge src d l) = pl_rel l"
  by (simp_all add: link_edge_def)

lemma insert_edge_ok:
  "e_src e \<in> mem_ids st \<Longrightarrow> edge_key e \<notin> edge_key ` set (st_edges st) \<Longrightarrow>
   insert_edge e st = Some (st\<lparr>st_edges := st_edges st @ [e]\<rparr>)"
  by (simp add: insert_edge_def tbl_ins_def tbl_has_iff)

lemma sync_loop_ok:
  "src \<in> mem_ids st \<Longrightarrow> distinct (map (\<lambda>l. (pl_rel l, pl_raw l)) ls) \<Longrightarrow>
   (\<forall>l \<in> set ls. (src, pl_raw l, pl_rel l) \<notin> edge_key ` set (st_edges st)) \<Longrightarrow>
   sync_loop src dels ls st =
     Inr (map (link_report st src dels) ls,
          st\<lparr>st_edges := st_edges st @ map (\<lambda>l. link_edge src (link_target st src dels l) l) ls\<rparr>)"
proof (induction ls arbitrary: st)
  case Nil
  then show ?case by simp
next
  case (Cons l ls)
  let ?e = "link_edge src (link_target st src dels l) l"
  let ?st = "st\<lparr>st_edges := st_edges st @ [?e]\<rparr>"
  have ins: "insert_edge ?e st = Some ?st"
    using Cons.prems by (intro insert_edge_ok) auto
  have "sync_loop src dels ls ?st =
      Inr (map (link_report ?st src dels) ls,
           ?st\<lparr>st_edges := st_edges ?st @ map (\<lambda>l. link_edge src (link_target ?st src dels l) l) ls\<rparr>)"
  proof (rule Cons.IH)
    show "src \<in> mem_ids ?st" using Cons.prems(1) by simp
    show "distinct (map (\<lambda>l. (pl_rel l, pl_raw l)) ls)" using Cons.prems(2) by simp
    show "\<forall>l' \<in> set ls. (src, pl_raw l', pl_rel l') \<notin> edge_key ` set (st_edges ?st)"
    proof
      fix l' assume l': "l' \<in> set ls"
      with Cons.prems(2) have "(pl_rel l', pl_raw l') \<noteq> (pl_rel l, pl_raw l)"
        by (metis (mono_tags, lifting) distinct.simps(2) list.simps(9) image_eqI list.set_map)
      moreover have "(src, pl_raw l', pl_rel l') \<notin> edge_key ` set (st_edges st)"
        using Cons.prems(3) l' by simp
      ultimately show "(src, pl_raw l', pl_rel l') \<notin> edge_key ` set (st_edges ?st)"
        by auto
    qed
  qed
  then have rec: "sync_loop src dels ls ?st =
      Inr (map (link_report st src dels) ls,
           st\<lparr>st_edges := st_edges st @ map (\<lambda>l. link_edge src (link_target st src dels l) l) (l # ls)\<rparr>)"
    by simp
  show ?case
  proof (cases "map_of dels (pl_raw l, pl_rel l)")
    case None
    then have e: "?e = link_edge src (find_target st (pl_raw l) src) l"
      and r: "link_report st src dels l = status_of l (find_target st (pl_raw l) src \<noteq> None) False"
      by (simp_all add: link_target_def link_report_def)
    from None ins rec show ?thesis unfolding e by (simp add: Let_def r)
  next
    case (Some d)
    then have e: "?e = link_edge src (Some d) l" and r: "link_report st src dels l = status_of l False True"
      by (simp_all add: link_target_def link_report_def)
    from Some ins rec show ?thesis unfolding e by (simp add: r)
  qed
qed

definition heal_edge :: "string \<Rightarrow> string \<Rightarrow> edge \<Rightarrow> edge" where
  "heal_edge src raw e =
     (if e_dst e = None \<and> e_raw e = raw \<and> e_src e \<noteq> src then e\<lparr>e_dst := Some src\<rparr> else e)"

lemma heal_edge_simps [simp]:
  "e_src (heal_edge s r e) = e_src e" "e_raw (heal_edge s r e) = e_raw e"
  "e_rel (heal_edge s r e) = e_rel e" "edge_key (heal_edge s r e) = edge_key e"
  by (simp_all add: heal_edge_def edge_key_def)

lemma heal_edge_dst:
  "e_dst (heal_edge s r e) = Some d \<Longrightarrow> e_dst e = Some d \<or> d = s"
  by (auto simp: heal_edge_def split: if_splits)

lemma heal_edges_alt: "heal_edges src raw st = st\<lparr>st_edges := map (heal_edge src raw) (st_edges st)\<rparr>"
  by (simp add: heal_edges_def heal_edge_def [abs_def])

definition synced_edges :: "store \<Rightarrow> string \<Rightarrow> string \<Rightarrow> string \<Rightarrow> edge list" where
  "synced_edges st src title content =
     map (heal_edge src (normalize_link title))
       (filter (\<lambda>e. e_src e \<noteq> src) (st_edges st)
        @ map (\<lambda>l. link_edge src (link_target st src (deleted_targets st src) l) l) (parse_links content))"

lemma parse_links_distinct: "distinct (map (\<lambda>l. (pl_rel l, pl_raw l)) (parse_links c))"
  by (simp add: parse_links_def collect_links_distinct)

lemma sync_edges_ok:
  assumes "src \<in> mem_ids st"
  shows "sync_edges src title content st =
     Inr (map (link_report st src (deleted_targets st src)) (parse_links content),
          st\<lparr>st_edges := synced_edges st src title content\<rparr>)"
proof -
  let ?st1 = "st\<lparr>st_edges := filter (\<lambda>e. e_src e \<noteq> src) (st_edges st)\<rparr>"
  let ?dels = "deleted_targets st src"
  have "sync_loop src ?dels (parse_links content) ?st1 =
     Inr (map (link_report ?st1 src ?dels) (parse_links content),
          ?st1\<lparr>st_edges := st_edges ?st1 @ map (\<lambda>l. link_edge src (link_target ?st1 src ?dels l) l) (parse_links content)\<rparr>)"
    by (rule sync_loop_ok) (use assms parse_links_distinct in \<open>auto simp: edge_key_def\<close>)
  then show ?thesis
    by (simp add: sync_edges_def Let_def heal_edges_alt synced_edges_def)
qed

lemma find_target_in: "find_target st raw src = Some d \<Longrightarrow> d \<in> mem_ids st"
  by (auto simp: find_target_def find_Some_iff)

lemma deleted_targets_in:
  "map_of (deleted_targets st src) k = Some d \<Longrightarrow>
     d \<in> tomb_ids st \<and> (\<exists>e \<in> set (st_edges st). e_src e = src \<and> e_dst e = Some d \<and> (e_raw e, e_rel e) = k)"
  by (drule map_of_SomeD) (auto simp: deleted_targets_def tbl_has_iff split: option.splits if_splits)

lemma link_target_in: "link_target st src (deleted_targets st src) l = Some d \<Longrightarrow> d \<in> mem_ids st \<union> tomb_ids st"
  by (auto simp: link_target_def split: option.splits dest: find_target_in deleted_targets_in)

lemma synced_edges_wf:
  assumes "tbl_wf edge_key (st_edges st)"
  shows "tbl_wf edge_key (synced_edges st src title content)"
proof -
  have "inj_on (\<lambda>l. (src, pl_raw l, pl_rel l)) (set (parse_links content))"
    using parse_links_distinct [of content] by (auto simp: distinct_map inj_on_def)
  moreover have "distinct (parse_links content)"
    using parse_links_distinct [of content] by (simp add: distinct_map)
  ultimately have "distinct (map (\<lambda>l. (src, pl_raw l, pl_rel l)) (parse_links content))"
    by (simp add: distinct_map)
  moreover have "distinct (map edge_key (filter (\<lambda>e. e_src e \<noteq> src) (st_edges st)))"
    using assms tbl_wf_filter unfolding tbl_wf_def by blast
  moreover have "set (map edge_key (filter (\<lambda>e. e_src e \<noteq> src) (st_edges st)))
      \<inter> set (map (\<lambda>l. (src, pl_raw l, pl_rel l)) (parse_links content)) = {}"
    by (auto simp: edge_key_def)
  moreover have "map edge_key (synced_edges st src title content) =
      map edge_key (filter (\<lambda>e. e_src e \<noteq> src) (st_edges st))
      @ map (\<lambda>l. (src, pl_raw l, pl_rel l)) (parse_links content)"
    by (simp add: synced_edges_def)
  ultimately show ?thesis
    unfolding tbl_wf_def by (simp only: distinct_append)
qed

lemma synced_edges_mem:
  assumes "e \<in> set (synced_edges st src title content)"
  shows "(e_src e = src \<or> (\<exists>e' \<in> set (st_edges st). e_src e = e_src e'))
     \<and> (\<forall>d. e_dst e = Some d \<longrightarrow> d = src \<or> d \<in> mem_ids st \<union> tomb_ids st
          \<or> (\<exists>e' \<in> set (st_edges st). e_dst e' = Some d))"
  using assms by (auto simp: synced_edges_def dest!: heal_edge_dst link_target_in)

lemma inv_edges_synced:
  assumes wf: "tbl_wf edge_key (st_edges st)" and src: "src \<in> mem_ids st"
    and old: "\<forall>e \<in> set (st_edges st). e_src e \<in> mem_ids st
          \<and> (\<forall>d. e_dst e = Some d \<longrightarrow> d \<in> mem_ids st \<union> tomb_ids st)"
  shows "inv_edges (st\<lparr>st_edges := synced_edges st src title content\<rparr>)"
  using synced_edges_wf [OF wf] synced_edges_mem [of _ st src title content] src old
  unfolding inv_edges_def by (simp, metis)

lemma inv_st_edges [simp]:
  "inv_mems (st\<lparr>st_edges := es\<rparr>) = inv_mems st" "inv_fts (st\<lparr>st_edges := es\<rparr>) = inv_fts st"
  "inv_tombs (st\<lparr>st_edges := es\<rparr>) = inv_tombs st" "inv_revs (st\<lparr>st_edges := es\<rparr>) = inv_revs st"
  "inv_srs (st\<lparr>st_edges := es\<rparr>) = inv_srs st"
  by (simp_all add: inv_defs versions_of_def)

lemma sync_edges_inv:
  assumes "store_inv st" and "sync_edges src title content st = Inr (ss, st')" and "src \<in> mem_ids st"
  shows "store_inv st'"
  using assms inv_edges_synced [of st src title content]
  by (auto simp: sync_edges_ok store_inv_def inv_edges_def [of st])

end
