(* ===== verification/Store_Writes.thy ===== *)
theory Store_Writes
  imports Store_Invariant
begin

text \<open>
  What a committed write leaves behind: each operation of \<open>Memory_Store\<close> as one equation over
  a well-formed store, the preservation of \<open>store_inv\<close>, and the tables seen as finite maps.
\<close>

section \<open>Rows and revisions\<close>

lemma next_rowid_fresh: "next_rowid rows \<notin> m_rowid ` set rows"
proof -
  have "fold max xs (k :: nat) \<ge> k \<and> (\<forall>x \<in> set xs. x \<le> fold max xs k)" for xs k
    by (induction xs arbitrary: k) (auto, metis max.bounded_iff, metis max.bounded_iff)
  then have "\<forall>r \<in> set rows. m_rowid r \<le> fold max (map m_rowid rows) 0"
    by (metis image_eqI list.set_map)
  then show ?thesis by (auto simp: next_rowid_def)
qed

lemma rev_of_simps [simp]:
  "r_id (rev_of m a g t) = mem_id m" "r_version (rev_of m a g t) = mem_version m"
  "rev_key (rev_of m a g t) = (mem_id m, mem_version m)"
  "r_author (rev_of m a g t) = null_str a" "r_agent (rev_of m a g t) = null_str g"
  "r_created (rev_of m a g t) = t" "r_title (rev_of m a g t) = mem_title m"
  "r_content (rev_of m a g t) = null_str (mem_content m)"
  "r_taxonomy (rev_of m a g t) = null_str (mem_taxonomy m)"
  "r_format (rev_of m a g t) = format_or_default (mem_format m)"
  by (simp_all add: rev_of_def rev_key_def)

lemma created_simps [simp]:
  "mem_id (created i now nm) = i" "mem_title (created i now nm) = nm_title nm"
  "mem_content (created i now nm) = nm_content nm" "mem_taxonomy (created i now nm) = nm_taxonomy nm"
  "mem_version (created i now nm) = 1" "mem_format (created i now nm) = nm_format nm"
  by (simp_all add: created_def)

lemma row_of_simps [simp]:
  "m_id (row_of i now nm) = i" "m_title (row_of i now nm) = nm_title nm"
  "m_content (row_of i now nm) = null_str (nm_content nm)"
  "m_taxonomy (row_of i now nm) = null_str (nm_taxonomy nm)"
  "m_version (row_of i now nm) = 1" "m_format (row_of i now nm) = format_or_default (nm_format nm)"
  "m_updated (row_of i now nm) = now" "m_created (row_of i now nm) = now"
  by (simp_all add: row_of_def)

lemma apply_updates_simps [simp]:
  "m_id (apply_updates u now r) = m_id r" "m_rowid (apply_updates u now r) = m_rowid r"
  "m_version (apply_updates u now r) = m_version r + 1" "m_updated (apply_updates u now r) = now"
  "m_created (apply_updates u now r) = m_created r"
  by (simp_all add: apply_updates_def)

lemma tomb_row_simps [simp]: "t_id (tomb_row m by now) = mem_id m"
  by (simp add: tomb_row_def)

lemma format_or_default_idem [simp]: "format_or_default (format_or_default f) = format_or_default f"
  by (simp add: format_or_default_def)

lemma fts_of_inj: "tbl_wf m_rowid rows \<Longrightarrow> inj_on m_rowid (set rows)"
  by (simp add: tbl_wf_def distinct_map)

lemma mem_by_id: "inv_mems st \<Longrightarrow> r \<in> set (st_mems st) \<Longrightarrow> tbl_get m_id (m_id r) (st_mems st) = Some r"
  by (simp add: tbl_get_Some_iff inv_mems_def)

lemma rev_key_fresh:
  assumes "inv_revs st" and "i \<notin> mem_ids st"
  shows "(i, v) \<notin> rev_key ` set (st_revs st)"
  using assms by (auto simp: inv_revs_def rev_key_def)

lemma rev_key_next:
  assumes "inv_revs st" and "r \<in> set (st_mems st)"
  shows "(m_id r, m_version r + 1) \<notin> rev_key ` set (st_revs st)"
proof
  assume "(m_id r, m_version r + 1) \<in> rev_key ` set (st_revs st)"
  then have "m_version r + 1 \<in> versions_of st (m_id r)"
    by (auto simp: versions_of_def rev_key_def)
  then show False using assms by (auto simp: inv_revs_def)
qed

section \<open>The insert as one equation\<close>

definition with_row :: "mem_row \<Rightarrow> rev_row \<Rightarrow> store \<Rightarrow> store" where
  "with_row r x st = st\<lparr>st_mems := st_mems st @ [r], st_fts := st_fts st @ [fts_of r],
     st_revs := st_revs st @ [x]\<rparr>"

definition new_row :: "string \<Rightarrow> int \<Rightarrow> new_memory \<Rightarrow> store \<Rightarrow> mem_row" where
  "new_row i now nm st = (row_of i now nm)\<lparr>m_rowid := next_rowid (st_mems st)\<rparr>"

lemma new_row_simps [simp]:
  "m_id (new_row i now nm st) = i" "m_title (new_row i now nm st) = nm_title nm"
  "m_content (new_row i now nm st) = null_str (nm_content nm)"
  "m_taxonomy (new_row i now nm st) = null_str (nm_taxonomy nm)" "m_version (new_row i now nm st) = 1"
  "m_rowid (new_row i now nm st) = next_rowid (st_mems st)"
  "m_format (new_row i now nm st) = format_or_default (nm_format nm)"
  by (simp_all add: new_row_def)

definition inserted :: "string \<Rightarrow> int \<Rightarrow> new_memory \<Rightarrow> string \<Rightarrow> string \<Rightarrow> store \<Rightarrow> store" where
  "inserted i now nm author agent st =
     (let st1 = with_row (new_row i now nm st) (rev_of (created i now nm) author agent now) st
      in st1\<lparr>st_edges := synced_edges st1 i (nm_title nm) (nm_content nm)\<rparr>)"

lemma with_row_simps [simp]:
  "st_mems (with_row r x st) = st_mems st @ [r]" "st_fts (with_row r x st) = st_fts st @ [fts_of r]"
  "st_revs (with_row r x st) = st_revs st @ [x]" "st_edges (with_row r x st) = st_edges st"
  "st_tombs (with_row r x st) = st_tombs st" "st_srs (with_row r x st) = st_srs st"
  "st_template (with_row r x st) = st_template st" "st_members (with_row r x st) = st_members st"
  "st_grants (with_row r x st) = st_grants st"
  by (simp_all add: with_row_def)

lemma insert_memory_eq:
  assumes inv: "store_inv st" and free: "title_conflict st (nm_title nm) i = None" and new: "i \<notin> mem_ids st"
  shows "\<exists>ss. insert_memory i now nm author agent st =
     Inr ((created i now nm)\<lparr>mem_links := ss\<rparr>, inserted i now nm author agent st)
     \<and> ss = map (link_report (inserted i now nm author agent st) i []) (parse_links (nm_content nm))"
proof -
  let ?r = "new_row i now nm st" and ?x = "rev_of (created i now nm) author agent now"
  let ?st = "with_row ?r ?x st"
  have ins: "insert_mem_row (row_of i now nm) st =
      Some (st\<lparr>st_mems := st_mems st @ [?r], st_fts := st_fts st @ [fts_of ?r]\<rparr>)"
    using new by (simp add: insert_mem_row_def Let_def tbl_ins_def tbl_has_iff new_row_def)
  have rev: "insert_revision (created i now nm) author agent now
      (st\<lparr>st_mems := st_mems st @ [?r], st_fts := st_fts st @ [fts_of ?r]\<rparr>) = Some ?st"
    using rev_key_fresh [of st i 1] inv new
    by (simp add: insert_revision_def tbl_has_iff tbl_ins_def with_row_def store_inv_def)
  have "deleted_targets ?st i = []"
    using inv new by (auto simp: deleted_targets_def store_inv_def inv_edges_def)
  moreover have "sync_edges i (nm_title nm) (nm_content nm) ?st =
      Inr (map (link_report ?st i (deleted_targets ?st i)) (parse_links (nm_content nm)),
           ?st\<lparr>st_edges := synced_edges ?st i (nm_title nm) (nm_content nm)\<rparr>)"
    by (rule sync_edges_ok) simp
  ultimately show ?thesis
    using free ins rev by (simp add: insert_memory_def inserted_def Let_def)
qed

lemma inv_with_row:
  assumes inv: "store_inv st" and new: "m_id r \<notin> mem_ids st" "m_id r \<notin> tomb_ids st"
    and row: "m_rowid r = next_rowid (st_mems st)" "m_version r = 1" and snap: "snapshot_of r x"
  shows "store_inv (with_row r x st)"
proof -
  let ?st = "with_row r x st"
  have x: "r_id x = m_id r" "r_version x = 1" using snap row by (auto simp: snapshot_of_def)
  have none: "\<forall>y \<in> set (st_revs st). r_id y \<noteq> m_id r"
    using inv new(1) unfolding store_inv_def inv_revs_def by (metis image_subset_iff)
  have m: "inv_mems ?st" and f: "inv_fts ?st" and t: "inv_tombs ?st" and e: "inv_edges ?st" and s: "inv_srs ?st"
    using inv new row next_rowid_fresh [of "st_mems st"]
    by (auto simp: store_inv_def inv_defs tbl_wf_append fts_of_def image_image)
  have vs: "versions_of ?st i = (if i = m_id r then {1} else versions_of st i)" for i
    using x none by (auto simp: versions_of_def)
  have "tbl_wf rev_key (st_revs ?st)"
    using inv none x by (auto simp: store_inv_def inv_revs_def tbl_wf_append rev_key_def)
  moreover have "r_id ` set (st_revs ?st) \<subseteq> mem_ids ?st"
    using inv x by (auto simp: store_inv_def inv_revs_def)
  moreover have "versions_of ?st (m_id r') = {1 .. m_version r'} \<and> (\<exists>y \<in> set (st_revs ?st). snapshot_of r' y)"
    if "r' \<in> set (st_mems ?st)" for r'
  proof (cases "r' = r")
    case True
    then show ?thesis using vs row snap by auto
  next
    case False
    with that have "r' \<in> set (st_mems st)" by simp
    moreover from this new(1) have "m_id r' \<noteq> m_id r" by (metis image_eqI)
    ultimately show ?thesis using inv vs by (auto simp: store_inv_def inv_revs_def)
  qed
  ultimately have "inv_revs ?st" by (auto simp: inv_revs_def)
  with m f t e s show ?thesis by (simp add: store_inv_def)
qed

lemma inserted_inv:
  assumes inv: "store_inv st" and new: "i \<notin> mem_ids st" "i \<notin> tomb_ids st"
  shows "store_inv (inserted i now nm author agent st)"
proof -
  let ?st = "with_row (new_row i now nm st) (rev_of (created i now nm) author agent now) st"
  have "store_inv ?st"
    by (rule inv_with_row) (use inv new in \<open>simp_all add: snapshot_of_def\<close>)
  then show ?thesis
    using inv_edges_synced [of ?st i "nm_title nm" "nm_content nm"]
    by (simp add: inserted_def Let_def store_inv_def inv_edges_def [of ?st])
qed

lemma insert_memory_cases:
  assumes inv: "store_inv st" and res: "insert_memory i now nm author agent st = Inr (mem, st')"
  shows "i \<notin> mem_ids st \<and> title_conflict st (nm_title nm) i = None
     \<and> st' = inserted i now nm author agent st
     \<and> mem = (created i now nm)\<lparr>mem_links := map (link_report st' i []) (parse_links (nm_content nm))\<rparr>"
proof -
  have free: "title_conflict st (nm_title nm) i = None"
    using res by (auto simp: insert_memory_def split: option.splits)
  have new: "i \<notin> mem_ids st"
    using res free by (auto simp: insert_memory_def insert_mem_row_def Let_def tbl_ins_def tbl_has_iff
        row_of_def split: option.splits if_splits)
  from insert_memory_eq [OF inv free new, of now author agent] res show ?thesis
    using free new by auto
qed

lemma insert_memory_inv:
  "store_inv st \<Longrightarrow> i \<notin> tomb_ids st \<Longrightarrow> insert_memory i now nm author agent st = Inr (mem, st') \<Longrightarrow> store_inv st'"
  using insert_memory_cases inserted_inv by metis

section \<open>The update as one equation\<close>

definition with_version :: "string \<Rightarrow> (mem_row \<Rightarrow> mem_row) \<Rightarrow> rev_row \<Rightarrow> store \<Rightarrow> store" where
  "with_version i f x st = (update_mem_row i f st)\<lparr>st_revs := st_revs st @ [x]\<rparr>"

definition updated :: "string \<Rightarrow> updates \<Rightarrow> string \<Rightarrow> string \<Rightarrow> int \<Rightarrow> mem_row \<Rightarrow> store \<Rightarrow> store" where
  "updated i u author agent now old st =
     (let r = apply_updates u now old;
          st1 = with_version i (apply_updates u now) (rev_of (scan_memory r) author agent now) st
      in st1\<lparr>st_edges := synced_edges st1 i (m_title r) (str_of (m_content r))\<rparr>)"

lemma update_mem_row_simps [simp]:
  "st_revs (update_mem_row i f st) = st_revs st" "st_edges (update_mem_row i f st) = st_edges st"
  "st_tombs (update_mem_row i f st) = st_tombs st" "st_srs (update_mem_row i f st) = st_srs st"
  "st_template (update_mem_row i f st) = st_template st" "st_members (update_mem_row i f st) = st_members st"
  "st_grants (update_mem_row i f st) = st_grants st"
  by (simp_all add: update_mem_row_def split: option.splits)

lemma tbl_upd_absent: "k \<notin> key ` set rows \<Longrightarrow> tbl_upd key k f rows = rows"
  by (induction rows) (auto simp: tbl_upd_def)

lemma update_mem_row_mems [simp]: "st_mems (update_mem_row i f st) = tbl_upd m_id i f (st_mems st)"
  by (auto simp: update_mem_row_def tbl_upd_absent tbl_get_None_iff split: option.splits)

lemma updated_ids [simp]: "m_id ` set (tbl_upd m_id i (apply_updates u now) rows) = m_id ` set rows"
  by (simp add: key_image_tbl_upd)

lemma with_version_simps [simp]:
  "st_mems (with_version i f x st) = tbl_upd m_id i f (st_mems st)"
  "st_fts (with_version i f x st) = st_fts (update_mem_row i f st)"
  "st_revs (with_version i f x st) = st_revs st @ [x]" "st_edges (with_version i f x st) = st_edges st"
  "st_tombs (with_version i f x st) = st_tombs st" "st_srs (with_version i f x st) = st_srs st"
  "st_template (with_version i f x st) = st_template st" "st_members (with_version i f x st) = st_members st"
  "st_grants (with_version i f x st) = st_grants st"
  by (simp_all add: with_version_def)

lemma update_memory_eq:
  assumes inv: "store_inv st" and old: "tbl_get m_id i (st_mems st) = Some old"
    and base: "\<forall>b. base = Some b \<longrightarrow> b = m_version old" and free: "update_title_clash st i u = None"
  shows "\<exists>ss. update_memory i u author agent base now st =
     Inr ((scan_memory (apply_updates u now old))\<lparr>mem_links := ss\<rparr>, updated i u author agent now old st)"
proof -
  let ?r = "apply_updates u now old"
  let ?st1 = "update_mem_row i (apply_updates u now) st"
  let ?st2 = "with_version i (apply_updates u now) (rev_of (scan_memory ?r) author agent now) st"
  have o: "old \<in> set (st_mems st)" "m_id old = i" using old by (auto dest: tbl_get_SomeD)
  have get: "tbl_get m_id i (st_mems ?st1) = Some ?r"
    using old by (simp add: tbl_get_upd)
  have rev: "insert_revision (scan_memory ?r) author agent now ?st1 = Some ?st2"
    using o rev_key_next [of st old] inv
    by (auto simp: insert_revision_def tbl_has_iff tbl_ins_def with_version_def store_inv_def)
  have "i \<in> mem_ids ?st2" using o by auto
  from sync_edges_ok [OF this] obtain ss where sync:
    "sync_edges i (m_title ?r) (str_of (m_content ?r)) ?st2 =
       Inr (ss, ?st2\<lparr>st_edges := synced_edges ?st2 i (m_title ?r) (str_of (m_content ?r))\<rparr>)" by blast
  have "\<not> (case base of None \<Rightarrow> False | Some b \<Rightarrow> b \<noteq> m_version old)"
    using base by (simp split: option.splits)
  then show ?thesis
    using old free get rev o(2) sync
    by (intro exI [of _ ss]) (simp add: update_memory_def updated_def Let_def)
qed

lemma update_memory_cases:
  assumes inv: "store_inv st" and res: "update_memory i u author agent base now st = Inr (mem, st')"
  shows "\<exists>old ss. tbl_get m_id i (st_mems st) = Some old \<and> (\<forall>b. base = Some b \<longrightarrow> b = m_version old)
     \<and> update_title_clash st i u = None \<and> st' = updated i u author agent now old st
     \<and> mem = (scan_memory (apply_updates u now old))\<lparr>mem_links := ss\<rparr>"
proof -
  obtain old where old: "tbl_get m_id i (st_mems st) = Some old"
    using res by (cases "tbl_get m_id i (st_mems st)") (auto simp: update_memory_def split: option.splits)
  have base: "\<forall>b. base = Some b \<longrightarrow> b = m_version old"
    using res old by (auto simp: update_memory_def split: if_splits)
  have free: "update_title_clash st i u = None"
    using res old by (auto simp: update_memory_def split: if_splits option.splits)
  from update_memory_eq [OF inv old base free, of author agent now] res old base free show ?thesis
    by auto
qed

lemma versions_extend: "1 \<le> (v :: int) \<Longrightarrow> insert (v + 1) {1..v} = {1..v + 1}"
  by auto

lemma image_at:
  assumes "old \<in> A" and "key old = k" and "\<And>r. r \<in> A \<Longrightarrow> key r = k \<Longrightarrow> r = old"
  shows "(\<lambda>r. if key r = k then f r else r) ` A = insert (f old) (A - {old})"
proof -
  let ?g = "\<lambda>r. if key r = k then f r else r"
  have "?g ` A = insert (?g old) (?g ` (A - {old}))" using assms(1) by blast
  moreover have "?g ` (A - {old}) = id ` (A - {old})"
    by (rule image_cong) (use assms(3) in auto)
  ultimately show ?thesis using assms(2) by simp
qed

lemma inv_with_version:
  assumes inv: "store_inv st" and old: "tbl_get m_id i (st_mems st) = Some old"
    and key: "\<And>r. m_id (f r) = m_id r" "\<And>r. m_rowid (f r) = m_rowid r" "\<And>r. m_version (f r) = m_version r + 1"
    and snap: "snapshot_of (f old) x"
  shows "store_inv (with_version i f x st)"
proof -
  let ?st = "with_version i f x st"
  have o: "old \<in> set (st_mems st)" "m_id old = i" using old by (auto dest: tbl_get_SomeD)
  have im: "inv_mems st" using inv by (simp add: store_inv_def)
  have uniq: "r = old" if "r \<in> set (st_mems st)" "m_id r = i" for r
    using that old mem_by_id [OF im, of r] by simp
  have uniq_row: "r = old" if "r \<in> set (st_mems st)" "m_rowid r = m_rowid old" for r
    using that o im by (metis fts_of_inj inj_onD inv_mems_def)
  have ids: "mem_ids ?st = mem_ids st" by (simp add: key_image_tbl_upd key)
  have mems: "set (st_mems ?st) = (\<lambda>r. if m_id r = i then f r else r) ` set (st_mems st)"
    by (simp add: set_tbl_upd)
  have m: "inv_mems ?st"
    using im by (auto simp: inv_mems_def tbl_wf_upd key set_tbl_upd)
  have fts: "st_fts ?st = filter (\<lambda>y. f_rowid y \<noteq> m_rowid old) (st_fts st) @ [fts_of (f old)]"
    using old by (simp add: update_mem_row_def)
  have img: "(\<lambda>r. if m_id r = i then f r else r) ` set (st_mems st) = insert (f old) (set (st_mems st) - {old})"
    by (rule image_at [of old _ m_id]) (use o uniq in blast)+
  have "set (st_fts ?st) = insert (fts_of (f old)) (fts_of ` {r \<in> set (st_mems st). m_rowid r \<noteq> m_rowid old})"
    using inv unfolding fts by (auto simp: store_inv_def inv_fts_def fts_of_def)
  also have "{r \<in> set (st_mems st). m_rowid r \<noteq> m_rowid old} = set (st_mems st) - {old}"
    using uniq_row by auto
  also have "insert (fts_of (f old)) (fts_of ` (set (st_mems st) - {old})) = fts_of ` set (st_mems ?st)"
    unfolding mems img by (rule image_insert [symmetric])
  finally have "set (st_fts ?st) = fts_of ` set (st_mems ?st)" .
  moreover have "tbl_wf f_rowid (st_fts ?st)"
    using inv unfolding fts
    by (auto simp: store_inv_def inv_fts_def tbl_wf_append tbl_wf_filter fts_of_def key)
  ultimately have f: "inv_fts ?st" by (simp add: inv_fts_def)
  have t: "inv_tombs ?st" and e: "inv_edges ?st" and s: "inv_srs ?st"
    using inv ids by (simp_all add: store_inv_def inv_tombs_def inv_edges_def inv_srs_def)
  have xk: "r_id x = i" "r_version x = m_version old + 1"
    using snap o by (simp_all add: snapshot_of_def key)
  have vs: "versions_of ?st j = (if j = i then insert (m_version old + 1) (versions_of st j) else versions_of st j)" for j
  proof -
    have "{y \<in> set (st_revs ?st). r_id y = j} =
        (if j = i then insert x {y \<in> set (st_revs st). r_id y = j} else {y \<in> set (st_revs st). r_id y = j})"
      using xk by auto
    then show ?thesis using xk by (simp add: versions_of_def)
  qed
  have "tbl_wf rev_key (st_revs ?st)"
    using inv rev_key_next [of st old] o xk by (auto simp: store_inv_def inv_revs_def tbl_wf_append rev_key_def)
  moreover have "r_id ` set (st_revs ?st) \<subseteq> mem_ids ?st"
  proof -
    have "i \<in> mem_ids st" using o by blast
    then show ?thesis using inv xk unfolding ids by (simp add: store_inv_def inv_revs_def)
  qed
  moreover have "versions_of ?st (m_id r) = {1 .. m_version r} \<and> (\<exists>y \<in> set (st_revs ?st). snapshot_of r y)"
    if "r \<in> set (st_mems ?st)" for r
  proof -
    from that obtain r0 where r0: "r0 \<in> set (st_mems st)" "r = (if m_id r0 = i then f r0 else r0)"
      unfolding mems by blast
    have old_ok: "versions_of st (m_id r0) = {1 .. m_version r0} \<and> (\<exists>y \<in> set (st_revs st). snapshot_of r0 y)"
      using inv r0(1) by (simp add: store_inv_def inv_revs_def)
    show ?thesis
    proof (cases "m_id r0 = i")
      case True
      with r0 uniq have "r = f old" by simp
      moreover have "1 \<le> m_version old" using im o by (simp add: inv_mems_def)
      ultimately show ?thesis
        using vs snap old_ok uniq [OF r0(1) True] o(2) by (auto simp: key)
    next
      case False
      with r0 old_ok vs show ?thesis by auto
    qed
  qed
  ultimately have "inv_revs ?st" by (auto simp: inv_revs_def)
  with m f t e s show ?thesis by (simp add: store_inv_def)
qed

lemma updated_inv:
  assumes inv: "store_inv st" and old: "tbl_get m_id i (st_mems st) = Some old"
  shows "store_inv (updated i u author agent now old st)"
proof -
  let ?r = "apply_updates u now old"
  let ?st = "with_version i (apply_updates u now) (rev_of (scan_memory ?r) author agent now) st"
  have "store_inv ?st"
    by (rule inv_with_version [OF inv old]) (simp_all add: snapshot_of_def)
  moreover have "i \<in> mem_ids ?st"
    using old by (auto dest: tbl_get_SomeD)
  ultimately show ?thesis
    using inv_edges_synced [of ?st i "m_title ?r" "str_of (m_content ?r)"]
    by (simp add: updated_def Let_def store_inv_def inv_edges_def [of ?st])
qed

lemma update_memory_inv:
  "store_inv st \<Longrightarrow> update_memory i u author agent base now st = Inr (mem, st') \<Longrightarrow> store_inv st'"
  using update_memory_cases updated_inv by metis

end
