(* ===== verification/Store_Removal.thy ===== *)
theory Store_Removal
  imports Store_Writes
begin

text \<open>
  Deletion and the rebuild of the link index: both as equations over a well-formed store with the
  preservation of \<open>store_inv\<close>; and what each write does to the edges, title by title.
\<close>

section \<open>Deletion as one equation\<close>

definition deleted :: "string \<Rightarrow> string \<Rightarrow> int \<Rightarrow> mem_row \<Rightarrow> store \<Rightarrow> store" where
  "deleted i by_id now r st =
     st\<lparr>st_mems := tbl_del m_id i (st_mems st),
        st_fts := filter (\<lambda>x. f_rowid x \<noteq> m_rowid r) (st_fts st),
        st_edges := filter (\<lambda>e. e_src e \<noteq> i) (st_edges st),
        st_srs := filter (\<lambda>x. s_id x \<noteq> i) (st_srs st),
        st_revs := filter (\<lambda>x. r_id x \<noteq> i) (st_revs st),
        st_tombs := st_tombs st @ [tomb_row (scan_memory r) by_id now]\<rparr>"

lemma delete_memory_eq:
  assumes inv: "store_inv st" and old: "tbl_get m_id i (st_mems st) = Some r"
  shows "delete_memory i by_id now st = Inr (deleted i by_id now r st)"
proof -
  have r: "r \<in> set (st_mems st)" "m_id r = i" using old by (auto dest: tbl_get_SomeD)
  then have "i \<notin> tomb_ids st" using inv by (auto simp: store_inv_def inv_tombs_def)
  then show ?thesis
    using old r by (simp add: delete_memory_def Let_def tbl_ins_def tbl_has_iff deleted_def delete_mem_row_def)
qed

lemma deleted_inv:
  assumes inv: "store_inv st" and old: "tbl_get m_id i (st_mems st) = Some r"
  shows "store_inv (deleted i by_id now r st)"
proof -
  let ?st = "deleted i by_id now r st"
  have r: "r \<in> set (st_mems st)" "m_id r = i" using old by (auto dest: tbl_get_SomeD)
  have im: "inv_mems st" using inv by (simp add: store_inv_def)
  have uniq: "r' = r" if "r' \<in> set (st_mems st)" "m_id r' = i" for r'
    using that old mem_by_id [OF im, of r'] by simp
  have uniq_row: "r' = r" if "r' \<in> set (st_mems st)" "m_rowid r' = m_rowid r" for r'
    using that r im by (metis fts_of_inj inj_onD inv_mems_def)
  have mems: "set (st_mems ?st) = set (st_mems st) - {r}"
  proof -
    have "set (st_mems ?st) = {x \<in> set (st_mems st). m_id x \<noteq> i}" by (simp add: deleted_def set_tbl_del)
    also have "\<dots> = set (st_mems st) - {r}" using uniq r by blast
    finally show ?thesis .
  qed
  have ids: "mem_ids ?st = mem_ids st - {i}"
  proof -
    have "inj_on m_id (set (st_mems st))" using im by (simp add: inv_mems_def tbl_wf_def distinct_map)
    then show ?thesis using r unfolding mems by (subst inj_on_image_set_diff) auto
  qed
  have tombs: "tomb_ids ?st = insert i (tomb_ids st)"
    using r by (auto simp: deleted_def)
  have m: "inv_mems ?st"
    using im by (auto simp: inv_mems_def deleted_def tbl_wf_del set_tbl_del)
  have "set (st_fts ?st) = fts_of ` {x \<in> set (st_mems st). m_rowid x \<noteq> m_rowid r}"
    using inv by (auto simp: deleted_def store_inv_def inv_fts_def fts_of_def)
  also have "{x \<in> set (st_mems st). m_rowid x \<noteq> m_rowid r} = set (st_mems ?st)"
    unfolding mems using uniq_row by blast
  finally have f: "inv_fts ?st"
    using inv by (simp add: inv_fts_def deleted_def store_inv_def tbl_wf_filter)
  have t: "inv_tombs ?st"
    using inv r unfolding inv_tombs_def ids tombs
    by (auto simp: deleted_def store_inv_def inv_tombs_def tbl_wf_append)
  have e: "inv_edges ?st"
    using inv unfolding inv_edges_def ids tombs
    by (auto simp: deleted_def store_inv_def inv_edges_def tbl_wf_filter)
  have s: "inv_srs ?st"
    using inv unfolding inv_srs_def ids
    by (auto simp: deleted_def store_inv_def inv_srs_def tbl_wf_filter)
  have revs: "st_revs ?st = filter (\<lambda>x. r_id x \<noteq> i) (st_revs st)"
    by (simp add: deleted_def)
  have vs: "versions_of ?st j = versions_of st j" if "j \<noteq> i" for j
    using that unfolding versions_of_def revs by (auto intro!: arg_cong [of _ _ "image r_version"])
  have "versions_of ?st (m_id r') = {1 .. m_version r'} \<and> (\<exists>x \<in> set (st_revs ?st). snapshot_of r' x)"
    if r': "r' \<in> set (st_mems ?st)" for r'
  proof -
    have "r' \<in> set (st_mems st)" and ne: "m_id r' \<noteq> i"
      using r' uniq unfolding mems by blast+
    then obtain x where "x \<in> set (st_revs st)" "snapshot_of r' x" "versions_of st (m_id r') = {1 .. m_version r'}"
      using inv by (auto simp: store_inv_def inv_revs_def)
    then show ?thesis using ne vs unfolding revs by (auto simp: snapshot_of_def)
  qed
  then have "inv_revs ?st"
    using inv unfolding inv_revs_def ids revs
    by (auto simp: store_inv_def inv_revs_def tbl_wf_filter)
  with m f t e s show ?thesis by (simp add: store_inv_def)
qed

lemma delete_memory_cases:
  assumes "store_inv st" and "delete_memory i by_id now st = Inr st'"
  shows "\<exists>r. tbl_get m_id i (st_mems st) = Some r \<and> st' = deleted i by_id now r st"
  using assms delete_memory_eq [OF assms(1), of i]
  by (cases "tbl_get m_id i (st_mems st)") (auto simp: delete_memory_def split: option.splits)

lemma delete_memory_inv:
  "store_inv st \<Longrightarrow> delete_memory i by_id now st = Inr st' \<Longrightarrow> store_inv st'"
  using delete_memory_cases deleted_inv by metis

section \<open>The edges after a write\<close>

lemma synced_edges_src:
  "filter (\<lambda>e. e_src e = src) (synced_edges st src title content) =
     map (\<lambda>l. link_edge src (link_target st src (deleted_targets st src) l) l) (parse_links content)"
proof -
  have own: "heal_edge src raw e = e" if "e_src e = src" for raw e
    using that by (simp add: heal_edge_def)
  have "filter (\<lambda>e. e_src e = src) (synced_edges st src title content) =
     map (heal_edge src (normalize_link title)) (filter (\<lambda>e. e_src e = src)
       (filter (\<lambda>e. e_src e \<noteq> src) (st_edges st)
        @ map (\<lambda>l. link_edge src (link_target st src (deleted_targets st src) l) l) (parse_links content)))"
    by (simp add: synced_edges_def filter_map comp_def)
  also have "\<dots> = map (\<lambda>l. link_edge src (link_target st src (deleted_targets st src) l) l) (parse_links content)"
    by (simp add: filter_map comp_def own)
  finally show ?thesis .
qed

lemma synced_edges_others:
  "e_src e \<noteq> src \<Longrightarrow> e \<in> set (st_edges st) \<Longrightarrow>
     heal_edge src (normalize_link title) e \<in> set (synced_edges st src title content)"
  by (simp add: synced_edges_def)

lemma synced_edges_bound:
  "e_src e \<noteq> src \<Longrightarrow> e_dst e = Some d \<Longrightarrow> e \<in> set (st_edges st) \<Longrightarrow> e \<in> set (synced_edges st src title content)"
  using synced_edges_others [of e src st title content] by (simp add: heal_edge_def)

lemma synced_edges_healed:
  "e \<in> set (synced_edges st src title content) \<Longrightarrow> e_src e \<noteq> src \<Longrightarrow>
     e_raw e = normalize_link title \<Longrightarrow> e_dst e \<noteq> None"
  by (auto simp: synced_edges_def heal_edge_def split: if_splits)

lemma deleted_targets_get:
  assumes wf: "tbl_wf edge_key (st_edges st)" and e: "e \<in> set (st_edges st)"
    and d: "e_dst e = Some d" "d \<in> tomb_ids st"
  shows "map_of (deleted_targets st (e_src e)) (e_raw e, e_rel e) = Some d"
proof -
  let ?dels = "deleted_targets st (e_src e)"
  have "((e_raw e, e_rel e), d) \<in> set ?dels"
    using e d by (force simp: deleted_targets_def tbl_has_iff)
  moreover have "d' = d" if "((e_raw e, e_rel e), d') \<in> set ?dels" for d'
  proof -
    from that obtain e' where e': "e' \<in> set (st_edges st)" "e_src e' = e_src e" "e_raw e' = e_raw e"
      "e_rel e' = e_rel e" "d' = the (e_dst e')"
      by (auto simp: deleted_targets_def)
    then have "e' = e"
      using wf e unfolding tbl_wf_def distinct_map by (simp add: inj_on_def edge_key_def)
    with e' d show ?thesis by simp
  qed
  ultimately show ?thesis
    by (metis map_of_SomeD weak_map_of_SomeI)
qed

lemma synced_edges_keep_tombs:
  assumes wf: "tbl_wf edge_key (st_edges st)" and e: "e \<in> set (st_edges st)"
    and d: "e_dst e = Some d" "d \<in> tomb_ids st"
    and l: "e_src e = src \<Longrightarrow> \<lparr>pl_rel = e_rel e, pl_raw = e_raw e\<rparr> \<in> set (parse_links content)"
  shows "e \<in> set (synced_edges st src title content)"
proof (cases "e_src e = src")
  case False
  with e d show ?thesis by (simp add: synced_edges_bound)
next
  case True
  let ?l = "\<lparr>pl_rel = e_rel e, pl_raw = e_raw e\<rparr>"
  have "link_target st src (deleted_targets st src) ?l = Some d"
    using deleted_targets_get [OF wf e d] True by (simp add: link_target_def)
  then have "link_edge src (link_target st src (deleted_targets st src) ?l) ?l = e"
    using True d by (simp add: link_edge_def)
  then have "e \<in> set (filter (\<lambda>e. e_src e = src) (synced_edges st src title content))"
    unfolding synced_edges_src using l [OF True] by force
  then show ?thesis by simp
qed

section \<open>Rebuilding the link index\<close>

lemma rebuild_loop_ok:
  assumes "\<forall>r \<in> set rs. m_id r \<in> mem_ids st" and "store_inv st"
    and "\<forall>e \<in> set (st_edges st). \<forall>d. e_dst e = Some d \<longrightarrow> d \<in> mem_ids st"
  shows "\<exists>es. rebuild_loop rs st = Inr (st\<lparr>st_edges := es\<rparr>) \<and> store_inv (st\<lparr>st_edges := es\<rparr>)
     \<and> (\<forall>e \<in> set es. \<forall>d. e_dst e = Some d \<longrightarrow> d \<in> mem_ids st)"
  using assms
proof (induction rs arbitrary: st)
  case Nil
  then show ?case by (intro exI [of _ "st_edges st"]) simp
next
  case (Cons r rs)
  let ?es = "synced_edges st (m_id r) (m_title r) (str_of (m_content r))"
  let ?st = "st\<lparr>st_edges := ?es\<rparr>"
  have r: "m_id r \<in> mem_ids st" using Cons.prems(1) by simp
  from sync_edges_ok [OF r] obtain ss where
    ok: "sync_edges (m_id r) (m_title r) (str_of (m_content r)) st = Inr (ss, ?st)" by blast
  have inv: "store_inv ?st" using sync_edges_inv [OF Cons.prems(2) ok r] .
  have no_dels: "deleted_targets st (m_id r) = []"
  proof -
    have "mem_ids st \<inter> tomb_ids st = {}" using Cons.prems(2) by (simp add: store_inv_def inv_tombs_def)
    then have "d \<notin> tomb_ids st" if "e \<in> set (st_edges st)" "e_dst e = Some d" for e d
      using that Cons.prems(3) by blast
    then show ?thesis
      by (auto simp: deleted_targets_def tbl_has_iff image_iff split: option.splits)
  qed
  have live: "\<forall>e \<in> set (st_edges ?st). \<forall>d. e_dst e = Some d \<longrightarrow> d \<in> mem_ids ?st"
  proof (intro ballI allI impI)
    fix e d assume e: "e \<in> set (st_edges ?st)" "e_dst e = Some d"
    show "d \<in> mem_ids ?st"
      using e r Cons.prems(3) no_dels
      by (auto simp: synced_edges_def link_target_def dest!: heal_edge_dst find_target_in)
  qed
  from Cons.IH [of ?st, OF _ inv live] Cons.prems(1) obtain es where
    "rebuild_loop rs ?st = Inr (?st\<lparr>st_edges := es\<rparr>)" "store_inv (?st\<lparr>st_edges := es\<rparr>)"
    "\<forall>e \<in> set es. \<forall>d. e_dst e = Some d \<longrightarrow> d \<in> mem_ids ?st" by auto
  then show ?case using ok by (intro exI [of _ es]) simp
qed

lemma rebuild_edges_ok:
  assumes "store_inv st"
  shows "\<exists>es. rebuild_edges st = Inr (st\<lparr>st_edges := es\<rparr>) \<and> store_inv (st\<lparr>st_edges := es\<rparr>)
     \<and> (\<forall>e \<in> set es. \<forall>d. e_dst e = Some d \<longrightarrow> d \<in> mem_ids st)"
proof -
  have "store_inv (st\<lparr>st_edges := []\<rparr>)"
    using assms by (simp add: store_inv_def inv_edges_def)
  from rebuild_loop_ok [OF _ this, of "st_mems st"] show ?thesis
    by (simp add: rebuild_edges_def)
qed

end
