(* ===== verification/Review_Deck.thy ===== *)
theory Review_Deck
  imports Store_Removal
begin

text \<open>
  The spaced-repetition deck (\<^verbatim>\<open>internal/db/srs.go\<close>): enrolment, the SM-2 update of one grade, the
  queue of due cards. Ease factors are rationals; \<open>fl\<close> is the rounding of a real result to
  a 64-bit float, an argument of the operations that compute with floats. Intervals are unbounded
  integers (they stay below \<open>2 ^ 63\<close> for every date the calendar of the code can print).
\<close>

section \<open>Operations\<close>

definition min_ease :: rat where "min_ease = 13 / 10"

definition srs_state :: "store \<Rightarrow> string \<Rightarrow> db_error + srs_row" where
  "srs_state st i =
     (case tbl_get s_id i (st_srs st) of None \<Rightarrow> Inl (NotInDeck i) | Some s \<Rightarrow> Inr s)"

definition fresh_card :: "string \<Rightarrow> int \<Rightarrow> srs_row" where
  "fresh_card i now =
     \<lparr>s_id = i, s_ease = 5 / 2, s_interval = 0, s_reps = 0, s_due = now, s_last = None\<rparr>"

definition add_to_review :: "string \<Rightarrow> int \<Rightarrow> store \<Rightarrow> db_error + (srs_row \<times> store)" where
  "add_to_review i now st =
     (if \<not> tbl_has m_id i (st_mems st) then Inl (NotFound i)
      else (let st1 = (case tbl_ins s_id (fresh_card i now) (st_srs st) of
                         None \<Rightarrow> st | Some rows \<Rightarrow> st\<lparr>st_srs := rows\<rparr>)
            in case srs_state st1 i of Inl e \<Rightarrow> Inl e | Inr s \<Rightarrow> Inr (s, st1)))"

definition remove_from_review :: "string \<Rightarrow> store \<Rightarrow> store" where
  "remove_from_review i st = st\<lparr>st_srs := tbl_del s_id i (st_srs st)\<rparr>"

record review_card =
  rc_memory :: memory
  rc_state :: srs_row

definition due_reviews :: "int \<Rightarrow> int \<Rightarrow> store \<Rightarrow> review_card list" where
  "due_reviews limit now st =
     (let lim = (if limit \<le> 0 then 50 else limit);
          rows = [(s, r). s \<leftarrow> filter (\<lambda>s. s_due s \<le> now) (st_srs st),
                          r \<leftarrow> filter (\<lambda>r. m_id r = s_id s) (st_mems st)]
      in map (\<lambda>(s, r). \<lparr>rc_memory = (scan_memory r)\<lparr>mem_format := [], mem_version := 0\<rparr>, rc_state = s\<rparr>)
           (limit_offset lim 0 (sort_key (\<lambda>(s, r). s_due s) rows)))"

text \<open>\<^verbatim>\<open>math.Round\<close>: to the nearest integer, halves away from zero.\<close>

definition round_half_away :: "rat \<Rightarrow> int" where
  "round_half_away x = (if 0 \<le> x then \<lfloor>x + 1 / 2\<rfloor> else - \<lfloor>1 / 2 - x\<rfloor>)"

definition day_secs :: int where "day_secs = 86400"

definition next_interval :: "(rat \<Rightarrow> rat) \<Rightarrow> int \<Rightarrow> int \<Rightarrow> rat \<Rightarrow> int" where
  "next_interval fl reps interval ease =
     (if reps = 1 then 1 else if reps = 2 then 6
      else max (round_half_away (fl (fl (of_int interval) * ease))) 1)"

definition ease_delta :: "(rat \<Rightarrow> rat) \<Rightarrow> int \<Rightarrow> rat" where
  "ease_delta fl grade =
     (let q = of_int grade;
          d = fl (5 - q)
      in fl (fl (1 / 10) - fl (d * fl (fl (8 / 100) + fl (d * fl (2 / 100))))))"

definition next_ease :: "(rat \<Rightarrow> rat) \<Rightarrow> int \<Rightarrow> rat \<Rightarrow> rat" where
  "next_ease fl grade ease =
     (let e = fl (ease + ease_delta fl grade) in if e < fl min_ease then fl min_ease else e)"

definition grade_card :: "(rat \<Rightarrow> rat) \<Rightarrow> int \<Rightarrow> int \<Rightarrow> srs_row \<Rightarrow> srs_row" where
  "grade_card fl grade now s =
     (let s1 = (if grade < 3 then s\<lparr>s_reps := 0, s_interval := 0, s_due := now\<rparr>
                else (let iv = next_interval fl (s_reps s + 1) (s_interval s) (s_ease s)
                      in s\<lparr>s_reps := s_reps s + 1, s_interval := iv, s_due := now + iv * day_secs\<rparr>))
      in s1\<lparr>s_ease := next_ease fl grade (s_ease s), s_last := Some now\<rparr>)"

definition grade_review ::
  "(rat \<Rightarrow> rat) \<Rightarrow> string \<Rightarrow> int \<Rightarrow> int \<Rightarrow> store \<Rightarrow> db_error + (srs_row \<times> store)" where
  "grade_review fl i grade now st =
     (if grade < 0 \<or> 5 < grade then Inl (BadGrade grade)
      else (case srs_state st i of
              Inl e \<Rightarrow> Inl e
            | Inr s \<Rightarrow>
                (let s' = grade_card fl grade now s
                 in Inr (s', st\<lparr>st_srs := tbl_upd s_id i (\<lambda>_. s') (st_srs st)\<rparr>))))"

record review_stats =
  rs_total :: nat
  rs_due :: nat

definition review_stats_of :: "int \<Rightarrow> store \<Rightarrow> review_stats" where
  "review_stats_of now st =
     \<lparr>rs_total = length (st_srs st), rs_due = length (filter (\<lambda>s. s_due s \<le> now) (st_srs st))\<rparr>"

definition in_review :: "store \<Rightarrow> string \<Rightarrow> bool" where
  "in_review st i = tbl_has s_id i (st_srs st)"

section \<open>The deck as a keyed table\<close>

interpretation deck: keyed_table s_id "tbl_get s_id" "tbl_ins s_id" "tbl_del s_id" "tbl_wf s_id"
  by (rule keyed_table_tbl)

lemma grade_card_simps [simp]:
  "s_id (grade_card fl g now s) = s_id s" "s_last (grade_card fl g now s) = Some now"
  "s_ease (grade_card fl g now s) = next_ease fl g (s_ease s)"
  "s_reps (grade_card fl g now s) = (if g < 3 then 0 else s_reps s + 1)"
  "s_interval (grade_card fl g now s) =
     (if g < 3 then 0 else next_interval fl (s_reps s + 1) (s_interval s) (s_ease s))"
  "s_due (grade_card fl g now s) =
     (if g < 3 then now else now + next_interval fl (s_reps s + 1) (s_interval s) (s_ease s) * day_secs)"
  by (simp_all add: grade_card_def Let_def)

text \<open>A grade outside the range, or of a memory outside the deck, changes nothing and is an error.\<close>

lemma grade_review_cases:
  "grade_review fl i g now st = Inr (s', st') \<longleftrightarrow>
     0 \<le> g \<and> g \<le> 5 \<and> (\<exists>s. tbl_get s_id i (st_srs st) = Some s \<and> s' = grade_card fl g now s)
     \<and> st' = st\<lparr>st_srs := tbl_upd s_id i (\<lambda>_. s') (st_srs st)\<rparr>"
  by (auto simp: grade_review_def srs_state_def Let_def split: option.splits)

lemma tbl_upd_const_key:
  "key s' = k \<Longrightarrow> map key (tbl_upd key k (\<lambda>_. s') rows) = map key rows"
  by (induction rows) (auto simp: tbl_upd_def)

lemma tbl_get_upd_const:
  "key s' = k \<Longrightarrow> tbl_get key j (tbl_upd key k (\<lambda>_. s') rows) =
     (if j = k then map_option (\<lambda>_. s') (tbl_get key k rows) else tbl_get key j rows)"
  by (induction rows) (auto simp: tbl_get_def tbl_upd_def)

lemma store_inv_srs:
  "store_inv st \<Longrightarrow> tbl_wf s_id rows \<Longrightarrow> s_id ` set rows \<subseteq> mem_ids st \<Longrightarrow> store_inv (st\<lparr>st_srs := rows\<rparr>)"
  by (simp add: store_inv_def inv_defs versions_of_def)

lemma add_to_review_inv:
  assumes inv: "store_inv st" and res: "add_to_review i now st = Inr (s, st')"
  shows "store_inv st'"
proof (cases "tbl_ins s_id (fresh_card i now) (st_srs st)")
  case None
  with inv res show ?thesis by (auto simp: add_to_review_def split: if_splits sum.splits)
next
  case (Some rows)
  from res have "i \<in> mem_ids st" by (auto simp: add_to_review_def tbl_has_iff split: if_splits)
  moreover from Some have "rows = st_srs st @ [fresh_card i now]" "i \<notin> s_id ` set (st_srs st)"
    by (auto simp: tbl_ins_Some_iff fresh_card_def)
  moreover have "tbl_wf s_id rows" using inv Some deck.wf_ins by (auto simp: store_inv_def inv_srs_def)
  ultimately have "store_inv (st\<lparr>st_srs := rows\<rparr>)"
    using inv by (intro store_inv_srs) (auto simp: store_inv_def inv_srs_def fresh_card_def)
  with res Some show ?thesis by (auto simp: add_to_review_def Let_def split: if_splits sum.splits)
qed

lemma remove_from_review_inv: "store_inv st \<Longrightarrow> store_inv (remove_from_review i st)"
  unfolding remove_from_review_def
  by (rule store_inv_srs) (auto simp: store_inv_def inv_srs_def set_tbl_del intro: deck.wf_del)

lemma grade_review_inv:
  assumes inv: "store_inv st" and res: "grade_review fl i g now st = Inr (s', st')"
  shows "store_inv st'"
proof -
  from res obtain s where s: "tbl_get s_id i (st_srs st) = Some s" "s' = grade_card fl g now s"
    and st': "st' = st\<lparr>st_srs := tbl_upd s_id i (\<lambda>_. s') (st_srs st)\<rparr>"
    by (auto simp: grade_review_cases)
  have "s_id s' = i" using s by (auto dest: deck.get_key)
  then have m: "map s_id (tbl_upd s_id i (\<lambda>_. s') (st_srs st)) = map s_id (st_srs st)"
    by (rule tbl_upd_const_key)
  then have ids: "s_id ` set (tbl_upd s_id i (\<lambda>_. s') (st_srs st)) = s_id ` set (st_srs st)"
    by (metis list.set_map)
  show ?thesis
    unfolding st' by (rule store_inv_srs [OF inv])
      (use inv m ids in \<open>simp_all add: store_inv_def inv_srs_def tbl_wf_def\<close>)
qed

section \<open>The schedule\<close>

lemma next_ease_floor: "fl min_ease \<le> next_ease fl g e"
  by (simp add: next_ease_def Let_def)

lemma round_half_away_ge: "of_int n \<le> x \<Longrightarrow> 0 \<le> n \<Longrightarrow> n \<le> round_half_away x"
proof -
  assume n: "of_int n \<le> x" "0 \<le> n"
  have "(0 :: rat) \<le> of_int n" using n(2) by simp
  then have "0 \<le> x" using n(1) by linarith
  moreover have "n \<le> \<lfloor>x + 1 / 2\<rfloor>" using n(1) by (simp add: le_floor_iff)
  ultimately show ?thesis by (simp add: round_half_away_def)
qed

text \<open>The deck invariant: ease at least the floor, counters in step with the interval.\<close>

definition card_ok :: "(rat \<Rightarrow> rat) \<Rightarrow> srs_row \<Rightarrow> bool" where
  "card_ok fl s \<longleftrightarrow> fl min_ease \<le> s_ease s \<and> 0 \<le> s_reps s \<and> 0 \<le> s_interval s
     \<and> (s_reps s = 0 \<longrightarrow> s_interval s = 0) \<and> (s_reps s = 1 \<longrightarrow> s_interval s = 1)
     \<and> (s_reps s = 2 \<longrightarrow> s_interval s = 6) \<and> (0 < s_reps s \<longrightarrow> 1 \<le> s_interval s)"

definition deck_ok :: "(rat \<Rightarrow> rat) \<Rightarrow> store \<Rightarrow> bool" where
  "deck_ok fl st \<longleftrightarrow> (\<forall>s \<in> set (st_srs st). card_ok fl s)"

lemma next_interval_pos: "1 \<le> next_interval fl r iv e"
  by (simp add: next_interval_def)

lemma grade_card_ok: "card_ok fl s \<Longrightarrow> card_ok fl (grade_card fl g now s)"
  unfolding card_ok_def
  using next_ease_floor [of fl g "s_ease s"] next_interval_pos [of fl "s_reps s + 1" "s_interval s" "s_ease s"]
  by (auto simp: next_interval_def)

lemma fresh_card_ok: "fl min_ease \<le> 5 / 2 \<Longrightarrow> card_ok fl (fresh_card i now)"
  by (simp add: card_ok_def fresh_card_def)

end
