(* ===== verification/Tenant_Members.thy ===== *)
theory Tenant_Members
  imports Store_Removal
begin

text \<open>
  Membership of a tenant file (\<^verbatim>\<open>internal/db/members.go\<close>): roles and their capabilities, the
  projection of a member onto a \<open>scope\<close>, the owner fallback of a personal file, and the upsert and
  removal of members with their grants. SQL leaves the order of a member's grants open; here it is
  the order of insertion.
\<close>

section \<open>Roles\<close>

definition valid_role :: "role \<Rightarrow> bool" where
  "valid_role r = (r = RoleOwner \<or> r = RoleAdmin \<or> r = RoleEditor \<or> r = RoleViewer)"

definition can_write_any :: "role \<Rightarrow> bool" where
  "can_write_any r = (r \<noteq> RoleViewer)"

definition can_manage_members :: "role \<Rightarrow> bool" where
  "can_manage_members r = (r = RoleOwner \<or> r = RoleAdmin)"

definition can_manage_team :: "role \<Rightarrow> bool" where
  "can_manage_team r = (r = RoleOwner)"

record member =
  mm_id :: string
  mm_role :: role
  mm_read :: "string list"
  mm_titles :: "string list"
  mm_added_at :: int
  mm_added_by :: string

definition member_scope :: "member \<Rightarrow> scope" where
  "member_scope m = (case mm_role m of
       RoleOwner \<Rightarrow> full_scope
     | RoleAdmin \<Rightarrow> full_scope
     | RoleEditor \<Rightarrow> new_scope (mm_read m) (mm_read m) (mm_titles m)
     | _ \<Rightarrow> new_scope (mm_read m) [] (mm_titles m))"

section \<open>Reading the roster\<close>

definition has_members :: "store \<Rightarrow> bool" where
  "has_members st = (0 < length (st_members st))"

definition count_members :: "store \<Rightarrow> nat" where
  "count_members st = length (st_members st)"

definition count_owners :: "store \<Rightarrow> nat" where
  "count_owners st = length (filter (\<lambda>r. mb_role r = RoleOwner) (st_members st))"

definition grants_of :: "store \<Rightarrow> string \<Rightarrow> string \<Rightarrow> string list" where
  "grants_of st i kind = map g_prefix (filter (\<lambda>g. g_identity g = i \<and> g_kind g = kind) (st_grants st))"

definition load_grants :: "store \<Rightarrow> member_row \<Rightarrow> member" where
  "load_grants st r =
     \<lparr>mm_id = mb_id r, mm_role = mb_role r, mm_read = grants_of st (mb_id r) ''read'',
      mm_titles = grants_of st (mb_id r) ''titles'', mm_added_at = mb_added_at r,
      mm_added_by = str_of (mb_added_by r)\<rparr>"

definition member_at :: "store \<Rightarrow> string \<Rightarrow> member option" where
  "member_at st i = map_option (load_grants st) (tbl_get mb_id i (st_members st))"

definition synthetic_owner :: "string \<Rightarrow> member" where
  "synthetic_owner i =
     \<lparr>mm_id = i, mm_role = RoleOwner, mm_read = [], mm_titles = [], mm_added_at = 0, mm_added_by = []\<rparr>"

text \<open>The member and the denied flag of \<^verbatim>\<open>EffectiveMember\<close>.\<close>

definition effective_member :: "store \<Rightarrow> string \<Rightarrow> member option \<times> bool" where
  "effective_member st i =
     (case member_at st i of
        Some m \<Rightarrow> (Some m, False)
      | None \<Rightarrow> if has_members st then (None, True) else (Some (synthetic_owner i), False))"

definition role_rank :: "role \<Rightarrow> nat" where
  "role_rank r = (case r of RoleOwner \<Rightarrow> 0 | RoleAdmin \<Rightarrow> 1 | RoleEditor \<Rightarrow> 2 | _ \<Rightarrow> 3)"

definition list_members :: "store \<Rightarrow> member list" where
  "list_members st =
     map (load_grants st) (sort_key (\<lambda>r. role_rank (mb_role r)) (sort_key mb_added_at (st_members st)))"

section \<open>Changing the roster\<close>

definition grant_key :: "grant_row \<Rightarrow> string \<times> string \<times> string" where
  "grant_key g = (g_identity g, g_kind g, g_prefix g)"

text \<open>\<^verbatim>\<open>INSERT OR IGNORE INTO member_scopes\<close>, once per prefix.\<close>

fun insert_grants :: "string \<Rightarrow> string \<Rightarrow> string list \<Rightarrow> grant_row list \<Rightarrow> grant_row list" where
  "insert_grants i kind [] rows = rows"
| "insert_grants i kind (p # ps) rows =
     insert_grants i kind ps
       (case tbl_ins grant_key \<lparr>g_identity = i, g_kind = kind, g_prefix = p\<rparr> rows of
          None \<Rightarrow> rows | Some rows' \<Rightarrow> rows')"

definition put_member ::
  "string \<Rightarrow> role \<Rightarrow> string list \<Rightarrow> string list \<Rightarrow> string \<Rightarrow> int \<Rightarrow> store \<Rightarrow> db_error + store" where
  "put_member i role read titles added_by now st =
     (if \<not> valid_role role then Inl (UnknownRole role)
      else (let rows = (if tbl_has mb_id i (st_members st)
                        then tbl_upd mb_id i (\<lambda>r. r\<lparr>mb_role := role\<rparr>) (st_members st)
                        else st_members st @ [\<lparr>mb_id = i, mb_role = role, mb_added_at = now,
                                               mb_added_by = null_str added_by\<rparr>]);
                cleared = filter (\<lambda>g. g_identity g \<noteq> i) (st_grants st);
                grants = insert_grants i ''titles'' titles (insert_grants i ''read'' read cleared)
            in Inr (st\<lparr>st_members := rows, st_grants := grants\<rparr>)))"

definition remove_member_row :: "string \<Rightarrow> store \<Rightarrow> db_error + store" where
  "remove_member_row i st =
     (if tbl_has mb_id i (st_members st)
      then Inr (st\<lparr>st_members := tbl_del mb_id i (st_members st),
                   st_grants := filter (\<lambda>g. g_identity g \<noteq> i) (st_grants st)\<rparr>)
      else Inl (MemberNotFound i))"

interpretation roster: keyed_table mb_id "tbl_get mb_id" "tbl_ins mb_id" "tbl_del mb_id" "tbl_wf mb_id"
  by (rule keyed_table_tbl)

section \<open>The roster invariant\<close>

definition inv_members :: "store \<Rightarrow> bool" where
  "inv_members st \<longleftrightarrow> tbl_wf mb_id (st_members st) \<and> tbl_wf grant_key (st_grants st)
     \<and> g_identity ` set (st_grants st) \<subseteq> mb_id ` set (st_members st)
     \<and> (\<forall>r \<in> set (st_members st). valid_role (mb_role r))"

lemma grant_row_eta [simp]: "\<lparr>g_identity = g_identity g, g_kind = g_kind g, g_prefix = g_prefix g\<rparr> = (g :: grant_row)"
  by simp

lemma grant_key_iff: "(i, kind, p) \<in> grant_key ` set rows \<longleftrightarrow> \<lparr>g_identity = i, g_kind = kind, g_prefix = p\<rparr> \<in> set rows"
proof
  assume "(i, kind, p) \<in> grant_key ` set rows"
  then obtain g where g: "g \<in> set rows" "g_identity g = i" "g_kind g = kind" "g_prefix g = p"
    by (auto simp: grant_key_def)
  then show "\<lparr>g_identity = i, g_kind = kind, g_prefix = p\<rparr> \<in> set rows" by (metis grant_row_eta)
qed (force simp: grant_key_def)

lemma insert_grants_set:
  "set (insert_grants i kind ps rows) =
     set rows \<union> (\<lambda>p. \<lparr>g_identity = i, g_kind = kind, g_prefix = p\<rparr>) ` set ps"
proof (induction ps arbitrary: rows)
  case (Cons p ps)
  show ?case
    using Cons grant_key_iff [of i kind p rows]
    by (auto simp: tbl_ins_def tbl_has_iff grant_key_def split: option.splits)
qed simp

lemma insert_grants_wf: "tbl_wf grant_key rows \<Longrightarrow> tbl_wf grant_key (insert_grants i kind ps rows)"
  by (induction ps arbitrary: rows) (auto simp: tbl_ins_Some_iff tbl_wf_append split: option.splits)

lemma set_grants_of: "set (grants_of st i kind) = {p. \<lparr>g_identity = i, g_kind = kind, g_prefix = p\<rparr> \<in> set (st_grants st)}"
proof (intro set_eqI iffI)
  fix p assume "p \<in> set (grants_of st i kind)"
  then obtain g where "g \<in> set (st_grants st)" "g_identity g = i" "g_kind g = kind" "g_prefix g = p"
    by (auto simp: grants_of_def)
  then show "p \<in> {p. \<lparr>g_identity = i, g_kind = kind, g_prefix = p\<rparr> \<in> set (st_grants st)}"
    by (metis grant_row_eta mem_Collect_eq)
qed (force simp: grants_of_def)

lemma put_member_ok:
  assumes "valid_role role"
  shows "\<exists>st'. put_member i role read titles by_id now st = Inr st'
     \<and> st_members st' = (if tbl_has mb_id i (st_members st)
                        then tbl_upd mb_id i (\<lambda>r. r\<lparr>mb_role := role\<rparr>) (st_members st)
                        else st_members st @ [\<lparr>mb_id = i, mb_role = role, mb_added_at = now,
                                               mb_added_by = null_str by_id\<rparr>])
     \<and> set (st_grants st') = {g \<in> set (st_grants st). g_identity g \<noteq> i}
          \<union> (\<lambda>p. \<lparr>g_identity = i, g_kind = ''read'', g_prefix = p\<rparr>) ` set read
          \<union> (\<lambda>p. \<lparr>g_identity = i, g_kind = ''titles'', g_prefix = p\<rparr>) ` set titles
     \<and> st_mems st' = st_mems st"
  using assms by (simp add: put_member_def Let_def insert_grants_set)

lemma put_member_inv:
  assumes inv: "inv_members st" and res: "put_member i role read titles by_id now st = Inr st'"
  shows "inv_members st'"
proof -
  have v: "valid_role role" using res by (auto simp: put_member_def split: if_splits)
  from put_member_ok [OF v, of i read titles by_id now st] res have
    m: "st_members st' = (if tbl_has mb_id i (st_members st)
                        then tbl_upd mb_id i (\<lambda>r. r\<lparr>mb_role := role\<rparr>) (st_members st)
                        else st_members st @ [\<lparr>mb_id = i, mb_role = role, mb_added_at = now,
                                               mb_added_by = null_str by_id\<rparr>])" and
    g: "set (st_grants st') = {g \<in> set (st_grants st). g_identity g \<noteq> i}
          \<union> (\<lambda>p. \<lparr>g_identity = i, g_kind = ''read'', g_prefix = p\<rparr>) ` set read
          \<union> (\<lambda>p. \<lparr>g_identity = i, g_kind = ''titles'', g_prefix = p\<rparr>) ` set titles"
    by auto
  have ids: "mb_id ` set (st_members st') = insert i (mb_id ` set (st_members st))"
    unfolding m by (auto simp: tbl_has_iff key_image_tbl_upd)
  have "tbl_wf mb_id (st_members st')"
    using inv unfolding m by (auto simp: inv_members_def tbl_wf_upd tbl_wf_append tbl_has_iff)
  moreover have "tbl_wf grant_key (st_grants st')"
    using res inv v by (auto simp: put_member_def Let_def inv_members_def intro!: insert_grants_wf tbl_wf_filter)
  moreover have "g_identity ` set (st_grants st') \<subseteq> mb_id ` set (st_members st')"
    unfolding ids g using inv by (auto simp: inv_members_def)
  moreover have "\<forall>r \<in> set (st_members st'). valid_role (mb_role r)"
    using inv v unfolding m by (auto simp: inv_members_def set_tbl_upd)
  ultimately show ?thesis by (simp add: inv_members_def)
qed

lemma remove_member_inv:
  assumes inv: "inv_members st" and res: "remove_member_row i st = Inr st'"
  shows "inv_members st'"
proof -
  from res have st': "st_members st' = tbl_del mb_id i (st_members st)"
    "st_grants st' = filter (\<lambda>g. g_identity g \<noteq> i) (st_grants st)"
    by (auto simp: remove_member_row_def split: if_splits)
  have "mb_id ` set (st_members st') = mb_id ` set (st_members st) - {i}"
    unfolding st' by (auto simp: set_tbl_del)
  then show ?thesis
    using inv unfolding inv_members_def st'
    by (auto simp: tbl_wf_filter set_tbl_del intro: roster.wf_del)
qed

lemma member_at_put:
  assumes "put_member i role read titles by_id now st = Inr st'"
  shows "\<exists>m. member_at st' i = Some m \<and> mm_id m = i \<and> mm_role m = role
     \<and> set (mm_read m) = set read \<and> set (mm_titles m) = set titles"
proof -
  have v: "valid_role role" using assms by (auto simp: put_member_def split: if_splits)
  from put_member_ok [OF v, of i read titles by_id now st] assms have
    m: "st_members st' = (if tbl_has mb_id i (st_members st)
                        then tbl_upd mb_id i (\<lambda>r. r\<lparr>mb_role := role\<rparr>) (st_members st)
                        else st_members st @ [\<lparr>mb_id = i, mb_role = role, mb_added_at = now,
                                               mb_added_by = null_str by_id\<rparr>])" and
    g: "set (st_grants st') = {g \<in> set (st_grants st). g_identity g \<noteq> i}
          \<union> (\<lambda>p. \<lparr>g_identity = i, g_kind = ''read'', g_prefix = p\<rparr>) ` set read
          \<union> (\<lambda>p. \<lparr>g_identity = i, g_kind = ''titles'', g_prefix = p\<rparr>) ` set titles"
    by auto
  obtain r where r: "tbl_get mb_id i (st_members st') = Some r" "mb_role r = role"
  proof (cases "tbl_get mb_id i (st_members st)")
    case None
    then have "\<not> tbl_has mb_id i (st_members st)" by (simp add: tbl_get_None_iff tbl_has_iff)
    with None m that show ?thesis by (simp add: tbl_get_append)
  next
    case (Some r)
    then have "tbl_has mb_id i (st_members st)" by (auto simp: tbl_has_iff dest: tbl_get_SomeD)
    with Some m that show ?thesis by (simp add: tbl_get_upd)
  qed
  have "mb_id r = i" using r(1) by (rule roster.get_key)
  then show ?thesis
    using r by (auto simp: member_at_def load_grants_def set_grants_of g)
qed

lemma member_at_other:
  assumes "put_member i role read titles by_id now st = Inr st'" and "j \<noteq> i"
  shows "tbl_get mb_id j (st_members st') = tbl_get mb_id j (st_members st)"
  using assms by (auto simp: put_member_def Let_def tbl_get_upd tbl_get_append split: if_splits option.splits)

section \<open>What a role may reach\<close>

lemma member_scope_write: "can_write (member_scope m) t \<Longrightarrow> can_read (member_scope m) t"
  by (cases "mm_role m") (auto simp: member_scope_def can_read_def can_write_def new_scope_def)

lemma viewer_never_writes:
  "mm_role m \<notin> {RoleOwner, RoleAdmin, RoleEditor} \<Longrightarrow> \<not> can_write (member_scope m) t"
  by (cases "mm_role m") (auto simp: member_scope_def can_write_def new_scope_def)

lemma effective_member_cases:
  "effective_member st i = (Some m, False) \<longleftrightarrow>
     member_at st i = Some m \<or> st_members st = [] \<and> m = synthetic_owner i"
  by (auto simp: effective_member_def has_members_def member_at_def tbl_get_def split: option.splits if_splits)

lemma effective_member_denied:
  "snd (effective_member st i) \<longleftrightarrow> st_members st \<noteq> [] \<and> i \<notin> mb_id ` set (st_members st)"
proof (cases "tbl_get mb_id i (st_members st)")
  case None
  then have "i \<notin> mb_id ` set (st_members st)" by (simp add: tbl_get_None_iff)
  with None show ?thesis by (simp add: effective_member_def has_members_def member_at_def)
next
  case (Some r)
  then have "i \<in> mb_id ` set (st_members st)" by (auto dest: tbl_get_SomeD)
  with Some show ?thesis by (simp add: effective_member_def member_at_def)
qed

lemma effective_member_total: "\<exists>m. effective_member st i = (Some m, False) \<or> effective_member st i = (None, True)"
  by (auto simp: effective_member_def split: option.splits if_splits)

end
