(* ===== verification/Taxonomy_Template.thy ===== *)
theory Taxonomy_Template
  imports Tenant_Members
begin

text \<open>
  The taxonomy template: its rows in the tenant file (\<^verbatim>\<open>internal/db/taxonomy_template.go\<close>) and the
  effective template with the shipped defaults (\<^verbatim>\<open>internal/engine/taxonomy_template.go\<close>). The
  rows are an unordered table; reading sorts them by sort number, then path.
\<close>

section \<open>The saved template\<close>

definition saved_template :: "store \<Rightarrow> branch list" where
  "saved_template st = sort (st_template st)"

definition has_taxonomy_template :: "store \<Rightarrow> bool" where
  "has_taxonomy_template st = (0 < length (st_template st))"

text \<open>\<^verbatim>\<open>INSERT ... ON CONFLICT(path) DO UPDATE\<close>.\<close>

definition upsert_branch :: "branch \<Rightarrow> branch list \<Rightarrow> branch list" where
  "upsert_branch b rows =
     (case tbl_ins br_path b rows of
        Some rows' \<Rightarrow> rows'
      | None \<Rightarrow> tbl_upd br_path (br_path b) (\<lambda>_. b) rows)"

fun store_branches :: "nat \<Rightarrow> branch list \<Rightarrow> branch list \<Rightarrow> branch list" where
  "store_branches i [] rows = rows"
| "store_branches i (b # bs) rows =
     (if br_path b = [] then store_branches (Suc i) bs rows
      else store_branches (Suc i) bs (upsert_branch (Branch (br_path b) (br_description b) (int i)) rows))"

definition set_taxonomy_template :: "branch list \<Rightarrow> store \<Rightarrow> store" where
  "set_taxonomy_template bs st = st\<lparr>st_template := store_branches 0 bs []\<rparr>"

section \<open>The shipped defaults\<close>

definition em_dash :: string where "em_dash = [CHR 0xE2, CHR 0x80, CHR 0x94]"
definition tick :: string where "tick = [CHR 0x27]"

definition default_personal_template :: "branch list" where
  "default_personal_template =
     [Branch ''work'' ''Professional output, tasks, and job context'' 0,
      Branch ''work.projects'' (''Active projects '' @ em_dash @ '' goals, status, notes'') 0,
      Branch ''work.meetings'' ''Meeting notes and action items'' 0,
      Branch ''personal'' ''Life admin and day-to-day'' 0,
      Branch ''people'' (''Relationships '' @ em_dash @ '' who'' @ tick @ ''s who, context on people you know'') 0,
      Branch ''finance'' ''Accounts, budgets, subscriptions, taxes'' 0,
      Branch ''health'' ''Medical records, fitness, habits'' 0,
      Branch ''learning'' ''Notes from reading, courses, and ideas'' 0,
      Branch ''learning.books'' ''Book notes and highlights'' 0,
      Branch ''home'' ''Household, maintenance, purchases'' 0]"

definition default_team_template :: "branch list" where
  "default_team_template =
     [Branch ''product'' ''Specs, roadmap, and product decisions'' 0,
      Branch ''product.specs'' ''Feature and product specifications'' 0,
      Branch ''product.decisions'' (''Decision records '' @ em_dash @ '' what was chosen and why'') 0,
      Branch ''engineering'' ''Architecture, systems, and technical notes'' 0,
      Branch ''engineering.runbooks'' ''Operational how-tos and playbooks'' 0,
      Branch ''engineering.incidents'' ''Incident write-ups and postmortems'' 0,
      Branch ''design'' ''Design system, patterns, and research'' 0,
      Branch ''ops'' ''Process, vendors, tooling, and logistics'' 0,
      Branch ''people'' ''Team, roles, and onboarding'' 0,
      Branch ''meetings'' ''Shared meeting notes and action items'' 0,
      Branch ''knowledge'' ''Reference material and how-tos'' 0]"

fun with_sort_from :: "nat \<Rightarrow> branch list \<Rightarrow> branch list" where
  "with_sort_from i [] = []"
| "with_sort_from i (b # bs) = Branch (br_path b) (br_description b) (int i) # with_sort_from (Suc i) bs"

definition with_sort :: "branch list \<Rightarrow> branch list" where
  "with_sort bs = with_sort_from 0 bs"

definition default_template_for :: "string \<Rightarrow> branch list" where
  "default_template_for team_id =
     (if team_id \<noteq> [] then with_sort default_team_template else with_sort default_personal_template)"

record template_result =
  tr_branches :: "branch list"
  tr_source :: string
  tr_kind :: string
  tr_can_edit :: bool

definition taxonomy_template_for :: "store \<Rightarrow> member \<Rightarrow> string \<Rightarrow> template_result" where
  "taxonomy_template_for st caller team_id =
     (let saved = saved_template st;
          custom = 0 < length saved
      in \<lparr>tr_branches = (if custom then saved else default_template_for team_id),
          tr_source = (if custom then ''custom'' else ''default''),
          tr_kind = (if team_id \<noteq> [] then ''team'' else ''personal''),
          tr_can_edit = can_manage_members (mm_role caller)\<rparr>)"

section \<open>Reading back what was saved\<close>

lemma with_sort_paths [simp]: "map br_path (with_sort_from i bs) = map br_path bs"
  by (induction bs arbitrary: i) auto

lemma with_sort_bounds: "b \<in> set (with_sort_from i bs) \<Longrightarrow> int i \<le> br_sort b"
  by (induction bs arbitrary: i) force+

lemma with_sort_sorted: "sorted (with_sort_from i bs)"
proof (induction bs arbitrary: i)
  case (Cons b bs)
  have "Branch (br_path b) (br_description b) (int i) \<le> x" if "x \<in> set (with_sort_from (Suc i) bs)" for x
    using with_sort_bounds [OF that] by (simp add: less_eq_branch_def)
  with Cons show ?case by simp
qed simp

lemma store_branches_fresh:
  "distinct (map br_path bs) \<Longrightarrow> [] \<notin> br_path ` set bs \<Longrightarrow>
   br_path ` set rows \<inter> br_path ` set bs = {} \<Longrightarrow>
   store_branches i bs rows = rows @ with_sort_from i bs"
proof (induction bs arbitrary: i rows)
  case (Cons b bs)
  let ?b = "Branch (br_path b) (br_description b) (int i)"
  have "upsert_branch ?b rows = rows @ [?b]"
    using Cons.prems by (auto simp: upsert_branch_def tbl_ins_def tbl_has_iff)
  moreover have "store_branches (Suc i) bs (rows @ [?b]) = (rows @ [?b]) @ with_sort_from (Suc i) bs"
    by (rule Cons.IH) (use Cons.prems in auto)
  ultimately show ?case using Cons.prems by auto
qed simp

lemma saved_after_set:
  "distinct (map br_path bs) \<Longrightarrow> [] \<notin> br_path ` set bs \<Longrightarrow>
   saved_template (set_taxonomy_template bs st) = with_sort bs"
  using store_branches_fresh [of bs "[]" 0] with_sort_sorted [of 0 bs]
  by (simp add: saved_template_def set_taxonomy_template_def with_sort_def sorted_sort_id)

text \<open>The paths stay unique and non-empty whatever was passed in.\<close>

lemma upsert_branch_wf:
  assumes wf: "tbl_wf br_path rows"
  shows "tbl_wf br_path (upsert_branch b rows)"
proof (cases "tbl_ins br_path b rows")
  case None
  have "map br_path (tbl_upd br_path (br_path b) (\<lambda>_. b) rows) = map br_path rows"
    by (induction rows) (auto simp: tbl_upd_def)
  with wf None show ?thesis by (simp add: upsert_branch_def tbl_wf_def)
next
  case (Some rows')
  then have "tbl_wf br_path rows'" using wf by (simp add: tbl_ins_Some_iff tbl_wf_append)
  with Some show ?thesis by (simp add: upsert_branch_def)
qed

lemma upsert_branch_paths: "br_path ` set (upsert_branch b rows) \<subseteq> insert (br_path b) (br_path ` set rows)"
  by (auto simp: upsert_branch_def tbl_ins_def tbl_upd_def split: if_splits)

lemma store_branches_wf:
  "tbl_wf br_path rows \<Longrightarrow> [] \<notin> br_path ` set rows \<Longrightarrow>
   tbl_wf br_path (store_branches i bs rows) \<and> [] \<notin> br_path ` set (store_branches i bs rows)"
proof (induction bs arbitrary: i rows)
  case (Cons b bs)
  show ?case
  proof (cases "br_path b = []")
    case True
    with Cons show ?thesis by simp
  next
    case False
    let ?rows = "upsert_branch (Branch (br_path b) (br_description b) (int i)) rows"
    have "[] \<notin> br_path ` set ?rows"
      using upsert_branch_paths [of "Branch (br_path b) (br_description b) (int i)" rows] Cons.prems False
      by auto
    from Cons.IH [OF upsert_branch_wf [OF Cons.prems(1)] this] False show ?thesis by simp
  qed
qed simp

end
