(* ===== verification/Memory_Query.thy ===== *)
theory Memory_Query
  imports Memory_Store "HOL-Library.Product_Lexorder"
begin

text \<open>
  The read paths of one tenant file (\<^verbatim>\<open>internal/db/memory.go\<close>): listings, catalog, the scoped
  browse and the ranked search with their token budget, tombstones, backlinks, link statistics.
  The full-text engine is a parameter: \<open>rank expr row\<close> is the BM25 rank of an index row
  under a MATCH expression, \<open>None\<close> when it does not match.
\<close>

section \<open>Text queries\<close>

text \<open>The runes of a byte string: a byte with the continuation bytes that follow it.\<close>

definition is_cont :: "char \<Rightarrow> bool" where
  "is_cont c = (128 \<le> (of_char c :: nat) \<and> (of_char c :: nat) < 192)"

fun runes :: "string \<Rightarrow> string list" where
  "runes [] = []"
| "runes (c # s) = (case runes s of
     [] \<Rightarrow> [[c]]
   | r # rs \<Rightarrow> if is_cont (hd r) then (c # r) # rs else [c] # r # rs)"

definition ascii_alnum :: "char \<Rightarrow> bool" where
  "ascii_alnum c = (let n = (of_char c :: nat) in
     48 \<le> n \<and> n \<le> 57 \<or> 65 \<le> n \<and> n \<le> 90 \<or> 97 \<le> n \<and> n \<le> 122)"

text \<open>\<open>wide\<close> is \<^verbatim>\<open>unicode.IsLetter || unicode.IsNumber\<close> on the runes outside ASCII.\<close>

definition word_rune :: "(string \<Rightarrow> bool) \<Rightarrow> string \<Rightarrow> bool" where
  "word_rune wide r = (if (of_char (hd r) :: nat) < 128 then ascii_alnum (hd r) else wide r)"

fun fields_func :: "('a \<Rightarrow> bool) \<Rightarrow> 'a list \<Rightarrow> 'a list list" where
  "fields_func P [] = []"
| "fields_func P (x # xs) =
     (if P x then fields_func P xs
      else (case xs of
              [] \<Rightarrow> [[x]]
            | y # _ \<Rightarrow> if P y then [x] # fields_func P xs
                       else (case fields_func P xs of [] \<Rightarrow> [[x]] | w # ws \<Rightarrow> (x # w) # ws)))"

definition sanitize_fts_query :: "(string \<Rightarrow> bool) \<Rightarrow> string \<Rightarrow> string" where
  "sanitize_fts_query wide q =
     (let fields = map concat (fields_func (\<lambda>r. \<not> word_rune wide r) (runes q)) in
      if fields = [] then [] else join_with '' '' (map (\<lambda>f. CHR 0x22 # f @ [CHR 0x22]) fields))"

section \<open>The token budget\<close>

text \<open>The loop shared by the browse and the search: skip what no longer fits, keep going.\<close>

fun budget_loop :: "('a \<Rightarrow> nat) \<Rightarrow> int \<Rightarrow> nat \<Rightarrow> 'a list \<Rightarrow> 'a list \<times> nat" where
  "budget_loop tokens budget used [] = ([], 0)"
| "budget_loop tokens budget used (x # xs) =
     (if 0 < budget \<and> budget < int (used + tokens x)
      then (let (res, om) = budget_loop tokens budget used xs in (res, Suc om))
      else (let (res, om) = budget_loop tokens budget (used + tokens x) xs in (x # res, om)))"

section \<open>Search\<close>

definition boosting :: "string \<Rightarrow> bool" where
  "boosting rel = (rel = ''relates'' \<or> rel = ''depends-on'')"

definition authority_count :: "store \<Rightarrow> string \<Rightarrow> nat" where
  "authority_count st i =
     length (filter (\<lambda>e. e_dst e = Some i \<and> e_src e \<noteq> i \<and> boosting (e_rel e)) (st_edges st))"

definition is_superseded :: "store \<Rightarrow> string \<Rightarrow> bool" where
  "is_superseded st i =
     list_ex (\<lambda>e. e_dst e = Some i \<and> e_src e \<noteq> i \<and> e_rel e = ''supersedes'') (st_edges st)"

definition authority_cap :: nat where "authority_cap = 5"
definition authority_boost :: rat where "authority_boost = 3 / 10"
definition supersede_penalty :: rat where "supersede_penalty = 5"

definition search_key :: "store \<Rightarrow> rat \<Rightarrow> string \<Rightarrow> rat" where
  "search_key st rank i =
     rank - of_nat (min (authority_count st i) authority_cap) * authority_boost
       + (if is_superseded st i then 1 else 0) * supersede_penalty"

definition search_hit :: "store \<Rightarrow> mem_row \<Rightarrow> memory" where
  "search_hit st r =
     (scan_memory r)\<lparr>mem_version := 0, mem_backlinks := authority_count st (m_id r),
                      mem_superseded := is_superseded st (m_id r)\<rparr>"

record search_result =
  sr_results :: "memory list"
  sr_omitted :: nat

definition search_rows ::
  "(string \<Rightarrow> fts_row \<Rightarrow> rat option) \<Rightarrow> store \<Rightarrow> scope \<Rightarrow> string \<Rightarrow> string \<Rightarrow> (rat \<times> mem_row) list" where
  "search_rows rank st sc expr pfx =
     [(k, r). f \<leftarrow> st_fts st, k \<leftarrow> (case rank expr f of None \<Rightarrow> [] | Some k \<Rightarrow> [k]),
              r \<leftarrow> filter (\<lambda>r. m_rowid r = f_rowid f) (st_mems st),
              branch_filter pfx (m_taxonomy r) \<and> clause_sat (read_clause sc) (m_taxonomy r)]"

definition search ::
  "(string \<Rightarrow> bool) \<Rightarrow> (string \<Rightarrow> fts_row \<Rightarrow> rat option) \<Rightarrow> store \<Rightarrow> scope \<Rightarrow> string \<Rightarrow> string
     \<Rightarrow> int \<Rightarrow> search_result" where
  "search wide rank st sc query pfx budget =
     (let expr = sanitize_fts_query wide query in
      if expr = [] then \<lparr>sr_results = [], sr_omitted = 0\<rparr>
      else (let hits = sort_key (\<lambda>(k, r). search_key st k (m_id r)) (search_rows rank st sc expr pfx);
                (res, om) = budget_loop memory_tokens budget 0 (map (\<lambda>(k, r). search_hit st r) hits)
            in \<lparr>sr_results = res, sr_omitted = om\<rparr>))"

section \<open>Listings\<close>

definition list_rows :: "store \<Rightarrow> scope \<Rightarrow> string \<Rightarrow> mem_row list" where
  "list_rows st sc tax =
     filter (\<lambda>r. branch_filter tax (m_taxonomy r) \<and> clause_sat (read_clause sc) (m_taxonomy r)) (st_mems st)"

definition list_memories :: "store \<Rightarrow> scope \<Rightarrow> string \<Rightarrow> int \<Rightarrow> int \<Rightarrow> memory list \<times> nat" where
  "list_memories st sc tax limit offset =
     (let rows = list_rows st sc tax;
          ordered = order_desc m_updated rows;
          page = (if 0 < limit then limit_offset limit offset ordered else ordered)
      in (map scan_memory page, length rows))"

record taxonomy_entry =
  te_path :: string
  te_count :: nat
  te_expandable :: bool

definition catalog_rows :: "store \<Rightarrow> scope \<Rightarrow> mem_row list" where
  "catalog_rows st sc =
     filter (\<lambda>r. m_taxonomy r \<noteq> None \<and> m_taxonomy r \<noteq> Some [] \<and> clause_sat (title_clause sc) (m_taxonomy r))
       (st_mems st)"

definition catalog :: "store \<Rightarrow> scope \<Rightarrow> taxonomy_entry list" where
  "catalog st sc =
     (let rows = catalog_rows st sc in
      map (\<lambda>p. \<lparr>te_path = p, te_count = length (filter (\<lambda>r. m_taxonomy r = Some p) rows),
                 te_expandable = False\<rparr>)
        (sort (remdups (map (\<lambda>r. str_of (m_taxonomy r)) rows))))"

record scope_result =
  sp_results :: "scoped_memory list"
  sp_omitted :: nat

definition scoped_tokens :: "scoped_memory \<Rightarrow> nat" where
  "scoped_tokens s = count_tokens (sm_id s) + count_tokens (sm_title s) + count_tokens (sm_taxonomy s)"

definition scope_browse :: "store \<Rightarrow> scope \<Rightarrow> string \<Rightarrow> int \<Rightarrow> scope_result" where
  "scope_browse st auth tax budget =
     (let rows = order_desc m_updated
            (filter (\<lambda>r. sql_under tax (tax @ ''.%'') (m_taxonomy r)
                          \<and> clause_sat (title_clause auth) (m_taxonomy r)) (st_mems st));
          (res, om) = budget_loop scoped_tokens budget 0 (map scoped_of rows)
      in \<lparr>sp_results = res, sp_omitted = om\<rparr>)"

definition tombstones :: "store \<Rightarrow> scope \<Rightarrow> string \<Rightarrow> int \<Rightarrow> tombstone list" where
  "tombstones st sc pfx limit =
     (let rows = order_desc t_deleted
            (filter (\<lambda>t. branch_filter pfx (t_taxonomy t) \<and> clause_sat (title_clause sc) (t_taxonomy t))
              (st_tombs st))
      in if 0 < limit then limit_offset limit 0 rows else rows)"

section \<open>Links seen from the target\<close>

definition inbound_link_count :: "store \<Rightarrow> string \<Rightarrow> nat" where
  "inbound_link_count st i = length (filter (\<lambda>e. e_dst e = Some i \<and> e_src e \<noteq> i) (st_edges st))"

text \<open>\<^verbatim>\<open>edges e JOIN memories s ON s.id = e.src_id\<close> under the title clause.\<close>

definition scoped_edges :: "store \<Rightarrow> scope \<Rightarrow> (edge \<times> mem_row) list" where
  "scoped_edges st sc =
     [(e, s). e \<leftarrow> st_edges st, s \<leftarrow> filter (\<lambda>s. m_id s = e_src e) (st_mems st),
              clause_sat (title_clause sc) (m_taxonomy s)]"

definition backlinks :: "store \<Rightarrow> scope \<Rightarrow> string \<Rightarrow> scoped_memory list" where
  "backlinks st sc i =
     map (\<lambda>(e, s). (scoped_of s)\<lparr>sm_rel := e_rel e\<rparr>)
       (order_desc (\<lambda>(e, s). m_updated s)
         (filter (\<lambda>(e, s). e_dst e = Some i \<and> e_src e \<noteq> i) (scoped_edges st sc)))"

record dangling_ref =
  dr_target :: string
  dr_rel :: string
  dr_count :: nat
  dr_sources :: "scoped_memory list"

record edge_stats =
  eh_total :: nat
  eh_resolved :: nat
  eh_dangling :: nat
  eh_targets :: nat
  eh_by_rel :: "(string \<times> nat) list"
  eh_top :: "dangling_ref list"

fun add_ref :: "string \<Rightarrow> string \<Rightarrow> scoped_memory \<Rightarrow> dangling_ref list \<Rightarrow> dangling_ref list" where
  "add_ref raw rel src [] = [\<lparr>dr_target = raw, dr_rel = rel, dr_count = 1, dr_sources = [src]\<rparr>]"
| "add_ref raw rel src (d # ds) =
     (if dr_target d = raw \<and> dr_rel d = rel
      then d\<lparr>dr_count := dr_count d + 1, dr_sources := dr_sources d @ [src]\<rparr> # ds
      else d # add_ref raw rel src ds)"

definition dangling_groups :: "(edge \<times> mem_row) list \<Rightarrow> dangling_ref list" where
  "dangling_groups rows = fold (\<lambda>(e, s) acc. add_ref (e_raw e) (e_rel e) (scoped_of s) acc) rows []"

definition edge_health :: "store \<Rightarrow> scope \<Rightarrow> edge_stats" where
  "edge_health st sc =
     (let rows = scoped_edges st sc;
          dang = filter (\<lambda>(e, s). e_dst e = None) rows;
          rels = remdups (map (\<lambda>(e, s). e_rel e) dang);
          ordered = sort_key (\<lambda>(e, s). (e_raw e, e_rel e)) (order_desc (\<lambda>(e, s). m_updated s) dang);
          groups = sort_key dr_target (dangling_groups ordered)
      in \<lparr>eh_total = length rows,
          eh_resolved = length (filter (\<lambda>(e, s). e_dst e \<noteq> None) rows),
          eh_dangling = length dang,
          eh_targets = length (remdups (map (\<lambda>(e, s). e_raw e) dang)),
          eh_by_rel = map (\<lambda>rel. (rel, length (filter (\<lambda>(e, s). e_rel e = rel) dang))) rels,
          eh_top = take 15 (order_desc (\<lambda>d. int (dr_count d)) groups)\<rparr>)"

end
