(* ===== verification/Query_Facts.thy ===== *)
theory Query_Facts
  imports Memory_Query
begin

text \<open>
  What the read paths return: the budget loop, the shape of a sanitized query, paging, the rows a
  caller may see, and the counts of the link statistics.
\<close>

section \<open>Token budget\<close>

lemma budget_loop_subseq: "subseq (fst (budget_loop tk b u xs)) xs"
  by (induction xs arbitrary: u) (auto split: prod.splits simp: case_prod_beta Let_def)

lemma budget_loop_length: "length (fst (budget_loop tk b u xs)) + snd (budget_loop tk b u xs) = length xs"
  by (induction xs arbitrary: u) (auto simp: case_prod_beta Let_def)

lemma budget_loop_bound:
  "0 < b \<Longrightarrow> int u \<le> b \<Longrightarrow> int (u + sum_list (map tk (fst (budget_loop tk b u xs)))) \<le> b"
proof (induction xs arbitrary: u)
  case Nil
  then show ?case by simp
next
  case (Cons x xs)
  show ?case
  proof (cases "b < int (u + tk x)")
    case True
    with Cons show ?thesis by (simp add: case_prod_beta Let_def)
  next
    case False
    with Cons.IH [of "u + tk x"] Cons.prems show ?thesis
      by (simp add: case_prod_beta Let_def add.assoc)
  qed
qed

lemma budget_loop_unlimited: "b \<le> 0 \<Longrightarrow> budget_loop tk b u xs = (xs, 0)"
  by (induction xs arbitrary: u) auto

lemma budget_loop_fits:
  "int (u + sum_list (map tk xs)) \<le> b \<Longrightarrow> budget_loop tk b u xs = (xs, 0)"
  by (induction xs arbitrary: u) (auto simp: add.assoc)

lemma budget_loop_mem: "x \<in> set (fst (budget_loop tk b u xs)) \<Longrightarrow> x \<in> set xs"
  by (induction xs arbitrary: u) (auto simp: case_prod_beta Let_def split: if_splits)

section \<open>Sanitized queries\<close>

lemma fields_func_step:
  "fields_func P [x] = (if P x then [] else [[x]])"
  "fields_func P (x # y # ys) =
     (if P x then fields_func P (y # ys)
      else if P y then [x] # fields_func P (y # ys)
      else (case fields_func P (y # ys) of [] \<Rightarrow> [[x]] | w # ws \<Rightarrow> (x # w) # ws))"
  by simp_all

lemma fields_func_mem:
  "w \<in> set (fields_func P xs) \<Longrightarrow> w \<noteq> [] \<and> (\<forall>x \<in> set w. \<not> P x)"
proof (induction xs arbitrary: w)
  case (Cons x xs)
  show ?case
  proof (cases xs)
    case Nil
    with Cons.prems show ?thesis by (simp split: if_splits)
  next
    case xs: (Cons y ys)
    have IH: "\<forall>w \<in> set (fields_func P (y # ys)). w \<noteq> [] \<and> (\<forall>x \<in> set w. \<not> P x)"
      using Cons.IH xs by blast
    show ?thesis
      using Cons.prems IH unfolding xs fields_func_step
      by (cases "fields_func P (y # ys)") (auto simp del: fields_func.simps split: if_splits)
  qed
qed simp

lemma concat_fields_func: "concat (fields_func P xs) = filter (\<lambda>x. \<not> P x) xs"
proof (induction xs)
  case (Cons x xs)
  show ?case
  proof (cases xs)
    case xs: (Cons y ys)
    have IH: "concat (fields_func P (y # ys)) = filter (\<lambda>x. \<not> P x) (y # ys)"
      using Cons.IH xs by simp
    show ?thesis
      using IH unfolding xs fields_func_step
      by (cases "fields_func P (y # ys)") (auto simp del: fields_func.simps split: if_splits)
  qed simp
qed simp

lemma runes_concat: "concat (runes s) = s"
  by (induction s) (auto split: list.splits)

lemma runes_ne: "[] \<notin> set (runes s)"
  by (induction s) (auto split: list.splits)

lemma runes_tail_cont: "r \<in> set (runes s) \<Longrightarrow> c \<in> set (tl r) \<Longrightarrow> is_cont c"
proof (induction s arbitrary: r c)
  case (Cons a s)
  show ?case
  proof (cases "runes s")
    case Nil
    with Cons.prems show ?thesis by simp
  next
    case rs: (Cons q qs)
    have "q \<noteq> []" using runes_ne [of s] rs by auto
    then obtain h t where q: "q = h # t" by (cases q) auto
    have "is_cont d" if "d \<in> set t" for d
      using Cons.IH [of q d] rs q that by simp
    moreover have "is_cont d" if "r' \<in> set (q # qs)" "d \<in> set (tl r')" for r' d
      using Cons.IH [of r' d] rs that by simp
    ultimately show ?thesis
      using Cons.prems rs q by (auto split: if_splits)
  qed
qed simp

definition quote_char :: char where "quote_char = CHR 0x22"

lemma word_rune_no_quote:
  assumes "r \<in> set (runes s)" and "word_rune wide r"
  shows "quote_char \<notin> set r"
proof
  assume q: "quote_char \<in> set r"
  have "r \<noteq> []" using assms(1) runes_ne [of s] by auto
  then obtain h t where r: "r = h # t" by (cases r) auto
  have "quote_char \<notin> set t"
    using runes_tail_cont [OF assms(1), of quote_char] r by (auto simp: quote_char_def is_cont_def)
  with q r have "h = quote_char" by auto
  with assms(2) r show False by (simp add: word_rune_def ascii_alnum_def quote_char_def Let_def)
qed

definition query_fields :: "(string \<Rightarrow> bool) \<Rightarrow> string \<Rightarrow> string list" where
  "query_fields wide q = map concat (fields_func (\<lambda>r. \<not> word_rune wide r) (runes q))"

lemma set_fields_func: "w \<in> set (fields_func P xs) \<Longrightarrow> set w \<subseteq> set xs"
  using concat_fields_func [of P xs] by (metis UN_I filter_is_subset set_concat subset_iff)

lemma query_fields_plain:
  assumes "f \<in> set (query_fields wide q)"
  shows "f \<noteq> [] \<and> quote_char \<notin> set f"
proof -
  obtain w where w: "w \<in> set (fields_func (\<lambda>r. \<not> word_rune wide r) (runes q))" "f = concat w"
    using assms by (auto simp: query_fields_def)
  have sub: "set w \<subseteq> set (runes q)" using set_fields_func w(1) by blast
  have wr: "w \<noteq> []" "\<forall>r \<in> set w. word_rune wide r" using fields_func_mem [OF w(1)] by auto
  have "\<forall>r \<in> set w. quote_char \<notin> set r" using sub wr word_rune_no_quote by blast
  moreover have "hd w \<noteq> []" using wr(1) sub runes_ne by (metis hd_in_set in_mono)
  ultimately show ?thesis using w(2) wr(1) by (cases w) auto
qed

section \<open>Paging\<close>

lemma take_drop_tiles: "concat (map (\<lambda>k. take n (drop (k * n) xs)) [0..<m]) = take (m * n) xs"
proof (induction m)
  case (Suc m)
  have "take (Suc m * n) xs = take (m * n) xs @ take n (drop (m * n) xs)"
    by (metis add.commute mult_Suc take_add)
  with Suc show ?case by simp
qed simp

lemma limit_offset_pos:
  "limit_offset (int n) (int k) xs = take n (drop k xs)"
  by (simp add: limit_offset_def)

lemma list_memories_page:
  "0 < n \<Longrightarrow> fst (list_memories st sc tax (int n) (int k)) =
     map scan_memory (take n (drop k (order_desc m_updated (list_rows st sc tax))))"
  by (simp add: list_memories_def Let_def limit_offset_pos)

lemma list_memories_all:
  "fst (list_memories st sc tax 0 off) = map scan_memory (order_desc m_updated (list_rows st sc tax))"
  by (simp add: list_memories_def Let_def)

lemma list_memories_mem:
  "mem \<in> set (fst (list_memories st sc tax limit off)) \<Longrightarrow>
     \<exists>r \<in> set (list_rows st sc tax). mem = scan_memory r"
  by (auto simp: list_memories_def Let_def limit_offset_def split: if_splits
      dest!: in_set_takeD in_set_dropD)

section \<open>Search\<close>

lemma search_rows_mem:
  "(k, r) \<in> set (search_rows rank st sc expr pfx) \<longleftrightarrow>
     r \<in> set (st_mems st) \<and> branch_filter pfx (m_taxonomy r) \<and> clause_sat (read_clause sc) (m_taxonomy r)
     \<and> (\<exists>f \<in> set (st_fts st). f_rowid f = m_rowid r \<and> rank expr f = Some k)"
  by (auto simp: search_rows_def split: option.splits) (metis (full_types))+

lemma search_mem:
  "mem \<in> set (sr_results (search wide rank st sc q pfx b)) \<Longrightarrow>
     \<exists>k r. (k, r) \<in> set (search_rows rank st sc (sanitize_fts_query wide q) pfx) \<and> mem = search_hit st r"
  by (force simp: search_def Let_def case_prod_beta split: if_splits dest!: budget_loop_mem)

section \<open>Link statistics\<close>

lemma scoped_edges_mem:
  "(e, s) \<in> set (scoped_edges st sc) \<longleftrightarrow> e \<in> set (st_edges st) \<and> s \<in> set (st_mems st)
     \<and> m_id s = e_src e \<and> clause_sat (title_clause sc) (m_taxonomy s)"
  by (auto simp: scoped_edges_def)

lemma sum_add_ref: "sum_list (map dr_count (add_ref raw rel src ds)) = Suc (sum_list (map dr_count ds))"
  by (induction ds) auto

lemma add_ref_counts:
  "\<forall>d \<in> set ds. dr_count d = length (dr_sources d) \<Longrightarrow>
   \<forall>d \<in> set (add_ref raw rel src ds). dr_count d = length (dr_sources d)"
  by (induction ds) auto

lemma add_ref_sources:
  "d \<in> set (add_ref raw rel src ds) \<Longrightarrow> x \<in> set (dr_sources d) \<Longrightarrow>
     x = src \<and> dr_target d = raw \<and> dr_rel d = rel
     \<or> (\<exists>d' \<in> set ds. x \<in> set (dr_sources d') \<and> dr_target d' = dr_target d \<and> dr_rel d' = dr_rel d)"
  by (induction ds) (auto split: if_splits)

lemma add_ref_keys:
  "(\<lambda>d. (dr_target d, dr_rel d)) ` set (add_ref raw rel src ds) =
     insert (raw, rel) ((\<lambda>d. (dr_target d, dr_rel d)) ` set ds)"
  by (induction ds) auto

lemma add_ref_distinct:
  "distinct (map (\<lambda>d. (dr_target d, dr_rel d)) ds) \<Longrightarrow>
   distinct (map (\<lambda>d. (dr_target d, dr_rel d)) (add_ref raw rel src ds))"
proof (induction ds)
  case (Cons d ds)
  then show ?case
    using add_ref_keys [of raw rel src ds] by (auto simp: image_iff)
qed simp

lemma dangling_groups_append:
  "dangling_groups (rows @ [(e, s)]) = add_ref (e_raw e) (e_rel e) (scoped_of s) (dangling_groups rows)"
  by (simp add: dangling_groups_def)

lemma dangling_groups_total: "sum_list (map dr_count (dangling_groups rows)) = length rows"
  by (induction rows rule: rev_induct)
     (auto simp: dangling_groups_append sum_add_ref dangling_groups_def [of "[]"])

lemma dangling_groups_counts: "\<forall>d \<in> set (dangling_groups rows). dr_count d = length (dr_sources d)"
proof (induction rows rule: rev_induct)
  case (snoc x xs)
  then show ?case
    by (cases x) (use add_ref_counts in \<open>simp only: dangling_groups_append\<close>)
qed (simp add: dangling_groups_def)

lemma dangling_groups_distinct: "distinct (map (\<lambda>d. (dr_target d, dr_rel d)) (dangling_groups rows))"
proof (induction rows rule: rev_induct)
  case (snoc x xs)
  then show ?case
    by (cases x) (use add_ref_distinct in \<open>simp only: dangling_groups_append\<close>)
qed (simp add: dangling_groups_def)

lemma dangling_groups_sources:
  "d \<in> set (dangling_groups rows) \<Longrightarrow> x \<in> set (dr_sources d) \<Longrightarrow>
     \<exists>e s. (e, s) \<in> set rows \<and> x = scoped_of s \<and> e_raw e = dr_target d \<and> e_rel e = dr_rel d"
proof (induction rows arbitrary: d rule: rev_induct)
  case (snoc y ys)
  obtain e s where y: "y = (e, s)" by (cases y)
  with snoc.prems have "d \<in> set (add_ref (e_raw e) (e_rel e) (scoped_of s) (dangling_groups ys))"
    by (simp add: dangling_groups_append)
  from add_ref_sources [OF this snoc.prems(2)] snoc.IH y show ?case
    by (metis UnI1 list.set_intros(1) set_append Un_iff)
qed (simp add: dangling_groups_def)

lemma edge_health_top:
  assumes "d \<in> set (eh_top (edge_health st sc))"
  shows "d \<in> set (dangling_groups
      (sort_key (\<lambda>(e, s). (e_raw e, e_rel e)) (order_desc (\<lambda>(e, s). m_updated s)
         (filter (\<lambda>(e, s). e_dst e = None) (scoped_edges st sc)))))"
  using assms by (auto simp: edge_health_def Let_def dest!: in_set_takeD)

lemma length_filter_partition: "length (filter P xs) + length (filter (\<lambda>x. \<not> P x) xs) = length xs"
  by (induction xs) auto

end
