(* ===== verification/Link_Graph.thy ===== *)
theory Link_Graph
  imports Query_Facts Store_Removal
begin

text \<open>
  The link-graph view (\<^verbatim>\<open>internal/db/graph.go\<close>): the slice of a corpus or of the neighbourhood of
  one memory, under a scope. Go maps are lists of nodes read by identifier; the order of the nodes,
  which the code leaves to map iteration, is the order of the rows.
\<close>

section \<open>Nodes and edges\<close>

record graph_node =
  gn_id :: string
  gn_title :: string
  gn_taxonomy :: string
  gn_authority :: nat
  gn_superseded :: bool
  gn_dangling :: bool
  gn_deleted :: bool
  gn_deleted_at :: "int option"
  gn_deleted_by :: string
  gn_hidden :: bool

record graph_edge =
  ge_src :: string
  ge_dst :: string
  ge_rel :: string

record link_graph =
  lg_center :: string
  lg_nodes :: "graph_node list"
  lg_edges :: "graph_edge list"

record raw_edge =
  re_src :: string
  re_dst :: string
  re_raw :: string
  re_rel :: string

definition plain_node :: "string \<Rightarrow> string \<Rightarrow> string \<Rightarrow> graph_node" where
  "plain_node i title tax =
     \<lparr>gn_id = i, gn_title = title, gn_taxonomy = tax, gn_authority = 0, gn_superseded = False,
      gn_dangling = False, gn_deleted = False, gn_deleted_at = None, gn_deleted_by = [], gn_hidden = False\<rparr>"

definition dangling_prefix :: string where "dangling_prefix = ''dangling:''"
definition max_graph_depth :: nat where "max_graph_depth = 4"

definition all_edges :: "store \<Rightarrow> raw_edge list" where
  "all_edges st =
     map (\<lambda>e. \<lparr>re_src = e_src e, re_dst = str_of (e_dst e), re_raw = e_raw e, re_rel = e_rel e\<rparr>) (st_edges st)"

definition node_meta :: "store \<Rightarrow> graph_node list" where
  "node_meta st =
     map (\<lambda>r. (plain_node (m_id r) (m_title r) (str_of (m_taxonomy r)))
        \<lparr>gn_authority := authority_count st (m_id r), gn_superseded := is_superseded st (m_id r)\<rparr>) (st_mems st)"

definition tombstone_nodes :: "store \<Rightarrow> scope \<Rightarrow> graph_node list" where
  "tombstone_nodes st sc =
     map (\<lambda>t. (plain_node (t_id t) (t_title t) (str_of (t_taxonomy t)))
        \<lparr>gn_deleted := True, gn_deleted_at := Some (t_deleted t), gn_deleted_by := str_of (t_by t)\<rparr>)
       (tombstones st sc [] 0)"

definition node_at :: "graph_node list \<Rightarrow> string \<Rightarrow> graph_node option" where
  "node_at ns i = find (\<lambda>n. gn_id n = i) ns"

section \<open>The included memories\<close>

definition adjacent :: "graph_node list \<Rightarrow> raw_edge list \<Rightarrow> string \<Rightarrow> string list" where
  "adjacent meta edges i =
     concat (map (\<lambda>e.
       if re_dst e \<noteq> [] \<and> node_at meta (re_src e) \<noteq> None \<and> node_at meta (re_dst e) \<noteq> None
       then (if re_src e = i then [re_dst e] else []) @ (if re_dst e = i then [re_src e] else [])
       else []) edges)"

fun visit :: "'a list \<Rightarrow> 'a list \<Rightarrow> 'a list \<times> 'a list" where
  "visit [] seen = (seen, [])"
| "visit (nb # nbs) seen =
     (if nb \<in> set seen then visit nbs seen
      else (let (seen', next) = visit nbs (nb # seen) in (seen', nb # next)))"

fun expand :: "('a \<Rightarrow> 'a list) \<Rightarrow> 'a list \<Rightarrow> 'a list \<Rightarrow> 'a list \<times> 'a list" where
  "expand adj [] seen = (seen, [])"
| "expand adj (i # is) seen =
     (let (seen1, next1) = visit (adj i) seen;
          (seen2, next2) = expand adj is seen1
      in (seen2, next1 @ next2))"

fun bfs :: "('a \<Rightarrow> 'a list) \<Rightarrow> nat \<Rightarrow> 'a list \<Rightarrow> 'a list \<Rightarrow> 'a list" where
  "bfs adj 0 seen frontier = seen"
| "bfs adj (Suc d) seen frontier =
     (if frontier = [] then seen
      else (let (seen', next) = expand adj frontier seen in bfs adj d seen' next))"

definition graph_depth :: "int \<Rightarrow> nat" where
  "graph_depth depth = (let d = (if depth \<le> 0 then 2 else depth) in
     if int max_graph_depth < d then max_graph_depth else nat d)"

definition included_nodes ::
  "string \<Rightarrow> int \<Rightarrow> string \<Rightarrow> graph_node list \<Rightarrow> raw_edge list \<Rightarrow> string list" where
  "included_nodes center depth tax meta edges =
     (if center = []
      then map gn_id (filter (\<lambda>n. tax = [] \<or> gn_taxonomy n = tax \<or> prefix (tax @ ''.'') (gn_taxonomy n)) meta)
      else bfs (adjacent meta edges) (graph_depth depth) [center] [center])"

section \<open>Drawing the slice\<close>

fun draw_edges ::
  "string list \<Rightarrow> graph_node list \<Rightarrow> string list \<Rightarrow> raw_edge list \<Rightarrow> graph_node list \<times> graph_edge list" where
  "draw_edges incl leaves ghosts [] = ([], [])"
| "draw_edges incl leaves ghosts (e # es) =
     (if re_src e \<notin> set incl then draw_edges incl leaves ghosts es
      else if re_dst e \<noteq> [] then
        (case node_at leaves (re_dst e) of
           Some leaf \<Rightarrow>
             (let new = re_dst e \<notin> set ghosts;
                  (ns, gs) = draw_edges incl leaves (if new then re_dst e # ghosts else ghosts) es
              in (if new then leaf # ns else ns,
                  \<lparr>ge_src = re_src e, ge_dst = re_dst e, ge_rel = re_rel e\<rparr> # gs))
         | None \<Rightarrow>
             if re_dst e \<notin> set incl then draw_edges incl leaves ghosts es
             else (let (ns, gs) = draw_edges incl leaves ghosts es
                   in (ns, \<lparr>ge_src = re_src e, ge_dst = re_dst e, ge_rel = re_rel e\<rparr> # gs)))
      else
        (let gid = dangling_prefix @ re_raw e;
             new = gid \<notin> set ghosts;
             (ns, gs) = draw_edges incl leaves (if new then gid # ghosts else ghosts) es
         in (if new then (plain_node gid (re_raw e) [])\<lparr>gn_dangling := True\<rparr> # ns else ns,
             \<lparr>ge_src = re_src e, ge_dst = gid, ge_rel = re_rel e\<rparr> # gs)))"

definition readable_meta :: "store \<Rightarrow> scope \<Rightarrow> graph_node list" where
  "readable_meta st sc =
     (if unrestricted sc then node_meta st else filter (\<lambda>n. can_read sc (gn_taxonomy n)) (node_meta st))"

definition hidden_leaves :: "store \<Rightarrow> scope \<Rightarrow> graph_node list" where
  "hidden_leaves st sc =
     (if unrestricted sc then []
      else map (\<lambda>n. (plain_node (gn_id n) (gn_title n) (gn_taxonomy n))\<lparr>gn_hidden := True\<rparr>)
        (filter (\<lambda>n. \<not> can_read sc (gn_taxonomy n) \<and> title_visible sc (gn_taxonomy n)) (node_meta st)))"

definition graph :: "store \<Rightarrow> scope \<Rightarrow> string \<Rightarrow> int \<Rightarrow> string \<Rightarrow> db_error + link_graph" where
  "graph st sc center depth tax =
     (let edges = all_edges st;
          meta = readable_meta st sc;
          leaves = hidden_leaves st sc @ tombstone_nodes st sc
      in if center \<noteq> [] \<and> node_at meta center = None then Inl (NotFound center)
         else (let incl = included_nodes center depth tax meta edges;
                   real = map (\<lambda>i. case node_at meta i of Some n \<Rightarrow> n | None \<Rightarrow> plain_node [] [] []) incl;
                   (extra, drawn) = draw_edges incl leaves [] edges
               in Inr \<lparr>lg_center = center, lg_nodes = real @ extra, lg_edges = drawn\<rparr>))"

section \<open>Breadth-first search\<close>

lemma visit_sets:
  "set (fst (visit nbs seen)) = set seen \<union> set nbs \<and> set (snd (visit nbs seen)) = set nbs - set seen"
  by (induction nbs arbitrary: seen) (auto simp: case_prod_beta Let_def)

lemma expand_sets:
  "set (fst (expand adj is seen)) = set seen \<union> (\<Union>i \<in> set is. set (adj i))
     \<and> set (snd (expand adj is seen)) = (\<Union>i \<in> set is. set (adj i)) - set seen"
proof (induction "is" arbitrary: seen)
  case (Cons i "is")
  then show ?case using visit_sets [of "adj i" seen] by (auto simp: case_prod_beta Let_def)
qed simp

definition steps :: "('a \<Rightarrow> 'a list) \<Rightarrow> ('a \<times> 'a) set" where
  "steps adj = {(x, y). y \<in> set (adj x)}"

definition hops :: "('a \<Rightarrow> 'a list) \<Rightarrow> nat \<Rightarrow> 'a set \<Rightarrow> 'a set" where
  "hops adj n S = {y. \<exists>k \<le> n. \<exists>x \<in> S. (x, y) \<in> steps adj ^^ k}"

lemma hops_0 [simp]: "hops adj 0 S = S"
  by (auto simp: hops_def)

lemma hops_Suc: "hops adj (Suc n) S = hops adj n (S \<union> (\<Union>x \<in> S. set (adj x)))"
proof (intro set_eqI iffI)
  fix y assume "y \<in> hops adj (Suc n) S"
  then obtain k x where k: "k \<le> Suc n" "x \<in> S" "(x, y) \<in> steps adj ^^ k" by (auto simp: hops_def)
  show "y \<in> hops adj n (S \<union> (\<Union>x \<in> S. set (adj x)))"
  proof (cases k)
    case 0
    with k show ?thesis by (auto simp: hops_def intro!: exI [of _ 0])
  next
    case (Suc m)
    with k obtain z where "(x, z) \<in> steps adj" "(z, y) \<in> steps adj ^^ m"
      using relpow_Suc_E2 by metis
    moreover from this k have "z \<in> (\<Union>x \<in> S. set (adj x))" by (auto simp: steps_def)
    ultimately show ?thesis using k Suc by (auto simp: hops_def)
  qed
next
  fix y assume "y \<in> hops adj n (S \<union> (\<Union>x \<in> S. set (adj x)))"
  then obtain k x where k: "k \<le> n" "x \<in> S \<union> (\<Union>x \<in> S. set (adj x))" "(x, y) \<in> steps adj ^^ k"
    by (auto simp: hops_def)
  show "y \<in> hops adj (Suc n) S"
  proof (cases "x \<in> S")
    case True
    with k show ?thesis by (auto simp: hops_def intro!: exI [of _ k])
  next
    case False
    with k obtain w where "w \<in> S" "(w, x) \<in> steps adj" by (auto simp: steps_def)
    with k(3) have "(w, y) \<in> steps adj ^^ Suc k" by (meson relpow_Suc_I2)
    with \<open>w \<in> S\<close> k(1) show ?thesis unfolding hops_def by (metis (mono_tags, lifting) Suc_le_mono mem_Collect_eq)
  qed
qed

lemma hops_closed: "(\<Union>x \<in> S. set (adj x)) \<subseteq> S \<Longrightarrow> hops adj n S = S"
  by (induction n) (simp_all add: hops_Suc sup_absorb1)

text \<open>The loop keeps every neighbour of a visited memory that is not on the frontier visited.\<close>

lemma bfs_hops:
  "set frontier \<subseteq> set seen \<Longrightarrow> (\<Union>x \<in> set seen - set frontier. set (adj x)) \<subseteq> set seen \<Longrightarrow>
   set (bfs adj d seen frontier) = hops adj d (set seen)"
proof (induction d arbitrary: seen frontier)
  case 0
  then show ?case by simp
next
  case (Suc d)
  show ?case
  proof (cases "frontier = []")
    case True
    with Suc.prems show ?thesis by (simp add: hops_closed)
  next
    case False
    obtain seen' nxt where ex: "expand adj frontier seen = (seen', nxt)" by (cases "expand adj frontier seen")
    with expand_sets [of adj frontier seen] have
      seen': "set seen' = set seen \<union> (\<Union>i \<in> set frontier. set (adj i))" and
      nxt: "set nxt = (\<Union>i \<in> set frontier. set (adj i)) - set seen" by auto
    have all: "set seen' = set seen \<union> (\<Union>x \<in> set seen. set (adj x))"
      using Suc.prems unfolding seen' by blast
    have "set (bfs adj d seen' nxt) = hops adj d (set seen')"
    proof (rule Suc.IH)
      show "set nxt \<subseteq> set seen'" unfolding seen' nxt by blast
      have "set seen' - set nxt \<subseteq> set seen" unfolding seen' nxt by blast
      then have "(\<Union>x \<in> set seen' - set nxt. set (adj x)) \<subseteq> (\<Union>x \<in> set seen. set (adj x))" by blast
      then show "(\<Union>x \<in> set seen' - set nxt. set (adj x)) \<subseteq> set seen'" unfolding all by blast
    qed
    with False ex all show ?thesis by (simp add: hops_Suc)
  qed
qed

lemma bfs_center: "set (bfs adj d [c] [c]) = hops adj d {c}"
  using bfs_hops [of "[c]" "[c]" adj d] by simp

section \<open>What a slice may contain\<close>

lemma node_at_SomeD: "node_at ns i = Some n \<Longrightarrow> n \<in> set ns \<and> gn_id n = i"
  by (auto simp: node_at_def find_Some_iff)

lemma node_at_iff: "node_at ns i \<noteq> None \<longleftrightarrow> i \<in> gn_id ` set ns"
  by (auto simp: node_at_def find_None_iff image_iff)

lemma node_at_ex: "i \<in> gn_id ` set ns \<Longrightarrow> \<exists>n. node_at ns i = Some n"
  using node_at_iff [of ns i] by auto

definition ghost_of :: "raw_edge \<Rightarrow> graph_node" where
  "ghost_of e = (plain_node (dangling_prefix @ re_raw e) (re_raw e) [])\<lparr>gn_dangling := True\<rparr>"

lemma draw_edges_nodes:
  "n \<in> set (fst (draw_edges incl leaves gh es)) \<Longrightarrow>
     n \<in> set leaves \<or> (\<exists>e \<in> set es. re_src e \<in> set incl \<and> re_dst e = [] \<and> n = ghost_of e)"
proof (induction es arbitrary: gh)
  case (Cons e es)
  show ?case
  proof (cases "re_src e \<in> set incl \<and> re_dst e \<noteq> []")
    case True
    then show ?thesis
      using Cons.prems Cons.IH
      by (cases "node_at leaves (re_dst e)")
         (auto simp: case_prod_beta Let_def split: if_splits dest: node_at_SomeD)
  next
    case False
    then show ?thesis
      using Cons.prems Cons.IH
      by (auto simp: case_prod_beta Let_def ghost_of_def split: if_splits)
  qed
qed simp

definition drawn_from :: "string list \<Rightarrow> graph_node list \<Rightarrow> raw_edge \<Rightarrow> graph_edge \<Rightarrow> bool" where
  "drawn_from incl leaves e g \<longleftrightarrow> ge_src g = re_src e \<and> re_src e \<in> set incl \<and> ge_rel g = re_rel e
     \<and> (if re_dst e = [] then ge_dst g = dangling_prefix @ re_raw e
        else ge_dst g = re_dst e \<and> (re_dst e \<in> set incl \<or> node_at leaves (re_dst e) \<noteq> None))"

lemma draw_edges_edges:
  "g \<in> set (snd (draw_edges incl leaves gh es)) \<Longrightarrow> \<exists>e \<in> set es. drawn_from incl leaves e g"
proof (induction es arbitrary: gh)
  case (Cons e es)
  have new: "drawn_from incl leaves e \<lparr>ge_src = re_src e, ge_dst = d, ge_rel = re_rel e\<rparr>"
    if "re_src e \<in> set incl"
      "if re_dst e = [] then d = dangling_prefix @ re_raw e
       else d = re_dst e \<and> (re_dst e \<in> set incl \<or> node_at leaves (re_dst e) \<noteq> None)" for d
    using that by (auto simp: drawn_from_def split: if_splits)
  show ?case
  proof (cases "re_src e \<in> set incl \<and> re_dst e \<noteq> []")
    case True
    then show ?thesis
      using Cons.prems Cons.IH new [of "re_dst e"]
      by (cases "node_at leaves (re_dst e)") (auto simp: case_prod_beta Let_def split: if_splits)
  next
    case False
    then show ?thesis
      using Cons.prems Cons.IH new [of "dangling_prefix @ re_raw e"]
      by (auto simp: case_prod_beta Let_def split: if_splits)
  qed
qed simp

lemma ends_iff:
  fixes a b x y :: 'n
  shows "y \<in> set (if ok then (if a = x then [b] else []) @ (if b = x then [a] else []) else [])
     \<longleftrightarrow> ok \<and> (a = x \<and> b = y \<or> b = x \<and> a = y)"
  by (cases ok; cases "a = x"; cases "b = x"; simp; metis)

lemma adjacent_iff:
  "y \<in> set (adjacent meta edges x) \<longleftrightarrow>
     (\<exists>e \<in> set edges. re_dst e \<noteq> [] \<and> re_src e \<in> gn_id ` set meta \<and> re_dst e \<in> gn_id ` set meta
        \<and> (re_src e = x \<and> re_dst e = y \<or> re_dst e = x \<and> re_src e = y))"
proof -
  let ?ok = "\<lambda>e. re_dst e \<noteq> [] \<and> re_src e \<in> gn_id ` set meta \<and> re_dst e \<in> gn_id ` set meta"
  let ?f = "\<lambda>e. if ?ok e
       then (if re_src e = x then [re_dst e] else []) @ (if re_dst e = x then [re_src e] else []) else []"
  have "y \<in> set (?f e) \<longleftrightarrow> ?ok e \<and> (re_src e = x \<and> re_dst e = y \<or> re_dst e = x \<and> re_src e = y)" for e
    by (rule ends_iff)
  then have "(\<exists>e \<in> set edges. y \<in> set (?f e)) \<longleftrightarrow> (\<exists>e \<in> set edges. ?ok e
      \<and> (re_src e = x \<and> re_dst e = y \<or> re_dst e = x \<and> re_src e = y))"
    by (intro bex_cong refl)
  moreover have "adjacent meta edges x = concat (map ?f edges)"
    unfolding adjacent_def node_at_iff ..
  ultimately show ?thesis by (simp only: set_concat set_map UN_iff bex_simps image_iff conj_assoc)
qed

lemma hops_meta:
  assumes "c \<in> gn_id ` set meta" and "y \<in> hops (adjacent meta edges) d {c}"
  shows "y \<in> gn_id ` set meta"
proof -
  from assms(2) obtain k where "(c, y) \<in> steps (adjacent meta edges) ^^ k" by (auto simp: hops_def)
  then show ?thesis
  proof (cases k)
    case 0
    then show ?thesis using assms(1) \<open>(c, y) \<in> _\<close> by simp
  next
    case (Suc m)
    then obtain z where "(z, y) \<in> steps (adjacent meta edges)"
      using \<open>(c, y) \<in> _\<close> relpow_Suc_E by metis
    then show ?thesis by (auto simp: steps_def adjacent_iff)
  qed
qed

lemma included_in_meta:
  assumes "center \<noteq> [] \<Longrightarrow> center \<in> gn_id ` set meta" and "y \<in> set (included_nodes center depth tax meta edges)"
  shows "y \<in> gn_id ` set meta"
proof (cases "center = []")
  case True
  with assms(2) show ?thesis by (auto simp: included_nodes_def)
next
  case False
  with assms show ?thesis using hops_meta [of center meta y] by (auto simp: included_nodes_def bfs_center)
qed

text \<open>The identifiers of the memories a scope may read, and the hops between two of them.\<close>

definition readable_ids :: "store \<Rightarrow> scope \<Rightarrow> string set" where
  "readable_ids st sc = {m_id r | r. r \<in> set (st_mems st) \<and> can_read sc (str_of (m_taxonomy r))}"

definition link_rel :: "store \<Rightarrow> scope \<Rightarrow> (string \<times> string) set" where
  "link_rel st sc = {(x, y). x \<in> readable_ids st sc \<and> y \<in> readable_ids st sc
     \<and> (\<exists>e \<in> set (st_edges st). e_src e = x \<and> e_dst e = Some y \<or> e_src e = y \<and> e_dst e = Some x)}"

lemma node_meta_mem:
  "n \<in> set (node_meta st) \<longleftrightarrow> (\<exists>r \<in> set (st_mems st). n = (plain_node (m_id r) (m_title r) (str_of (m_taxonomy r)))
        \<lparr>gn_authority := authority_count st (m_id r), gn_superseded := is_superseded st (m_id r)\<rparr>)"
  by (auto simp: node_meta_def)

lemma plain_node_simps [simp]:
  "gn_id (plain_node i t x) = i" "gn_title (plain_node i t x) = t" "gn_taxonomy (plain_node i t x) = x"
  "gn_authority (plain_node i t x) = 0" "gn_hidden (plain_node i t x) = False"
  "gn_deleted (plain_node i t x) = False" "gn_dangling (plain_node i t x) = False"
  by (simp_all add: plain_node_def)

lemma readable_meta_ids: "gn_id ` set (readable_meta st sc) = readable_ids st sc"
proof -
  have "set (readable_meta st sc) = {n \<in> set (node_meta st). can_read sc (gn_taxonomy n)}"
    by (auto simp: readable_meta_def unrestricted_def can_read_def)
  then show ?thesis
    unfolding readable_ids_def by (force simp: node_meta_mem image_iff)
qed

lemma node_at_readable: "node_at (readable_meta st sc) i \<noteq> None \<longleftrightarrow> i \<in> readable_ids st sc"
  by (simp only: node_at_iff readable_meta_ids)

lemma steps_readable:
  assumes "[] \<notin> mem_ids st"
  shows "steps (adjacent (readable_meta st sc) (all_edges st)) = link_rel st sc"
proof -
  have ne: "[] \<notin> readable_ids st sc" using assms by (auto simp: readable_ids_def)
  show ?thesis
  proof (intro set_eqI iffI)
    fix p assume p: "p \<in> steps (adjacent (readable_meta st sc) (all_edges st))"
    obtain x y where xy: "p = (x, y)" by (cases p)
    with p obtain e' where e': "e' \<in> set (st_edges st)" "str_of (e_dst e') \<noteq> []" "e_src e' \<in> readable_ids st sc"
      "str_of (e_dst e') \<in> readable_ids st sc"
      "e_src e' = x \<and> str_of (e_dst e') = y \<or> str_of (e_dst e') = x \<and> e_src e' = y"
      unfolding steps_def by (auto simp: adjacent_iff readable_meta_ids all_edges_def)
    then show "p \<in> link_rel st sc"
      using xy by (cases "e_dst e'") (auto simp: link_rel_def)
  next
    fix p assume p: "p \<in> link_rel st sc"
    obtain x y where xy: "p = (x, y)" by (cases p)
    with p obtain e' where e': "e' \<in> set (st_edges st)" "x \<in> readable_ids st sc" "y \<in> readable_ids st sc"
      "e_src e' = x \<and> e_dst e' = Some y \<or> e_src e' = y \<and> e_dst e' = Some x" by (auto simp: link_rel_def)
    let ?e = "\<lparr>re_src = e_src e', re_dst = str_of (e_dst e'), re_raw = e_raw e', re_rel = e_rel e'\<rparr>"
    have "?e \<in> set (all_edges st)" using e'(1) by (simp add: all_edges_def)
    moreover have "re_dst ?e \<noteq> []" "re_src ?e \<in> readable_ids st sc" "re_dst ?e \<in> readable_ids st sc"
      using e' ne by auto
    moreover have "re_src ?e = x \<and> re_dst ?e = y \<or> re_dst ?e = x \<and> re_src ?e = y"
      using e'(4) by auto
    ultimately have "y \<in> set (adjacent (readable_meta st sc) (all_edges st) x)"
      unfolding adjacent_iff readable_meta_ids by blast
    then show "p \<in> steps (adjacent (readable_meta st sc) (all_edges st))"
      using xy by (simp add: steps_def)
  qed
qed

lemma graph_cases:
  assumes "graph st sc center depth tax = Inr g"
  shows "(center \<noteq> [] \<longrightarrow> center \<in> readable_ids st sc)
     \<and> lg_nodes g = map (\<lambda>i. case node_at (readable_meta st sc) i of Some n \<Rightarrow> n | None \<Rightarrow> plain_node [] [] [])
          (included_nodes center depth tax (readable_meta st sc) (all_edges st))
        @ fst (draw_edges (included_nodes center depth tax (readable_meta st sc) (all_edges st))
            (hidden_leaves st sc @ tombstone_nodes st sc) [] (all_edges st))
     \<and> lg_edges g = snd (draw_edges (included_nodes center depth tax (readable_meta st sc) (all_edges st))
            (hidden_leaves st sc @ tombstone_nodes st sc) [] (all_edges st))"
  using assms node_at_readable [of st sc center]
  by (auto simp: graph_def Let_def case_prod_beta split: if_splits)

lemma graph_included_readable:
  assumes "graph st sc center depth tax = Inr g"
    and "i \<in> set (included_nodes center depth tax (readable_meta st sc) (all_edges st))"
  shows "i \<in> readable_ids st sc"
  using included_in_meta [of center "readable_meta st sc" i] graph_cases [OF assms(1)] assms(2)
  by (metis readable_meta_ids)

text \<open>The four kinds of node of a slice.\<close>

definition full_node :: "store \<Rightarrow> scope \<Rightarrow> graph_node \<Rightarrow> bool" where
  "full_node st sc n \<longleftrightarrow> (\<exists>r \<in> set (st_mems st). can_read sc (str_of (m_taxonomy r))
     \<and> n = (plain_node (m_id r) (m_title r) (str_of (m_taxonomy r)))
        \<lparr>gn_authority := authority_count st (m_id r), gn_superseded := is_superseded st (m_id r)\<rparr>)"

definition title_leaf :: "store \<Rightarrow> scope \<Rightarrow> graph_node \<Rightarrow> bool" where
  "title_leaf st sc n \<longleftrightarrow> (\<exists>r \<in> set (st_mems st). \<not> can_read sc (str_of (m_taxonomy r))
     \<and> title_visible sc (str_of (m_taxonomy r))
     \<and> n = (plain_node (m_id r) (m_title r) (str_of (m_taxonomy r)))\<lparr>gn_hidden := True\<rparr>)"

definition tomb_leaf :: "store \<Rightarrow> scope \<Rightarrow> graph_node \<Rightarrow> bool" where
  "tomb_leaf st sc n \<longleftrightarrow> (\<exists>t \<in> set (st_tombs st). clause_sat (title_clause sc) (t_taxonomy t)
     \<and> gn_id n = t_id t \<and> gn_title n = t_title t \<and> gn_deleted n \<and> gn_authority n = 0)"

definition ghost_node :: "store \<Rightarrow> scope \<Rightarrow> graph_node \<Rightarrow> bool" where
  "ghost_node st sc n \<longleftrightarrow> (\<exists>e \<in> set (st_edges st). e_src e \<in> readable_ids st sc \<and> str_of (e_dst e) = []
     \<and> n = (plain_node (dangling_prefix @ e_raw e) (e_raw e) [])\<lparr>gn_dangling := True\<rparr>)"

lemma tombstones_all: "set (tombstones st sc [] 0) = {t \<in> set (st_tombs st). clause_sat (title_clause sc) (t_taxonomy t)}"
  by (auto simp: tombstones_def Let_def branch_filter_def)

lemma leaves_kinds:
  "n \<in> set (hidden_leaves st sc @ tombstone_nodes st sc) \<Longrightarrow> title_leaf st sc n \<or> tomb_leaf st sc n"
  by (auto simp: hidden_leaves_def tombstone_nodes_def tombstones_all title_leaf_def tomb_leaf_def
      node_meta_mem split: if_splits)

lemma graph_nodes_kinds:
  assumes g: "graph st sc center depth tax = Inr g" and n: "n \<in> set (lg_nodes g)"
  shows "full_node st sc n \<or> title_leaf st sc n \<or> tomb_leaf st sc n \<or> ghost_node st sc n"
proof -
  let ?meta = "readable_meta st sc" and ?leaves = "hidden_leaves st sc @ tombstone_nodes st sc"
  let ?incl = "included_nodes center depth tax ?meta (all_edges st)"
  from n graph_cases [OF g] consider
      (real) i where "i \<in> set ?incl" "n = (case node_at ?meta i of Some n \<Rightarrow> n | None \<Rightarrow> plain_node [] [] [])"
    | (extra) "n \<in> set (fst (draw_edges ?incl ?leaves [] (all_edges st)))" by auto
  then show ?thesis
  proof cases
    case real
    then obtain n' where "node_at ?meta i = Some n'"
      using graph_included_readable [OF g] node_at_readable by blast
    with real have "n \<in> set ?meta" by (auto dest: node_at_SomeD)
    then show ?thesis
      by (auto simp: readable_meta_def unrestricted_def can_read_def node_meta_mem full_node_def split: if_splits)
  next
    case extra
    from draw_edges_nodes [OF this] show ?thesis
    proof
      assume "n \<in> set ?leaves"
      then show ?thesis using leaves_kinds by blast
    next
      assume "\<exists>e \<in> set (all_edges st). re_src e \<in> set ?incl \<and> re_dst e = [] \<and> n = ghost_of e"
      then show ?thesis
        using graph_included_readable [OF g] by (auto simp: all_edges_def ghost_of_def ghost_node_def)
    qed
  qed
qed

end
