(* ===== verification/Link_Suggest.thy ===== *)
theory Link_Suggest
  imports Query_Facts "HOL-Library.AList"
begin

text \<open>
  Suggested links (\<^verbatim>\<open>internal/db/suggest.go\<close>): pairs of readable memories with textual overlap
  and no edge between them. The full-text rank is the parameter of \<open>Memory_Query\<close>; the map from
  pair keys to the best suggestion is an association list.
\<close>

record suggestion =
  sg_source :: scoped_memory
  sg_target :: scoped_memory
  sg_score :: rat

definition candidates_per_source :: nat where "candidates_per_source = 5"

definition pair_key :: "string \<Rightarrow> string \<Rightarrow> string" where
  "pair_key a b = (if b < a then b @ CHR 0x00 # a else a @ CHR 0x00 # b)"

definition fts_or_query :: "(string \<Rightarrow> bool) \<Rightarrow> string \<Rightarrow> string" where
  "fts_or_query wide s =
     (let fields = query_fields wide s in
      if fields = [] then [] else join_with '' OR '' (map (\<lambda>f. CHR 0x22 # f @ [CHR 0x22]) fields))"

definition linked_pairs :: "store \<Rightarrow> string list" where
  "linked_pairs st = [pair_key (e_src e) d. e \<leftarrow> st_edges st, d \<leftarrow> (case e_dst e of None \<Rightarrow> [] | Some d \<Rightarrow> [d])]"

definition suggest_candidates ::
  "(string \<Rightarrow> fts_row \<Rightarrow> rat option) \<Rightarrow> store \<Rightarrow> scope \<Rightarrow> string \<Rightarrow> string \<Rightarrow> (rat \<times> mem_row) list" where
  "suggest_candidates rank st sc expr src =
     take candidates_per_source
       (sort_key fst (filter (\<lambda>(k, r). m_id r \<noteq> src) (search_rows rank st sc expr [])))"

definition keep_best :: "string \<Rightarrow> suggestion \<Rightarrow> (string \<times> suggestion) list \<Rightarrow> (string \<times> suggestion) list" where
  "keep_best key s best =
     (case map_of best key of
        Some cur \<Rightarrow> if sg_score s \<le> sg_score cur then best else AList.update key s best
      | None \<Rightarrow> AList.update key s best)"

fun add_candidates ::
  "string list \<Rightarrow> scoped_memory \<Rightarrow> (rat \<times> mem_row) list \<Rightarrow> (string \<times> suggestion) list
     \<Rightarrow> (string \<times> suggestion) list" where
  "add_candidates linked s [] best = best"
| "add_candidates linked s ((k, r) # rest) best =
     (let key = pair_key (sm_id s) (m_id r) in
      if key \<in> set linked then add_candidates linked s rest best
      else add_candidates linked s rest
             (keep_best key \<lparr>sg_source = s, sg_target = scoped_of r, sg_score = - k\<rparr> best))"

fun suggest_loop ::
  "(string \<Rightarrow> bool) \<Rightarrow> (string \<Rightarrow> fts_row \<Rightarrow> rat option) \<Rightarrow> store \<Rightarrow> scope \<Rightarrow> mem_row list
     \<Rightarrow> (string \<times> suggestion) list \<Rightarrow> (string \<times> suggestion) list" where
  "suggest_loop wide rank st sc [] best = best"
| "suggest_loop wide rank st sc (s # rest) best =
     (let expr = fts_or_query wide (m_title s) in
      if expr = [] then suggest_loop wide rank st sc rest best
      else suggest_loop wide rank st sc rest
             (add_candidates (linked_pairs st) (scoped_of s)
                (suggest_candidates rank st sc expr (m_id s)) best))"

definition suggest_links ::
  "(string \<Rightarrow> bool) \<Rightarrow> (string \<Rightarrow> fts_row \<Rightarrow> rat option) \<Rightarrow> store \<Rightarrow> scope \<Rightarrow> int \<Rightarrow> suggestion list" where
  "suggest_links wide rank st sc limit =
     (let lim = (if limit \<le> 0 then 20 else limit);
          sources = filter (\<lambda>r. clause_sat (read_clause sc) (m_taxonomy r)) (st_mems st);
          best = suggest_loop wide rank st sc sources [];
          out = sort_key (\<lambda>s. - sg_score s) (sort_key (\<lambda>s. sm_id (sg_source s)) (map snd best))
      in take (nat lim) out)"

section \<open>What a suggestion is\<close>

definition readable_row :: "store \<Rightarrow> scope \<Rightarrow> scoped_memory \<Rightarrow> bool" where
  "readable_row st sc s \<longleftrightarrow>
     (\<exists>r \<in> set (st_mems st). s = scoped_of r \<and> clause_sat (read_clause sc) (m_taxonomy r))"

definition good_entry :: "store \<Rightarrow> scope \<Rightarrow> string \<times> suggestion \<Rightarrow> bool" where
  "good_entry st sc p \<longleftrightarrow> (case p of (key, s) \<Rightarrow>
     key = pair_key (sm_id (sg_source s)) (sm_id (sg_target s)) \<and> key \<notin> set (linked_pairs st)
     \<and> sm_id (sg_source s) \<noteq> sm_id (sg_target s)
     \<and> readable_row st sc (sg_source s) \<and> readable_row st sc (sg_target s))"

definition good_best :: "store \<Rightarrow> scope \<Rightarrow> (string \<times> suggestion) list \<Rightarrow> bool" where
  "good_best st sc best \<longleftrightarrow> distinct (map fst best) \<and> list_all (good_entry st sc) best"

lemma good_keep_best:
  assumes "good_best st sc best" and "good_entry st sc (key, s)"
  shows "good_best st sc (keep_best key s best)"
proof -
  have "set (AList.update key s best) \<subseteq> insert (key, s) (set best)"
    by (induction best) auto
  then have "good_best st sc (AList.update key s best)"
    using assms by (auto simp: good_best_def list_all_iff distinct_update)
  with assms(1) show ?thesis by (auto simp: keep_best_def split: option.splits)
qed

lemma good_add_candidates:
  assumes "good_best st sc best" and "readable_row st sc s"
    and "\<forall>(k, r) \<in> set cs. m_id r \<noteq> sm_id s \<and> readable_row st sc (scoped_of r)"
  shows "good_best st sc (add_candidates (linked_pairs st) s cs best)"
  using assms
proof (induction cs arbitrary: best)
  case (Cons c cs)
  obtain k r where c: "c = (k, r)" by (cases c)
  have "good_entry st sc (pair_key (sm_id s) (m_id r), \<lparr>sg_source = s, sg_target = scoped_of r, sg_score = - k\<rparr>)"
    if "pair_key (sm_id s) (m_id r) \<notin> set (linked_pairs st)"
    using that Cons.prems c by (auto simp: good_entry_def)
  with Cons good_keep_best c show ?case by (simp add: Let_def)
qed simp

lemma suggest_candidates_mem:
  "(k, r) \<in> set (suggest_candidates rank st sc expr src) \<Longrightarrow>
     m_id r \<noteq> src \<and> r \<in> set (st_mems st) \<and> clause_sat (read_clause sc) (m_taxonomy r)"
  by (auto simp: suggest_candidates_def search_rows_mem dest!: in_set_takeD)

lemma good_suggest_loop:
  assumes "good_best st sc best"
    and "\<forall>r \<in> set rows. r \<in> set (st_mems st) \<and> clause_sat (read_clause sc) (m_taxonomy r)"
  shows "good_best st sc (suggest_loop wide rank st sc rows best)"
  using assms
proof (induction rows arbitrary: best)
  case (Cons r rows)
  have "readable_row st sc (scoped_of r)" using Cons.prems(2) by (auto simp: readable_row_def)
  moreover have "\<forall>(k, r') \<in> set (suggest_candidates rank st sc expr (m_id r)).
      m_id r' \<noteq> sm_id (scoped_of r) \<and> readable_row st sc (scoped_of r')" for expr
    by (auto simp: readable_row_def dest: suggest_candidates_mem)
  ultimately have "good_best st sc (add_candidates (linked_pairs st) (scoped_of r)
      (suggest_candidates rank st sc expr (m_id r)) best)" for expr
    using good_add_candidates Cons.prems(1) by blast
  with Cons show ?case by (simp add: Let_def)
qed simp

lemma suggest_links_good:
  assumes "s \<in> set (suggest_links wide rank st sc limit)"
  shows "good_entry st sc (pair_key (sm_id (sg_source s)) (sm_id (sg_target s)), s)"
proof -
  let ?best = "suggest_loop wide rank st sc (filter (\<lambda>r. clause_sat (read_clause sc) (m_taxonomy r)) (st_mems st)) []"
  have "good_best st sc ?best"
    by (rule good_suggest_loop) (auto simp: good_best_def)
  moreover from assms obtain key where "(key, s) \<in> set ?best"
    by (auto simp: suggest_links_def Let_def dest!: in_set_takeD)
  ultimately show ?thesis by (auto simp: good_best_def list_all_iff good_entry_def)
qed

lemma pair_key_commute: "pair_key a b = pair_key b a"
  by (auto simp: pair_key_def)

lemma linked_pairs_mem:
  "e \<in> set (st_edges st) \<Longrightarrow> e_dst e = Some d \<Longrightarrow> pair_key (e_src e) d \<in> set (linked_pairs st)"
  by (force simp: linked_pairs_def)

end
