(* ===== verification/Store_Machine.thy ===== *)
theory Store_Machine
  imports Review_Deck Tenant_Members Taxonomy_Template Link_Graph Link_Suggest
begin

text \<open>
  One tenant file as a state machine: a step is one committed transaction of any operation of the
  store, the review deck, the roster or the template. The invariants of the parts hold in every
  reachable file; tombstones and revisions are permanent; titles stay unique.
\<close>

section \<open>Steps\<close>

inductive store_step :: "(rat \<Rightarrow> rat) \<Rightarrow> store \<Rightarrow> store \<Rightarrow> bool" for fl where
  Insert: "newid \<notin> tomb_ids st \<Longrightarrow> insert_memory newid now nm author agent st = Inr (mem, st') \<Longrightarrow>
     store_step fl st st'"
| Update: "update_memory i u author agent base now st = Inr (mem, st') \<Longrightarrow> store_step fl st st'"
| Delete: "delete_memory i by_id now st = Inr st' \<Longrightarrow> store_step fl st st'"
| Rebuild: "rebuild_edges st = Inr st' \<Longrightarrow> store_step fl st st'"
| Enrol: "add_to_review i now st = Inr (s, st') \<Longrightarrow> store_step fl st st'"
| Unenrol: "st' = remove_from_review i st \<Longrightarrow> store_step fl st st'"
| Grade: "grade_review fl i g now st = Inr (s, st') \<Longrightarrow> store_step fl st st'"
| PutMember: "put_member i role rd ti by_id now st = Inr st' \<Longrightarrow> store_step fl st st'"
| RemoveMember: "remove_member_row i st = Inr st' \<Longrightarrow> store_step fl st st'"
| SetTemplate: "st' = set_taxonomy_template bs st \<Longrightarrow> store_step fl st st'"

inductive_cases store_stepE: "store_step fl st st'"

abbreviation store_steps :: "(rat \<Rightarrow> rat) \<Rightarrow> store \<Rightarrow> store \<Rightarrow> bool" where
  "store_steps fl \<equiv> (store_step fl)\<^sup>*\<^sup>*"

definition file_ok :: "(rat \<Rightarrow> rat) \<Rightarrow> store \<Rightarrow> bool" where
  "file_ok fl st \<longleftrightarrow> store_inv st \<and> deck_ok fl st \<and> inv_members st
     \<and> tbl_wf br_path (st_template st) \<and> [] \<notin> br_path ` set (st_template st)"

section \<open>Frames\<close>

lemma inserted_simps [simp]:
  "st_mems (inserted i now nm a g st) = st_mems st @ [new_row i now nm st]"
  "st_revs (inserted i now nm a g st) = st_revs st @ [rev_of (created i now nm) a g now]"
  "st_tombs (inserted i now nm a g st) = st_tombs st" "st_srs (inserted i now nm a g st) = st_srs st"
  "st_members (inserted i now nm a g st) = st_members st" "st_grants (inserted i now nm a g st) = st_grants st"
  "st_template (inserted i now nm a g st) = st_template st"
  by (simp_all add: inserted_def Let_def)

lemma updated_simps [simp]:
  "st_mems (updated i u a g now old st) = tbl_upd m_id i (apply_updates u now) (st_mems st)"
  "st_revs (updated i u a g now old st) = st_revs st @ [rev_of (scan_memory (apply_updates u now old)) a g now]"
  "st_tombs (updated i u a g now old st) = st_tombs st" "st_srs (updated i u a g now old st) = st_srs st"
  "st_members (updated i u a g now old st) = st_members st" "st_grants (updated i u a g now old st) = st_grants st"
  "st_template (updated i u a g now old st) = st_template st"
  by (simp_all add: updated_def Let_def)

lemma deleted_simps [simp]:
  "st_mems (deleted i b now r st) = tbl_del m_id i (st_mems st)"
  "st_revs (deleted i b now r st) = filter (\<lambda>x. r_id x \<noteq> i) (st_revs st)"
  "st_tombs (deleted i b now r st) = st_tombs st @ [tomb_row (scan_memory r) b now]"
  "st_srs (deleted i b now r st) = filter (\<lambda>x. s_id x \<noteq> i) (st_srs st)"
  "st_edges (deleted i b now r st) = filter (\<lambda>e. e_src e \<noteq> i) (st_edges st)"
  "st_members (deleted i b now r st) = st_members st" "st_grants (deleted i b now r st) = st_grants st"
  "st_template (deleted i b now r st) = st_template st"
  by (simp_all add: deleted_def)

lemma rebuild_frame:
  assumes "store_inv st" and "rebuild_edges st = Inr st'"
  shows "\<exists>es. st' = st\<lparr>st_edges := es\<rparr>"
  using rebuild_edges_ok [OF assms(1)] assms(2) by auto

lemma add_to_review_frame:
  "add_to_review i now st = Inr (s, st') \<Longrightarrow>
     st' = st\<lparr>st_srs := st_srs st'\<rparr> \<and> set (st_srs st') \<subseteq> insert (fresh_card i now) (set (st_srs st))"
  by (auto simp: add_to_review_def Let_def tbl_ins_def split: if_splits sum.splits)

lemma grade_review_frame:
  "grade_review fl i g now st = Inr (s, st') \<Longrightarrow>
     st' = st\<lparr>st_srs := st_srs st'\<rparr> \<and> set (st_srs st') \<subseteq> insert s (set (st_srs st))"
  by (auto simp: grade_review_cases set_tbl_upd)

lemma put_member_frame:
  "put_member i role rd ti b now st = Inr st' \<Longrightarrow> \<exists>ms gs. st' = st\<lparr>st_members := ms, st_grants := gs\<rparr>"
  by (auto simp: put_member_def Let_def split: if_splits)

lemma remove_member_frame:
  "remove_member_row i st = Inr st' \<Longrightarrow> \<exists>ms gs. st' = st\<lparr>st_members := ms, st_grants := gs\<rparr>"
  by (auto simp: remove_member_row_def split: if_splits)

lemma store_inv_roster [simp]:
  "store_inv (st\<lparr>st_members := ms, st_grants := gs\<rparr>) = store_inv st"
  "store_inv (st\<lparr>st_template := bs\<rparr>) = store_inv st"
  by (simp_all add: store_inv_def inv_defs versions_of_def)

section \<open>Invariants of every reachable file\<close>

lemma step_store_inv:
  assumes "store_step fl st st'" and "store_inv st"
  shows "store_inv st'"
  using assms
proof (cases rule: store_step.cases)
  case (Rebuild)
  with assms(2) rebuild_edges_ok [of st] show ?thesis by auto
next
  case (PutMember i role rd ti b now)
  with assms(2) show ?thesis using put_member_frame by fastforce
next
  case (RemoveMember i)
  with assms(2) show ?thesis using remove_member_frame by fastforce
qed (auto intro: insert_memory_inv update_memory_inv delete_memory_inv add_to_review_inv
    remove_from_review_inv grade_review_inv simp: set_taxonomy_template_def)

lemma step_members_inv:
  assumes "store_step fl st st'" and "store_inv st" and "inv_members st"
  shows "inv_members st'"
proof -
  have same: "inv_members t" if "st_members t = st_members st" "st_grants t = st_grants st" for t
    using that assms(3) by (simp add: inv_members_def)
  from assms(1) show ?thesis
  proof (cases rule: store_step.cases)
    case (Insert newid now nm a g mem)
    then show ?thesis using insert_memory_cases [OF assms(2) Insert(2)] by (auto intro: same)
  next
    case (Update i u a g base now mem)
    then show ?thesis using update_memory_cases [OF assms(2) Update] by (auto intro: same)
  next
    case (Delete i b now)
    then show ?thesis using delete_memory_cases [OF assms(2) Delete] by (auto intro: same)
  next
    case Rebuild
    then show ?thesis using rebuild_frame [OF assms(2) Rebuild] by (auto intro: same)
  next
    case (Enrol i now s)
    then show ?thesis using add_to_review_frame [OF Enrol] by (metis same store.surjective store.update_convs(4) store.select_convs(8) store.select_convs(9))
  next
    case (Unenrol i)
    then show ?thesis by (auto intro: same simp: remove_from_review_def)
  next
    case (Grade i g now s)
    then show ?thesis using grade_review_cases [of fl i g now st s st'] by (auto intro: same)
  next
    case (PutMember i role rd ti b now)
    then show ?thesis using assms(3) put_member_inv by blast
  next
    case (RemoveMember i)
    then show ?thesis using assms(3) remove_member_inv by blast
  next
    case (SetTemplate bs)
    then show ?thesis by (auto intro: same simp: set_taxonomy_template_def)
  qed
qed

lemma step_template_inv:
  assumes "store_step fl st st'" and "store_inv st"
    and "tbl_wf br_path (st_template st)" and "[] \<notin> br_path ` set (st_template st)"
  shows "tbl_wf br_path (st_template st') \<and> [] \<notin> br_path ` set (st_template st')"
proof -
  have same: "?thesis" if "st_template st' = st_template st" using that assms by simp
  from assms(1) show ?thesis
  proof (cases rule: store_step.cases)
    case (Insert newid now nm a g mem)
    then show ?thesis using insert_memory_cases [OF assms(2) Insert(2)] by (intro same) auto
  next
    case (Update i u a g base now mem)
    then show ?thesis using update_memory_cases [OF assms(2) Update] by (intro same) auto
  next
    case (Delete i b now)
    then show ?thesis using delete_memory_cases [OF assms(2) Delete] by (intro same) auto
  next
    case Rebuild
    then show ?thesis using rebuild_frame [OF assms(2) Rebuild] by (intro same) auto
  next
    case (Enrol i now s)
    then show ?thesis using add_to_review_frame [OF Enrol]
      by (metis same store.surjective store.update_convs(4) store.select_convs(7))
  next
    case (Unenrol i)
    then show ?thesis by (intro same) (simp add: remove_from_review_def)
  next
    case (Grade i g now s)
    then show ?thesis using grade_review_cases [of fl i g now st s st'] by (intro same) auto
  next
    case (PutMember i role rd ti b now)
    then show ?thesis using put_member_frame [OF PutMember] by (intro same) auto
  next
    case (RemoveMember i)
    then show ?thesis using remove_member_frame [OF RemoveMember] by (intro same) auto
  next
    case (SetTemplate bs)
    then show ?thesis using store_branches_wf [of "[]" 0 bs] by (simp add: set_taxonomy_template_def)
  qed
qed

lemma step_deck_inv:
  assumes "store_step fl st st'" and "store_inv st" and "deck_ok fl st" and "fl min_ease \<le> 5 / 2"
  shows "deck_ok fl st'"
proof -
  have sub: "deck_ok fl st'" if "set (st_srs st') \<subseteq> set (st_srs st)" using that assms(3) by (auto simp: deck_ok_def)
  from assms(1) show ?thesis
  proof (cases rule: store_step.cases)
    case (Insert newid now nm a g mem)
    then show ?thesis using insert_memory_cases [OF assms(2) Insert(2)] by (intro sub) auto
  next
    case (Update i u a g base now mem)
    then show ?thesis using update_memory_cases [OF assms(2) Update] by (intro sub) auto
  next
    case (Delete i b now)
    then show ?thesis using delete_memory_cases [OF assms(2) Delete] by (intro sub) auto
  next
    case Rebuild
    then show ?thesis using rebuild_frame [OF assms(2) Rebuild] by (intro sub) auto
  next
    case (Enrol i now s)
    have "card_ok fl (fresh_card i now)" using assms(4) by (rule fresh_card_ok)
    then show ?thesis using add_to_review_frame [OF Enrol] assms(3) by (auto simp: deck_ok_def)
  next
    case (Unenrol i)
    then show ?thesis by (intro sub) (auto simp: remove_from_review_def set_tbl_del)
  next
    case (Grade i g now s)
    then obtain s0 where "tbl_get s_id i (st_srs st) = Some s0" "s = grade_card fl g now s0"
      by (auto simp: grade_review_cases)
    then have "card_ok fl s" using assms(3) by (auto simp: deck_ok_def intro: grade_card_ok dest: tbl_get_SomeD)
    then show ?thesis using grade_review_frame [OF Grade] assms(3) by (auto simp: deck_ok_def)
  next
    case (PutMember i role rd ti b now)
    then show ?thesis using put_member_frame [OF PutMember] by (intro sub) auto
  next
    case (RemoveMember i)
    then show ?thesis using remove_member_frame [OF RemoveMember] by (intro sub) auto
  next
    case (SetTemplate bs)
    then show ?thesis by (intro sub) (simp add: set_taxonomy_template_def)
  qed
qed

lemma file_ok_empty: "file_ok fl empty_store"
  by (simp add: file_ok_def store_inv_empty deck_ok_def inv_members_def) (simp add: empty_store_def)

lemma step_file_ok:
  "store_step fl st st' \<Longrightarrow> file_ok fl st \<Longrightarrow> fl min_ease \<le> 5 / 2 \<Longrightarrow> file_ok fl st'"
  unfolding file_ok_def
  using step_store_inv [of fl st st'] step_members_inv [of fl st st'] step_template_inv [of fl st st']
    step_deck_inv [of fl st st'] by blast

lemma steps_file_ok:
  "store_steps fl st st' \<Longrightarrow> file_ok fl st \<Longrightarrow> fl min_ease \<le> 5 / 2 \<Longrightarrow> file_ok fl st'"
  by (induction rule: rtranclp_induct) (auto intro: step_file_ok)

lemma steps_store_inv: "store_steps fl st st' \<Longrightarrow> store_inv st \<Longrightarrow> store_inv st'"
  by (induction rule: rtranclp_induct) (auto intro: step_store_inv)

section \<open>Tombstones and revisions are permanent\<close>

text \<open>How a step may change the memories, revisions and tombstones: one of five shapes.\<close>

lemma step_effect:
  assumes "store_step fl st st'" and "store_inv st"
  shows "(st_mems st' = st_mems st \<and> st_revs st' = st_revs st \<and> st_tombs st' = st_tombs st)
    \<or> (\<exists>i now nm a g. i \<notin> mem_ids st \<union> tomb_ids st \<and> st' = inserted i now nm a g st
          \<and> title_conflict st (nm_title nm) i = None)
    \<or> (\<exists>i u a g now old. tbl_get m_id i (st_mems st) = Some old \<and> st' = updated i u a g now old st
          \<and> update_title_clash st i u = None)
    \<or> (\<exists>i b now r. tbl_get m_id i (st_mems st) = Some r \<and> st' = deleted i b now r st)"
  using assms(1)
proof (cases rule: store_step.cases)
  case (Insert newid now nm a g mem)
  then show ?thesis using insert_memory_cases [OF assms(2) Insert(2)] by blast
next
  case (Update i u a g base now mem)
  then show ?thesis using update_memory_cases [OF assms(2) Update] by blast
next
  case (Delete i b now)
  then show ?thesis using delete_memory_cases [OF assms(2) Delete] by blast
next
  case Rebuild
  then show ?thesis using rebuild_frame [OF assms(2) Rebuild] by auto
next
  case (Enrol i now s)
  then show ?thesis using add_to_review_frame [OF Enrol]
    by (metis store.surjective store.update_convs(4) store.select_convs(1,5,6))
next
  case (Unenrol i)
  then show ?thesis by (simp add: remove_from_review_def)
next
  case (Grade i g now s)
  then show ?thesis using grade_review_cases [of fl i g now st s st'] by auto
next
  case (PutMember i role rd ti b now)
  then show ?thesis using put_member_frame [OF PutMember] by auto
next
  case (RemoveMember i)
  then show ?thesis using remove_member_frame [OF RemoveMember] by auto
next
  case (SetTemplate bs)
  then show ?thesis by (simp add: set_taxonomy_template_def)
qed

lemma step_tombs: "store_step fl st st' \<Longrightarrow> store_inv st \<Longrightarrow> set (st_tombs st) \<subseteq> set (st_tombs st')"
  using step_effect [of fl st st'] by fastforce

lemma steps_tombs:
  "store_steps fl st st' \<Longrightarrow> store_inv st \<Longrightarrow> set (st_tombs st) \<subseteq> set (st_tombs st')"
proof (induction rule: rtranclp_induct)
  case (step y z)
  then show ?case using step_tombs steps_store_inv by (meson subset_trans)
qed simp

lemma get_memory_tombstoned:
  assumes "store_inv st" and "t \<in> set (st_tombs st)"
  shows "get_memory st (t_id t) = Inl (DeletedError t)"
proof -
  have "t_id t \<notin> mem_ids st" using assms by (auto simp: store_inv_def inv_tombs_def)
  then have "tbl_get m_id (t_id t) (st_mems st) = None" by (simp add: tbl_get_None_iff)
  moreover have "tombstone_of st (t_id t) = Some t"
    using assms by (simp add: tombstone_of_def tbl_get_Some_iff store_inv_def inv_tombs_def)
  ultimately show ?thesis by (simp add: get_memory_def)
qed

lemma step_revs:
  assumes "store_step fl st st'" and "store_inv st" and "x \<in> set (st_revs st)"
  shows "x \<in> set (st_revs st') \<or> r_id x \<in> tomb_ids st'"
  using step_effect [OF assms(1,2)] assms(3) by (fastforce dest: tbl_get_SomeD)

lemma steps_revs:
  "store_steps fl st st' \<Longrightarrow> store_inv st \<Longrightarrow> x \<in> set (st_revs st) \<Longrightarrow>
     x \<in> set (st_revs st') \<or> r_id x \<in> tomb_ids st'"
proof (induction rule: rtranclp_induct)
  case (step y z)
  have inv: "store_inv y" using step.hyps(1) step.prems(1) by (rule steps_store_inv)
  show ?case
  proof (cases "x \<in> set (st_revs y)")
    case True
    then show ?thesis using step_revs [OF step.hyps(2) inv] by blast
  next
    case False
    then have "r_id x \<in> tomb_ids y" using step by blast
    then show ?thesis using step_tombs [OF step.hyps(2) inv] by auto
  qed
qed simp

section \<open>Titles\<close>

text \<open>
  A title is plain when the Go normalization of a new title and the SQL normalization of a stored
  one agree on it: no tab, newline, vertical tab, form feed or return at either end.
\<close>

definition plain_title :: "string \<Rightarrow> bool" where
  "plain_title t = (sql_lower_trim t = to_lower (trim_space t))"

definition titles_ok :: "store \<Rightarrow> bool" where
  "titles_ok st \<longleftrightarrow> distinct (map (\<lambda>r. sql_lower_trim (m_title r)) (st_mems st))"

definition plain_titles :: "store \<Rightarrow> bool" where
  "plain_titles st \<longleftrightarrow> (\<forall>r \<in> set (st_mems st). plain_title (m_title r))"

lemma title_conflict_None:
  "title_conflict st t ex = None \<longleftrightarrow>
     (\<forall>r \<in> set (st_mems st). sql_lower_trim (m_title r) = to_lower (trim_space t) \<longrightarrow> m_id r = ex)"
  by (auto simp: title_conflict_def find_None_iff)

lemma titles_insert:
  assumes "titles_ok st" and "title_conflict st (nm_title nm) i = None" and "plain_title (nm_title nm)"
    and "i \<notin> mem_ids st"
  shows "titles_ok (inserted i now nm a g st)"
  using assms by (auto simp: titles_ok_def title_conflict_None plain_title_def)

lemma distinct_map_upd:
  assumes g: "distinct (map g rows)" and key: "distinct (map key rows)"
    and new: "\<And>r r'. r \<in> set rows \<Longrightarrow> r' \<in> set rows \<Longrightarrow> key r = k \<Longrightarrow> key r' \<noteq> k \<Longrightarrow> g r' \<noteq> g (f r)"
  shows "distinct (map g (tbl_upd key k f rows))"
proof -
  let ?h = "\<lambda>r. if key r = k then f r else r"
  have "inj_on (\<lambda>r. g (?h r)) (set rows)"
  proof (rule inj_onI)
    fix r1 r2 assume r: "r1 \<in> set rows" "r2 \<in> set rows" "g (?h r1) = g (?h r2)"
    consider "key r1 = k" "key r2 = k" | "key r1 = k" "key r2 \<noteq> k" | "key r1 \<noteq> k" "key r2 = k"
      | "key r1 \<noteq> k" "key r2 \<noteq> k" by blast
    then show "r1 = r2"
    proof cases
      case 1
      then show ?thesis using key r by (auto simp: distinct_map dest: inj_onD)
    next
      case 2
      then show ?thesis using new [OF r(1,2)] r(3) by simp
    next
      case 3
      then show ?thesis using new [OF r(2,1)] r(3) by simp
    next
      case 4
      then show ?thesis using g r by (auto simp: distinct_map dest: inj_onD)
    qed
  qed
  moreover have "distinct rows" using g by (simp add: distinct_map)
  ultimately show ?thesis by (simp add: tbl_upd_def distinct_map comp_def)
qed

lemma titles_update:
  assumes inv: "store_inv st" and ok: "titles_ok st" and old: "tbl_get m_id i (st_mems st) = Some old"
    and free: "update_title_clash st i u = None" and plain: "\<forall>t. up_title u = Some t \<longrightarrow> plain_title t"
  shows "titles_ok (updated i u a g now old st)"
proof -
  have d: "distinct (map m_id (st_mems st))" using inv by (simp add: store_inv_def inv_mems_def tbl_wf_def)
  have "sql_lower_trim (m_title r') \<noteq> sql_lower_trim (m_title (apply_updates u now r))"
    if r: "r \<in> set (st_mems st)" "m_id r = i" and r': "r' \<in> set (st_mems st)" "m_id r' \<noteq> i" for r r'
  proof (cases "up_title u")
    case None
    then have "m_title (apply_updates u now r) = m_title r" by (simp add: apply_updates_def)
    moreover have "r \<noteq> r'" using r r' by auto
    ultimately show ?thesis
      using ok r r' by (auto simp: titles_ok_def distinct_map dest: inj_onD)
  next
    case (Some t)
    then have "m_title (apply_updates u now r) = t" by (simp add: apply_updates_def)
    moreover have "title_conflict st t i = None" using free Some by (simp add: update_title_clash_def)
    ultimately show ?thesis
      using r' plain Some by (auto simp: title_conflict_None plain_title_def)
  qed
  then have "distinct (map (\<lambda>r. sql_lower_trim (m_title r)) (tbl_upd m_id i (apply_updates u now) (st_mems st)))"
    using ok d by (intro distinct_map_upd) (simp_all add: titles_ok_def)
  then show ?thesis by (simp add: titles_ok_def)
qed

lemma titles_delete: "titles_ok st \<Longrightarrow> titles_ok (deleted i b now r st)"
  by (auto simp: titles_ok_def tbl_del_def distinct_map intro: inj_on_subset)

end
