(* ===== verification/Tenant_Examples.thy ===== *)
theory Tenant_Examples
  imports Store_Machine
begin

text \<open>
  Small concrete files for the witnesses: two memories that link to each other's titles, the file
  after an edit, and the file after a deletion. Floats are instantiated by exact arithmetic.
\<close>

definition exact :: "rat \<Rightarrow> rat" where "exact x = x"

definition nm_plan :: new_memory where
  "nm_plan = \<lparr>nm_title = ''Plan'', nm_content = ''see [[depends-on:: Budget ]] `[[no]]`'',
              nm_taxonomy = ''work.x'', nm_format = ''markdown''\<rparr>"

definition nm_budget :: new_memory where
  "nm_budget = \<lparr>nm_title = ''Budget'', nm_content = ''for [[plan]]'', nm_taxonomy = ''home'', nm_format = []\<rparr>"

definition file1 :: store where
  "file1 = snd (projr (insert_memory ''a'' 10 nm_plan ''u'' [] empty_store))"

definition file2 :: store where
  "file2 = snd (projr (insert_memory ''b'' 20 nm_budget ''u'' ''bot'' file1))"

definition up_title_only :: updates where
  "up_title_only = \<lparr>up_title = Some ''Plan two'', up_content = None, up_taxonomy = None, up_format = None\<rparr>"

definition file3 :: store where
  "file3 = snd (projr (update_memory ''a'' up_title_only ''u'' [] (Some 1) 30 file2))"

definition file4 :: store where
  "file4 = projr (delete_memory ''b'' ''u'' 40 file3)"

definition made :: "db_error + (memory \<times> store) \<Rightarrow> memory \<times> store" where
  "made r = projr r"

lemma run1: "insert_memory ''a'' 10 nm_plan ''u'' [] empty_store = Inr (made (insert_memory ''a'' 10 nm_plan ''u'' [] empty_store))"
  by code_simp

lemma run2: "insert_memory ''b'' 20 nm_budget ''u'' ''bot'' file1 = Inr (made (insert_memory ''b'' 20 nm_budget ''u'' ''bot'' file1))"
  by code_simp

lemma run3: "update_memory ''a'' up_title_only ''u'' [] (Some 1) 30 file2 =
    Inr (made (update_memory ''a'' up_title_only ''u'' [] (Some 1) 30 file2))"
  by code_simp

lemma run4: "delete_memory ''b'' ''u'' 40 file3 = Inr file4"
  by code_simp

lemma made_simps [simp]:
  "snd (made (insert_memory ''a'' 10 nm_plan ''u'' [] empty_store)) = file1"
  "snd (made (insert_memory ''b'' 20 nm_budget ''u'' ''bot'' file1)) = file2"
  "snd (made (update_memory ''a'' up_title_only ''u'' [] (Some 1) 30 file2)) = file3"
  by (simp_all add: made_def file1_def file2_def file3_def)

lemma ran1: "insert_memory ''a'' 10 nm_plan ''u'' [] empty_store =
    Inr (fst (made (insert_memory ''a'' 10 nm_plan ''u'' [] empty_store)), file1)"
  by (subst run1) (simp add: prod_eq_iff)

lemma ran2: "insert_memory ''b'' 20 nm_budget ''u'' ''bot'' file1 =
    Inr (fst (made (insert_memory ''b'' 20 nm_budget ''u'' ''bot'' file1)), file2)"
  by (subst run2) (simp add: prod_eq_iff)

lemma ran3: "update_memory ''a'' up_title_only ''u'' [] (Some 1) 30 file2 =
    Inr (fst (made (update_memory ''a'' up_title_only ''u'' [] (Some 1) 30 file2)), file3)"
  by (subst run3) (simp add: prod_eq_iff)

lemma fresh_ids: "''a'' \<notin> tomb_ids empty_store" "''b'' \<notin> tomb_ids file1"
  by code_simp+

lemma step1: "store_step fl empty_store file1"
  by (rule store_step.Insert [OF fresh_ids(1), of 10 nm_plan "''u''" "[]" "fst (made _)"]) (subst run1, simp add: prod_eq_iff)

lemma step2: "store_step fl file1 file2"
  by (rule store_step.Insert [OF fresh_ids(2), of 20 nm_budget "''u''" "''bot''" "fst (made _)"]) (subst run2, simp add: prod_eq_iff)

lemma step3: "store_step fl file2 file3"
  by (rule store_step.Update [of "''a''" up_title_only "''u''" "[]" "Some 1" 30 _ "fst (made _)"]) (subst run3, simp add: prod_eq_iff)

lemma step4: "store_step fl file3 file4"
  by (rule store_step.Delete [OF run4])

lemma steps_to_file3: "store_steps fl empty_store file3"
  using step1 step2 step3 by (meson rtranclp.rtrancl_into_rtrancl rtranclp.rtrancl_refl)

lemma steps_to_file4: "store_steps fl empty_store file4"
  using steps_to_file3 step4 by (rule rtranclp.rtrancl_into_rtrancl)

lemma file_invs: "store_inv file1" "store_inv file2" "store_inv file3" "store_inv file4"
  using step_store_inv [OF step1 store_inv_empty] step_store_inv [OF step2] step_store_inv [OF step3]
    step_store_inv [OF step4] by blast+

end
