(* ===== verification/Tenant_Properties.thy ===== *)
theory Tenant_Properties
  imports Tenant_Examples
begin

text \<open>
  The properties of one tenant file: what each write commits and leaves alone, optimistic
  concurrency, the permanence of deletion, the link index, and the disclosure rules of the read paths.
\<close>

section \<open>Shared facts\<close>

lemma get_memory_row:
  "tbl_get m_id i (st_mems st) = Some r \<Longrightarrow> get_memory st i = Inr (scan_memory r)"
  by (simp add: get_memory_def)

lemma get_memory_Inr:
  "get_memory st i = Inr mem \<longleftrightarrow> (\<exists>r. tbl_get m_id i (st_mems st) = Some r \<and> mem = scan_memory r)"
  by (auto simp: get_memory_def split: option.splits)

lemma get_memory_cong:
  "tbl_get m_id i (st_mems st') = tbl_get m_id i (st_mems st) \<Longrightarrow>
   tbl_get t_id i (st_tombs st') = tbl_get t_id i (st_tombs st) \<Longrightarrow> get_memory st' i = get_memory st i"
  unfolding get_memory_def tombstone_of_def by (cases "tbl_get m_id i (st_mems st)") simp_all

lemma revisions_other:
  "r_id x \<noteq> i \<Longrightarrow> st_revs st' = st_revs st @ [x] \<Longrightarrow> revisions st' i = revisions st i"
  by (simp add: revisions_def)

lemma order_desc_top:
  "\<forall>y \<in> set xs. k y < k x \<Longrightarrow> order_desc k (xs @ [x]) = x # order_desc k xs"
  by (induction xs) (auto simp: order_desc_def)

lemma revisions_top:
  assumes "st_revs st' = st_revs st @ [x]" and "r_id x = i"
    and "\<forall>y \<in> set (st_revs st). r_id y = i \<longrightarrow> r_version y < r_version x"
  shows "revisions st' i = scan_revision x # revisions st i"
  using assms by (simp add: revisions_def order_desc_top)

lemma revisions_none:
  assumes "store_inv st" and "i \<notin> mem_ids st"
  shows "revisions st i = []"
proof -
  have "\<forall>x \<in> set (st_revs st). r_id x \<noteq> i"
    using assms unfolding store_inv_def inv_revs_def by (metis image_subset_iff)
  then have "filter (\<lambda>r. r_id r = i) (st_revs st) = []" by (simp add: filter_empty_conv)
  then show ?thesis by (simp add: revisions_def order_desc_def)
qed

lemma get_in_mems: "tbl_get m_id i (st_mems st) = Some r \<Longrightarrow> r \<in> set (st_mems st) \<and> m_id r = i"
  by (auto dest: tbl_get_SomeD)

lemma version_bound:
  assumes "store_inv st" and "tbl_get m_id i (st_mems st) = Some r"
  shows "\<forall>y \<in> set (st_revs st). r_id y = i \<longrightarrow> r_version y \<le> m_version r"
proof (intro ballI impI)
  fix y assume y: "y \<in> set (st_revs st)" "r_id y = i"
  have "r_version y \<in> versions_of st (m_id r)" using y get_in_mems [OF assms(2)] by (auto simp: versions_of_def)
  then show "r_version y \<le> m_version r"
    using assms(1) get_in_mems [OF assms(2)] by (auto simp: store_inv_def inv_revs_def)
qed

lemma versions_list:
  assumes inv: "store_inv st" and r: "tbl_get m_id i (st_mems st) = Some r"
  shows "map rev_version (revisions st i) = rev [1 .. m_version r]"
proof -
  let ?rows = "filter (\<lambda>x. r_id x = i) (st_revs st)"
  let ?vs = "map r_version (order_desc r_version ?rows)"
  have set: "set ?vs = {1 .. m_version r}"
    using inv get_in_mems [OF r] by (auto simp: store_inv_def inv_revs_def versions_of_def)
  have "distinct (map rev_key ?rows)"
    using inv tbl_wf_filter [of rev_key "st_revs st"] by (simp add: store_inv_def inv_revs_def tbl_wf_def)
  then have d: "distinct (map r_version ?rows)"
    by (auto simp: distinct_map inj_on_def rev_key_def)
  have "distinct ?rows" using d by (simp add: distinct_map)
  then have "distinct (order_desc r_version ?rows)" by (simp add: order_desc_def)
  moreover have "inj_on r_version (set (order_desc r_version ?rows))" using d by (simp add: distinct_map)
  ultimately have dv: "distinct ?vs" by (simp add: distinct_map)
  have "sorted_wrt (\<lambda>a b. a \<ge> b) ?vs" using sorted_order_desc [of r_version ?rows] by (simp add: sorted_wrt_map)
  then have "sorted (rev ?vs)" by (simp add: sorted_wrt_rev)
  then have "rev ?vs = [1 .. m_version r]"
    using dv set by (intro sorted_distinct_set_unique) simp_all
  then have "?vs = rev [1 .. m_version r]" by (metis rev_rev_ident)
  then show ?thesis by (simp add: revisions_def scan_revision_def comp_def)
qed

lemma revision_at_ok:
  assumes inv: "store_inv st" and r: "tbl_get m_id i (st_mems st) = Some r" and v: "1 \<le> v" "v \<le> m_version r"
  shows "\<exists>x. revision_at st i v = Inr (scan_revision x) \<and> x \<in> set (st_revs st) \<and> r_id x = i \<and> r_version x = v"
proof -
  have "v \<in> versions_of st i"
    using inv get_in_mems [OF r] v by (auto simp: store_inv_def inv_revs_def)
  then obtain x where "x \<in> set (st_revs st)" "r_id x = i \<and> r_version x = v" by (auto simp: versions_of_def)
  then have "find (\<lambda>x. r_id x = i \<and> r_version x = v) (st_revs st) \<noteq> None"
    by (auto simp: find_None_iff)
  then obtain y where y: "find (\<lambda>x. r_id x = i \<and> r_version x = v) (st_revs st) = Some y" by blast
  then have "y \<in> set (st_revs st)" "r_id y = i" "r_version y = v" by (auto simp: find_Some_iff)
  with y show ?thesis by (intro exI [of _ y]) (simp add: revision_at_def)
qed

lemma revision_unique:
  assumes "store_inv st" and "x \<in> set (st_revs st)" "y \<in> set (st_revs st)" "rev_key x = rev_key y"
  shows "x = y"
  using assms by (auto simp: store_inv_def inv_revs_def tbl_wf_def distinct_map dest: inj_onD)

section \<open>Writes\<close>

text \<open>C10: Every file reachable from the empty one by any sequence of committed operations is well
  formed: unique ids, index rows equal to the memories, edges that start at live memories and end at
  live or deleted ones, a complete revision series for each memory, tombstones apart from memories,
  cards above the ease floor, a roster whose grants belong to members, unique template paths.\<close>

theorem reachable_file_ok:
  "store_steps fl empty_store st \<Longrightarrow> fl min_ease \<le> 5 / 2 \<Longrightarrow> file_ok fl st"
  using steps_file_ok file_ok_empty by blast

theorem reachable_file_ok_witness: "file_ok exact file4"
  by (rule reachable_file_ok [OF steps_to_file4]) (simp add: exact_def min_ease_def)

lemma insert_memory_succeeds:
  assumes inv: "store_inv st"
  shows "(\<exists>mem st'. insert_memory i now nm author agent st = Inr (mem, st'))
       \<longleftrightarrow> i \<notin> mem_ids st \<and> title_conflict st (nm_title nm) i = None"
  using insert_memory_cases [OF inv, of i now nm author agent]
    insert_memory_eq [OF inv, of nm i now author agent] by blast

text \<open>A successful insert commits version 1 with exactly one revision, carrying author and agent;
  reading the id back gives the fields written, with the format defaulted; no other memory changes.\<close>

theorem insert_memory_result:
  assumes inv: "store_inv st" and res: "insert_memory i now nm author agent st = Inr (mem, st')"
  shows "get_memory st' i = Inr ((created i now nm)\<lparr>mem_format := format_or_default (nm_format nm)\<rparr>)
      \<and> revisions st' i = [scan_revision (rev_of (created i now nm) author agent now)]
      \<and> (\<forall>j. j \<noteq> i \<longrightarrow> get_memory st' j = get_memory st j \<and> revisions st' j = revisions st j)"
proof -
  have new: "i \<notin> mem_ids st" and st': "st' = inserted i now nm author agent st"
    using insert_memory_cases [OF inv res] by blast+
  have get: "tbl_get m_id j (st_mems st') = (if j = i then Some (new_row i now nm st) else tbl_get m_id j (st_mems st))" for j
  proof -
    have "tbl_get m_id i (st_mems st) = None" using new by (simp add: tbl_get_None_iff)
    then show ?thesis by (auto simp: st' tbl_get_append split: option.splits)
  qed
  have "scan_memory (new_row i now nm st) = (created i now nm)\<lparr>mem_format := format_or_default (nm_format nm)\<rparr>"
    by (simp add: scan_memory_def new_row_def row_of_def created_def)
  moreover have "revisions st' i = [scan_revision (rev_of (created i now nm) author agent now)]"
  proof -
    have "\<forall>y \<in> set (st_revs st). r_id y \<noteq> i"
      using inv new unfolding store_inv_def inv_revs_def by (metis image_subset_iff)
    then show ?thesis
      using revisions_top [of st' st "rev_of (created i now nm) author agent now" i]
        revisions_none [OF inv new] by (simp add: st')
  qed
  moreover have "get_memory st' j = get_memory st j \<and> revisions st' j = revisions st j" if "j \<noteq> i" for j
    using that get [of j] by (auto simp: st' intro!: get_memory_cong revisions_other)
  ultimately show ?thesis
    using get [of i] by (simp add: get_memory_row)
qed

theorem insert_memory_result_witness:
  "get_memory file2 ''b'' = Inr ((created ''b'' 20 nm_budget)\<lparr>mem_format := ''markdown''\<rparr>)
   \<and> get_memory file2 ''a'' = get_memory file1 ''a''"
  using insert_memory_result [OF file_invs(1) ran2] by (simp add: nm_budget_def format_or_default_def)

lemma update_memory_ran:
  assumes inv: "store_inv st" and res: "update_memory i u author agent base now st = Inr (mem, st')"
  shows "\<exists>old. tbl_get m_id i (st_mems st) = Some old \<and> (\<forall>b. base = Some b \<longrightarrow> b = m_version old)
     \<and> st' = updated i u author agent now old st \<and> update_title_clash st i u = None
     \<and> tbl_get m_id i (st_mems st') = Some (apply_updates u now old)
     \<and> (\<forall>j. j \<noteq> i \<longrightarrow> tbl_get m_id j (st_mems st') = tbl_get m_id j (st_mems st))"
proof -
  obtain old where o: "tbl_get m_id i (st_mems st) = Some old" "\<forall>b. base = Some b \<longrightarrow> b = m_version old"
    "st' = updated i u author agent now old st" "update_title_clash st i u = None"
    using update_memory_cases [OF inv res] by blast
  then show ?thesis by (intro exI [of _ old]) (simp add: tbl_get_upd)
qed

text \<open>A successful update changes exactly the supplied fields, raises the version by one, stamps
  the time, pushes one attributed revision on top of an unchanged history, and touches no other memory.\<close>

theorem update_memory_result:
  assumes inv: "store_inv st" and res: "update_memory i u author agent base now st = Inr (mem, st')"
    and cur: "get_memory st i = Inr old"
  shows "(\<exists>new. get_memory st' i = Inr new \<and> mem_version new = mem_version old + 1
       \<and> mem_updated new = now \<and> mem_created new = mem_created old
       \<and> mem_title new = (case up_title u of None \<Rightarrow> mem_title old | Some t \<Rightarrow> t)
       \<and> mem_content new = (case up_content u of None \<Rightarrow> mem_content old | Some c \<Rightarrow> c)
       \<and> mem_taxonomy new = (case up_taxonomy u of None \<Rightarrow> mem_taxonomy old | Some t \<Rightarrow> t)
       \<and> mem_format new = (case up_format u of None \<Rightarrow> mem_format old | Some f \<Rightarrow> f)
       \<and> revisions st' i = scan_revision (rev_of new author agent now) # revisions st i)
     \<and> (\<forall>j. j \<noteq> i \<longrightarrow> get_memory st' j = get_memory st j \<and> revisions st' j = revisions st j)"
proof -
  obtain r where r: "tbl_get m_id i (st_mems st) = Some r" and st': "st' = updated i u author agent now r st"
    and get: "tbl_get m_id i (st_mems st') = Some (apply_updates u now r)"
    and others: "\<forall>j. j \<noteq> i \<longrightarrow> tbl_get m_id j (st_mems st') = tbl_get m_id j (st_mems st)"
    using update_memory_ran [OF inv res] by blast
  have old: "old = scan_memory r" using cur r by (simp add: get_memory_def)
  have id: "m_id r = i" using get_in_mems [OF r] by simp
  have "revisions st' i = scan_revision (rev_of (scan_memory (apply_updates u now r)) author agent now) # revisions st i"
    using version_bound [OF inv r] id by (intro revisions_top) (auto simp: st')
  moreover have "get_memory st' j = get_memory st j \<and> revisions st' j = revisions st j" if "j \<noteq> i" for j
    using that others id by (auto simp: st' intro!: get_memory_cong revisions_other)
  moreover have "m_title (apply_updates u now r) = (case up_title u of None \<Rightarrow> mem_title (scan_memory r) | Some t \<Rightarrow> t)"
    and "str_of (m_content (apply_updates u now r)) = (case up_content u of None \<Rightarrow> mem_content (scan_memory r) | Some c \<Rightarrow> c)"
    and "str_of (m_taxonomy (apply_updates u now r)) = (case up_taxonomy u of None \<Rightarrow> mem_taxonomy (scan_memory r) | Some c \<Rightarrow> c)"
    and "m_format (apply_updates u now r) = (case up_format u of None \<Rightarrow> mem_format (scan_memory r) | Some f \<Rightarrow> f)"
    by (simp_all add: apply_updates_def split: option.split)
  ultimately show ?thesis
    using get_memory_row [OF get] unfolding old
    by (intro conjI exI [of _ "scan_memory (apply_updates u now r)"]) simp_all
qed

theorem update_memory_result_witness:
  "\<exists>new. get_memory file3 ''a'' = Inr new \<and> mem_version new = 2 \<and> mem_title new = ''Plan two''
     \<and> get_memory file3 ''b'' = get_memory file2 ''b''"
proof -
  let ?old = "projr (get_memory file2 ''a'')"
  have old: "get_memory file2 ''a'' = Inr ?old" by code_simp
  have one: "mem_version ?old = 1" by code_simp
  note res = update_memory_result [OF file_invs(2) ran3 old]
  from res obtain new where "get_memory file3 ''a'' = Inr new" "mem_version new = mem_version ?old + 1"
    "mem_title new = ''Plan two''" by (auto simp: up_title_only_def)
  moreover have "get_memory file3 ''b'' = get_memory file2 ''b''" using res by simp
  ultimately show ?thesis using one by simp
qed

text \<open>C2: Of two edits based on the same version exactly one commits: after the first, the second is
  refused with a conflict naming the base and the version now stored.\<close>

theorem cas_one_wins:
  assumes inv: "store_inv st" and first: "update_memory i u author agent (Some b) now st = Inr (mem, st')"
  shows "update_memory i u' author' agent' (Some b) now' st' = Inl (VersionConflict i b (b + 1))"
proof -
  obtain r where "b = m_version r" "tbl_get m_id i (st_mems st') = Some (apply_updates u now r)"
    using update_memory_ran [OF inv first] by blast
  then show ?thesis by (simp add: update_memory_def)
qed

theorem cas_one_wins_witness:
  "update_memory ''a'' up_title_only ''v'' [] (Some 1) 31 file3 = Inl (VersionConflict ''a'' 1 2)"
  using cas_one_wins [OF file_invs(2) ran3] by simp

text \<open>C12: The history of a live memory is the complete series of its versions, newest first; every
  version can be fetched, and the newest revision holds the memory's current fields.\<close>

theorem history_complete:
  assumes "store_steps fl empty_store st" and "get_memory st i = Inr mem"
  shows "map rev_version (revisions st i) = rev [1 .. mem_version mem]
     \<and> (\<forall>v \<in> {1 .. mem_version mem}. \<exists>x. revision_at st i v = Inr x \<and> rev_version x = v)
     \<and> (\<exists>x. revision_at st i (mem_version mem) = Inr x \<and> rev_title x = mem_title mem
          \<and> rev_content x = mem_content mem \<and> rev_taxonomy x = mem_taxonomy mem)"
proof -
  have inv: "store_inv st" using steps_store_inv [OF assms(1) store_inv_empty] .
  obtain r where r: "tbl_get m_id i (st_mems st) = Some r" and mem: "mem = scan_memory r"
    using assms(2) by (auto simp: get_memory_Inr)
  have one: "1 \<le> m_version r" using inv get_in_mems [OF r] by (auto simp: store_inv_def inv_mems_def)
  obtain x where x: "x \<in> set (st_revs st)" "snapshot_of r x"
    using inv get_in_mems [OF r] by (auto simp: store_inv_def inv_revs_def)
  obtain y where y: "revision_at st i (m_version r) = Inr (scan_revision y)" "y \<in> set (st_revs st)"
    "r_id y = i" "r_version y = m_version r"
    using revision_at_ok [OF inv r one] by auto
  have "y = x" using x y get_in_mems [OF r] by (intro revision_unique [OF inv]) (auto simp: rev_key_def snapshot_of_def)
  moreover have "\<exists>x. revision_at st i v = Inr x \<and> rev_version x = v" if "v \<in> {1 .. m_version r}" for v
    using revision_at_ok [OF inv r, of v] that by (auto simp: scan_revision_def)
  ultimately show ?thesis
    using versions_list [OF inv r] x y by (simp add: mem scan_revision_def snapshot_of_def)
qed

theorem history_complete_witness:
  "map rev_version (revisions file3 ''a'') = [2, 1] \<and> revisions file3 ''b'' \<noteq> []"
proof -
  have "get_memory file3 ''a'' = Inr (projr (get_memory file3 ''a''))" by code_simp
  moreover have "mem_version (projr (get_memory file3 ''a'')) = 2" by code_simp
  ultimately have "map rev_version (revisions file3 ''a'') = rev [1 .. 2]"
    using history_complete [OF steps_to_file3] by metis
  moreover have "revisions file3 ''b'' \<noteq> []" by code_simp
  ultimately show ?thesis by (simp add: upto.simps)
qed

text \<open>C11: Deletion is final: the id answers with the same tombstone to reads, edits and deletions in
  every later file, its history is gone, and no revision of a live memory is ever lost.\<close>

theorem deletion_is_final:
  assumes inv: "store_inv st" and del: "delete_memory i by_id now st = Inr st1"
    and later: "store_steps fl st1 st2"
  shows "\<exists>t. t_id t = i \<and> t_deleted t = now \<and> get_memory st2 i = Inl (DeletedError t)
     \<and> update_memory i u author agent base now' st2 = Inl (DeletedError t)
     \<and> delete_memory i by' now' st2 = Inl (DeletedError t) \<and> revisions st2 i = []"
proof -
  obtain r where r: "tbl_get m_id i (st_mems st) = Some r" and st1: "st1 = deleted i by_id now r st"
    using delete_memory_cases [OF inv del] by blast
  let ?t = "tomb_row (scan_memory r) by_id now"
  have inv1: "store_inv st1" using delete_memory_inv [OF inv del] .
  have inv2: "store_inv st2" using steps_store_inv [OF later inv1] .
  have id: "t_id ?t = i" using get_in_mems [OF r] by simp
  have t: "?t \<in> set (st_tombs st2)"
    using steps_tombs [OF later inv1] by (auto simp: st1)
  have get: "get_memory st2 i = Inl (DeletedError ?t)"
    using get_memory_tombstoned [OF inv2 t] id by simp
  then have none: "tbl_get m_id i (st_mems st2) = None" and ts: "tombstone_of st2 i = Some ?t"
    by (auto simp: get_memory_def split: option.splits)
  have "i \<notin> mem_ids st2" using none by (simp add: tbl_get_None_iff)
  then have "revisions st2 i = []" by (rule revisions_none [OF inv2])
  moreover have "t_deleted ?t = now" by (simp add: tomb_row_def)
  ultimately show ?thesis
    using get none ts id by (intro exI [of _ ?t]) (simp add: update_memory_def delete_memory_def)
qed

theorem deletion_is_final_witness:
  "\<exists>t. t_deleted t = 40 \<and> get_memory file4 ''b'' = Inl (DeletedError t)
     \<and> update_memory ''b'' up_title_only ''u'' [] None 50 file4 = Inl (DeletedError t)"
  using deletion_is_final [OF file_invs(3) run4, of exact file4 up_title_only "''u''" "[]" None 50] by auto

end
