(* ===== verification/Link_Properties.thy ===== *)
theory Link_Properties
  imports Tenant_Properties
begin

text \<open>
  The properties of wiki-links and titles: what the parser extracts, that titles stay unique, how
  the edges follow the text, heal, and keep pointing at deleted memories, and what a rebuild forgets.
\<close>

section \<open>The parser\<close>

text \<open>The links of a text are distinct, each with a known relation and a non-empty normalized
  target, and each stands as a bracketed span in the text left after the code spans are removed.\<close>

theorem parse_links_sound:
  "distinct (parse_links content)
   \<and> (\<forall>l \<in> set (parse_links content). pl_rel l \<in> set valid_rels \<and> pl_raw l \<noteq> []
        \<and> normalize_link (pl_raw l) = pl_raw l
        \<and> (\<exists>body u v. strip_inline (strip_fenced content) = u @ ''[['' @ body @ '']]'' @ v
             \<and> (\<forall>c \<in> set body. not_bracket c) \<and> split_rel body = (pl_rel l, pl_raw l)))"
proof
  let ?ms = "find_links (strip_inline (strip_fenced content))"
  show "distinct (parse_links content)"
    using parse_links_distinct [of content] by (simp add: distinct_map)
  show "\<forall>l \<in> set (parse_links content). pl_rel l \<in> set valid_rels \<and> pl_raw l \<noteq> []
        \<and> normalize_link (pl_raw l) = pl_raw l
        \<and> (\<exists>body u v. strip_inline (strip_fenced content) = u @ ''[['' @ body @ '']]'' @ v
             \<and> (\<forall>c \<in> set body. not_bracket c) \<and> split_rel body = (pl_rel l, pl_raw l))"
  proof
    fix l assume "l \<in> set (parse_links content)"
    then obtain m where m: "m \<in> set ?ms" "split_rel m = (pl_rel l, pl_raw l)" "pl_raw l \<noteq> []"
      unfolding parse_links_def using collect_links_mem by blast
    have "pl_rel l \<in> set valid_rels" using split_rel_valid [of m] m(2) by simp
    moreover have "normalize_link (pl_raw l) = pl_raw l" using split_rel_normal [of m] m(2) by auto
    moreover obtain u v where "strip_inline (strip_fenced content) = u @ ''[['' @ m @ '']]'' @ v"
      "\<forall>c \<in> set m. not_bracket c" using find_links_body [OF m(1)] by blast
    ultimately show "pl_rel l \<in> set valid_rels \<and> pl_raw l \<noteq> [] \<and> normalize_link (pl_raw l) = pl_raw l
        \<and> (\<exists>body u v. strip_inline (strip_fenced content) = u @ ''[['' @ body @ '']]'' @ v
             \<and> (\<forall>c \<in> set body. not_bracket c) \<and> split_rel body = (pl_rel l, pl_raw l))"
      using m by blast
  qed
qed

theorem parse_links_sound_witness:
  "parse_links ''see [[depends-on:: Budget ]] `[[no]]`'' = [\<lparr>pl_rel = ''depends-on'', pl_raw = ''budget''\<rparr>]
   \<and> distinct (parse_links ''see [[depends-on:: Budget ]] `[[no]]`'')"
proof
  show "parse_links ''see [[depends-on:: Budget ]] `[[no]]`'' = [\<lparr>pl_rel = ''depends-on'', pl_raw = ''budget''\<rparr>]"
    by code_simp
qed (use parse_links_sound in blast)

section \<open>Titles\<close>

definition plain_step :: "(rat \<Rightarrow> rat) \<Rightarrow> store \<Rightarrow> store \<Rightarrow> bool" where
  "plain_step fl st st' \<longleftrightarrow> store_step fl st st' \<and> plain_titles st'"

lemma plain_step_titles:
  assumes step: "plain_step fl st st'" and inv: "store_inv st" and ok: "titles_ok st"
  shows "titles_ok st'"
proof -
  have plain: "plain_titles st'" and eff: "store_step fl st st'" using step by (auto simp: plain_step_def)
  from step_effect [OF eff inv] consider
      (same) "st_mems st' = st_mems st"
    | (ins) i now nm a g where "i \<notin> mem_ids st \<union> tomb_ids st" "st' = inserted i now nm a g st"
        "title_conflict st (nm_title nm) i = None"
    | (upd) i u a g now old where "tbl_get m_id i (st_mems st) = Some old" "st' = updated i u a g now old st"
        "update_title_clash st i u = None"
    | (del) i b now r where "st' = deleted i b now r st"
    by blast
  then show ?thesis
  proof cases
    case same
    then show ?thesis using ok by (simp add: titles_ok_def)
  next
    case ins
    then show ?thesis using plain ok by (auto simp: plain_titles_def intro!: titles_insert)
  next
    case upd
    have "apply_updates u now old \<in> set (st_mems st')"
      using upd get_in_mems [OF upd(1)] by (force simp: set_tbl_upd)
    then have "\<forall>t. up_title u = Some t \<longrightarrow> plain_title t"
      using plain by (auto simp: plain_titles_def apply_updates_def)
    then show ?thesis using titles_update [OF inv ok upd(1,3)] upd(2) by simp
  next
    case del
    then show ?thesis using ok titles_delete by blast
  qed
qed

text \<open>As long as the titles written are plain (no tab, newline or return at either end), no two
  live memories of a file ever share a title up to case and surrounding blanks.\<close>

theorem titles_stay_unique:
  assumes "(plain_step fl)\<^sup>*\<^sup>* empty_store st" and "r \<in> set (st_mems st)" and "r' \<in> set (st_mems st)"
    and "sql_lower_trim (m_title r) = sql_lower_trim (m_title r')"
  shows "r = r'"
proof -
  have "store_inv st \<and> titles_ok st"
    using assms(1)
  proof (induction rule: rtranclp_induct)
    case base
    have "titles_ok empty_store" by (simp add: titles_ok_def empty_store_def)
    with store_inv_empty show ?case by blast
  next
    case (step y z)
    then show ?case
      using plain_step_titles [of fl y z] step_store_inv [of fl y z] by (auto simp: plain_step_def)
  qed
  then show ?thesis using assms(2-4) by (auto simp: titles_ok_def distinct_map dest: inj_onD)
qed

lemma plain_files: "plain_titles file1" "plain_titles file2"
  by code_simp+

theorem titles_stay_unique_witness:
  "\<exists>r \<in> set (st_mems file2). \<forall>r' \<in> set (st_mems file2).
     sql_lower_trim (m_title r) = sql_lower_trim (m_title r') \<longrightarrow> r = r'"
proof -
  have "(plain_step exact)\<^sup>*\<^sup>* empty_store file2"
    using step1 [of exact] step2 [of exact] plain_files
    by (meson plain_step_def rtranclp.rtrancl_into_rtrancl rtranclp.rtrancl_refl)
  moreover have "hd (st_mems file2) \<in> set (st_mems file2)" by code_simp
  ultimately show ?thesis using titles_stay_unique by blast
qed

definition tab_memory :: new_memory where
  "tab_memory = \<lparr>nm_title = ''Plan'' @ [CHR 0x09], nm_content = [], nm_taxonomy = ''w'', nm_format = []\<rparr>"

definition plan_memory :: new_memory where
  "plan_memory = \<lparr>nm_title = ''Plan'', nm_content = [], nm_taxonomy = ''w'', nm_format = []\<rparr>"

definition tab_file :: store where
  "tab_file = snd (projr (insert_memory ''p'' 2 plan_memory [] [] (snd (projr (insert_memory ''t'' 1 tab_memory [] [] empty_store)))))"

text \<open>The title check overlooks white space other than blanks at the ends of a stored title: two
  live memories then normalize to the same link target, which the check exists to rule out.\<close>

theorem title_check_misses_tabs:
  "map (\<lambda>r. normalize_link (m_title r)) (st_mems tab_file) = [''plan'', ''plan'']
   \<and> map m_id (st_mems tab_file) = [''t'', ''p'']"
  by code_simp

section \<open>Edges\<close>

definition edge_explained :: "store \<Rightarrow> store \<Rightarrow> edge \<Rightarrow> bool" where
  "edge_explained st st' e \<longleftrightarrow> (case e_dst e of
       None \<Rightarrow> \<forall>r \<in> set (st_mems st'). sql_lower_trim (m_title r) = e_raw e \<longrightarrow> m_id r = e_src e
     | Some d \<Rightarrow> (\<exists>r \<in> set (st_mems st'). m_id r = d \<and> d \<noteq> e_src e \<and> sql_lower_trim (m_title r) = e_raw e)
         \<or> d \<in> tomb_ids st \<and> e \<in> set (st_edges st))"

lemma find_target_None:
  "find_target st raw src = None \<Longrightarrow>
     \<forall>r \<in> set (st_mems st). sql_lower_trim (m_title r) = raw \<longrightarrow> m_id r = src"
  by (auto simp: find_target_def find_None_iff)

lemma find_target_Some:
  "find_target st raw src = Some d \<Longrightarrow>
     \<exists>r \<in> set (st_mems st). m_id r = d \<and> d \<noteq> src \<and> sql_lower_trim (m_title r) = raw"
  by (auto simp: find_target_def find_Some_iff)

lemma link_target_explained:
  assumes "st_edges st1 = st_edges st" and "st_tombs st1 = st_tombs st"
  shows "edge_explained st st1 (link_edge i (link_target st1 i (deleted_targets st1 i) l) l)"
proof (cases "map_of (deleted_targets st1 i) (pl_raw l, pl_rel l)")
  case None
  then have "link_target st1 i (deleted_targets st1 i) l = find_target st1 (pl_raw l) i"
    by (simp add: link_target_def)
  then show ?thesis
    using find_target_None [of st1 "pl_raw l" i] find_target_Some [of st1 "pl_raw l" i]
    by (cases "find_target st1 (pl_raw l) i") (auto simp: edge_explained_def)
next
  case (Some d)
  from deleted_targets_in [OF this] obtain e where e: "d \<in> tomb_ids st" "e \<in> set (st_edges st)" "e_src e = i"
    "e_dst e = Some d" "e_raw e = pl_raw l" "e_rel e = pl_rel l"
    using assms by auto
  then have "link_edge i (Some d) l = e" by (simp add: link_edge_def)
  moreover have "link_target st1 i (deleted_targets st1 i) l = Some d" using Some by (simp add: link_target_def)
  moreover have "edge_explained st st1 e" using e by (simp add: edge_explained_def)
  ultimately show ?thesis by simp
qed

lemma updated_edges:
  assumes "tbl_get m_id i (st_mems st) = Some old"
  shows "filter (\<lambda>e. e_src e = i) (st_edges (updated i u a g now old st)) =
     map (\<lambda>l. link_edge i (link_target (with_version i (apply_updates u now)
            (rev_of (scan_memory (apply_updates u now old)) a g now) st) i
          (deleted_targets (with_version i (apply_updates u now)
            (rev_of (scan_memory (apply_updates u now old)) a g now) st) i) l) l)
       (parse_links (str_of (m_content (apply_updates u now old))))"
  by (simp add: updated_def Let_def synced_edges_src)



lemma insert_edges:
  assumes inv: "store_inv st" and res: "insert_memory i now nm a g st = Inr (mem, st')"
  shows "\<exists>st1. st_edges st1 = st_edges st \<and> st_tombs st1 = st_tombs st
     \<and> st_edges st' = synced_edges st1 i (nm_title nm) (nm_content nm)"
  using insert_memory_cases [OF inv res] by (auto simp: inserted_def Let_def intro!: exI [of _ "with_row _ _ _"])

lemma update_edges:
  assumes inv: "store_inv st" and res: "update_memory i u a g base now st = Inr (mem, st')"
  shows "\<exists>st1 title. st_edges st1 = st_edges st \<and> st_tombs st1 = st_tombs st
     \<and> st_edges st' = synced_edges st1 i title (mem_content mem)"
proof -
  obtain old ss where "st' = updated i u a g now old st"
    and mem: "mem = (scan_memory (apply_updates u now old))\<lparr>mem_links := ss\<rparr>"
    using update_memory_cases [OF inv res] by blast
  then show ?thesis
    by (intro exI [of _ "with_version i (apply_updates u now) (rev_of (scan_memory (apply_updates u now old)) a g now) st"]
        exI [of _ "m_title (apply_updates u now old)"]) (simp add: updated_def Let_def)
qed

text \<open>A reference to a deleted memory keeps pointing at it through every insert and edit, even when
  a new memory takes the title, as long as the referring text still contains the link.\<close>

theorem tombstone_reference_kept:
  assumes inv: "store_inv st" and e: "e \<in> set (st_edges st)" "e_dst e = Some d" "d \<in> tomb_ids st"
    and wr: "insert_memory i now nm author agent st = Inr (mem, st')
      \<or> update_memory i u author agent base now st = Inr (mem, st')
         \<and> (e_src e = i \<longrightarrow> \<lparr>pl_rel = e_rel e, pl_raw = e_raw e\<rparr> \<in> set (parse_links (mem_content mem)))"
  shows "e \<in> set (st_edges st')"
proof -
  have wf: "tbl_wf edge_key (st_edges st)" and live: "e_src e \<in> mem_ids st"
    using inv e by (auto simp: store_inv_def inv_edges_def)
  from wr show ?thesis
  proof
    assume ins: "insert_memory i now nm author agent st = Inr (mem, st')"
    then have "e_src e \<noteq> i" using insert_memory_cases [OF inv ins] live by auto
    then show ?thesis using insert_edges [OF inv ins] e synced_edges_bound by auto
  next
    assume upd: "update_memory i u author agent base now st = Inr (mem, st')
         \<and> (e_src e = i \<longrightarrow> \<lparr>pl_rel = e_rel e, pl_raw = e_raw e\<rparr> \<in> set (parse_links (mem_content mem)))"
    then obtain st1 title where st1: "st_edges st1 = st_edges st" "st_tombs st1 = st_tombs st"
      "st_edges st' = synced_edges st1 i title (mem_content mem)"
      using update_edges [OF inv] by blast
    show ?thesis
      unfolding st1(3) by (rule synced_edges_keep_tombs [where d = d]) (use wf e st1 upd in auto)
  qed
qed

definition nm_budget2 :: new_memory where
  "nm_budget2 = \<lparr>nm_title = ''Budget'', nm_content = [], nm_taxonomy = ''home'', nm_format = []\<rparr>"

definition file5 :: store where
  "file5 = snd (projr (insert_memory ''c'' 50 nm_budget2 ''u'' [] file4))"

theorem tombstone_reference_kept_witness:
  "\<lparr>e_src = ''a'', e_dst = Some ''b'', e_raw = ''budget'', e_rel = ''depends-on''\<rparr> \<in> set (st_edges file5)"
proof -
  let ?e = "\<lparr>e_src = ''a'', e_dst = Some ''b'', e_raw = ''budget'', e_rel = ''depends-on''\<rparr> :: edge"
  have "insert_memory ''c'' 50 nm_budget2 ''u'' [] file4 =
      Inr (fst (projr (insert_memory ''c'' 50 nm_budget2 ''u'' [] file4)), file5)" by code_simp
  moreover have "?e \<in> set (st_edges file4)" and "''b'' \<in> tomb_ids file4" by code_simp+
  moreover have "e_dst ?e = Some ''b''" by simp
  ultimately show ?thesis using tombstone_reference_kept [OF file_invs(4)] by blast
qed

text \<open>Inserting a memory binds every dangling link to its title, from whatever memory; and links of
  other memories that were bound already are left as they are.\<close>

theorem insert_heals_dangling:
  assumes inv: "store_inv st" and res: "insert_memory i now nm author agent st = Inr (mem, st')"
    and e: "e \<in> set (st_edges st)"
  shows "(if e_dst e = None \<and> e_raw e = normalize_link (nm_title nm) then e\<lparr>e_dst := Some i\<rparr> else e) \<in> set (st_edges st')"
proof -
  have "e_src e \<in> mem_ids st" using inv e by (auto simp: store_inv_def inv_edges_def)
  then have "e_src e \<noteq> i" using insert_memory_cases [OF inv res] by auto
  then show ?thesis
    using insert_edges [OF inv res] e synced_edges_others [of e i _ "nm_title nm" "nm_content nm"]
    by (auto simp: heal_edge_def)
qed

theorem insert_heals_dangling_witness:
  "\<lparr>e_src = ''a'', e_dst = Some ''b'', e_raw = ''budget'', e_rel = ''depends-on''\<rparr> \<in> set (st_edges file2)"
proof -
  let ?e = "\<lparr>e_src = ''a'', e_dst = None, e_raw = ''budget'', e_rel = ''depends-on''\<rparr> :: edge"
  have "?e \<in> set (st_edges file1)" by code_simp
  moreover have "normalize_link (nm_title nm_budget) = ''budget''" by code_simp
  ultimately show ?thesis using insert_heals_dangling [OF file_invs(1) ran2, of ?e] by simp
qed

text \<open>Rebuilding the link index always succeeds and keeps memories, revisions and tombstones, but
  afterwards no edge points at a deleted memory: the references kept by ordinary edits are lost.\<close>

theorem rebuild_forgets_tombstones:
  assumes inv: "store_inv st"
  shows "\<exists>st'. rebuild_edges st = Inr st' \<and> store_inv st' \<and> st_mems st' = st_mems st \<and> st_revs st' = st_revs st
     \<and> st_tombs st' = st_tombs st \<and> (\<forall>e \<in> set (st_edges st'). \<forall>d. e_dst e = Some d \<longrightarrow> d \<notin> tomb_ids st)"
proof -
  obtain es where es: "rebuild_edges st = Inr (st\<lparr>st_edges := es\<rparr>)" "store_inv (st\<lparr>st_edges := es\<rparr>)"
    "\<forall>e \<in> set es. \<forall>d. e_dst e = Some d \<longrightarrow> d \<in> mem_ids st" using rebuild_edges_ok [OF inv] by blast
  moreover have "mem_ids st \<inter> tomb_ids st = {}" using inv by (simp add: store_inv_def inv_tombs_def)
  ultimately show ?thesis by (intro exI [of _ "st\<lparr>st_edges := es\<rparr>"]) auto
qed

theorem rebuild_forgets_tombstones_witness:
  "\<exists>st'. rebuild_edges file5 = Inr st' \<and> (\<forall>e \<in> set (st_edges st'). e_dst e \<noteq> Some ''b'')"
proof -
  have "insert_memory ''c'' 50 nm_budget2 ''u'' [] file4 =
      Inr (fst (projr (insert_memory ''c'' 50 nm_budget2 ''u'' [] file4)), file5)" by code_simp
  moreover have "''c'' \<notin> tomb_ids file4" by code_simp
  ultimately have "store_inv file5" using insert_memory_inv [OF file_invs(4)] by blast
  from rebuild_forgets_tombstones [OF this] obtain st' where "rebuild_edges file5 = Inr st'"
    "\<forall>e \<in> set (st_edges st'). \<forall>d. e_dst e = Some d \<longrightarrow> d \<notin> tomb_ids file5" by blast
  moreover have "''b'' \<in> tomb_ids file5" by code_simp
  ultimately show ?thesis by blast
qed

end
