(* ===== verification/Read_Properties.thy ===== *)
theory Read_Properties
  imports Tenant_Properties "HOL-Library.Multiset"
begin

text \<open>
  The properties of the read paths: what a scope lets through in Go and in SQL, paging, search and its
  budget, the link graph, suggestions and link statistics.
\<close>

section \<open>Scopes\<close>


definition home_scope :: scope where
  "home_scope = new_scope [''home''] [''home''] [''work'']"


definition leak_file :: store where
  "leak_file = snd (projr (insert_memory ''x'' 1
     \<lparr>nm_title = ''Secret'', nm_content = ''salary'', nm_taxonomy = ''teamXa.plan'', nm_format = []\<rparr> [] [] empty_store))"

text \<open>The SQL form of a scope lets through what the Go form refuses: with a grant on team\_a, LIKE reads
  the underscore as a wildcard, so a memory under teamXa is listed, content included, though
  the scope may not read it.\<close>

theorem like_scope_leak:
  "map mem_content (fst (list_memories leak_file (new_scope [''team_a''] [] []) [] 0 0)) = [''salary'']
   \<and> filter (\<lambda>r. can_read (new_scope [''team_a''] [] []) (str_of (m_taxonomy r))) (st_mems leak_file) = []"
  by code_simp

text \<open>No grant is lost on the way to SQL, and no grants means no rows: every readable memory of the
  requested branch is in the listing, and a scope without prefixes sees an empty corpus.\<close>

theorem listing_complete_default_deny:
  "(\<forall>r \<in> set (st_mems st). \<forall>t. m_taxonomy r = Some t \<and> can_read sc t \<and> branch_filter tax (Some t) \<longrightarrow>
       scan_memory r \<in> set (fst (list_memories st sc tax 0 0)))
   \<and> list_memories st zero_scope tax limit offset = ([], 0) \<and> catalog st zero_scope = []
   \<and> sr_results (search wide rank st zero_scope q tax budget) = []
   \<and> tombstones st zero_scope tax 0 = [] \<and> backlinks st zero_scope i = []"
proof -
  have r: "\<not> clause_sat (read_clause zero_scope) col" and t: "\<not> clause_sat (title_clause zero_scope) col" for col
    by (simp_all add: read_filter.deny title_filter.deny zero_scope_def)
  have rows: "list_rows st zero_scope tax = []" "catalog_rows st zero_scope = []"
    "search_rows rank st zero_scope expr tax = []" for expr
    by (simp_all add: list_rows_def catalog_rows_def search_rows_def r t)
  have edges: "scoped_edges st zero_scope = []"
    by (simp add: scoped_edges_def t)
  have "list_memories st zero_scope tax limit offset = ([], 0)" "catalog st zero_scope = []"
    "backlinks st zero_scope i = []" "sr_results (search wide rank st zero_scope q tax budget) = []"
    by (simp_all add: list_memories_def rows catalog_def backlinks_def edges search_def Let_def
        order_desc_def limit_offset_def)
  moreover have "tombstones st zero_scope tax 0 = []"
    by (simp add: tombstones_def t order_desc_def)
  moreover have "scan_memory r \<in> set (fst (list_memories st sc tax 0 0))"
    if "r \<in> set (st_mems st)" "m_taxonomy r = Some t" "can_read sc t" "branch_filter tax (Some t)" for r t
    using that read_filter.complete [of sc t] by (auto simp: list_memories_all list_rows_def)
  ultimately show ?thesis by blast
qed

theorem listing_complete_default_deny_witness:
  "map mem_id (fst (list_memories file2 home_scope ''home'' 0 0)) = [''b''] \<and> list_memories file2 zero_scope [] 5 0 = ([], 0)"
  by (intro conjI, code_simp) (use listing_complete_default_deny in blast)

section \<open>Paging\<close>

text \<open>The pages of a listing tile it: page after page of a fixed size yields the whole listing, in
  order, without gap or repetition, and the reported total is its length.\<close>

theorem pages_tile:
  assumes "0 < n" and "length (fst (list_memories st sc tax 0 0)) \<le> m * n"
  shows "concat (map (\<lambda>k. fst (list_memories st sc tax (int n) (int (k * n)))) [0..<m])
       = fst (list_memories st sc tax 0 0)
     \<and> snd (list_memories st sc tax 0 0) = length (fst (list_memories st sc tax 0 0))"
proof -
  let ?rows = "order_desc m_updated (list_rows st sc tax)"
  have "concat (map (\<lambda>k. fst (list_memories st sc tax (int n) (int (k * n)))) [0..<m])
      = map scan_memory (concat (map (\<lambda>k. take n (drop (k * n) ?rows)) [0..<m]))"
    using assms(1) by (simp add: list_memories_page map_concat comp_def del: of_nat_mult)
  also have "\<dots> = map scan_memory ?rows"
    using assms(2) unfolding take_drop_tiles list_memories_all by simp
  finally show ?thesis
    unfolding list_memories_all by (simp add: list_memories_def Let_def)
qed

theorem pages_tile_witness:
  "concat (map (\<lambda>k. fst (list_memories file2 full_scope [] (int 1) (int (k * 1)))) [0..<2])
     = fst (list_memories file2 full_scope [] 0 0)"
proof -
  have "length (fst (list_memories file2 full_scope [] 0 0)) \<le> 2 * 1" by code_simp
  then show ?thesis using pages_tile [of 1 file2 full_scope "[]" 2] by simp
qed

section \<open>Search\<close>

text \<open>A search under a positive budget returns only matching memories that pass the scope's read
  filter, in rank order, with at most the budgeted tokens; returned and omitted add up to the
  matches, and nothing is omitted when all matches fit.\<close>

theorem search_within_budget:
  fixes wide rank st sc q pfx b
  defines "res \<equiv> search wide rank st sc q pfx b"
    and "hits \<equiv> search_rows rank st sc (sanitize_fts_query wide q) pfx"
  assumes query: "sanitize_fts_query wide q \<noteq> []" and budget: "0 < b"
  shows "int (sum_list (map memory_tokens (sr_results res))) \<le> b
     \<and> length (sr_results res) + sr_omitted res = length hits
     \<and> (\<forall>mem \<in> set (sr_results res). \<exists>k r. (k, r) \<in> set hits \<and> r \<in> set (st_mems st) \<and> mem = search_hit st r
          \<and> clause_sat (read_clause sc) (m_taxonomy r))
     \<and> (int (sum_list (map (\<lambda>(k, r). memory_tokens (search_hit st r)) hits)) \<le> b \<longrightarrow> sr_omitted res = 0)"
proof -
  let ?sorted = "map (\<lambda>(k, r). search_hit st r) (sort_key (\<lambda>(k, r). search_key st k (m_id r)) hits)"
  have res: "sr_results res = fst (budget_loop memory_tokens b 0 ?sorted)"
    "sr_omitted res = snd (budget_loop memory_tokens b 0 ?sorted)"
    using query by (simp_all add: res_def hits_def search_def Let_def case_prod_beta)
  have "int (sum_list (map memory_tokens (sr_results res))) \<le> b"
    unfolding res using budget_loop_bound [of b 0 memory_tokens ?sorted] budget by simp
  moreover have "length (sr_results res) + sr_omitted res = length hits"
    unfolding res budget_loop_length by simp
  moreover have "\<exists>k r. (k, r) \<in> set hits \<and> r \<in> set (st_mems st) \<and> mem = search_hit st r
          \<and> clause_sat (read_clause sc) (m_taxonomy r)" if "mem \<in> set (sr_results res)" for mem
  proof -
    have "mem \<in> set ?sorted" using that unfolding res by (rule budget_loop_mem)
    then obtain k r where "(k, r) \<in> set hits" "mem = search_hit st r" by auto
    then show ?thesis using search_rows_mem unfolding hits_def by blast
  qed
  moreover have "sr_omitted res = 0" if fits: "int (sum_list (map (\<lambda>(k, r). memory_tokens (search_hit st r)) hits)) \<le> b"
  proof -
    let ?f = "\<lambda>p. memory_tokens (search_hit st (snd p))"
    have f: "map memory_tokens ?sorted = map ?f (sort_key (\<lambda>(k, r). search_key st k (m_id r)) hits)"
      "map (\<lambda>(k, r). memory_tokens (search_hit st r)) hits = map ?f hits"
      by (simp_all add: case_prod_beta')
    have "mset (map ?f (sort_key (\<lambda>(k, r). search_key st k (m_id r)) hits)) = mset (map ?f hits)"
      by (simp only: mset_map mset_sort)
    then have "sum_list (map memory_tokens ?sorted) = sum_list (map (\<lambda>(k, r). memory_tokens (search_hit st r)) hits)"
      unfolding f by (metis sum_mset_sum_list)
    then show ?thesis unfolding res using fits budget_loop_fits [of 0 memory_tokens ?sorted b] by simp
  qed
  ultimately show ?thesis by blast
qed

text \<open>A concrete index for the witness: a row matches when the quoted term is in its title.\<close>

definition title_rank :: "string \<Rightarrow> fts_row \<Rightarrow> rat option" where
  "title_rank expr f = (if to_lower (filter (\<lambda>c. c \<noteq> quote_char) expr) = to_lower (f_title f) then Some (-1) else None)"

theorem search_within_budget_witness:
  "length (sr_results (search (\<lambda>_. False) title_rank file2 full_scope ''plan'' [] 8))
   + sr_omitted (search (\<lambda>_. False) title_rank file2 full_scope ''plan'' [] 8) = 1"
proof -
  have "sanitize_fts_query (\<lambda>_. False) ''plan'' \<noteq> []" by code_simp
  then have "length (sr_results (search (\<lambda>_. False) title_rank file2 full_scope ''plan'' [] 8))
   + sr_omitted (search (\<lambda>_. False) title_rank file2 full_scope ''plan'' [] 8)
   = length (search_rows title_rank file2 full_scope (sanitize_fts_query (\<lambda>_. False) ''plan'') [])"
    using search_within_budget [of "\<lambda>_. False" "''plan''" 8] by simp
  also have "\<dots> = 1" by code_simp
  finally show ?thesis .
qed

text \<open>Whatever text is searched, the expression handed to the full-text engine is a sequence of
  quoted literals separated by blanks, and no literal is empty or contains a quote, so no operator of
  the user's text reaches the engine.\<close>

theorem sanitized_query_literals:
  "\<exists>fields. sanitize_fts_query wide q = join_with '' '' (map (\<lambda>f. [quote_char] @ f @ [quote_char]) fields)
     \<and> (\<forall>f \<in> set fields. f \<noteq> [] \<and> quote_char \<notin> set f)"
proof (intro exI conjI)
  show "sanitize_fts_query wide q = join_with '' '' (map (\<lambda>f. [quote_char] @ f @ [quote_char]) (query_fields wide q))"
    by (simp add: sanitize_fts_query_def query_fields_def quote_char_def Let_def)
  show "\<forall>f \<in> set (query_fields wide q). f \<noteq> [] \<and> quote_char \<notin> set f"
    using query_fields_plain by blast
qed

theorem sanitized_query_literals_witness:
  "\<exists>fields. sanitize_fts_query (\<lambda>_. False) ''a\" OR x*'' = join_with '' '' (map (\<lambda>f. [quote_char] @ f @ [quote_char]) fields)
     \<and> (\<forall>f \<in> set fields. f \<noteq> [] \<and> quote_char \<notin> set f)"
  by (rule sanitized_query_literals)

end
