(* ===== verification/Graph_Properties.thy ===== *)
theory Graph_Properties
  imports Read_Properties
begin

text \<open>
  The properties of the link graph, the suggestions, the link statistics, the review schedule, the
  roster and the taxonomy template.
\<close>

section \<open>The link graph\<close>


definition graph2 :: link_graph where
  "graph2 = projr (graph file2 home_scope ''b'' 2 [])"

lemma ran_graph2: "graph file2 home_scope ''b'' 2 [] = Inr graph2"
  by code_simp


definition slice_node :: "store \<Rightarrow> scope \<Rightarrow> string \<Rightarrow> graph_node" where
  "slice_node st sc i = (case node_at (readable_meta st sc) i of Some n \<Rightarrow> n | None \<Rightarrow> plain_node [] [] [])"

lemma slice_node_full:
  assumes "i \<in> readable_ids st sc"
  shows "gn_id (slice_node st sc i) = i \<and> \<not> gn_hidden (slice_node st sc i)
     \<and> \<not> gn_deleted (slice_node st sc i) \<and> \<not> gn_dangling (slice_node st sc i)"
proof -
  obtain n where n: "node_at (readable_meta st sc) i = Some n"
    using assms node_at_readable by blast
  then have "n \<in> set (node_meta st)" "gn_id n = i"
    by (auto dest!: node_at_SomeD simp: readable_meta_def split: if_splits)
  then show ?thesis using n by (auto simp: node_meta_mem slice_node_def)
qed

definition drawn_node :: "graph_node \<Rightarrow> bool" where
  "drawn_node n \<longleftrightarrow> \<not> gn_hidden n \<and> \<not> gn_deleted n \<and> \<not> gn_dangling n"

lemma extra_not_drawn:
  assumes "n \<in> set (fst (draw_edges incl (hidden_leaves st sc @ tombstone_nodes st sc) gh es))"
  shows "\<not> drawn_node n"
  using draw_edges_nodes [OF assms]
  by (auto simp: drawn_node_def hidden_leaves_def tombstone_nodes_def ghost_of_def split: if_splits)

text \<open>C36: Around a center the slice holds exactly the memories reachable from it over resolved links, in
  either direction, within the depth asked for (2 by default, never more than 4), through memories
  the scope may read only: tombstones, title leaves and hidden memories never bridge.\<close>

theorem ego_graph_is_reachability:
  assumes "graph st sc center depth tax = Inr g" and "center \<noteq> []" and "[] \<notin> mem_ids st"
  shows "gn_id ` {n \<in> set (lg_nodes g). drawn_node n}
       = {i. \<exists>k \<le> graph_depth depth. (center, i) \<in> link_rel st sc ^^ k}
     \<and> graph_depth depth \<le> 4"
proof
  let ?incl = "included_nodes center depth tax (readable_meta st sc) (all_edges st)"
  have readable: "\<forall>i \<in> set ?incl. i \<in> readable_ids st sc"
    using graph_included_readable [OF assms(1)] by blast
  have nodes: "lg_nodes g = map (slice_node st sc) ?incl
      @ fst (draw_edges ?incl (hidden_leaves st sc @ tombstone_nodes st sc) [] (all_edges st))"
    using graph_cases [OF assms(1)] by (simp add: slice_node_def [abs_def])
  have "{n \<in> set (lg_nodes g). drawn_node n} = slice_node st sc ` set ?incl"
    using readable slice_node_full extra_not_drawn unfolding nodes by (fastforce simp: drawn_node_def)
  then have "gn_id ` {n \<in> set (lg_nodes g). drawn_node n} = (\<lambda>i. gn_id (slice_node st sc i)) ` set ?incl"
    by (simp add: image_image)
  also have "\<dots> = set ?incl" using readable slice_node_full by (simp cong: image_cong)
  also have "\<dots> = hops (adjacent (readable_meta st sc) (all_edges st)) (graph_depth depth) {center}"
    using assms(2) by (simp add: included_nodes_def bfs_center)
  also have "\<dots> = {i. \<exists>k \<le> graph_depth depth. (center, i) \<in> link_rel st sc ^^ k}"
    by (simp add: hops_def steps_readable [OF assms(3)])
  finally show "gn_id ` {n \<in> set (lg_nodes g). drawn_node n}
       = {i. \<exists>k \<le> graph_depth depth. (center, i) \<in> link_rel st sc ^^ k}" .
  show "graph_depth depth \<le> 4" by (auto simp: graph_depth_def max_graph_depth_def Let_def)
qed

theorem ego_graph_is_reachability_witness:
  "{i. \<exists>k \<le> graph_depth 2. (''b'', i) \<in> link_rel file2 home_scope ^^ k} = {''b''}"
proof -
  have "[] \<notin> mem_ids file2" by code_simp
  from ego_graph_is_reachability [OF ran_graph2 _ this] have
    "{i. \<exists>k \<le> graph_depth 2. (''b'', i) \<in> link_rel file2 home_scope ^^ k} = gn_id ` {n \<in> set (lg_nodes graph2). drawn_node n}"
    by simp
  also have "\<dots> = {''b''}" by code_simp
  finally show ?thesis .
qed

text \<open>A center the scope may not read and a center that does not exist get the same answer, the
  not-found error for that id; a readable center always gets a graph.\<close>

theorem hidden_center_is_missing:
  "center \<noteq> [] \<Longrightarrow>
     (if center \<in> readable_ids st sc then \<exists>g. graph st sc center depth tax = Inr g
      else graph st sc center depth tax = Inl (NotFound center))"
  using node_at_readable [of st sc center]
  by (cases "node_at (readable_meta st sc) center") (auto simp: graph_def Let_def case_prod_beta)

theorem hidden_center_is_missing_witness:
  "graph file2 home_scope ''a'' 2 [] = Inl (NotFound ''a'') \<and> graph file2 home_scope ''zz'' 2 [] = Inl (NotFound ''zz'')"
proof -
  have "''a'' \<notin> readable_ids file2 home_scope \<and> ''zz'' \<notin> readable_ids file2 home_scope"
    unfolding node_at_readable [symmetric] by code_simp
  then show ?thesis
    using hidden_center_is_missing [of "''a''" file2 home_scope 2 "[]"]
      hidden_center_is_missing [of "''zz''" file2 home_scope 2 "[]"] by simp
qed

section \<open>Suggestions and statistics\<close>

lemma distinct_map_sort: "distinct (map f (sort_key k xs)) = distinct (map f xs)"
  by (intro mset_eq_imp_distinct_iff) (simp add: mset_map)

lemma suggest_links_pairs:
  "distinct (map (\<lambda>s. pair_key (sm_id (sg_source s)) (sm_id (sg_target s))) (suggest_links wide rank st sc limit))"
proof -
  let ?best = "suggest_loop wide rank st sc (filter (\<lambda>r. clause_sat (read_clause sc) (m_taxonomy r)) (st_mems st)) []"
  let ?pk = "\<lambda>s. pair_key (sm_id (sg_source s)) (sm_id (sg_target s))"
  have good: "good_best st sc ?best" by (rule good_suggest_loop) (auto simp: good_best_def)
  then have "map ?pk (map snd ?best) = map fst ?best"
    by (auto simp: good_best_def list_all_iff good_entry_def)
  then have "distinct (map ?pk (map snd ?best))" using good unfolding good_best_def by metis
  then show ?thesis
    by (simp only: suggest_links_def Let_def take_map [symmetric] distinct_map_sort distinct_take)
qed

text \<open>A suggestion names two different memories, both let through by the scope's read filter, with no
  resolved link between them in either direction; no pair is suggested twice and the limit holds.\<close>

theorem suggestions_are_new_links:
  assumes "s \<in> set (suggest_links wide rank st sc limit)"
  shows "readable_row st sc (sg_source s) \<and> readable_row st sc (sg_target s)
     \<and> sm_id (sg_source s) \<noteq> sm_id (sg_target s)
     \<and> (\<forall>e \<in> set (st_edges st).
          \<not> (e_src e = sm_id (sg_source s) \<and> e_dst e = Some (sm_id (sg_target s)))
        \<and> \<not> (e_src e = sm_id (sg_target s) \<and> e_dst e = Some (sm_id (sg_source s))))
     \<and> distinct (map (\<lambda>s. pair_key (sm_id (sg_source s)) (sm_id (sg_target s))) (suggest_links wide rank st sc limit))
     \<and> length (suggest_links wide rank st sc limit) \<le> (if limit \<le> 0 then 20 else nat limit)"
proof -
  note good = suggest_links_good [OF assms]
  have "\<not> (e_src e = sm_id (sg_source s) \<and> e_dst e = Some (sm_id (sg_target s)))
        \<and> \<not> (e_src e = sm_id (sg_target s) \<and> e_dst e = Some (sm_id (sg_source s)))"
    if "e \<in> set (st_edges st)" for e
    using good linked_pairs_mem [OF that] pair_key_commute [of "sm_id (sg_source s)" "sm_id (sg_target s)"]
    by (auto simp: good_entry_def)
  moreover have "length (suggest_links wide rank st sc limit) \<le> (if limit \<le> 0 then 20 else nat limit)"
    by (simp add: suggest_links_def Let_def)
  ultimately show ?thesis using good suggest_links_pairs by (auto simp: good_entry_def)
qed

text \<open>An index in which every row matches every query, with the same rank.\<close>

definition any_rank :: "string \<Rightarrow> fts_row \<Rightarrow> rat option" where
  "any_rank expr f = Some (-1)"

definition plan_a :: new_memory where
  "plan_a = \<lparr>nm_title = ''Plan a'', nm_content = [], nm_taxonomy = ''w'', nm_format = []\<rparr>"

definition plan_b :: new_memory where
  "plan_b = \<lparr>nm_title = ''Plan b'', nm_content = [], nm_taxonomy = ''w'', nm_format = []\<rparr>"

definition lone_file :: store where
  "lone_file = snd (projr (insert_memory ''b'' 2 plan_b [] [] (snd (projr (insert_memory ''a'' 1 plan_a [] [] empty_store)))))"

theorem suggestions_are_new_links_witness:
  "\<exists>s. suggest_links (\<lambda>_. False) any_rank lone_file full_scope 0 = [s]
     \<and> sm_id (sg_source s) \<noteq> sm_id (sg_target s) \<and> readable_row lone_file full_scope (sg_target s)"
proof -
  let ?s = "hd (suggest_links (\<lambda>_. False) any_rank lone_file full_scope 0)"
  have one: "suggest_links (\<lambda>_. False) any_rank lone_file full_scope 0 = [?s]" by code_simp
  then have "?s \<in> set (suggest_links (\<lambda>_. False) any_rank lone_file full_scope 0)"
    by (metis list.set_intros(1))
  from suggestions_are_new_links [OF this] one show ?thesis by blast
qed

text \<open>The link statistics are consistent and scoped: resolved and dangling add up to the total, every
  listed dangling target names as many sources as it counts, once per target and relation, at most
  fifteen of them, and every source shown passes the scope's title filter.\<close>

theorem edge_health_consistent:
  fixes st sc
  defines "h \<equiv> edge_health st sc"
  shows "eh_resolved h + eh_dangling h = eh_total h \<and> length (eh_top h) \<le> 15
     \<and> (\<forall>d \<in> set (eh_top h). dr_count d = length (dr_sources d)
          \<and> (\<forall>x \<in> set (dr_sources d). \<exists>e s. (e, s) \<in> set (scoped_edges st sc) \<and> x = scoped_of s
               \<and> e_dst e = None \<and> e_raw e = dr_target d \<and> e_rel e = dr_rel d
               \<and> clause_sat (title_clause sc) (m_taxonomy s)))"
proof -
  let ?dang = "filter (\<lambda>(e, s). e_dst e = None) (scoped_edges st sc)"
  let ?rows = "sort_key (\<lambda>(e, s). (e_raw e, e_rel e)) (order_desc (\<lambda>(e, s). m_updated s) ?dang)"
  have rows: "set ?rows = set ?dang" by simp
  have "eh_resolved h + eh_dangling h = eh_total h"
    using length_filter_partition [of "\<lambda>(e, s). e_dst e = None" "scoped_edges st sc"]
    by (simp add: h_def edge_health_def Let_def case_prod_beta')
  moreover have "length (eh_top h) \<le> 15"
    by (simp add: h_def edge_health_def Let_def)
  moreover have "dr_count d = length (dr_sources d)
          \<and> (\<forall>x \<in> set (dr_sources d). \<exists>e s. (e, s) \<in> set (scoped_edges st sc) \<and> x = scoped_of s
               \<and> e_dst e = None \<and> e_raw e = dr_target d \<and> e_rel e = dr_rel d
               \<and> clause_sat (title_clause sc) (m_taxonomy s))" if "d \<in> set (eh_top h)" for d
  proof -
    have d: "d \<in> set (dangling_groups ?rows)" using that edge_health_top unfolding h_def by blast
    have "\<exists>e s. (e, s) \<in> set (scoped_edges st sc) \<and> x = scoped_of s
               \<and> e_dst e = None \<and> e_raw e = dr_target d \<and> e_rel e = dr_rel d
               \<and> clause_sat (title_clause sc) (m_taxonomy s)" if x: "x \<in> set (dr_sources d)" for x
    proof -
      obtain e s where es: "(e, s) \<in> set ?rows" "x = scoped_of s" "e_raw e = dr_target d" "e_rel e = dr_rel d"
        using dangling_groups_sources [OF d x] by blast
      then have "(e, s) \<in> set (scoped_edges st sc)" "e_dst e = None" unfolding rows by auto
      then show ?thesis using es scoped_edges_mem by blast
    qed
    then show ?thesis using dangling_groups_counts d by blast
  qed
  ultimately show ?thesis by blast
qed

theorem edge_health_consistent_witness:
  "eh_dangling (edge_health file1 full_scope) = 1
   \<and> eh_resolved (edge_health file1 full_scope) + eh_dangling (edge_health file1 full_scope) = eh_total (edge_health file1 full_scope)"
  by (intro conjI, code_simp) (use edge_health_consistent in blast)

section \<open>Reviews\<close>

text \<open>Grading moves a card along the SM-2 schedule: a grade below 3 restarts it, due at once; otherwise
  the interval is 1 day, then 6, then at least the last interval, and the card is due that many days
  later; the ease never falls below the floor. A grade outside 0 to 5 changes nothing.\<close>

theorem grade_schedule:
  assumes deck: "deck_ok fl st" and res: "grade_review fl i g now st = Inr (s', st')"
    and cur: "tbl_get s_id i (st_srs st) = Some s"
    and fl_mono: "\<And>x y. x \<le> y \<Longrightarrow> fl x \<le> fl y" and fl_int: "\<And>n. fl (of_int n) = of_int n"
  shows "tbl_get s_id i (st_srs st') = Some s' \<and> 0 \<le> g \<and> g \<le> 5 \<and> fl min_ease \<le> s_ease s' \<and> s_last s' = Some now
     \<and> (if g < 3 then s_reps s' = 0 \<and> s_interval s' = 0 \<and> s_due s' = now
        else s_reps s' = s_reps s + 1 \<and> s_due s' = now + s_interval s' * day_secs
          \<and> (s_reps s = 0 \<longrightarrow> s_interval s' = 1) \<and> (s_reps s = 1 \<longrightarrow> s_interval s' = 6)
          \<and> (1 < s_reps s \<longrightarrow> s_interval s \<le> s_interval s'))"
proof -
  have s': "s' = grade_card fl g now s" and g: "0 \<le> g" "g \<le> 5"
    and st': "st' = st\<lparr>st_srs := tbl_upd s_id i (\<lambda>_. s') (st_srs st)\<rparr>"
    using res cur by (auto simp: grade_review_cases)
  have ok: "card_ok fl s" using deck cur by (auto simp: deck_ok_def dest: tbl_get_SomeD)
  have id: "s_id s' = i" using cur s' by (auto dest: tbl_get_SomeD)
  have "s_interval s \<le> round_half_away (fl (fl (of_int (s_interval s)) * s_ease s))"
  proof (rule round_half_away_ge)
    show "0 \<le> s_interval s" using ok by (simp add: card_ok_def)
    have "(1 :: rat) = fl (of_int 1)" unfolding fl_int by simp
    also have "\<dots> \<le> fl min_ease" by (rule fl_mono) (simp add: min_ease_def)
    also have "\<dots> \<le> s_ease s" using ok by (simp add: card_ok_def)
    finally have "of_int (s_interval s) * 1 \<le> of_int (s_interval s) * s_ease s"
      using \<open>0 \<le> s_interval s\<close> by (intro mult_left_mono) simp_all
    then have "fl (of_int (s_interval s)) \<le> fl (fl (of_int (s_interval s)) * s_ease s)"
      by (intro fl_mono) (simp add: fl_int)
    then show "of_int (s_interval s) \<le> fl (fl (of_int (s_interval s)) * s_ease s)" by (simp add: fl_int)
  qed
  then have "1 < s_reps s \<longrightarrow> s_interval s \<le> next_interval fl (s_reps s + 1) (s_interval s) (s_ease s)"
    by (auto simp: next_interval_def)
  moreover have "tbl_get s_id i (st_srs st') = Some s'"
    using id cur by (simp add: st' tbl_get_upd_const)
  moreover have "fl min_ease \<le> s_ease s'" unfolding s' by (simp add: next_ease_floor)
  ultimately show ?thesis using g by (simp add: s' next_interval_def)
qed

definition deck1 :: store where
  "deck1 = snd (projr (add_to_review ''a'' 100 file1))"

definition deck2 :: store where
  "deck2 = snd (projr (grade_review exact ''a'' 4 100 deck1))"

definition deck3 :: store where
  "deck3 = snd (projr (grade_review exact ''a'' 5 200 deck2))"

theorem grade_schedule_witness:
  "map s_interval (st_srs deck3) = [6] \<and> exact min_ease \<le> s_ease (hd (st_srs deck3))"
proof -
  have "add_to_review ''a'' 100 file1 = Inr (fst (projr (add_to_review ''a'' 100 file1)), deck1)" by code_simp
  then have s1: "store_step exact file1 deck1" by (rule store_step.Enrol)
  have "grade_review exact ''a'' 4 100 deck1 = Inr (fst (projr (grade_review exact ''a'' 4 100 deck1)), deck2)" by code_simp
  then have s2: "store_step exact deck1 deck2" by (rule store_step.Grade)
  have "store_steps exact empty_store deck2"
    using step1 [of exact] s1 s2 by (meson rtranclp.rtrancl_into_rtrancl rtranclp.rtrancl_refl)
  then have "deck_ok exact deck2"
    using steps_file_ok [OF _ file_ok_empty] by (auto simp: file_ok_def exact_def min_ease_def)
  moreover have "grade_review exact ''a'' 5 200 deck2 = Inr (fst (projr (grade_review exact ''a'' 5 200 deck2)), deck3)" by code_simp
  moreover have "tbl_get s_id ''a'' (st_srs deck2) = Some (hd (st_srs deck2))" by code_simp
  ultimately have "exact min_ease \<le> s_ease (fst (projr (grade_review exact ''a'' 5 200 deck2)))"
    using grade_schedule [of exact deck2 "''a''" 5 200] by (simp add: exact_def)
  moreover have "fst (projr (grade_review exact ''a'' 5 200 deck2)) = hd (st_srs deck3)" by code_simp
  moreover have "map s_interval (st_srs deck3) = [6]" by code_simp
  ultimately show ?thesis by simp
qed

section \<open>Members\<close>

text \<open>C19: Access to a file is decided by its roster: with a row, that member; without any rows, the sole
  user as owner; with rows but none for the caller, refusal. A stored upsert is what is read back.\<close>

theorem access_by_roster:
  "(effective_member st i = (None, True) \<longleftrightarrow> st_members st \<noteq> [] \<and> i \<notin> mb_id ` set (st_members st))
   \<and> (st_members st = [] \<longrightarrow> effective_member st i = (Some (synthetic_owner i), False))
   \<and> (\<forall>role rd ti b now st'. put_member i role rd ti b now st = Inr st' \<longrightarrow>
        (\<exists>m. effective_member st' i = (Some m, False) \<and> mm_role m = role
           \<and> set (mm_read m) = set rd \<and> set (mm_titles m) = set ti)
        \<and> (\<forall>j. j \<noteq> i \<and> j \<notin> mb_id ` set (st_members st) \<longrightarrow> effective_member st' j = (None, True)))"
proof (intro conjI allI impI)
  show "effective_member st i = (None, True) \<longleftrightarrow> st_members st \<noteq> [] \<and> i \<notin> mb_id ` set (st_members st)"
    using effective_member_denied [of st i] effective_member_total [of st i] by auto
  show "st_members st = [] \<Longrightarrow> effective_member st i = (Some (synthetic_owner i), False)"
    by (simp add: effective_member_cases)
next
  fix role rd ti b now st'
  assume put: "put_member i role rd ti b now st = Inr st'"
  show "\<exists>m. effective_member st' i = (Some m, False) \<and> mm_role m = role
           \<and> set (mm_read m) = set rd \<and> set (mm_titles m) = set ti"
    using member_at_put [OF put] effective_member_cases by blast
  fix j assume j: "j \<noteq> i \<and> j \<notin> mb_id ` set (st_members st)"
  then have "tbl_get mb_id j (st_members st') = None"
    using member_at_other [OF put, of j] by (simp add: tbl_get_None_iff)
  moreover have "st_members st' \<noteq> []"
    using member_at_put [OF put] by (auto simp: member_at_def tbl_get_def)
  ultimately show "effective_member st' j = (None, True)"
    by (simp add: effective_member_def member_at_def has_members_def)
qed

theorem access_by_roster_witness:
  "\<exists>st'. put_member ''u'' RoleViewer [''w''] [] ''u'' 1 empty_store = Inr st'
     \<and> effective_member st' ''v'' = (None, True)"
proof -
  have put: "put_member ''u'' RoleViewer [''w''] [] ''u'' 1 empty_store =
      Inr (projr (put_member ''u'' RoleViewer [''w''] [] ''u'' 1 empty_store))" by code_simp
  have other: "''v'' \<noteq> ''u'' \<and> ''v'' \<notin> mb_id ` set (st_members empty_store)" by code_simp
  note after = access_by_roster [THEN conjunct2, THEN conjunct2, THEN spec, THEN spec, THEN spec, THEN spec,
      THEN spec, THEN spec, THEN mp, OF put, THEN conjunct2, THEN spec, THEN mp, OF other]
  show ?thesis by (intro exI conjI) (rule put, rule after)
qed

text \<open>A role fixes the reach: owners and admins are unrestricted; an editor writes exactly where it
  reads; a viewer, or any role the program does not know, never writes; what is not granted is
  neither read nor written.\<close>

theorem role_reach:
  "(mm_role m \<in> {RoleOwner, RoleAdmin} \<longrightarrow> can_write (member_scope m) t)
   \<and> (mm_role m = RoleEditor \<longrightarrow> can_write (member_scope m) t = can_read (member_scope m) t)
   \<and> (mm_role m \<notin> {RoleOwner, RoleAdmin, RoleEditor} \<longrightarrow> \<not> can_write (member_scope m) t)
   \<and> (mm_role m \<notin> {RoleOwner, RoleAdmin} \<longrightarrow>
        can_read (member_scope m) t = prefix_match (mm_read m) t
        \<and> title_visible (member_scope m) t = (prefix_match (mm_read m) t \<or> prefix_match (mm_titles m) t))"
  by (cases "mm_role m")
     (auto simp: member_scope_def can_read_def can_write_def title_visible_def new_scope_def)

theorem role_reach_witness:
  "\<not> can_write (member_scope ((synthetic_owner ''u'')\<lparr>mm_role := RoleOther ''root'', mm_read := [''w'']\<rparr>)) ''w''
   \<and> can_write (member_scope ((synthetic_owner ''u'')\<lparr>mm_role := RoleEditor, mm_read := [''w'']\<rparr>)) ''w.x''"
proof -
  have "prefix_match [''w''] ''w.x''" by code_simp
  then show ?thesis
    using role_reach [of "(synthetic_owner ''u'')\<lparr>mm_role := RoleOther ''root'', mm_read := [''w'']\<rparr>" "''w''"]
      role_reach [of "(synthetic_owner ''u'')\<lparr>mm_role := RoleEditor, mm_read := [''w'']\<rparr>" "''w.x''"]
    by simp
qed

section \<open>The template\<close>

text \<open>Saving a template with distinct, non-empty paths and reading it gives the branches back in the
  order they were given; saving none brings the shipped default of the kind of corpus back.\<close>

theorem template_roundtrip:
  assumes "distinct (map br_path bs)" and "[] \<notin> br_path ` set bs"
  shows "tr_branches (taxonomy_template_for (set_taxonomy_template bs st) caller team)
     = (if bs = [] then default_template_for team else with_sort bs)"
  using saved_after_set [OF assms, of st]
  by (cases bs) (auto simp: taxonomy_template_for_def Let_def with_sort_def)

theorem template_roundtrip_witness:
  "tr_branches (taxonomy_template_for (set_taxonomy_template [Branch ''z'' [] 9, Branch ''a'' [] 3] empty_store)
      (synthetic_owner ''u'') []) = [Branch ''z'' [] 0, Branch ''a'' [] 1]"
  by (subst template_roundtrip) (simp_all add: with_sort_def)

end
