(* ===== verification/Handle_Manager.thy ===== *)
theory Handle_Manager
  imports Go_Prelude
begin

text \<open>
  The lifecycle of tenant handles (\<^verbatim>\<open>internal/db/manager.go\<close>): lazy open, leases, the idle reaper, the
  cap on open handles. Each operation that the code runs under a lock is one step; \<open>mg_leases\<close>
  is a ghost component, the release functions handed out and not yet called. Times are nanoseconds.
\<close>

section \<open>State\<close>

record instance_st =
  in_path :: string
  in_open :: bool
  in_refs :: int
  in_used :: int

record manager_st =
  mg_instances :: "instance_st list"
  mg_open :: "string list"
  mg_idle_ttl :: int
  mg_max_open :: int
  mg_opens :: nat
  mg_closes :: nat
  mg_leases :: "string list"

definition new_manager :: "int \<Rightarrow> int \<Rightarrow> manager_st" where
  "new_manager idle_ttl max_open =
     \<lparr>mg_instances = [], mg_open = [], mg_idle_ttl = (if idle_ttl \<le> 0 then 120000000000 else idle_ttl),
      mg_max_open = max_open, mg_opens = 0, mg_closes = 0, mg_leases = []\<rparr>"

definition inst_at :: "manager_st \<Rightarrow> string \<Rightarrow> instance_st option" where
  "inst_at m p = tbl_get in_path p (mg_instances m)"

definition put_inst :: "instance_st \<Rightarrow> manager_st \<Rightarrow> manager_st" where
  "put_inst i m = m\<lparr>mg_instances := tbl_upd in_path (in_path i) (\<lambda>_. i) (mg_instances m)\<rparr>"

section \<open>Operations\<close>

definition instance_with :: "string \<Rightarrow> manager_st \<Rightarrow> manager_st" where
  "instance_with p m =
     (case tbl_ins in_path \<lparr>in_path = p, in_open = False, in_refs = 0, in_used = 0\<rparr> (mg_instances m) of
        None \<Rightarrow> m | Some is \<Rightarrow> m\<lparr>mg_instances := is\<rparr>)"

definition on_open :: "string \<Rightarrow> manager_st \<Rightarrow> manager_st" where
  "on_open p m = m\<lparr>mg_open := (if p \<in> set (mg_open m) then mg_open m else mg_open m @ [p]),
                   mg_opens := mg_opens m + 1\<rparr>"

definition on_close :: "string \<Rightarrow> manager_st \<Rightarrow> manager_st" where
  "on_close p m = m\<lparr>mg_open := filter (\<lambda>q. q \<noteq> p) (mg_open m), mg_closes := mg_closes m + 1\<rparr>"

definition close_if_idle :: "int \<Rightarrow> int \<Rightarrow> string \<Rightarrow> manager_st \<Rightarrow> bool \<times> manager_st" where
  "close_if_idle ttl now p m =
     (case inst_at m p of
        None \<Rightarrow> (False, m)
      | Some i \<Rightarrow>
          if \<not> in_open i \<or> in_refs i \<noteq> 0 then (False, m)
          else if 0 < ttl \<and> now - in_used i < ttl then (False, m)
          else (True, on_close p (put_inst (i\<lparr>in_open := False\<rparr>) m)))"

text \<open>The part of \<^verbatim>\<open>Acquire\<close> under the instance lock: open when closed (the opener may fail), then pin.\<close>

definition acquire_locked :: "bool \<Rightarrow> int \<Rightarrow> string \<Rightarrow> manager_st \<Rightarrow> bool \<times> manager_st" where
  "acquire_locked opens_ok now p m =
     (case inst_at m p of
        None \<Rightarrow> (False, m)
      | Some i \<Rightarrow>
          if \<not> in_open i \<and> \<not> opens_ok then (False, m)
          else (let m1 = (if in_open i then m else on_open p m)
                in (True, put_inst (i\<lparr>in_open := True, in_refs := in_refs i + 1, in_used := now\<rparr>)
                       (m1\<lparr>mg_leases := p # mg_leases m1\<rparr>))))"

definition release_handle :: "int \<Rightarrow> string \<Rightarrow> manager_st \<Rightarrow> manager_st" where
  "release_handle now p m =
     (case inst_at m p of
        None \<Rightarrow> m
      | Some i \<Rightarrow> put_inst (i\<lparr>in_used := now, in_refs := in_refs i - 1\<rparr>)
          (m\<lparr>mg_leases := remove1 p (mg_leases m)\<rparr>))"

definition open_count :: "manager_st \<Rightarrow> nat" where
  "open_count m = length (mg_open m)"

definition lru_idle_open :: "manager_st \<Rightarrow> string option" where
  "lru_idle_open m =
     (case sort_key in_used (filter (\<lambda>i. in_refs i = 0)
             (concat (map (\<lambda>p. case inst_at m p of None \<Rightarrow> [] | Some i \<Rightarrow> [i]) (mg_open m)))) of
        [] \<Rightarrow> None | i # _ \<Rightarrow> Some (in_path i))"

text \<open>
  \<^verbatim>\<open>enforceBudget\<close> run without interference: each round closes the victim. The fuel bounds the
  rounds; a round closes a handle, so the number of open handles is enough.
\<close>

fun enforce_loop :: "nat \<Rightarrow> int \<Rightarrow> manager_st \<Rightarrow> manager_st" where
  "enforce_loop 0 now m = m"
| "enforce_loop (Suc k) now m =
     (if int (open_count m) < mg_max_open m then m
      else (case lru_idle_open m of
              None \<Rightarrow> m
            | Some p \<Rightarrow> enforce_loop k now (snd (close_if_idle 0 now p m))))"

definition enforce_budget :: "int \<Rightarrow> manager_st \<Rightarrow> manager_st" where
  "enforce_budget now m = (if mg_max_open m \<le> 0 then m else enforce_loop (open_count m) now m)"

definition acquire :: "bool \<Rightarrow> int \<Rightarrow> string \<Rightarrow> manager_st \<Rightarrow> bool \<times> manager_st" where
  "acquire opens_ok now p m =
     (let m1 = (case inst_at m p of Some i \<Rightarrow> if in_open i then m else enforce_budget now m | None \<Rightarrow> m)
      in acquire_locked opens_ok now p m1)"

definition reap :: "int \<Rightarrow> manager_st \<Rightarrow> manager_st" where
  "reap now m = fold (\<lambda>p m. snd (close_if_idle (mg_idle_ttl m) now p m)) (mg_open m) m"

definition shutdown :: "int \<Rightarrow> manager_st \<Rightarrow> manager_st" where
  "shutdown now m = fold (\<lambda>p m. snd (close_if_idle 0 now p m)) (mg_open m) m"

section \<open>Interleavings\<close>

text \<open>
  Any goroutine may run any locked operation next: the reaper and the budget close handles at any
  time, and an acquire may find the handle open, or open it. A release needs a lease.
\<close>

inductive mgr_step :: "manager_st \<Rightarrow> manager_st \<Rightarrow> bool" where
  Get: "mgr_step m (instance_with p m)"
| Close: "close_if_idle ttl now p m = (b, m') \<Longrightarrow> mgr_step m m'"
| Acquire: "acquire_locked opens_ok now p m = (b, m') \<Longrightarrow> mgr_step m m'"
| Release: "p \<in> set (mg_leases m) \<Longrightarrow> mgr_step m (release_handle now p m)"

inductive_cases mgr_stepE: "mgr_step m m'"

definition mgr_ok :: "manager_st \<Rightarrow> bool" where
  "mgr_ok m \<longleftrightarrow> tbl_wf in_path (mg_instances m) \<and> distinct (mg_open m)
     \<and> (\<forall>i \<in> set (mg_instances m). in_refs i = int (count_list (mg_leases m) (in_path i))
          \<and> (0 < in_refs i \<longrightarrow> in_open i) \<and> (in_open i \<longleftrightarrow> in_path i \<in> set (mg_open m)))
     \<and> set (mg_open m) \<subseteq> in_path ` set (mg_instances m)
     \<and> set (mg_leases m) \<subseteq> in_path ` set (mg_instances m)
     \<and> mg_opens m = mg_closes m + length (mg_open m)"

lemma filter_neq_length:
  "distinct xs \<Longrightarrow> p \<in> set xs \<Longrightarrow> length xs = Suc (length (filter (\<lambda>q. q \<noteq> p) xs))"
proof (induction xs)
  case (Cons x xs)
  show ?case
  proof (cases "x = p")
    case True
    then have "\<forall>q \<in> set xs. q \<noteq> p" using Cons.prems by auto
    then show ?thesis using True by simp
  next
    case False
    then show ?thesis using Cons by simp
  qed
qed simp

lemma mgr_ok_new: "mgr_ok (new_manager ttl n)"
  by (simp add: mgr_ok_def new_manager_def)

lemma inst_at_in: "inst_at m p = Some i \<Longrightarrow> i \<in> set (mg_instances m) \<and> in_path i = p"
  by (auto simp: inst_at_def dest: tbl_get_SomeD)

lemma inst_unique:
  assumes "mgr_ok m" and "r \<in> set (mg_instances m)" and "s \<in> set (mg_instances m)"
    and "in_path r = in_path s"
  shows "r = s"
  using assms unfolding mgr_ok_def tbl_wf_def distinct_map by (metis inj_onD)

lemma mgr_okD:
  assumes "mgr_ok m" and "i \<in> set (mg_instances m)"
  shows "in_refs i = int (count_list (mg_leases m) (in_path i))" and "0 < in_refs i \<longrightarrow> in_open i"
    and "in_open i \<longleftrightarrow> in_path i \<in> set (mg_open m)"
  using assms unfolding mgr_ok_def by blast+

lemma set_put_inst:
  assumes "mgr_ok m" and "inst_at m (in_path i) = Some i0"
  shows "set (mg_instances (put_inst i m)) = insert i (set (mg_instances m) - {i0})"
proof -
  have i0: "i0 \<in> set (mg_instances m)" "in_path i0 = in_path i" using inst_at_in [OF assms(2)] by auto
  have eq: "(in_path r = in_path i) = (r = i0)" if "r \<in> set (mg_instances m)" for r
    using inst_unique [OF assms(1) that i0(1)] i0(2) by metis
  have "set (mg_instances (put_inst i m))
      = (\<lambda>r. if in_path r = in_path i then i else r) ` set (mg_instances m)"
    by (simp add: put_inst_def tbl_upd_def)
  also have "\<dots> = (\<lambda>r. if r = i0 then i else r) ` set (mg_instances m)"
    using eq by (intro image_cong) auto
  finally show ?thesis using i0(1) by auto
qed

lemma put_inst_paths [simp]: "map in_path (mg_instances (put_inst i m)) = map in_path (mg_instances m)"
  by (simp add: put_inst_def tbl_upd_def comp_def)

lemma put_inst_sel [simp]:
  "mg_open (put_inst i m) = mg_open m" "mg_leases (put_inst i m) = mg_leases m"
  "mg_opens (put_inst i m) = mg_opens m" "mg_closes (put_inst i m) = mg_closes m"
  "mg_max_open (put_inst i m) = mg_max_open m" "mg_idle_ttl (put_inst i m) = mg_idle_ttl m"
  by (simp_all add: put_inst_def)

lemma put_inst_keys [simp]: "in_path ` set (mg_instances (put_inst i m)) = in_path ` set (mg_instances m)"
  by (metis list.set_map put_inst_paths)

lemma put_inst_wf [simp]: "tbl_wf in_path (mg_instances (put_inst i m)) = tbl_wf in_path (mg_instances m)"
  by (simp add: tbl_wf_def)

text \<open>The invariant after one instance has been replaced, from what holds of that instance.\<close>

lemma mgr_ok_replace:
  assumes ok: "mgr_ok m" and at: "inst_at m (in_path i) = Some i0"
    and same: "mg_instances m' = mg_instances (put_inst i m)"
    and own: "in_refs i = int (count_list (mg_leases m') (in_path i))" "0 < in_refs i \<longrightarrow> in_open i"
      "in_open i \<longleftrightarrow> in_path i \<in> set (mg_open m')"
    and others: "\<And>q. q \<noteq> in_path i \<Longrightarrow> count_list (mg_leases m') q = count_list (mg_leases m) q
        \<and> (q \<in> set (mg_open m') \<longleftrightarrow> q \<in> set (mg_open m))"
    and lists: "distinct (mg_open m')" "mg_opens m' = mg_closes m' + length (mg_open m')"
  shows "mgr_ok m'"
proof -
  have i0: "i0 \<in> set (mg_instances m)" "in_path i0 = in_path i" using inst_at_in [OF at] by auto
  have keys: "in_path ` set (mg_instances m') = in_path ` set (mg_instances m)" by (simp add: same)
  have rows: "r = i \<or> (r \<in> set (mg_instances m) \<and> in_path r \<noteq> in_path i)"
    if "r \<in> set (mg_instances m')" for r
  proof -
    have "r = i \<or> (r \<in> set (mg_instances m) \<and> r \<noteq> i0)"
      using that unfolding same set_put_inst [OF ok at] by blast
    then show ?thesis using inst_unique [OF ok _ i0(1)] i0(2) by metis
  qed
  have each: "in_refs r = int (count_list (mg_leases m') (in_path r)) \<and> (0 < in_refs r \<longrightarrow> in_open r)
      \<and> (in_open r \<longleftrightarrow> in_path r \<in> set (mg_open m'))" if "r \<in> set (mg_instances m')" for r
  proof (cases "r = i")
    case True
    then show ?thesis using own by blast
  next
    case False
    then have r: "r \<in> set (mg_instances m)" "in_path r \<noteq> in_path i" using rows [OF that] by auto
    then show ?thesis using mgr_okD [OF ok r(1)] others [OF r(2)] by simp
  qed
  have "q \<in> in_path ` set (mg_instances m)" if "q \<in> set (mg_open m') \<or> q \<in> set (mg_leases m')" for q
  proof (cases "q = in_path i")
    case True
    then show ?thesis using i0 by (metis image_eqI)
  next
    case False
    have "q \<in> set (mg_open m) \<or> q \<in> set (mg_leases m)"
      using that others [OF False] by (metis count_list_0_iff)
    then show ?thesis using ok unfolding mgr_ok_def by blast
  qed
  then have subs: "set (mg_open m') \<subseteq> in_path ` set (mg_instances m)"
      "set (mg_leases m') \<subseteq> in_path ` set (mg_instances m)" by blast+
  have "tbl_wf in_path (mg_instances m')" using ok by (simp add: same mgr_ok_def)
  then show ?thesis unfolding mgr_ok_def keys using each lists subs by blast
qed

lemma close_if_idle_ok:
  assumes ok: "mgr_ok m"
  shows "mgr_ok (snd (close_if_idle ttl now p m))"
proof (cases "inst_at m p")
  case None
  then show ?thesis using ok by (simp add: close_if_idle_def)
next
  case (Some i)
  have i: "i \<in> set (mg_instances m)" "in_path i = p" using inst_at_in [OF Some] by auto
  show ?thesis
  proof (cases "in_open i \<and> in_refs i = 0")
    case True
    have "p \<in> set (mg_open m)" "distinct (mg_open m)" "mg_opens m = mg_closes m + length (mg_open m)"
      and refs: "in_refs i = int (count_list (mg_leases m) p)"
      using i True ok mgr_okD [OF ok i(1)] by (auto simp: mgr_ok_def)
    then have len: "mg_opens m = mg_closes m + 1 + length (filter (\<lambda>q. q \<noteq> p) (mg_open m))"
      by (simp add: filter_neq_length)
    have "mgr_ok (on_close p (put_inst (i\<lparr>in_open := False\<rparr>) m))"
      using Some i True refs len \<open>distinct (mg_open m)\<close>
      by (intro mgr_ok_replace [OF ok, where i = "i\<lparr>in_open := False\<rparr>" and i0 = i])
        (simp_all add: on_close_def)
    then show ?thesis using Some ok by (simp add: close_if_idle_def)
  next
    case False
    then show ?thesis using Some ok by (auto simp: close_if_idle_def)
  qed
qed

lemma acquire_locked_ok:
  assumes ok: "mgr_ok m"
  shows "mgr_ok (snd (acquire_locked opens_ok now p m))"
proof (cases "inst_at m p")
  case None
  then show ?thesis using ok by (simp add: acquire_locked_def)
next
  case (Some i)
  have i: "i \<in> set (mg_instances m)" "in_path i = p" using inst_at_in [OF Some] by auto
  have base: "distinct (mg_open m)" "mg_opens m = mg_closes m + length (mg_open m)"
    using ok by (auto simp: mgr_ok_def)
  let ?i = "i\<lparr>in_open := True, in_refs := in_refs i + 1, in_used := now\<rparr>"
  let ?m1 = "if in_open i then m else on_open p m"
  show ?thesis
  proof (cases "\<not> in_open i \<and> \<not> opens_ok")
    case True
    then show ?thesis using Some ok by (simp add: acquire_locked_def)
  next
    case False
    have "mgr_ok (put_inst ?i (?m1\<lparr>mg_leases := p # mg_leases ?m1\<rparr>))"
      using Some i base mgr_okD [OF ok i(1)]
      by (intro mgr_ok_replace [OF ok, where i = ?i and i0 = i])
        (simp_all add: on_open_def put_inst_def)
    then show ?thesis using Some False by (auto simp: acquire_locked_def Let_def)
  qed
qed

lemma release_handle_ok:
  assumes ok: "mgr_ok m" and lease: "p \<in> set (mg_leases m)"
  shows "mgr_ok (release_handle now p m)"
proof (cases "inst_at m p")
  case None
  then show ?thesis using ok by (simp add: release_handle_def)
next
  case (Some i)
  have i: "i \<in> set (mg_instances m)" "in_path i = p" using inst_at_in [OF Some] by auto
  have base: "distinct (mg_open m)" "mg_opens m = mg_closes m + length (mg_open m)"
    using ok by (auto simp: mgr_ok_def)
  have pos: "0 < count_list (mg_leases m) p" using lease by (metis count_list_0_iff gr0I)
  let ?i = "i\<lparr>in_used := now, in_refs := in_refs i - 1\<rparr>"
  have "mgr_ok (put_inst ?i (m\<lparr>mg_leases := remove1 p (mg_leases m)\<rparr>))"
    using Some i base mgr_okD [OF ok i(1)] pos
    by (intro mgr_ok_replace [OF ok, where i = ?i and i0 = i])
      (simp_all add: put_inst_def count_list_remove1 of_nat_diff)
  then show ?thesis using Some by (simp add: release_handle_def)
qed

lemma instance_with_ok:
  assumes ok: "mgr_ok m"
  shows "mgr_ok (instance_with p m)"
proof (cases "p \<in> in_path ` set (mg_instances m)")
  case True
  then show ?thesis using ok by (simp add: instance_with_def tbl_ins_def tbl_has_iff)
next
  case False
  then have "p \<notin> set (mg_open m)" "p \<notin> set (mg_leases m)" using ok unfolding mgr_ok_def by blast+
  then show ?thesis using ok False
    by (auto simp: instance_with_def tbl_ins_def tbl_has_iff mgr_ok_def tbl_wf_def count_list_0_iff)
qed

lemma mgr_step_ok: "mgr_step m m' \<Longrightarrow> mgr_ok m \<Longrightarrow> mgr_ok m'"
  by (elim mgr_stepE)
    (metis instance_with_ok close_if_idle_ok acquire_locked_ok release_handle_ok snd_conv)+

lemma mgr_reach_ok: "mgr_step\<^sup>*\<^sup>* m m' \<Longrightarrow> mgr_ok m \<Longrightarrow> mgr_ok m'"
  by (induction rule: rtranclp_induct) (auto dest: mgr_step_ok)

section \<open>A leased handle\<close>

lemma leased_open:
  assumes ok: "mgr_ok m" and lease: "p \<in> set (mg_leases m)"
  shows "\<exists>i. inst_at m p = Some i \<and> in_open i \<and> 0 < in_refs i \<and> p \<in> set (mg_open m)"
proof -
  obtain i where i: "i \<in> set (mg_instances m)" "in_path i = p"
    using ok lease unfolding mgr_ok_def by blast
  have "0 < count_list (mg_leases m) p" using lease by (metis count_list_0_iff gr0I)
  then have "0 < in_refs i" using mgr_okD(1) [OF ok i(1)] i(2) by simp
  moreover have "inst_at m p = Some i"
    using ok i unfolding inst_at_def mgr_ok_def tbl_wf_def by (metis tbl_get_Some_iff tbl_wf_def)
  ultimately show ?thesis using mgr_okD [OF ok i(1)] i(2) by auto
qed

lemma close_leased:
  assumes "mgr_ok m" and "p \<in> set (mg_leases m)"
  shows "close_if_idle ttl now p m = (False, m)"
  using leased_open [OF assms] by (auto simp: close_if_idle_def)

section \<open>The cap on open handles\<close>

definition idle_open :: "manager_st \<Rightarrow> instance_st list" where
  "idle_open m = filter (\<lambda>i. in_refs i = 0)
     (concat (map (\<lambda>p. case inst_at m p of None \<Rightarrow> [] | Some i \<Rightarrow> [i]) (mg_open m)))"

lemma lru_alt: "lru_idle_open m =
    (case sort_key in_used (idle_open m) of [] \<Rightarrow> None | i # _ \<Rightarrow> Some (in_path i))"
  by (simp add: lru_idle_open_def idle_open_def)

lemma open_inst:
  assumes ok: "mgr_ok m" and p: "p \<in> set (mg_open m)"
  shows "\<exists>i. inst_at m p = Some i \<and> i \<in> set (mg_instances m) \<and> in_path i = p"
proof -
  have "p \<in> in_path ` set (mg_instances m)" using ok p unfolding mgr_ok_def by blast
  then obtain i where "inst_at m p = Some i" unfolding inst_at_def by (metis tbl_get_key_in)
  then show ?thesis using inst_at_in by blast
qed

lemma idle_open_iff:
  assumes ok: "mgr_ok m"
  shows "i \<in> set (idle_open m) \<longleftrightarrow>
    (\<exists>p \<in> set (mg_open m). inst_at m p = Some i) \<and> in_refs i = 0"
proof -
  have "i \<in> set (case inst_at m p of None \<Rightarrow> [] | Some j \<Rightarrow> [j]) \<longleftrightarrow> inst_at m p = Some i" for p
    by (auto split: option.splits)
  then show ?thesis unfolding idle_open_def by simp
qed

lemma lru_None:
  assumes ok: "mgr_ok m" and none: "lru_idle_open m = None"
  shows "set (mg_open m) \<subseteq> set (mg_leases m)"
proof
  fix p assume p: "p \<in> set (mg_open m)"
  obtain i where i: "inst_at m p = Some i" "i \<in> set (mg_instances m)" "in_path i = p"
    using open_inst [OF ok p] by blast
  have "sort_key in_used (idle_open m) = []" using none unfolding lru_alt by (simp split: list.splits)
  then have "set (idle_open m) = {}" by (metis set_sort list.set(1))
  then have "in_refs i \<noteq> 0" using idle_open_iff [OF ok, of i] i(1) p by auto
  then show "p \<in> set (mg_leases m)"
    using mgr_okD(1) [OF ok i(2)] i(3) by (metis count_list_0_iff of_nat_0)
qed

lemma lru_Some:
  assumes ok: "mgr_ok m" and lru: "lru_idle_open m = Some p"
  shows "\<exists>i. inst_at m p = Some i \<and> in_open i \<and> in_refs i = 0 \<and> p \<in> set (mg_open m)
    \<and> (\<forall>j \<in> set (idle_open m). in_used i \<le> in_used j)"
proof -
  obtain i rest where s: "sort_key in_used (idle_open m) = i # rest" and p: "in_path i = p"
    using lru unfolding lru_alt by (auto split: list.splits)
  have in_set: "set (idle_open m) = set (i # rest)" by (metis s set_sort)
  then have "i \<in> set (idle_open m)" by simp
  then obtain q where q: "q \<in> set (mg_open m)" "inst_at m q = Some i" "in_refs i = 0"
    using idle_open_iff [OF ok] by blast
  have i: "i \<in> set (mg_instances m)" "in_path i = q" using inst_at_in [OF q(2)] by auto
  have "sorted (map in_used (i # rest))" by (metis s sorted_sort_key)
  then have "\<forall>j \<in> set (idle_open m). in_used i \<le> in_used j" using in_set by auto
  then show ?thesis using q i p mgr_okD(3) [OF ok i(1)] by auto
qed

lemma close_lru:
  assumes ok: "mgr_ok m" and lru: "lru_idle_open m = Some p"
  shows "mg_open (snd (close_if_idle 0 now p m)) = filter (\<lambda>q. q \<noteq> p) (mg_open m)"
    and "mg_leases (snd (close_if_idle 0 now p m)) = mg_leases m"
    and "mg_max_open (snd (close_if_idle 0 now p m)) = mg_max_open m"
    and "open_count m = Suc (open_count (snd (close_if_idle 0 now p m)))"
proof -
  obtain i where i: "inst_at m p = Some i" "in_open i" "in_refs i = 0" "p \<in> set (mg_open m)"
    using lru_Some [OF ok lru] by blast
  have "distinct (mg_open m)" using ok by (simp add: mgr_ok_def)
  then have "length (mg_open m) = Suc (length (filter (\<lambda>q. q \<noteq> p) (mg_open m)))"
    using i(4) by (rule filter_neq_length)
  then show "mg_open (snd (close_if_idle 0 now p m)) = filter (\<lambda>q. q \<noteq> p) (mg_open m)"
    and "mg_leases (snd (close_if_idle 0 now p m)) = mg_leases m"
    and "mg_max_open (snd (close_if_idle 0 now p m)) = mg_max_open m"
    and "open_count m = Suc (open_count (snd (close_if_idle 0 now p m)))"
    using i(1-3) by (simp_all add: close_if_idle_def on_close_def open_count_def)
qed

lemma enforce_loop_result:
  assumes "mgr_ok m" and "open_count m \<le> k"
  shows "mgr_ok (enforce_loop k now m) \<and> mg_leases (enforce_loop k now m) = mg_leases m
    \<and> set (mg_open (enforce_loop k now m)) \<subseteq> set (mg_open m)
    \<and> (0 < mg_max_open m \<longrightarrow> int (open_count (enforce_loop k now m)) < mg_max_open m
        \<or> set (mg_open (enforce_loop k now m)) \<subseteq> set (mg_leases m))"
  using assms
proof (induction k arbitrary: m)
  case 0
  then show ?case by (simp add: open_count_def)
next
  case (Suc k)
  show ?case
  proof (cases "int (open_count m) < mg_max_open m \<or> lru_idle_open m = None")
    case True
    then show ?thesis using Suc.prems(1) lru_None [OF Suc.prems(1)] by auto
  next
    case False
    then obtain p where lru: "lru_idle_open m = Some p" by blast
    let ?m = "snd (close_if_idle 0 now p m)"
    note c = close_lru [OF Suc.prems(1) lru, of now]
    have "mgr_ok ?m" using close_if_idle_ok [OF Suc.prems(1)] .
    moreover have "open_count ?m \<le> k" using c(4) Suc.prems(2) by simp
    moreover have "enforce_loop (Suc k) now m = enforce_loop k now ?m" using False lru by simp
    ultimately show ?thesis using Suc.IH [of ?m] c by auto
  qed
qed

section \<open>Properties\<close>

text \<open>C29: A handle that a request holds is never closed under it. In every state that any
  interleaving of opens, leases, releases, reaper sweeps and budget evictions can reach, a path with
  an outstanding lease has its database handle open, an attempt to close it (with any idle time and
  at any clock reading) does nothing, and the counters of opens and closes differ by exactly the
  number of handles now open.\<close>

theorem leased_handle_stays_open:
  assumes reach: "mgr_step\<^sup>*\<^sup>* (new_manager idle_ttl max_open) m"
    and lease: "p \<in> set (mg_leases m)"
  shows "(\<exists>i. inst_at m p = Some i \<and> in_open i \<and> in_refs i = int (count_list (mg_leases m) p))
    \<and> (\<forall>ttl now. close_if_idle ttl now p m = (False, m))
    \<and> mg_opens m = mg_closes m + open_count m"
proof -
  have ok: "mgr_ok m" using mgr_reach_ok [OF reach mgr_ok_new] .
  obtain i where i: "inst_at m p = Some i" "in_open i" using leased_open [OF ok lease] by blast
  have "in_refs i = int (count_list (mg_leases m) p)"
    using mgr_okD(1) [OF ok] inst_at_in [OF i(1)] by blast
  then show ?thesis
    using i close_leased [OF ok lease] ok by (auto simp: mgr_ok_def open_count_def)
qed

definition two_tenants :: manager_st where
  "two_tenants = snd (acquire_locked True 5 ''b'' (instance_with ''b''
     (snd (acquire_locked True 3 ''a'' (instance_with ''a'' (new_manager 0 2))))))"

lemma two_tenants_reached: "mgr_step\<^sup>*\<^sup>* (new_manager 0 2) two_tenants"
proof -
  have acq: "mgr_step m (snd (acquire_locked True now p m))" for now p m
    by (rule mgr_step.Acquire [where b = "fst (acquire_locked True now p m)"]) simp
  show ?thesis unfolding two_tenants_def
    by (rule rtranclp.rtrancl_into_rtrancl [OF rtranclp.rtrancl_into_rtrancl
          [OF rtranclp.rtrancl_into_rtrancl [OF rtranclp.rtrancl_into_rtrancl [OF rtranclp.rtrancl_refl]]]])
      (rule mgr_step.Get acq)+
qed

theorem leased_handle_stays_open_witness:
  "close_if_idle 0 900 ''a'' two_tenants = (False, two_tenants) \<and> mg_opens two_tenants = 2"
proof -
  have "''a'' \<in> set (mg_leases two_tenants)" by code_simp
  note L = leased_handle_stays_open [OF two_tenants_reached this]
  moreover have "mg_closes two_tenants + open_count two_tenants = 2" by code_simp
  ultimately show ?thesis by auto
qed

text \<open>C37: The cap on open handles does what it promises and stops. Run in any well-formed state,
  the eviction loop ends, keeps the state well formed, revokes no lease and opens nothing; with a
  positive cap, afterwards either the count of open handles is below the cap, so that one more may be
  opened, or every handle still open is in use. The victim of each round is the idle handle that was
  used least recently.\<close>

theorem budget_result:
  assumes ok: "mgr_ok m"
  shows "mgr_ok (enforce_budget now m) \<and> mg_leases (enforce_budget now m) = mg_leases m
    \<and> set (mg_open (enforce_budget now m)) \<subseteq> set (mg_open m)
    \<and> (0 < mg_max_open m \<longrightarrow> int (open_count (enforce_budget now m)) < mg_max_open m
        \<or> set (mg_open (enforce_budget now m)) \<subseteq> set (mg_leases m))
    \<and> (\<forall>p. lru_idle_open m = Some p \<longrightarrow>
        (\<exists>i. inst_at m p = Some i \<and> (\<forall>j \<in> set (idle_open m). in_used i \<le> in_used j)))"
proof -
  have "\<exists>i. inst_at m p = Some i \<and> (\<forall>j \<in> set (idle_open m). in_used i \<le> in_used j)"
    if "lru_idle_open m = Some p" for p
    using lru_Some [OF ok that] by blast
  then show ?thesis
    using enforce_loop_result [OF ok order_refl] ok by (simp add: enforce_budget_def)
qed

theorem budget_result_witness:
  "mgr_ok (release_handle 9 ''a'' two_tenants)
   \<and> mg_open (enforce_budget 10 (release_handle 9 ''a'' two_tenants)) = [''b'']
   \<and> mgr_ok (enforce_budget 10 (release_handle 9 ''a'' two_tenants))"
proof -
  have "mgr_ok two_tenants" using mgr_reach_ok [OF two_tenants_reached mgr_ok_new] .
  moreover have "''a'' \<in> set (mg_leases two_tenants)" by code_simp
  ultimately have ok: "mgr_ok (release_handle 9 ''a'' two_tenants)" by (rule release_handle_ok)
  have "mg_open (enforce_budget 10 (release_handle 9 ''a'' two_tenants)) = [''b'']" by code_simp
  then show ?thesis using budget_result [OF ok, of 10] ok by blast
qed

end
