(* ===== verification/Registry_Data.thy ===== *)
theory Registry_Data
  imports Tenant_Data
begin

text \<open>
  The data of \<^verbatim>\<open>registry.sqlite\<close> (\<^verbatim>\<open>Registry.migrate\<close> and its column migrations): rows, the Go
  structs scanned from them, errors, validation. A clock reading \<open>now\<close> is in nanoseconds, a stored
  time in whole seconds (RFC 3339 in UTC drops the fraction; its text order is the order of the
  seconds for the years 0 to 9999). A column that holds a JSON list of strings is the list.
\<close>

section \<open>Clock\<close>

definition nanos :: int where "nanos = 1000000000"

definition stamp :: "int \<Rightarrow> int" where "stamp now = now div nanos"

text \<open>\<^verbatim>\<open>time.Now().After(t)\<close> for a stored time.\<close>

definition after :: "int \<Rightarrow> int \<Rightarrow> bool" where "after now secs \<longleftrightarrow> secs * nanos < now"

lemma after_mono: "after now s \<Longrightarrow> now \<le> now' \<Longrightarrow> after now' s"
  by (simp add: after_def)

lemma swept_after: "s < stamp now \<Longrightarrow> after now s"
proof -
  assume "s < stamp now"
  then have "(s + 1) * nanos \<le> stamp now * nanos" by (simp add: nanos_def)
  also have "\<dots> \<le> now" by (simp add: stamp_def nanos_def)
  finally show ?thesis by (simp add: after_def nanos_def)
qed

section \<open>Rows\<close>

record ident_row =
  ir_id :: string
  ir_name :: string
  ir_email :: "string option"
  ir_key :: string
  ir_path :: string
  ir_write :: bool
  ir_admin :: bool
  ir_pw :: "string option"
  ir_confirmed :: bool
  ir_ctoken :: "string option"
  ir_cexp :: "int option"
  ir_rtoken :: "string option"
  ir_rexp :: "int option"
  ir_created :: int

record grant_row =
  gr_id :: string
  gr_client :: string
  gr_identity :: string
  gr_created :: int
  gr_revoked :: "int option"
  gr_key :: "string option"
  gr_team :: "string option"

record team_row =
  tw_id :: string
  tw_name :: string
  tw_path :: string
  tw_creator :: "string option"
  tw_created :: int
  tw_deleted :: "int option"
  tw_plan :: string
  tw_seats :: int

record index_row =
  ix_team :: string
  ix_identity :: string
  ix_added :: int

record code_row =
  oc_code :: string
  oc_challenge :: string
  oc_client :: string
  oc_identity :: string
  oc_team :: string
  oc_expires :: int

record consent_row =
  ct_ticket :: string
  ct_identity :: string
  ct_teams :: "string list"
  ct_redirect :: string
  ct_state :: string
  ct_challenge :: string
  ct_method :: string
  ct_client :: string
  ct_expires :: int

record session_row =
  ss_hash :: string
  ss_identity :: string
  ss_expires :: int

record invite_row =
  iv_hash :: string
  iv_team :: string
  iv_email :: string
  iv_role :: role
  iv_read :: "string list"
  iv_titles :: "string list"
  iv_by :: "string option"
  iv_created :: int
  iv_expires :: int

record client_row =
  cl_id :: string
  cl_uris :: "string list"
  cl_created :: int

record ent_row =
  et_id :: string
  et_identity :: string
  et_kind :: string
  et_status :: string
  et_seats :: int
  et_expires :: "int option"
  et_ref :: string
  et_created :: int
  et_updated :: int

record registry =
  rg_idents :: "ident_row list"
  rg_grants :: "Registry_Data.grant_row list"
  rg_teams :: "team_row list"
  rg_index :: "index_row list"
  rg_codes :: "code_row list"
  rg_consents :: "consent_row list"
  rg_sessions :: "session_row list"
  rg_invites :: "invite_row list"
  rg_clients :: "client_row list"
  rg_ents :: "ent_row list"

definition empty_registry :: registry where
  "empty_registry = \<lparr>rg_idents = [], rg_grants = [], rg_teams = [], rg_index = [], rg_codes = [],
     rg_consents = [], rg_sessions = [], rg_invites = [], rg_clients = [], rg_ents = []\<rparr>"

section \<open>Structs\<close>

record identity =
  iy_id :: string
  iy_name :: string
  iy_email :: string
  iy_key :: string
  iy_path :: string
  iy_write :: bool
  iy_admin :: bool
  iy_created :: int

record grant =
  gt_id :: string
  gt_client :: string
  gt_identity :: string
  gt_identity_name :: string
  gt_team :: string
  gt_team_name :: string
  gt_created :: int
  gt_revoked :: "int option"

record team =
  te_id :: string
  te_name :: string
  te_path :: string
  te_creator :: string
  te_created :: int
  te_plan :: string
  te_seats :: int

definition scan_identity :: "ident_row \<Rightarrow> identity" where
  "scan_identity r = \<lparr>iy_id = ir_id r, iy_name = ir_name r, iy_email = str_of (ir_email r),
     iy_key = ir_key r, iy_path = ir_path r, iy_write = ir_write r, iy_admin = ir_admin r,
     iy_created = ir_created r\<rparr>"

definition scan_team :: "team_row \<Rightarrow> team" where
  "scan_team t = \<lparr>te_id = tw_id t, te_name = tw_name t, te_path = tw_path t,
     te_creator = str_of (tw_creator t), te_created = tw_created t, te_plan = tw_plan t,
     te_seats = tw_seats t\<rparr>"

lemma scan_identity_simps [simp]:
  "iy_id (scan_identity r) = ir_id r" "iy_path (scan_identity r) = ir_path r"
  "iy_write (scan_identity r) = ir_write r" "iy_admin (scan_identity r) = ir_admin r"
  "iy_email (scan_identity r) = str_of (ir_email r)" "iy_key (scan_identity r) = ir_key r"
  "iy_name (scan_identity r) = ir_name r"
  by (simp_all add: scan_identity_def)

lemma scan_team_simps [simp]:
  "te_id (scan_team t) = tw_id t" "te_path (scan_team t) = tw_path t" "te_seats (scan_team t) = tw_seats t"
  "te_name (scan_team t) = tw_name t" "te_creator (scan_team t) = str_of (tw_creator t)"
  "te_plan (scan_team t) = tw_plan t"
  by (simp_all add: scan_team_def)

section \<open>Errors and validation\<close>

datatype reg_error =
    BadField string
  | UnknownKey
  | RowNotFound string
  | UniqueFailed
  | ForeignKeyFailed
  | TeamLimit
  | AlreadyRevoked string
  | BadToken
  | BadCredentials
  | BadPassword
  | BadEmail string
  | EmailTaken

definition is_control :: "char \<Rightarrow> bool" where
  "is_control c = ((of_char c :: nat) < 32 \<or> (of_char c :: nat) = 127)"

definition max_identity_name_len :: nat where "max_identity_name_len = 200"

definition max_memory_path_len :: nat where "max_memory_path_len = 4096"

definition validate_identity_fields :: "string \<Rightarrow> string \<Rightarrow> reg_error option" where
  "validate_identity_fields name path =
     (if trim_space name = [] then Some (BadField ''name required'')
      else if max_identity_name_len < length name then Some (BadField ''name too long'')
      else if trim_space path = [] then Some (BadField ''memory_path required'')
      else if max_memory_path_len < length path then Some (BadField ''memory_path too long'')
      else if list_ex is_control (name @ path) then Some (BadField ''control characters'')
      else None)"

definition normalize_email :: "string \<Rightarrow> string" where
  "normalize_email email = to_lower (trim_space email)"

fun index_byte :: "char \<Rightarrow> string \<Rightarrow> nat option" where
  "index_byte c [] = None"
| "index_byte c (x # xs) = (if x = c then Some 0 else map_option Suc (index_byte c xs))"

definition at_sign :: char where "at_sign = CHR 0x40"

definition validate_email :: "string \<Rightarrow> reg_error option" where
  "validate_email email =
     (if email = [] then Some (BadEmail ''required'')
      else if 320 < length email then Some (BadEmail ''too long'')
      else case index_byte at_sign email of
             None \<Rightarrow> Some (BadEmail ''invalid'')
           | Some i \<Rightarrow>
               if i = 0 \<or> i = length email - 1 \<or> count_list email at_sign \<noteq> 1
               then Some (BadEmail ''invalid'') else None)"

lemma index_byte_Some: "index_byte c s = Some i \<Longrightarrow> i < length s \<and> s ! i = c \<and> c \<notin> set (take i s)"
  by (induction s arbitrary: i) (auto split: if_splits)

lemma index_byte_None: "index_byte c s = None \<longleftrightarrow> c \<notin> set s"
  by (induction s) auto

lemma index_byte_append: "c \<notin> set xs \<Longrightarrow> index_byte c (xs @ c # ys) = Some (length xs)"
  by (induction xs) auto

section \<open>Unique columns\<close>

text \<open>\<^verbatim>\<open>id\<close> and \<^verbatim>\<open>api_key\<close> are unique, \<^verbatim>\<open>email\<close> is unique where it is present and not empty.\<close>

definition email_clash :: "string option \<Rightarrow> string option \<Rightarrow> bool" where
  "email_clash a b = (a = b \<and> a \<noteq> None \<and> a \<noteq> Some [])"

definition ident_clash :: "ident_row \<Rightarrow> ident_row \<Rightarrow> bool" where
  "ident_clash a b = (ir_id a = ir_id b \<or> ir_key a = ir_key b \<or> email_clash (ir_email a) (ir_email b))"

definition insert_identity :: "ident_row \<Rightarrow> registry \<Rightarrow> reg_error + registry" where
  "insert_identity row r =
     (if list_ex (ident_clash row) (rg_idents r) then Inl UniqueFailed
      else Inr (r\<lparr>rg_idents := rg_idents r @ [row]\<rparr>))"

definition update_identity :: "string \<Rightarrow> (ident_row \<Rightarrow> ident_row) \<Rightarrow> registry \<Rightarrow> registry" where
  "update_identity i f r = r\<lparr>rg_idents := tbl_upd ir_id i f (rg_idents r)\<rparr>"

definition bare_identity :: "string \<Rightarrow> string \<Rightarrow> string \<Rightarrow> string \<Rightarrow> bool \<Rightarrow> int \<Rightarrow> ident_row" where
  "bare_identity i name key path allow_write secs =
     \<lparr>ir_id = i, ir_name = name, ir_email = None, ir_key = key, ir_path = path, ir_write = allow_write,
      ir_admin = False, ir_pw = None, ir_confirmed = False, ir_ctoken = None, ir_cexp = None,
      ir_rtoken = None, ir_rexp = None, ir_created = secs\<rparr>"

end
