(* ===== verification/Password.thy ===== *)
theory Password
  imports Registry_Data
begin

text \<open>
  Password hashes (\<^verbatim>\<open>internal/db/users.go\<close>): the self-describing stored form
  \<^verbatim>\<open>pbkdf2_sha256$iter$salt$hash\<close>, with unpadded base64, and its verification. PBKDF2 is the
  parameter \<open>kdf password salt iterations length\<close>; its answer is \<open>None\<close> where the library fails.
\<close>

section \<open>Base64 without padding\<close>

definition sextet_char :: "nat \<Rightarrow> char" where
  "sextet_char v =
     (if v < 26 then char_of (v + 65) else if v < 52 then char_of (v + 71)
      else if v < 62 then char_of (v - 4) else if v = 62 then CHR ''+'' else CHR ''/'')"

definition char_sextet :: "char \<Rightarrow> nat option" where
  "char_sextet c =
     (let n = (of_char c :: nat) in
      if 65 \<le> n \<and> n \<le> 90 then Some (n - 65) else if 97 \<le> n \<and> n \<le> 122 then Some (n - 71)
      else if 48 \<le> n \<and> n \<le> 57 then Some (n + 4) else if n = 43 then Some 62 else if n = 47 then Some 63
      else None)"

fun encode_sextets :: "nat list \<Rightarrow> nat list" where
  "encode_sextets [] = []"
| "encode_sextets [a] = [a div 4, (a mod 4) * 16]"
| "encode_sextets [a, b] = [a div 4, (a mod 4) * 16 + b div 16, (b mod 16) * 4]"
| "encode_sextets (a # b # c # rest) =
     a div 4 # ((a mod 4) * 16 + b div 16) # ((b mod 16) * 4 + c div 64) # (c mod 64) # encode_sextets rest"

definition base64_encode :: "string \<Rightarrow> string" where
  "base64_encode s = map sextet_char (encode_sextets (map of_char s))"

text \<open>The decoder of the library: line breaks are skipped, the unused bits of the last digit are not checked.\<close>

fun decode_sextets :: "nat list \<Rightarrow> nat list option" where
  "decode_sextets [] = Some []"
| "decode_sextets [u] = None"
| "decode_sextets [u, v] = Some [u * 4 + v div 16]"
| "decode_sextets [u, v, w] = Some [u * 4 + v div 16, (v mod 16) * 16 + w div 4]"
| "decode_sextets (u # v # w # x # rest) =
     map_option (\<lambda>t. (u * 4 + v div 16) # ((v mod 16) * 16 + w div 4) # ((w mod 4) * 64 + x) # t)
       (decode_sextets rest)"

fun all_some :: "'a option list \<Rightarrow> 'a list option" where
  "all_some [] = Some []"
| "all_some (None # xs) = None"
| "all_some (Some x # xs) = map_option ((#) x) (all_some xs)"

definition base64_decode :: "string \<Rightarrow> string option" where
  "base64_decode s =
     (case all_some (map char_sextet (filter (\<lambda>c. c \<noteq> CHR 0x0A \<and> c \<noteq> CHR 0x0D) s)) of
        None \<Rightarrow> None
      | Some vs \<Rightarrow> map_option (map char_of) (decode_sextets vs))"

lemma sextet_bound:
  fixes v :: nat
  assumes "v < 64"
  obtains "v < 26" | "26 \<le> v" "v < 52" | "52 \<le> v" "v < 62" | "v = 62" | "v = 63"
  using assms by linarith

lemma char_sextet_inverse [simp]: "v < 64 \<Longrightarrow> char_sextet (sextet_char v) = Some v"
  by (erule sextet_bound) (auto simp: char_sextet_def sextet_char_def Let_def)

lemma sextet_char_code: "v < 64 \<Longrightarrow> 43 \<le> (of_char (sextet_char v) :: nat)"
  by (erule sextet_bound) (auto simp: sextet_char_def)

lemma sextet_char_plain:
  assumes "v < 64"
  shows "sextet_char v \<noteq> CHR 0x0A \<and> sextet_char v \<noteq> CHR 0x0D \<and> sextet_char v \<noteq> CHR ''$''"
  using sextet_char_code [OF assms] by auto

lemma encode_sextets_bound: "(\<forall>x \<in> set bs. x < 256) \<Longrightarrow> \<forall>v \<in> set (encode_sextets bs). v < 64"
  by (induction bs rule: encode_sextets.induct) auto

lemma decode_encode_sextets:
  "(\<forall>x \<in> set bs. x < 256) \<Longrightarrow> decode_sextets (encode_sextets bs) = Some bs"
proof (induction bs rule: encode_sextets.induct)
  case (4 a b c rest)
  then show ?case by (auto simp: div_mult_mod_eq)
qed auto

lemma all_some_map: "(\<And>x. x \<in> set xs \<Longrightarrow> f x = Some (g x)) \<Longrightarrow> all_some (map f xs) = Some (map g xs)"
  by (induction xs) auto

theorem base64_roundtrip: "base64_decode (base64_encode s) = Some s"
proof -
  let ?vs = "encode_sextets (map of_char s)"
  have bytes: "\<forall>x \<in> set (map of_char s :: nat list). x < 256" by auto
  have small: "v < 64" if "v \<in> set ?vs" for v using encode_sextets_bound [OF bytes] that by blast
  have "filter (\<lambda>c. c \<noteq> CHR 0x0A \<and> c \<noteq> CHR 0x0D) (base64_encode s) = base64_encode s"
    using small sextet_char_plain by (auto simp: base64_encode_def filter_id_conv)
  moreover have "all_some (map char_sextet (base64_encode s)) = Some ?vs"
    using all_some_map [of ?vs "\<lambda>v. char_sextet (sextet_char v)" id] small by (simp add: base64_encode_def comp_def)
  ultimately show ?thesis
    using decode_encode_sextets [OF bytes] by (simp add: base64_decode_def comp_def)
qed

lemma base64_no_dollar: "CHR ''$'' \<notin> set (base64_encode s)"
proof -
  have "\<forall>x \<in> set (map of_char s :: nat list). x < 256" by auto
  then have "v < 64" if "v \<in> set (encode_sextets (map of_char s))" for v
    using encode_sextets_bound that by blast
  then show ?thesis using sextet_char_plain by (fastforce simp: base64_encode_def)
qed

section \<open>Numbers\<close>

text \<open>\<^verbatim>\<open>strconv.Atoi\<close>: an optional sign and decimal digits within 64 bits.\<close>

definition digit_val :: "char \<Rightarrow> nat option" where
  "digit_val c = (let n = (of_char c :: nat) in if 48 \<le> n \<and> n \<le> 57 then Some (n - 48) else None)"

definition atoi :: "string \<Rightarrow> int option" where
  "atoi s =
     (let (neg, ds) = (case s of
            [] \<Rightarrow> (False, [])
          | c # cs \<Rightarrow> if c = CHR ''-'' then (True, cs) else if c = CHR ''+'' then (False, cs) else (False, s))
      in case all_some (map digit_val ds) of
           None \<Rightarrow> None
         | Some vs \<Rightarrow>
             (let n = int (foldl (\<lambda>a d. a * 10 + d) 0 vs); v = (if neg then - n else n)
              in if ds = [] \<or> v < - (2 ^ 63) \<or> 2 ^ 63 \<le> v then None else Some v))"

section \<open>Hashing and verifying\<close>

definition pbkdf2_iter :: int where "pbkdf2_iter = 210000"
definition pbkdf2_key_len :: nat where "pbkdf2_key_len = 32"
definition min_password :: nat where "min_password = 8"
definition max_password :: nat where "max_password = 1024"

type_synonym kdf = "string \<Rightarrow> string \<Rightarrow> int \<Rightarrow> nat \<Rightarrow> string option"

text \<open>\<open>salt\<close> is what the random source gave.\<close>

definition hash_password :: "kdf \<Rightarrow> string \<Rightarrow> string \<Rightarrow> reg_error + string" where
  "hash_password kdf salt password =
     (if length password < min_password \<or> max_password < length password then Inl BadPassword
      else case kdf password salt pbkdf2_iter pbkdf2_key_len of
             None \<Rightarrow> Inl BadPassword
           | Some dk \<Rightarrow> Inr (''pbkdf2_sha256$210000$'' @ base64_encode salt @ ''$'' @ base64_encode dk))"

definition verify_password :: "kdf \<Rightarrow> string \<Rightarrow> string \<Rightarrow> bool" where
  "verify_password kdf encoded password =
     (case split_on (CHR ''$'') encoded of
        [scheme, iters, salt64, want64] \<Rightarrow>
          if scheme \<noteq> ''pbkdf2_sha256'' then False
          else (case atoi iters of
             None \<Rightarrow> False
           | Some iter \<Rightarrow>
              if iter \<le> 0 then False
              else (case base64_decode salt64 of
                 None \<Rightarrow> False
               | Some salt \<Rightarrow>
                  (case base64_decode want64 of
                     None \<Rightarrow> False
                   | Some want \<Rightarrow> kdf password salt iter (length want) = Some want)))
      | _ \<Rightarrow> False)"

lemma split_on_append: "d \<notin> set a \<Longrightarrow> split_on d (a @ d # b) = a # split_on d b"
  by (induction a) auto

lemma split_on_single: "d \<notin> set a \<Longrightarrow> split_on d a = [a]"
  by (induction a) auto

lemma atoi_iter: "atoi ''210000'' = Some pbkdf2_iter"
  by (simp add: atoi_def digit_val_def pbkdf2_iter_def)

lemma verify_encoded:
  "verify_password kdf (''pbkdf2_sha256$210000$'' @ base64_encode salt @ ''$'' @ base64_encode dk) password
   = (kdf password salt pbkdf2_iter (length dk) = Some dk)"
proof -
  let ?d = "CHR ''$''"
  have "split_on ?d (''pbkdf2_sha256$210000$'' @ base64_encode salt @ ''$'' @ base64_encode dk)
      = split_on ?d (''pbkdf2_sha256'' @ ?d # (''210000'' @ ?d # (base64_encode salt @ ?d # base64_encode dk)))"
    by simp
  also have "\<dots> = [''pbkdf2_sha256'', ''210000'', base64_encode salt, base64_encode dk]"
    by (simp add: split_on_append split_on_single base64_no_dollar)
  finally have split: "split_on ?d (''pbkdf2_sha256$210000$'' @ base64_encode salt @ ''$'' @ base64_encode dk)
      = [''pbkdf2_sha256'', ''210000'', base64_encode salt, base64_encode dk]" .
  have "0 < pbkdf2_iter" by (simp add: pbkdf2_iter_def)
  then show ?thesis
    unfolding verify_password_def split by (simp add: atoi_iter base64_roundtrip)
qed

end
