(* ===== verification/Registry_Accounts.thy ===== *)
theory Registry_Accounts
  imports Password
begin

text \<open>
  Identities and password accounts (\<^verbatim>\<open>internal/db/registry.go\<close>, \<^verbatim>\<open>internal/db/users.go\<close>): creation,
  lookup, credentials, flags, e-mail confirmation and password reset. \<open>hash\<close> stands for
  \<^verbatim>\<open>HashKey\<close> (SHA-256 in hexadecimal); fresh ids, raw keys, salts and tokens are arguments.
\<close>

section \<open>Identities\<close>

definition resolve_key :: "(string \<Rightarrow> string) \<Rightarrow> string \<Rightarrow> registry \<Rightarrow> reg_error + identity" where
  "resolve_key hash raw r =
     (case tbl_get ir_key (hash raw) (rg_idents r) of
        None \<Rightarrow> Inl UnknownKey
      | Some row \<Rightarrow> Inr (scan_identity row))"

definition resolve_by_id :: "string \<Rightarrow> registry \<Rightarrow> reg_error + identity" where
  "resolve_by_id i r =
     (case tbl_get ir_id i (rg_idents r) of
        None \<Rightarrow> Inl UnknownKey
      | Some row \<Rightarrow> Inr (scan_identity row))"

definition create_identity ::
  "(string \<Rightarrow> string) \<Rightarrow> string \<Rightarrow> string \<Rightarrow> string \<Rightarrow> string \<Rightarrow> bool \<Rightarrow> int \<Rightarrow> registry \<Rightarrow> reg_error + identity \<times> registry" where
  "create_identity hash i name raw path allow_write now r =
     (case validate_identity_fields name path of
        Some e \<Rightarrow> Inl e
      | None \<Rightarrow>
          (let row = bare_identity i name (hash raw) path allow_write (stamp now)
           in case insert_identity row r of
                Inl e \<Rightarrow> Inl e
              | Inr r' \<Rightarrow> Inr (scan_identity row, r')))"

definition set_memory_path :: "string \<Rightarrow> string \<Rightarrow> registry \<Rightarrow> reg_error + registry" where
  "set_memory_path i path r =
     (case validate_identity_fields ''x'' path of
        Some e \<Rightarrow> Inl e
      | None \<Rightarrow>
          if \<not> tbl_has ir_id i (rg_idents r) then Inl (RowNotFound i)
          else Inr (update_identity i (\<lambda>row. row\<lparr>ir_path := path\<rparr>) r))"

definition delete_identity :: "string \<Rightarrow> registry \<Rightarrow> reg_error + registry" where
  "delete_identity i r =
     (if \<not> tbl_has ir_id i (rg_idents r) then Inl (RowNotFound i)
      else Inr (r\<lparr>rg_idents := tbl_del ir_id i (rg_idents r)\<rparr>))"

definition list_identities :: "registry \<Rightarrow> identity list" where
  "list_identities r = map scan_identity (sort_key ir_created (rg_idents r))"

section \<open>Password accounts\<close>

definition create_user ::
  "(string \<Rightarrow> string) \<Rightarrow> kdf \<Rightarrow> string \<Rightarrow> string \<Rightarrow> string \<Rightarrow> string \<Rightarrow> string \<Rightarrow> string \<Rightarrow> string \<Rightarrow>
     bool \<Rightarrow> bool \<Rightarrow> bool \<Rightarrow> int \<Rightarrow> registry \<Rightarrow> reg_error + identity \<times> registry" where
  "create_user hash kdf i raw salt name0 email0 password path allow_write is_admin confirmed now r =
     (let email = normalize_email email0 in
      case validate_email email of
        Some e \<Rightarrow> Inl e
      | None \<Rightarrow>
      (let name = (if trim_space name0 = []
                   then take (case index_byte at_sign email of Some k \<Rightarrow> k | None \<Rightarrow> 0) email else name0) in
       case validate_identity_fields name path of
         Some e \<Rightarrow> Inl e
       | None \<Rightarrow>
       case hash_password kdf salt password of
         Inl e \<Rightarrow> Inl e
       | Inr pw \<Rightarrow>
         (let row = (bare_identity i name (hash raw) path allow_write (stamp now))
                      \<lparr>ir_email := Some email, ir_admin := is_admin, ir_pw := Some pw, ir_confirmed := confirmed\<rparr>
          in case insert_identity row r of
               Inl e \<Rightarrow> Inl (if e = UniqueFailed then EmailTaken else e)
             | Inr r' \<Rightarrow> Inr (scan_identity row, r'))))"

definition lookup_by_email :: "string \<Rightarrow> registry \<Rightarrow> identity option" where
  "lookup_by_email email r =
     map_option scan_identity (tbl_get ir_email (Some (normalize_email email)) (rg_idents r))"

definition authenticate_password :: "kdf \<Rightarrow> string \<Rightarrow> string \<Rightarrow> registry \<Rightarrow> reg_error + identity" where
  "authenticate_password kdf email password r =
     (case tbl_get ir_email (Some (normalize_email email)) (rg_idents r) of
        None \<Rightarrow> Inl BadCredentials
      | Some row \<Rightarrow>
          if str_of (ir_pw row) = [] \<or> \<not> verify_password kdf (str_of (ir_pw row)) password
          then Inl BadCredentials else Inr (scan_identity row))"

definition set_password :: "kdf \<Rightarrow> string \<Rightarrow> string \<Rightarrow> string \<Rightarrow> registry \<Rightarrow> reg_error + registry" where
  "set_password kdf salt i password r =
     (case hash_password kdf salt password of
        Inl e \<Rightarrow> Inl e
      | Inr pw \<Rightarrow>
          if \<not> tbl_has ir_id i (rg_idents r) then Inl (RowNotFound i)
          else Inr (update_identity i (\<lambda>row. row\<lparr>ir_pw := Some pw\<rparr>) r))"

definition update_flags :: "string \<Rightarrow> bool option \<Rightarrow> bool option \<Rightarrow> registry \<Rightarrow> reg_error + registry" where
  "update_flags i allow_write is_admin r =
     (if allow_write = None \<and> is_admin = None then Inr r
      else if \<not> tbl_has ir_id i (rg_idents r) then Inl (RowNotFound i)
      else Inr (update_identity i
             (\<lambda>row. row\<lparr>ir_write := (case allow_write of Some b \<Rightarrow> b | None \<Rightarrow> ir_write row),
                        ir_admin := (case is_admin of Some b \<Rightarrow> b | None \<Rightarrow> ir_admin row)\<rparr>) r))"

definition admin_exists :: "registry \<Rightarrow> bool" where
  "admin_exists r = list_ex ir_admin (rg_idents r)"

definition set_credentials :: "kdf \<Rightarrow> string \<Rightarrow> string \<Rightarrow> string \<Rightarrow> string \<Rightarrow> bool \<Rightarrow> registry \<Rightarrow> reg_error + registry" where
  "set_credentials kdf salt i email0 password is_admin r =
     (let email = normalize_email email0 in
      case validate_email email of
        Some e \<Rightarrow> Inl e
      | None \<Rightarrow>
      case hash_password kdf salt password of
        Inl e \<Rightarrow> Inl e
      | Inr pw \<Rightarrow>
          if \<not> tbl_has ir_id i (rg_idents r) then Inl (RowNotFound i)
          else if list_ex (\<lambda>row. ir_id row \<noteq> i \<and> email_clash (Some email) (ir_email row)) (rg_idents r)
               then Inl EmailTaken
          else Inr (update_identity i
                 (\<lambda>row. row\<lparr>ir_email := Some email, ir_pw := Some pw, ir_admin := is_admin\<rparr>) r))"

section \<open>Confirmation and reset\<close>

definition is_confirmed :: "string \<Rightarrow> registry \<Rightarrow> reg_error + bool" where
  "is_confirmed i r =
     (case tbl_get ir_id i (rg_idents r) of
        None \<Rightarrow> Inl (RowNotFound i)
      | Some row \<Rightarrow> Inr (ir_confirmed row))"

definition set_confirm_token :: "string \<Rightarrow> string \<Rightarrow> int \<Rightarrow> int \<Rightarrow> registry \<Rightarrow> string \<times> registry" where
  "set_confirm_token token i ttl now r =
     (token, update_identity i (\<lambda>row. row\<lparr>ir_ctoken := Some token, ir_cexp := Some (stamp (now + ttl))\<rparr>) r)"

definition live_confirm :: "string \<Rightarrow> int \<Rightarrow> ident_row \<Rightarrow> bool" where
  "live_confirm token now row =
     (ir_ctoken row = Some token \<and> (case ir_cexp row of None \<Rightarrow> False | Some s \<Rightarrow> stamp now < s))"

definition confirm_by_token :: "string \<Rightarrow> int \<Rightarrow> registry \<Rightarrow> reg_error + identity \<times> registry" where
  "confirm_by_token token now r =
     (case find (live_confirm token now) (rg_idents r) of
        None \<Rightarrow> Inl BadToken
      | Some row \<Rightarrow>
          Inr (scan_identity row,
               update_identity (ir_id row) (\<lambda>row. row\<lparr>ir_confirmed := True, ir_ctoken := None, ir_cexp := None\<rparr>) r))"

definition set_reset_token :: "string \<Rightarrow> string \<Rightarrow> int \<Rightarrow> int \<Rightarrow> registry \<Rightarrow> string \<times> registry" where
  "set_reset_token token i ttl now r =
     (token, update_identity i (\<lambda>row. row\<lparr>ir_rtoken := Some token, ir_rexp := Some (stamp (now + ttl))\<rparr>) r)"

definition live_reset :: "string \<Rightarrow> int \<Rightarrow> ident_row \<Rightarrow> bool" where
  "live_reset token now row =
     (ir_rtoken row = Some token \<and> (case ir_rexp row of None \<Rightarrow> False | Some s \<Rightarrow> stamp now < s))"

definition reset_password_by_token ::
  "kdf \<Rightarrow> string \<Rightarrow> string \<Rightarrow> string \<Rightarrow> int \<Rightarrow> registry \<Rightarrow> reg_error + identity \<times> registry" where
  "reset_password_by_token kdf salt token password now r =
     (case hash_password kdf salt password of
        Inl e \<Rightarrow> Inl e
      | Inr pw \<Rightarrow>
      case find (live_reset token now) (rg_idents r) of
        None \<Rightarrow> Inl BadToken
      | Some row \<Rightarrow>
          Inr (scan_identity row,
               update_identity (ir_id row) (\<lambda>row. row\<lparr>ir_pw := Some pw, ir_rtoken := None, ir_rexp := None\<rparr>) r))"

definition unconfirmed_identities :: "registry \<Rightarrow> identity list" where
  "unconfirmed_identities r =
     map scan_identity (sort_key ir_created (filter (\<lambda>row. \<not> ir_confirmed row) (rg_idents r)))"

definition pending_resets :: "int \<Rightarrow> registry \<Rightarrow> identity list" where
  "pending_resets now r =
     map scan_identity (sort_key ir_created
       (filter (\<lambda>row. ir_rtoken row \<noteq> None \<and> (case ir_rexp row of None \<Rightarrow> False | Some s \<Rightarrow> stamp now < s)) (rg_idents r)))"

section \<open>Reading by another column\<close>

lemma tbl_get_upd_other:
  "(\<And>x. key (f x) = key x) \<Longrightarrow> tbl_get key k (tbl_upd key' k' f rows) =
     map_option (\<lambda>x. if key' x = k' then f x else x) (tbl_get key k rows)"
  by (induction rows) (auto simp: tbl_get_def tbl_upd_def)

lemma tbl_get_only:
  assumes "x \<in> set rows" and "key x = k" and "\<And>y. y \<in> set rows \<Longrightarrow> key y = k \<Longrightarrow> y = x"
  shows "tbl_get key k rows = Some x"
proof -
  have "k \<in> key ` set rows" using imageI [OF assms(1), of key] by (simp add: assms(2))
  from tbl_get_key_in [OF this] obtain y where y: "tbl_get key k rows = Some y" ..
  then have "y \<in> set rows \<and> key y = k" by (rule tbl_get_SomeD)
  then have "y = x" using assms(3) by blast
  then show ?thesis using y by simp
qed

lemma tbl_get_filter:
  assumes wf: "tbl_wf key rows"
  shows "tbl_get key k (filter P rows) =
    (case tbl_get key k rows of Some x \<Rightarrow> if P x then Some x else None | None \<Rightarrow> None)"
proof (cases "tbl_get key k rows")
  case None
  then have "k \<notin> key ` set (filter P rows)" by (auto simp: tbl_get_None_iff)
  then have "tbl_get key k (filter P rows) = None" by (simp add: tbl_get_None_iff)
  then show ?thesis using None by simp
next
  case (Some x)
  then have x: "x \<in> set rows" "key x = k" by (auto dest: tbl_get_SomeD)
  show ?thesis
  proof (cases "P x")
    case True
    then show ?thesis using Some x tbl_get_Some_iff [OF tbl_wf_filter [OF wf], of k P x] by simp
  next
    case False
    have "tbl_get key k (filter P rows) \<noteq> Some y" for y
      using False Some tbl_get_Some_iff [OF wf, of k y] by (auto dest!: tbl_get_SomeD)
    then show ?thesis using Some False by (cases "tbl_get key k (filter P rows)") auto
  qed
qed

section \<open>Unique columns are kept\<close>

definition idents_ok :: "ident_row list \<Rightarrow> bool" where
  "idents_ok rows \<longleftrightarrow> sorted_wrt (\<lambda>a b. \<not> ident_clash a b) rows"

lemma idents_ok_Nil [simp]: "idents_ok []"
  by (simp add: idents_ok_def)

lemma ident_clash_sym: "ident_clash a b = ident_clash b a"
  unfolding ident_clash_def email_clash_def by metis

lemma no_clash_distinct:
  "sorted_wrt (\<lambda>a b. \<not> ident_clash a b) rows \<Longrightarrow> distinct (map ir_id rows) \<and> distinct (map ir_key rows)"
  by (induction rows) (auto simp: ident_clash_def)

lemma idents_ok_wf: "idents_ok rows \<Longrightarrow> tbl_wf ir_id rows" "idents_ok rows \<Longrightarrow> tbl_wf ir_key rows"
  using no_clash_distinct by (auto simp: idents_ok_def tbl_wf_def)

lemma idents_ok_unique:
  "idents_ok rows \<Longrightarrow> a \<in> set rows \<Longrightarrow> b \<in> set rows \<Longrightarrow> ident_clash a b \<Longrightarrow> a = b"
  unfolding idents_ok_def by (induction rows) (auto simp: ident_clash_sym)

lemma insert_identity_ok:
  assumes "idents_ok (rg_idents r)" and "insert_identity row r = Inr r'"
  shows "idents_ok (rg_idents r')"
  using assms by (auto simp: insert_identity_def idents_ok_def list_ex_iff sorted_wrt_append ident_clash_sym
      split: if_splits)

lemma update_identity_ok:
  assumes ok: "idents_ok (rg_idents r)"
    and same: "\<And>row. ir_id (f row) = ir_id row" "\<And>row. ir_key (f row) = ir_key row" "\<And>row. ir_email (f row) = ir_email row"
  shows "idents_ok (rg_idents (update_identity i f r))"
proof -
  have "ident_clash (if ir_id a = i then f a else a) (if ir_id b = i then f b else b) = ident_clash a b" for a b
    by (simp add: ident_clash_def same)
  then show ?thesis using ok by (simp add: idents_ok_def update_identity_def tbl_upd_def sorted_wrt_map)
qed

lemma delete_identity_ok:
  assumes "idents_ok (rg_idents r)" and "delete_identity i r = Inr r'"
  shows "idents_ok (rg_idents r')"
  using assms by (auto simp: idents_ok_def delete_identity_def tbl_del_def sorted_wrt_filter split: if_splits)

lemma set_credentials_shape:
  assumes "set_credentials kdf salt i email password adm r = Inr r'"
  obtains pw where "\<forall>row \<in> set (rg_idents r). ir_id row \<noteq> i \<longrightarrow> \<not> email_clash (Some (normalize_email email)) (ir_email row)"
    and "r' = update_identity i (\<lambda>row. row\<lparr>ir_email := Some (normalize_email email), ir_pw := Some pw, ir_admin := adm\<rparr>) r"
  using assms by (auto simp: set_credentials_def Let_def list_ex_iff split: option.splits sum.splits if_splits)

lemma set_credentials_ok:
  assumes ok: "idents_ok (rg_idents r)" and res: "set_credentials kdf salt i email password adm r = Inr r'"
  shows "idents_ok (rg_idents r')"
proof -
  let ?e = "Some (normalize_email email)"
  obtain pw where fresh: "\<forall>row \<in> set (rg_idents r). ir_id row \<noteq> i \<longrightarrow> \<not> email_clash ?e (ir_email row)"
    and r': "r' = update_identity i (\<lambda>row. row\<lparr>ir_email := ?e, ir_pw := Some pw, ir_admin := adm\<rparr>) r"
    by (rule set_credentials_shape [OF res])
  let ?f = "\<lambda>row. if ir_id row = i then row\<lparr>ir_email := ?e, ir_pw := Some pw, ir_admin := adm\<rparr> else row"
  have "\<not> ident_clash (?f a) (?f b)"
    if "a \<in> set (rg_idents r)" "b \<in> set (rg_idents r)" "\<not> ident_clash a b" for a b
    using that fresh by (auto simp: ident_clash_def email_clash_def)
  then have "sorted_wrt (\<lambda>a b. \<not> ident_clash (?f a) (?f b)) (rg_idents r)"
    using ok unfolding idents_ok_def by (rule_tac sorted_wrt_mono_rel) auto
  then show ?thesis by (simp add: r' idents_ok_def update_identity_def tbl_upd_def sorted_wrt_map)
qed

end
