(* ===== verification/Registry_Teams.thy ===== *)
theory Registry_Teams
  imports Registry_Accounts
begin

text \<open>
  The team directory, the discovery index and the entitlements of the registry
  (\<^verbatim>\<open>internal/db/registry.go\<close>, \<^verbatim>\<open>internal/db/entitlements.go\<close>).
\<close>

section \<open>Teams\<close>

definition team_live :: "team_row \<Rightarrow> bool" where
  "team_live t = (tw_deleted t = None)"

definition count_owned_teams :: "string \<Rightarrow> registry \<Rightarrow> nat" where
  "count_owned_teams i r = length (filter (\<lambda>t. tw_creator t = Some i \<and> team_live t) (rg_teams r))"

definition create_team ::
  "string \<Rightarrow> string \<Rightarrow> string \<Rightarrow> string \<Rightarrow> int \<Rightarrow> int \<Rightarrow> registry \<Rightarrow> reg_error + team \<times> registry" where
  "create_team i name path creator max_owned now r =
     (case validate_identity_fields name path of
        Some e \<Rightarrow> Inl e
      | None \<Rightarrow>
          if max_owned \<le> int (count_owned_teams creator r) then Inl TeamLimit
          else (let row = \<lparr>tw_id = i, tw_name = name, tw_path = path, tw_creator = null_str creator,
                          tw_created = stamp now, tw_deleted = None, tw_plan = ''free'', tw_seats = 1\<rparr>
                in case tbl_ins tw_id row (rg_teams r) of
                     None \<Rightarrow> Inl UniqueFailed
                   | Some ts \<Rightarrow> Inr ((scan_team row)\<lparr>te_plan := [], te_seats := 0\<rparr>, r\<lparr>rg_teams := ts\<rparr>)))"

definition team_by_id :: "string \<Rightarrow> registry \<Rightarrow> reg_error + team" where
  "team_by_id i r =
     (case find (\<lambda>t. tw_id t = i \<and> team_live t) (rg_teams r) of
        None \<Rightarrow> Inl (RowNotFound i)
      | Some t \<Rightarrow> Inr (scan_team t))"

definition update_live_team :: "string \<Rightarrow> (team_row \<Rightarrow> team_row) \<Rightarrow> registry \<Rightarrow> reg_error + registry" where
  "update_live_team i f r =
     (if \<not> list_ex (\<lambda>t. tw_id t = i \<and> team_live t) (rg_teams r) then Inl (RowNotFound i)
      else Inr (r\<lparr>rg_teams := map (\<lambda>t. if tw_id t = i \<and> team_live t then f t else t) (rg_teams r)\<rparr>))"

definition set_team_plan :: "string \<Rightarrow> string \<Rightarrow> int \<Rightarrow> registry \<Rightarrow> reg_error + registry" where
  "set_team_plan i plan seats r = update_live_team i (\<lambda>t. t\<lparr>tw_plan := plan, tw_seats := seats\<rparr>) r"

definition rename_team :: "string \<Rightarrow> string \<Rightarrow> registry \<Rightarrow> reg_error + registry" where
  "rename_team i name r =
     (case validate_identity_fields name ''x'' of
        Some e \<Rightarrow> Inl e
      | None \<Rightarrow> update_live_team i (\<lambda>t. t\<lparr>tw_name := name\<rparr>) r)"

definition soft_delete_team :: "string \<Rightarrow> int \<Rightarrow> registry \<Rightarrow> reg_error + registry" where
  "soft_delete_team i now r =
     (case update_live_team i (\<lambda>t. t\<lparr>tw_deleted := Some (stamp now)\<rparr>) r of
        Inl e \<Rightarrow> Inl e
      | Inr r1 \<Rightarrow> Inr (r1\<lparr>rg_index := filter (\<lambda>x. ix_team x \<noteq> i) (rg_index r1)\<rparr>))"

section \<open>The discovery index\<close>

definition ix_key :: "index_row \<Rightarrow> string \<times> string" where
  "ix_key x = (ix_team x, ix_identity x)"

text \<open>\<^verbatim>\<open>INSERT OR IGNORE\<close>; the foreign key on the team is enforced (soft-deleted teams keep their row).\<close>

definition index_team_member :: "string \<Rightarrow> string \<Rightarrow> int \<Rightarrow> registry \<Rightarrow> reg_error + registry" where
  "index_team_member t i now r =
     (if tbl_has ix_key (t, i) (rg_index r) then Inr r
      else if \<not> tbl_has tw_id t (rg_teams r) then Inl ForeignKeyFailed
      else Inr (r\<lparr>rg_index := rg_index r @ [\<lparr>ix_team = t, ix_identity = i, ix_added = stamp now\<rparr>]\<rparr>))"

definition unindex_team_member :: "string \<Rightarrow> string \<Rightarrow> registry \<Rightarrow> registry" where
  "unindex_team_member t i r = r\<lparr>rg_index := tbl_del ix_key (t, i) (rg_index r)\<rparr>"

definition teams_for_identity :: "string \<Rightarrow> registry \<Rightarrow> team list" where
  "teams_for_identity i r =
     map scan_team (sort_key tw_created
       (filter (\<lambda>t. team_live t \<and> tbl_has ix_key (tw_id t, i) (rg_index r)) (rg_teams r)))"

definition all_teams :: "registry \<Rightarrow> (team \<times> nat) list" where
  "all_teams r =
     map (\<lambda>t. (scan_team t, length (filter (\<lambda>x. ix_team x = tw_id t) (rg_index r))))
       (sort_key tw_created (filter team_live (rg_teams r)))"

definition teams_owned_by :: "string \<Rightarrow> registry \<Rightarrow> string list" where
  "teams_owned_by i r = map tw_id (filter (\<lambda>t. tw_creator t = Some i \<and> team_live t) (rg_teams r))"

section \<open>Entitlements\<close>

definition status_active :: string where "status_active = ''active''"
definition status_past_due :: string where "status_past_due = ''past_due''"
definition status_cancelled :: string where "status_cancelled = ''cancelled''"

definition ent_live :: "ent_row \<Rightarrow> bool" where
  "ent_live e = (et_status e \<noteq> status_cancelled)"

definition ent_key :: "ent_row \<Rightarrow> string \<times> string" where
  "ent_key e = (et_identity e, et_kind e)"

text \<open>\<^verbatim>\<open>Entitlement.Entitles\<close>, of a row or of no row.\<close>

definition entitles :: "int \<Rightarrow> ent_row option \<Rightarrow> bool" where
  "entitles now e =
     (case e of
        None \<Rightarrow> False
      | Some e \<Rightarrow> et_status e \<noteq> status_cancelled
                 \<and> (case et_expires e of None \<Rightarrow> True | Some s \<Rightarrow> \<not> after now s))"

definition entitlement :: "string \<Rightarrow> string \<Rightarrow> registry \<Rightarrow> ent_row option" where
  "entitlement i kind r = find (\<lambda>e. et_identity e = i \<and> et_kind e = kind \<and> ent_live e) (rg_ents r)"

text \<open>\<open>expires\<close> is the given time in nanoseconds; \<open>fresh\<close> the new row id.\<close>

definition put_entitlement ::
  "string \<Rightarrow> string \<Rightarrow> string \<Rightarrow> string \<Rightarrow> int \<Rightarrow> int option \<Rightarrow> string \<Rightarrow> int \<Rightarrow> registry \<Rightarrow>
     reg_error + ent_row option \<times> registry" where
  "put_entitlement fresh i kind status0 seats expires ref now r =
     (if i = [] \<or> kind = [] then Inl (BadField ''entitlement needs an identity and a kind'')
      else (let status = (if status0 = [] then status_active else status0) in
        case entitlement i kind r of
          Some old \<Rightarrow>
            (let r' = r\<lparr>rg_ents := tbl_upd et_id (et_id old)
                   (\<lambda>e. e\<lparr>et_status := status, et_seats := seats, et_expires := map_option stamp expires,
                          et_ref := ref, et_updated := stamp now\<rparr>) (rg_ents r)\<rparr>
             in Inr (entitlement i kind r', r'))
        | None \<Rightarrow>
            (case tbl_ins et_id \<lparr>et_id = fresh, et_identity = i, et_kind = kind, et_status = status,
                     et_seats = seats, et_expires = map_option stamp expires, et_ref = ref,
                     et_created = stamp now, et_updated = stamp now\<rparr> (rg_ents r) of
               None \<Rightarrow> Inl UniqueFailed
             | Some es \<Rightarrow> Inr (entitlement i kind (r\<lparr>rg_ents := es\<rparr>), r\<lparr>rg_ents := es\<rparr>))))"

definition cancel_entitlement :: "string \<Rightarrow> string \<Rightarrow> int \<Rightarrow> registry \<Rightarrow> registry" where
  "cancel_entitlement i kind now r =
     r\<lparr>rg_ents := map (\<lambda>e. if ent_key e = (i, kind) \<and> ent_live e
                           then e\<lparr>et_status := status_cancelled, et_updated := stamp now\<rparr> else e) (rg_ents r)\<rparr>"

section \<open>What is kept\<close>

text \<open>At most one live entitlement of a kind for a person, in any order of the rows.\<close>

definition ents_ok :: "ent_row list \<Rightarrow> bool" where
  "ents_ok es \<longleftrightarrow> tbl_wf et_id es \<and> distinct (map ent_key (filter ent_live es))"

definition index_ok :: "registry \<Rightarrow> bool" where
  "index_ok r \<longleftrightarrow> tbl_wf ix_key (rg_index r) \<and> ix_team ` set (rg_index r) \<subseteq> tw_id ` set (rg_teams r)"

lemma update_live_team_keys:
  assumes "update_live_team i f r = Inr r'" and "\<And>t. tw_id (f t) = tw_id t"
  shows "map tw_id (rg_teams r') = map tw_id (rg_teams r)" and "r' = r\<lparr>rg_teams := rg_teams r'\<rparr>"
  using assms by (auto simp: update_live_team_def split: if_splits)

lemma team_by_id_cases:
  "team_by_id i r = Inr t \<Longrightarrow> \<exists>row \<in> set (rg_teams r). tw_id row = i \<and> team_live row \<and> t = scan_team row"
  by (auto simp: team_by_id_def find_Some_iff split: option.splits)

lemma update_live_length:
  assumes "update_live_team i f r = Inr r'" and "\<And>t. tw_creator (f t) = tw_creator t"
    and "\<And>t. team_live (f t) \<Longrightarrow> team_live t"
  shows "count_owned_teams c r' \<le> count_owned_teams c r"
proof -
  have "length (filter P (map g xs)) \<le> length (filter P xs)" if "\<And>x. P (g x) \<Longrightarrow> P x" for P and g :: "team_row \<Rightarrow> team_row" and xs
    using that by (induction xs) (auto simp: le_SucI)
  note less = this
  have r': "rg_teams r' = map (\<lambda>t. if tw_id t = i \<and> team_live t then f t else t) (rg_teams r)"
    using assms(1) by (auto simp: update_live_team_def split: if_splits)
  show ?thesis unfolding count_owned_teams_def r'
    by (rule less) (auto simp: assms(2) split: if_splits)
qed

lemma create_team_count:
  assumes "create_team i name path c m now r = Inr (t, r')"
  shows "count_owned_teams d r' = count_owned_teams d r + (if d = c \<and> c \<noteq> [] then 1 else 0)"
    and "int (count_owned_teams c r) < m"
  using assms by (auto simp: create_team_def Let_def count_owned_teams_def tbl_ins_Some_iff team_live_def
      null_str_def not_le split: option.splits if_splits)

lemma ents_cancel: "ents_ok (rg_ents r) \<Longrightarrow> ents_ok (rg_ents (cancel_entitlement i k now r))"
proof -
  assume ok: "ents_ok (rg_ents r)"
  let ?f = "\<lambda>e. if ent_key e = (i, k) \<and> ent_live e then e\<lparr>et_status := status_cancelled, et_updated := stamp now\<rparr> else e"
  have "filter ent_live (map ?f es) = filter (\<lambda>e. ent_live e \<and> ent_key e \<noteq> (i, k)) es" for es
    by (induction es) (auto simp: ent_live_def)
  moreover have "distinct (map ent_key (filter (\<lambda>e. ent_live e \<and> ent_key e \<noteq> (i, k)) (rg_ents r)))"
    using ok distinct_map_filter [of ent_key "filter ent_live (rg_ents r)" "\<lambda>e. ent_key e \<noteq> (i, k)"]
    by (simp add: ents_ok_def)
  moreover have "map et_id (map ?f (rg_ents r)) = map et_id (rg_ents r)" by simp
  moreover have "rg_ents (cancel_entitlement i k now r) = map ?f (rg_ents r)"
    by (simp add: cancel_entitlement_def)
  ultimately show ?thesis using ok unfolding ents_ok_def tbl_wf_def by presburger
qed

lemma entitlement_SomeD:
  "entitlement i k r = Some e \<Longrightarrow> e \<in> set (rg_ents r) \<and> ent_key e = (i, k) \<and> ent_live e"
  by (auto simp: entitlement_def find_Some_iff ent_key_def)

lemma entitlement_None_iff:
  "entitlement i k r = None \<longleftrightarrow> (\<forall>e \<in> set (rg_ents r). ent_live e \<longrightarrow> ent_key e \<noteq> (i, k))"
  by (auto simp: entitlement_def find_None_iff ent_key_def)

lemma ents_put:
  assumes ok: "ents_ok (rg_ents r)" and res: "put_entitlement fresh i k st n ex rf now r = Inr (res, r')"
  shows "ents_ok (rg_ents r')"
proof (cases "entitlement i k r")
  case None
  then have new: "\<forall>e \<in> set (rg_ents r). ent_live e \<longrightarrow> ent_key e \<noteq> (i, k)" by (simp add: entitlement_None_iff)
  define row where "row = \<lparr>et_id = fresh, et_identity = i, et_kind = k,
      et_status = (if st = [] then status_active else st), et_seats = n, et_expires = map_option stamp ex,
      et_ref = rf, et_created = stamp now, et_updated = stamp now\<rparr>"
  have row: "ent_key row = (i, k)" "et_id row \<notin> et_id ` set (rg_ents r)" "rg_ents r' = rg_ents r @ [row]"
    using res None by (auto simp: put_entitlement_def Let_def tbl_ins_Some_iff ent_key_def row_def
        split: if_splits option.splits)
  have "tbl_wf et_id (rg_ents r @ [row])" using ok row by (simp add: ents_ok_def tbl_wf_append)
  moreover have "distinct (map ent_key (filter ent_live (rg_ents r @ [row])))"
    using ok new row by (auto simp: ents_ok_def)
  ultimately show ?thesis by (simp add: ents_ok_def row)
next
  case (Some old)
  define g :: "ent_row \<Rightarrow> ent_row" where "g = (\<lambda>e. e\<lparr>et_status := (if st = [] then status_active else st), et_seats := n,
      et_expires := map_option stamp ex, et_ref := rf, et_updated := stamp now\<rparr>)"
  have r': "rg_ents r' = tbl_upd et_id (et_id old) g (rg_ents r)"
    using res Some by (auto simp: put_entitlement_def Let_def g_def split: if_splits)
  have old: "old \<in> set (rg_ents r)" "ent_live old" using entitlement_SomeD [OF Some] by auto
  have live: "ent_live (if et_id e = et_id old then g e else e) \<Longrightarrow> ent_live e" if "e \<in> set (rg_ents r)" for e
  proof (cases "et_id e = et_id old")
    case True
    then have "e = old" using that old ok by (auto simp: ents_ok_def tbl_wf_def distinct_map dest: inj_onD)
    then show ?thesis using old by simp
  qed simp
  have "map ent_key (filter ent_live (tbl_upd et_id (et_id old) g es))
      = map ent_key (filter (\<lambda>e. ent_live (if et_id e = et_id old then g e else e)) es)" for es
    by (induction es) (auto simp: tbl_upd_def g_def ent_key_def)
  moreover have "distinct (map ent_key (filter (\<lambda>e. ent_live (if et_id e = et_id old then g e else e)) (rg_ents r)))"
  proof -
    have "filter (\<lambda>e. ent_live (if et_id e = et_id old then g e else e)) (rg_ents r)
        = filter (\<lambda>e. ent_live (if et_id e = et_id old then g e else e)) (filter ent_live (rg_ents r))"
      using live by (auto simp: filter_filter intro!: filter_cong split del: if_split)
    then show ?thesis using ok distinct_map_filter [of ent_key "filter ent_live (rg_ents r)"]
      by (simp add: ents_ok_def del: filter_filter)
  qed
  moreover have "map et_id (tbl_upd et_id (et_id old) g (rg_ents r)) = map et_id (rg_ents r)"
    by (simp add: map_key_tbl_upd g_def)
  ultimately show ?thesis using ok by (simp add: ents_ok_def r' tbl_wf_def)
qed

end
