(* ===== verification/Registry_Grants.thy ===== *)
theory Registry_Grants
  imports Registry_Teams
begin

text \<open>
  OAuth grants, authorization codes, consent tickets, browser sessions, invites, clients and the
  aggregate counts (\<^verbatim>\<open>internal/db/registry.go\<close>, \<^verbatim>\<open>internal/db/oauth_clients.go\<close>). Random keys,
  tokens and ids are arguments; \<open>hash\<close> stands for \<^verbatim>\<open>HashKey\<close>.
\<close>

section \<open>Grants\<close>

definition grant_clash :: "Registry_Data.grant_row \<Rightarrow> Registry_Data.grant_row \<Rightarrow> bool" where
  "grant_clash a b = (gr_id a = gr_id b \<or> (gr_key a = gr_key b \<and> gr_key a \<noteq> None))"

definition insert_grant :: "Registry_Data.grant_row \<Rightarrow> registry \<Rightarrow> reg_error + registry" where
  "insert_grant g r =
     (if list_ex (grant_clash g) (rg_grants r) then Inl UniqueFailed
      else Inr (r\<lparr>rg_grants := rg_grants r @ [g]\<rparr>))"

definition generate_api_key :: "string \<Rightarrow> string" where
  "generate_api_key hex = ''mkey_'' @ hex"

definition mint_delegated_grant ::
  "(string \<Rightarrow> string) \<Rightarrow> string \<Rightarrow> string \<Rightarrow> string \<Rightarrow> string \<Rightarrow> string \<Rightarrow> int \<Rightarrow> registry \<Rightarrow>
     reg_error + (grant \<times> string) \<times> registry" where
  "mint_delegated_grant hash g raw client i team now r =
     (case insert_grant \<lparr>gr_id = g, gr_client = client, gr_identity = i, gr_created = stamp now,
              gr_revoked = None, gr_key = Some (hash raw), gr_team = null_str team\<rparr> r of
        Inl e \<Rightarrow> Inl e
      | Inr r' \<Rightarrow>
          Inr ((\<lparr>gt_id = g, gt_client = client, gt_identity = i, gt_identity_name = [], gt_team = team,
                gt_team_name = [], gt_created = stamp now, gt_revoked = None\<rparr>, raw), r'))"

definition resolve_grant :: "(string \<Rightarrow> string) \<Rightarrow> string \<Rightarrow> registry \<Rightarrow> (identity \<times> string) option" where
  "resolve_grant hash raw r =
     (case find (\<lambda>g. gr_key g = Some (hash raw) \<and> gr_revoked g = None) (rg_grants r) of
        None \<Rightarrow> None
      | Some g \<Rightarrow>
          (case resolve_by_id (gr_identity g) r of
             Inl _ \<Rightarrow> None
           | Inr i \<Rightarrow> Some (i, str_of (gr_team g))))"

definition mint_grant ::
  "(string \<Rightarrow> string) \<Rightarrow> string \<Rightarrow> string \<Rightarrow> string \<Rightarrow> string \<Rightarrow> string \<Rightarrow> string \<Rightarrow> bool \<Rightarrow> int \<Rightarrow> registry \<Rightarrow>
     reg_error + (grant \<times> string) \<times> registry" where
  "mint_grant hash g i raw client name path allow_write now r =
     (case validate_identity_fields name path of
        Some e \<Rightarrow> Inl e
      | None \<Rightarrow>
      case insert_identity (bare_identity i name (hash raw) path allow_write (stamp now)) r of
        Inl e \<Rightarrow> Inl e
      | Inr r1 \<Rightarrow>
      case insert_grant \<lparr>gr_id = g, gr_client = client, gr_identity = i, gr_created = stamp now,
             gr_revoked = None, gr_key = None, gr_team = None\<rparr> r1 of
        Inl e \<Rightarrow> Inl e
      | Inr r2 \<Rightarrow>
          Inr ((\<lparr>gt_id = g, gt_client = client, gt_identity = i, gt_identity_name = name, gt_team = [],
                gt_team_name = [], gt_created = stamp now, gt_revoked = None\<rparr>, raw), r2))"

definition revoke_grant :: "string \<Rightarrow> int \<Rightarrow> registry \<Rightarrow> reg_error + registry" where
  "revoke_grant g now r =
     (case tbl_get gr_id g (rg_grants r) of
        None \<Rightarrow> Inl (RowNotFound g)
      | Some row \<Rightarrow>
          if gr_revoked row \<noteq> None then Inl (AlreadyRevoked g)
          else (let r1 = (if gr_key row = None then r\<lparr>rg_idents := tbl_del ir_id (gr_identity row) (rg_idents r)\<rparr> else r)
                in Inr (r1\<lparr>rg_grants := tbl_upd gr_id g (\<lambda>x. x\<lparr>gr_revoked := Some (stamp now)\<rparr>) (rg_grants r1)\<rparr>)))"

definition list_grants :: "registry \<Rightarrow> grant list" where
  "list_grants r =
     map (\<lambda>g. \<lparr>gt_id = gr_id g, gt_client = gr_client g, gt_identity = gr_identity g,
            gt_identity_name = (case tbl_get ir_id (gr_identity g) (rg_idents r) of None \<Rightarrow> [] | Some i \<Rightarrow> ir_name i),
            gt_team = str_of (gr_team g),
            gt_team_name = (case find (\<lambda>t. Some (tw_id t) = gr_team g \<and> team_live t) (rg_teams r) of None \<Rightarrow> [] | Some t \<Rightarrow> tw_name t),
            gt_created = gr_created g, gt_revoked = gr_revoked g\<rparr>)
       (sort_key gr_created (rg_grants r))"

section \<open>Authorization codes and consent tickets\<close>

record code_entry =
  ce_challenge :: string
  ce_client :: string
  ce_identity :: string
  ce_team :: string
  ce_expiry :: int

definition store_oauth_code :: "string \<Rightarrow> code_entry \<Rightarrow> int \<Rightarrow> registry \<Rightarrow> reg_error option \<times> registry" where
  "store_oauth_code code e now r =
     (let r1 = r\<lparr>rg_codes := filter (\<lambda>c. \<not> oc_expires c < stamp now) (rg_codes r)\<rparr> in
      case tbl_ins oc_code \<lparr>oc_code = code, oc_challenge = ce_challenge e, oc_client = ce_client e,
             oc_identity = ce_identity e, oc_team = ce_team e, oc_expires = stamp (ce_expiry e)\<rparr> (rg_codes r1) of
        None \<Rightarrow> (Some UniqueFailed, r1)
      | Some cs \<Rightarrow> (None, r1\<lparr>rg_codes := cs\<rparr>))"

definition take_oauth_code :: "string \<Rightarrow> int \<Rightarrow> registry \<Rightarrow> code_entry option \<times> registry" where
  "take_oauth_code code now r =
     (case tbl_get oc_code code (rg_codes r) of
        None \<Rightarrow> (None, r)
      | Some c \<Rightarrow>
          (let r' = r\<lparr>rg_codes := tbl_del oc_code code (rg_codes r)\<rparr> in
           if after now (oc_expires c) then (None, r')
           else (Some \<lparr>ce_challenge = oc_challenge c, ce_client = oc_client c, ce_identity = oc_identity c,
                       ce_team = oc_team c, ce_expiry = oc_expires c * nanos\<rparr>, r')))"

record consent_entry =
  co_identity :: string
  co_teams :: "string list"
  co_redirect :: string
  co_state :: string
  co_challenge :: string
  co_method :: string
  co_client :: string
  co_expiry :: int

definition store_consent_ticket :: "string \<Rightarrow> consent_entry \<Rightarrow> int \<Rightarrow> registry \<Rightarrow> reg_error option \<times> registry" where
  "store_consent_ticket ticket e now r =
     (let r1 = r\<lparr>rg_consents := filter (\<lambda>c. \<not> ct_expires c < stamp now) (rg_consents r)\<rparr> in
      case tbl_ins ct_ticket \<lparr>ct_ticket = ticket, ct_identity = co_identity e, ct_teams = co_teams e,
             ct_redirect = co_redirect e, ct_state = co_state e, ct_challenge = co_challenge e,
             ct_method = co_method e, ct_client = co_client e, ct_expires = stamp (co_expiry e)\<rparr> (rg_consents r1) of
        None \<Rightarrow> (Some UniqueFailed, r1)
      | Some cs \<Rightarrow> (None, r1\<lparr>rg_consents := cs\<rparr>))"

definition take_consent_ticket :: "string \<Rightarrow> int \<Rightarrow> registry \<Rightarrow> consent_entry option \<times> registry" where
  "take_consent_ticket ticket now r =
     (case tbl_get ct_ticket ticket (rg_consents r) of
        None \<Rightarrow> (None, r)
      | Some c \<Rightarrow>
          (let r' = r\<lparr>rg_consents := tbl_del ct_ticket ticket (rg_consents r)\<rparr> in
           if after now (ct_expires c) then (None, r')
           else (Some \<lparr>co_identity = ct_identity c, co_teams = ct_teams c, co_redirect = ct_redirect c,
                       co_state = ct_state c, co_challenge = ct_challenge c, co_method = ct_method c,
                       co_client = ct_client c, co_expiry = ct_expires c * nanos\<rparr>, r')))"

section \<open>Sessions\<close>

definition store_session :: "(string \<Rightarrow> string) \<Rightarrow> string \<Rightarrow> string \<Rightarrow> int \<Rightarrow> int \<Rightarrow> registry \<Rightarrow> registry" where
  "store_session hash raw i expiry now r =
     (let kept = filter (\<lambda>s. \<not> ss_expires s < stamp now) (rg_sessions r) in
      r\<lparr>rg_sessions :=
          (if tbl_has ss_hash (hash raw) kept
           then tbl_upd ss_hash (hash raw) (\<lambda>s. s\<lparr>ss_identity := i, ss_expires := stamp expiry\<rparr>) kept
           else kept @ [\<lparr>ss_hash = hash raw, ss_identity = i, ss_expires = stamp expiry\<rparr>])\<rparr>)"

definition resolve_session :: "(string \<Rightarrow> string) \<Rightarrow> string \<Rightarrow> int \<Rightarrow> registry \<Rightarrow> string option" where
  "resolve_session hash raw now r =
     (case tbl_get ss_hash (hash raw) (rg_sessions r) of
        None \<Rightarrow> None
      | Some s \<Rightarrow> if after now (ss_expires s) then None else Some (ss_identity s))"

definition delete_session :: "(string \<Rightarrow> string) \<Rightarrow> string \<Rightarrow> registry \<Rightarrow> registry" where
  "delete_session hash raw r = r\<lparr>rg_sessions := tbl_del ss_hash (hash raw) (rg_sessions r)\<rparr>"

section \<open>Invites\<close>

record invite =
  in_team :: string
  in_email :: string
  in_role :: role
  in_read :: "string list"
  in_titles :: "string list"
  in_by :: string
  in_created :: int
  in_expiry :: int

definition store_invite ::
  "(string \<Rightarrow> string) \<Rightarrow> string \<Rightarrow> string \<Rightarrow> string \<Rightarrow> role \<Rightarrow> string list \<Rightarrow> string list \<Rightarrow> string \<Rightarrow> int \<Rightarrow> int \<Rightarrow> registry \<Rightarrow>
     reg_error option \<times> registry" where
  "store_invite hash token team email role rd ti by_id ttl now r =
     (let r1 = r\<lparr>rg_invites := filter (\<lambda>i. \<not> iv_expires i < stamp now) (rg_invites r)\<rparr> in
      case tbl_ins iv_hash \<lparr>iv_hash = hash token, iv_team = team, iv_email = email, iv_role = role, iv_read = rd,
             iv_titles = ti, iv_by = null_str by_id, iv_created = stamp now, iv_expires = stamp (now + ttl)\<rparr> (rg_invites r1) of
        None \<Rightarrow> (Some UniqueFailed, r1)
      | Some is \<Rightarrow> (None, r1\<lparr>rg_invites := is\<rparr>))"

definition scan_invite :: "invite_row \<Rightarrow> invite" where
  "scan_invite i = \<lparr>in_team = iv_team i, in_email = iv_email i, in_role = iv_role i, in_read = iv_read i,
     in_titles = iv_titles i, in_by = str_of (iv_by i), in_created = iv_created i * nanos,
     in_expiry = iv_expires i * nanos\<rparr>"

definition resolve_invite :: "(string \<Rightarrow> string) \<Rightarrow> string \<Rightarrow> int \<Rightarrow> registry \<Rightarrow> invite option" where
  "resolve_invite hash token now r =
     (case tbl_get iv_hash (hash token) (rg_invites r) of
        None \<Rightarrow> None
      | Some i \<Rightarrow> if in_expiry (scan_invite i) < now then None else Some (scan_invite i))"

definition delete_invite :: "(string \<Rightarrow> string) \<Rightarrow> string \<Rightarrow> registry \<Rightarrow> registry" where
  "delete_invite hash token r = r\<lparr>rg_invites := tbl_del iv_hash (hash token) (rg_invites r)\<rparr>"

section \<open>Clients and counts\<close>

definition put_oauth_client :: "string \<Rightarrow> string list \<Rightarrow> int \<Rightarrow> registry \<Rightarrow> reg_error + registry" where
  "put_oauth_client client uris now r =
     (if client = [] then Inl (BadField ''client_id required'')
      else if tbl_has cl_id client (rg_clients r)
           then Inr (r\<lparr>rg_clients := tbl_upd cl_id client (\<lambda>c. c\<lparr>cl_uris := uris\<rparr>) (rg_clients r)\<rparr>)
      else Inr (r\<lparr>rg_clients := rg_clients r @ [\<lparr>cl_id = client, cl_uris = uris, cl_created = stamp now\<rparr>]\<rparr>))"

definition oauth_client :: "string \<Rightarrow> registry \<Rightarrow> client_row option" where
  "oauth_client client r = tbl_get cl_id client (rg_clients r)"

record reg_stats =
  rs_identities :: nat
  rs_grants :: nat
  rs_active :: nat
  rs_paths :: nat

definition registry_stats :: "registry \<Rightarrow> reg_stats" where
  "registry_stats r = \<lparr>rs_identities = length (rg_idents r), rs_grants = length (rg_grants r),
     rs_active = length (filter (\<lambda>g. gr_revoked g = None) (rg_grants r)),
     rs_paths = length (remdups (map ir_path (rg_idents r)))\<rparr>"

section \<open>One-shot secrets\<close>

text \<open>
  What the authorization flow relies on for codes and for consent tickets alike: taking a secret
  consumes it, whatever the answer, and disturbs no other; only storing can bring it back.
\<close>

locale one_shot =
  fixes take_secret :: "string \<Rightarrow> int \<Rightarrow> 's \<Rightarrow> 'e option \<times> 's"
    and held :: "string \<Rightarrow> 's \<Rightarrow> bool"
  assumes take_consumes: "take_secret k now s = (res, s') \<Longrightarrow> \<not> held k s'"
    and take_keeps: "take_secret k now s = (res, s') \<Longrightarrow> j \<noteq> k \<Longrightarrow> held j s' = held j s"
    and take_needs: "take_secret k now s = (Some e, s') \<Longrightarrow> held k s"
begin

lemma take_twice: "take_secret k now s = (res, s') \<Longrightarrow> fst (take_secret k later s') = None"
  using take_consumes take_needs by (metis not_None_eq surjective_pairing)

lemma never_held_again:
  assumes "\<not> held k s" and steps: "R\<^sup>*\<^sup>* s s'" and "\<And>a b. R a b \<Longrightarrow> held k b \<Longrightarrow> held k a"
  shows "fst (take_secret k now s') = None"
proof -
  have "\<not> held k s'" using steps by (induction rule: rtranclp_induct) (use assms in auto)
  then show ?thesis using take_needs by (metis not_None_eq surjective_pairing)
qed

end

definition holds_code :: "string \<Rightarrow> registry \<Rightarrow> bool" where
  "holds_code k r = tbl_has oc_code k (rg_codes r)"

definition holds_ticket :: "string \<Rightarrow> registry \<Rightarrow> bool" where
  "holds_ticket k r = tbl_has ct_ticket k (rg_consents r)"

interpretation codes: one_shot take_oauth_code holds_code
  by unfold_locales
     (auto simp: take_oauth_code_def holds_code_def tbl_has_iff tbl_get_None_iff set_tbl_del Let_def
        dest: tbl_get_SomeD split: option.splits if_splits)

interpretation tickets: one_shot take_consent_ticket holds_ticket
  by unfold_locales
     (auto simp: take_consent_ticket_def holds_ticket_def tbl_has_iff tbl_get_None_iff set_tbl_del Let_def
        dest: tbl_get_SomeD split: option.splits if_splits)

end
