(* ===== verification/Registry_Machine.thy ===== *)
theory Registry_Machine
  imports Registry_Grants
begin

text \<open>
  The registry as a state machine: every committed mutation is a step, in any order, with any
  arguments. \<open>cap\<close> is the limit on owned teams that the engine passes to \<^verbatim>\<open>CreateTeam\<close>.
\<close>

section \<open>Steps\<close>

inductive reg_step :: "(string \<Rightarrow> string) \<Rightarrow> kdf \<Rightarrow> int \<Rightarrow> registry \<Rightarrow> registry \<Rightarrow> bool"
  for hash kdf cap where
  CreateIdentity: "create_identity hash i name raw path aw now r = Inr (idn, r') \<Longrightarrow> reg_step hash kdf cap r r'"
| SetPath: "set_memory_path i path r = Inr r' \<Longrightarrow> reg_step hash kdf cap r r'"
| DeleteIdentity: "delete_identity i r = Inr r' \<Longrightarrow> reg_step hash kdf cap r r'"
| CreateUser: "create_user hash kdf i raw salt name email pw path aw adm conf now r = Inr (idn, r') \<Longrightarrow> reg_step hash kdf cap r r'"
| SetPassword: "set_password kdf salt i pw r = Inr r' \<Longrightarrow> reg_step hash kdf cap r r'"
| Flags: "update_flags i aw adm r = Inr r' \<Longrightarrow> reg_step hash kdf cap r r'"
| Credentials: "set_credentials kdf salt i email pw adm r = Inr r' \<Longrightarrow> reg_step hash kdf cap r r'"
| ConfirmToken: "set_confirm_token token i ttl now r = (t, r') \<Longrightarrow> reg_step hash kdf cap r r'"
| Confirm: "confirm_by_token token now r = Inr (idn, r') \<Longrightarrow> reg_step hash kdf cap r r'"
| ResetToken: "set_reset_token token i ttl now r = (t, r') \<Longrightarrow> reg_step hash kdf cap r r'"
| Reset: "reset_password_by_token kdf salt token pw now r = Inr (idn, r') \<Longrightarrow> reg_step hash kdf cap r r'"
| CreateTeam: "create_team i name path c cap now r = Inr (t, r') \<Longrightarrow> reg_step hash kdf cap r r'"
| TeamPlan: "set_team_plan i plan seats r = Inr r' \<Longrightarrow> reg_step hash kdf cap r r'"
| RenameTeam: "rename_team i name r = Inr r' \<Longrightarrow> reg_step hash kdf cap r r'"
| DeleteTeam: "soft_delete_team i now r = Inr r' \<Longrightarrow> reg_step hash kdf cap r r'"
| IndexMember: "index_team_member t i now r = Inr r' \<Longrightarrow> reg_step hash kdf cap r r'"
| UnindexMember: "reg_step hash kdf cap r (unindex_team_member t i r)"
| PutEnt: "put_entitlement fresh i kind status seats ex ref now r = Inr (res, r') \<Longrightarrow> reg_step hash kdf cap r r'"
| CancelEnt: "reg_step hash kdf cap r (cancel_entitlement i kind now r)"
| MintDelegated: "mint_delegated_grant hash g raw client i team now r = Inr (res, r') \<Longrightarrow> reg_step hash kdf cap r r'"
| MintLegacy: "mint_grant hash g i raw client name path aw now r = Inr (res, r') \<Longrightarrow> reg_step hash kdf cap r r'"
| Revoke: "revoke_grant g now r = Inr r' \<Longrightarrow> reg_step hash kdf cap r r'"
| StoreCode: "store_oauth_code code ce now r = (res, r') \<Longrightarrow> reg_step hash kdf cap r r'"
| TakeCode: "take_oauth_code code now r = (res, r') \<Longrightarrow> reg_step hash kdf cap r r'"
| StoreTicket: "store_consent_ticket ticket co now r = (res, r') \<Longrightarrow> reg_step hash kdf cap r r'"
| TakeTicket: "take_consent_ticket ticket now r = (res, r') \<Longrightarrow> reg_step hash kdf cap r r'"
| StoreSession: "reg_step hash kdf cap r (store_session hash raw i expiry now r)"
| DeleteSession: "reg_step hash kdf cap r (delete_session hash raw r)"
| StoreInvite: "store_invite hash token team email role rd ti by_id ttl now r = (res, r') \<Longrightarrow> reg_step hash kdf cap r r'"
| DeleteInvite: "reg_step hash kdf cap r (delete_invite hash token r)"
| PutClient: "put_oauth_client client uris now r = Inr r' \<Longrightarrow> reg_step hash kdf cap r r'"

inductive_cases reg_stepE: "reg_step hash kdf cap r r'"

lemmas account_ops = create_identity_def set_memory_path_def delete_identity_def create_user_def
  set_password_def update_flags_def set_credentials_def set_confirm_token_def confirm_by_token_def
  set_reset_token_def reset_password_by_token_def insert_identity_def update_identity_def

lemmas team_ops = create_team_def set_team_plan_def rename_team_def soft_delete_team_def
  update_live_team_def index_team_member_def unindex_team_member_def put_entitlement_def cancel_entitlement_def

lemmas flow_ops = mint_delegated_grant_def mint_grant_def revoke_grant_def insert_grant_def
  store_oauth_code_def take_oauth_code_def store_consent_ticket_def take_consent_ticket_def
  store_session_def delete_session_def store_invite_def delete_invite_def put_oauth_client_def

lemmas op_splits = option.splits sum.splits if_splits prod.splits

section \<open>Grants\<close>

definition grants_ok :: "Registry_Data.grant_row list \<Rightarrow> bool" where
  "grants_ok gs \<longleftrightarrow> sorted_wrt (\<lambda>a b. \<not> grant_clash a b) gs"

lemma grant_clash_sym: "grant_clash a b = grant_clash b a"
  unfolding grant_clash_def by metis

lemma grants_ok_unique:
  "grants_ok gs \<Longrightarrow> a \<in> set gs \<Longrightarrow> b \<in> set gs \<Longrightarrow> grant_clash a b \<Longrightarrow> a = b"
  unfolding grants_ok_def by (induction gs) (auto simp: grant_clash_sym)

lemma grants_ok_wf: "grants_ok gs \<Longrightarrow> tbl_wf gr_id gs"
  unfolding grants_ok_def tbl_wf_def by (induction gs) (auto simp: grant_clash_def)

text \<open>What one step can do to the grants.\<close>

lemma step_grants:
  assumes "reg_step hash kdf cap r r'"
  shows "rg_grants r' = rg_grants r
    \<or> (\<exists>g. insert_grant g r = Inr (r\<lparr>rg_grants := rg_grants r'\<rparr>) \<and> gr_revoked g = None)
    \<or> (\<exists>g t row. tbl_get gr_id g (rg_grants r) = Some row \<and> gr_revoked row = None
         \<and> rg_grants r' = tbl_upd gr_id g (\<lambda>x. x\<lparr>gr_revoked := Some t\<rparr>) (rg_grants r))"
  using assms
proof (cases rule: reg_step.cases)
  case (MintDelegated g raw client i team now res)
  then show ?thesis by (auto simp: mint_delegated_grant_def insert_grant_def split: op_splits)
next
  case (MintLegacy g i raw client name path aw now res)
  then show ?thesis by (fastforce simp: mint_grant_def insert_identity_def insert_grant_def split: op_splits)
next
  case (Revoke g now)
  then show ?thesis by (fastforce simp: revoke_grant_def Let_def split: op_splits)
qed (auto simp: account_ops team_ops flow_ops Let_def split: op_splits)

lemma step_grants_ok: "reg_step hash kdf cap r r' \<Longrightarrow> grants_ok (rg_grants r) \<Longrightarrow> grants_ok (rg_grants r')"
proof -
  assume step: "reg_step hash kdf cap r r'" and ok: "grants_ok (rg_grants r)"
  consider (same) "rg_grants r' = rg_grants r"
    | (ins) g where "insert_grant g r = Inr (r\<lparr>rg_grants := rg_grants r'\<rparr>)"
    | (rev) g t where "rg_grants r' = tbl_upd gr_id g (\<lambda>x. x\<lparr>gr_revoked := Some t\<rparr>) (rg_grants r)"
    using step_grants [OF step] by blast
  then show ?thesis
  proof cases
    case ins
    then have "\<forall>x \<in> set (rg_grants r). \<not> grant_clash g x" "rg_grants r' = rg_grants r @ [g]"
      by (auto simp: insert_grant_def list_ex_iff split: if_splits dest: arg_cong [where f = rg_grants])
    then show ?thesis using ok by (auto simp: grants_ok_def sorted_wrt_append grant_clash_sym)
  next
    case (rev g t)
    have "grant_clash (if gr_id a = g then a\<lparr>gr_revoked := Some t\<rparr> else a)
        (if gr_id b = g then b\<lparr>gr_revoked := Some t\<rparr> else b) = grant_clash a b" for a b
      by (simp add: grant_clash_def)
    then show ?thesis using ok by (simp add: grants_ok_def rev tbl_upd_def sorted_wrt_map)
  qed (simp add: ok)
qed

section \<open>Identities\<close>

lemma step_idents_ok:
  assumes step: "reg_step hash kdf cap r r'" and ok: "idents_ok (rg_idents r)"
  shows "idents_ok (rg_idents r')"
proof -
  have upd: "idents_ok (rg_idents (update_identity i f r))"
    if "\<And>row. ir_id (f row) = ir_id row \<and> ir_key (f row) = ir_key row \<and> ir_email (f row) = ir_email row" for i f
    using update_identity_ok [OF ok] that by blast
  have ins: "idents_ok (rg_idents q)" if "insert_identity row r = Inr q" for row q
    using insert_identity_ok [OF ok that] .
  have del: "idents_ok (tbl_del ir_id i (rg_idents r))" for i
    using ok by (simp add: idents_ok_def tbl_del_def sorted_wrt_filter)
  from step show ?thesis
  proof (cases rule: reg_step.cases)
    case (Credentials i salt email pw adm)
    then show ?thesis using set_credentials_ok [OF ok] by blast
  next
    case (MintLegacy g i raw client name path aw now res)
    then show ?thesis using ins by (auto simp: mint_grant_def insert_grant_def split: op_splits)
  next
    case (Revoke g now)
    then show ?thesis using ok del by (auto simp: revoke_grant_def Let_def split: op_splits)
  next
    case (DeleteIdentity i)
    then show ?thesis using delete_identity_ok [OF ok] by blast
  next
    case (CreateIdentity i name raw path aw now idn)
    then show ?thesis using ins by (auto simp: create_identity_def Let_def split: op_splits)
  next
    case (CreateUser i raw salt name email pw path aw adm conf now idn)
    then show ?thesis using ins by (auto simp: create_user_def Let_def split: op_splits)
  next
    case (SetPath i path)
    then show ?thesis using upd by (auto simp: set_memory_path_def split: op_splits)
  next
    case (SetPassword salt i pw)
    then show ?thesis using upd by (auto simp: set_password_def split: op_splits)
  next
    case (Flags i aw adm)
    then show ?thesis using upd ok by (auto simp: update_flags_def split: op_splits)
  next
    case (ConfirmToken token i ttl now t)
    then show ?thesis using upd by (auto simp: set_confirm_token_def)
  next
    case (Confirm token now idn)
    then show ?thesis using upd by (auto simp: confirm_by_token_def split: op_splits)
  next
    case (ResetToken token i ttl now t)
    then show ?thesis using upd by (auto simp: set_reset_token_def)
  next
    case (Reset salt token pw now idn)
    then show ?thesis using upd by (auto simp: reset_password_by_token_def split: op_splits)
  qed (use ok in \<open>auto simp: team_ops flow_ops Let_def split: op_splits\<close>)
qed

section \<open>Teams\<close>

lemma step_teams:
  assumes step: "reg_step hash kdf cap r r'"
  shows "tw_id ` set (rg_teams r) \<subseteq> tw_id ` set (rg_teams r')"
    and "tbl_wf tw_id (rg_teams r) \<Longrightarrow> tbl_wf tw_id (rg_teams r')"
    and "int (count_owned_teams c r) \<le> cap \<Longrightarrow> int (count_owned_teams c r') \<le> cap"
proof -
  have upd: "tw_id ` set (rg_teams r) \<subseteq> tw_id ` set (rg_teams q)
      \<and> (tbl_wf tw_id (rg_teams r) \<longrightarrow> tbl_wf tw_id (rg_teams q)) \<and> count_owned_teams c q \<le> count_owned_teams c r"
    if "update_live_team i f r = Inr q" "\<And>t. tw_id (f t) = tw_id t \<and> tw_creator (f t) = tw_creator t"
      "\<And>t. team_live (f t) \<Longrightarrow> team_live t" for i f q
    using update_live_team_keys [OF that(1)] update_live_length [OF that(1)] that(2,3)
    by (simp add: tbl_wf_def) (metis list.set_map subset_refl)
  have all: "tw_id ` set (rg_teams r) \<subseteq> tw_id ` set (rg_teams r')
      \<and> (tbl_wf tw_id (rg_teams r) \<longrightarrow> tbl_wf tw_id (rg_teams r'))
      \<and> (int (count_owned_teams c r) \<le> cap \<longrightarrow> int (count_owned_teams c r') \<le> cap)"
    using step
  proof (cases rule: reg_step.cases)
    case (CreateTeam i name path d now t)
    then show ?thesis using create_team_count(1) [OF CreateTeam, of c] create_team_count(2) [OF CreateTeam]
      by (auto simp: create_team_def Let_def tbl_ins_Some_iff tbl_wf_append split: op_splits)
  next
    case (TeamPlan i plan seats)
    then show ?thesis using upd [of i "\<lambda>t. t\<lparr>tw_plan := plan, tw_seats := seats\<rparr>" r']
      by (auto simp: set_team_plan_def team_live_def)
  next
    case (RenameTeam i name)
    then show ?thesis using upd [of i "\<lambda>t. t\<lparr>tw_name := name\<rparr>" r']
      by (auto simp: rename_team_def team_live_def split: op_splits)
  next
    case (DeleteTeam i now)
    then obtain q where "update_live_team i (\<lambda>t. t\<lparr>tw_deleted := Some (stamp now)\<rparr>) r = Inr q" "rg_teams r' = rg_teams q"
      by (auto simp: soft_delete_team_def split: op_splits)
    then show ?thesis using upd [of i "\<lambda>t. t\<lparr>tw_deleted := Some (stamp now)\<rparr>" q]
      by (auto simp: team_live_def count_owned_teams_def)
  qed (auto simp: account_ops team_ops flow_ops count_owned_teams_def Let_def split: op_splits)
  from all show "tw_id ` set (rg_teams r) \<subseteq> tw_id ` set (rg_teams r')"
    and "tbl_wf tw_id (rg_teams r) \<Longrightarrow> tbl_wf tw_id (rg_teams r')"
    and "int (count_owned_teams c r) \<le> cap \<Longrightarrow> int (count_owned_teams c r') \<le> cap" by blast+
qed

lemma step_index_ok:
  assumes step: "reg_step hash kdf cap r r'" and ok: "index_ok r"
  shows "index_ok r'"
proof -
  have "tbl_wf ix_key (rg_index r') \<and> ix_team ` set (rg_index r') \<subseteq> tw_id ` set (rg_teams r)"
    using step
  proof (cases rule: reg_step.cases)
    case (IndexMember t i now)
    then show ?thesis using ok
      by (auto simp: index_team_member_def index_ok_def tbl_has_iff tbl_wf_append ix_key_def image_subset_iff split: op_splits)
  next
    case (UnindexMember t i)
    then show ?thesis using ok
      by (auto simp: unindex_team_member_def index_ok_def tbl_wf_del set_tbl_del)
  next
    case (DeleteTeam i now)
    then show ?thesis using ok
      by (auto simp: soft_delete_team_def update_live_team_def index_ok_def tbl_wf_filter split: op_splits)
  qed (use ok in \<open>auto simp: index_ok_def account_ops create_team_def set_team_plan_def rename_team_def
        update_live_team_def put_entitlement_def cancel_entitlement_def flow_ops Let_def split: op_splits\<close>)
  then show ?thesis using step_teams(1) [OF step] unfolding index_ok_def by blast
qed

lemma step_ents_ok:
  assumes step: "reg_step hash kdf cap r r'" and ok: "ents_ok (rg_ents r)"
  shows "ents_ok (rg_ents r')"
  using step
proof (cases rule: reg_step.cases)
  case (PutEnt fresh i kind status seats ex ref now res)
  then show ?thesis using ents_put [OF ok] by blast
next
  case (CancelEnt i kind now)
  then show ?thesis using ents_cancel [OF ok] by simp
qed (use ok in \<open>auto simp: account_ops create_team_def set_team_plan_def rename_team_def soft_delete_team_def
  update_live_team_def index_team_member_def unindex_team_member_def flow_ops Let_def split: op_splits\<close>)

section \<open>The flow tables\<close>

definition flow_ok :: "registry \<Rightarrow> bool" where
  "flow_ok r \<longleftrightarrow> tbl_wf oc_code (rg_codes r) \<and> tbl_wf ct_ticket (rg_consents r) \<and> tbl_wf ss_hash (rg_sessions r)
     \<and> tbl_wf iv_hash (rg_invites r) \<and> tbl_wf cl_id (rg_clients r)"

lemma step_flow_ok:
  assumes step: "reg_step hash kdf cap r r'" and ok: "flow_ok r"
  shows "flow_ok r'"
  using step ok
  by (cases rule: reg_step.cases)
     (auto simp: flow_ok_def account_ops team_ops flow_ops Let_def tbl_ins_Some_iff tbl_has_iff tbl_wf_append
        tbl_wf_del tbl_wf_filter tbl_wf_upd split: op_splits)

section \<open>The invariant\<close>

definition reg_ok :: "registry \<Rightarrow> bool" where
  "reg_ok r \<longleftrightarrow> idents_ok (rg_idents r) \<and> grants_ok (rg_grants r) \<and> tbl_wf tw_id (rg_teams r)
     \<and> index_ok r \<and> ents_ok (rg_ents r) \<and> flow_ok r"

lemma reg_ok_empty: "reg_ok empty_registry"
  by (simp add: reg_ok_def empty_registry_def idents_ok_def grants_ok_def index_ok_def ents_ok_def flow_ok_def)

lemma step_reg_ok: "reg_step hash kdf cap r r' \<Longrightarrow> reg_ok r \<Longrightarrow> reg_ok r'"
  using step_idents_ok step_grants_ok step_teams(2) step_index_ok step_ents_ok step_flow_ok
  unfolding reg_ok_def by metis

lemma steps_reg_ok: "(reg_step hash kdf cap)\<^sup>*\<^sup>* r r' \<Longrightarrow> reg_ok r \<Longrightarrow> reg_ok r'"
  by (induction rule: rtranclp_induct) (auto dest: step_reg_ok)

end
