(* ===== verification/Registry_Properties.thy ===== *)
theory Registry_Properties
  imports Registry_Machine
begin

text \<open>
  The properties of the registry: what holds in every reachable state, that secrets work once, that
  revocation is final, the cap on teams, sessions as a table of logins, passwords.
\<close>

section \<open>Reachable registries\<close>

definition plain_kdf :: kdf where
  "plain_kdf p s n k = Some (take k (p @ s @ replicate k (CHR ''0'')))"

definition reg1 :: registry where
  "reg1 = snd (projr (create_identity id ''u'' ''Ann'' ''k1'' ''a.rekam'' True 5000000000 empty_registry))"

definition reg2 :: registry where
  "reg2 = snd (projr (mint_delegated_grant id ''g'' ''k2'' ''cli'' ''u'' ''team'' 6000000000 reg1))"

definition reg3 :: registry where
  "reg3 = snd (projr (create_team ''t'' ''Team'' ''t.rekam'' ''u'' 2 7000000000 reg2))"

lemma ran_reg1: "create_identity id ''u'' ''Ann'' ''k1'' ''a.rekam'' True 5000000000 empty_registry =
    Inr (fst (projr (create_identity id ''u'' ''Ann'' ''k1'' ''a.rekam'' True 5000000000 empty_registry)), reg1)"
  by code_simp

lemma ran_reg2: "mint_delegated_grant id ''g'' ''k2'' ''cli'' ''u'' ''team'' 6000000000 reg1 =
    Inr (fst (projr (mint_delegated_grant id ''g'' ''k2'' ''cli'' ''u'' ''team'' 6000000000 reg1)), reg2)"
  by code_simp

lemma ran_reg3: "create_team ''t'' ''Team'' ''t.rekam'' ''u'' 2 7000000000 reg2 =
    Inr (fst (projr (create_team ''t'' ''Team'' ''t.rekam'' ''u'' 2 7000000000 reg2)), reg3)"
  by code_simp

lemma steps_to_reg3: "(reg_step id plain_kdf 2)\<^sup>*\<^sup>* empty_registry reg3"
  using reg_step.CreateIdentity [OF ran_reg1] reg_step.MintDelegated [OF ran_reg2] reg_step.CreateTeam [OF ran_reg3]
  by (meson rtranclp.rtrancl_into_rtrancl rtranclp.rtrancl_refl)

lemma steps_to_reg2: "(reg_step id plain_kdf 2)\<^sup>*\<^sup>* empty_registry reg2"
  using reg_step.CreateIdentity [OF ran_reg1] reg_step.MintDelegated [OF ran_reg2]
  by (meson rtranclp.rtrancl_into_rtrancl rtranclp.rtrancl_refl)

text \<open>C22: Whatever sequence of registry mutations has been committed, the registry is well formed: no
  two identities share an id, a key hash or a non-empty e-mail, no two grants an id or a key hash,
  no two teams, codes, tickets, sessions, invites or clients a key; the index names existing teams
  only; nobody has two live entitlements of a kind. So a key resolves to one account at most.\<close>

theorem registry_reachable_ok:
  assumes "(reg_step hash kdf cap)\<^sup>*\<^sup>* empty_registry r"
  shows "reg_ok r
    \<and> (\<forall>a \<in> set (rg_idents r). \<forall>b \<in> set (rg_idents r). ir_key a = hash raw \<and> ir_key b = hash raw \<longrightarrow> a = b)
    \<and> (\<forall>a \<in> set (rg_idents r). resolve_by_id (ir_id a) r = Inr (scan_identity a))"
proof -
  have ok: "reg_ok r" using steps_reg_ok [OF assms reg_ok_empty] .
  then have ids: "idents_ok (rg_idents r)" by (simp add: reg_ok_def)
  have "a = b" if "a \<in> set (rg_idents r)" "b \<in> set (rg_idents r)" "ir_key a = ir_key b" for a b
    using idents_ok_unique [OF ids that(1,2)] that(3) by (simp add: ident_clash_def)
  moreover have "resolve_by_id (ir_id a) r = Inr (scan_identity a)" if "a \<in> set (rg_idents r)" for a
  proof -
    have "tbl_get ir_id (ir_id a) (rg_idents r) = Some a"
      using tbl_get_Some_iff [OF idents_ok_wf(1) [OF ids]] that by blast
    then show ?thesis by (simp add: resolve_by_id_def)
  qed
  ultimately show ?thesis using ok by metis
qed

theorem registry_reachable_ok_witness:
  "reg_ok reg3 \<and> resolve_by_id ''u'' reg3 = Inr (scan_identity (hd (rg_idents reg3)))"
proof -
  note all = registry_reachable_ok [OF steps_to_reg3]
  have "hd (rg_idents reg3) \<in> set (rg_idents reg3)" "ir_id (hd (rg_idents reg3)) = ''u''" by code_simp+
  then show ?thesis using all by metis
qed

section \<open>Codes and tickets\<close>

text \<open>A mutation that does not store the code \<open>k\<close>.\<close>

definition quiet_step :: "(string \<Rightarrow> string) \<Rightarrow> kdf \<Rightarrow> int \<Rightarrow> string \<Rightarrow> registry \<Rightarrow> registry \<Rightarrow> bool" where
  "quiet_step hash kdf cap k r r' \<longleftrightarrow> reg_step hash kdf cap r r' \<and> (holds_code k r' \<longrightarrow> holds_code k r)"

text \<open>C4: An authorization code can be redeemed once. Redeeming a code that was stored gives back exactly
  what was stored (its expiry to the second), unless it has expired; after that, however the registry
  evolves short of the same code being stored again, no attempt to redeem it succeeds. A consent
  ticket likewise cannot be taken twice.\<close>

theorem oauth_code_once:
  assumes st: "store_oauth_code k e now r = (None, r0)"
    and tk: "take_oauth_code k t r0 = (res, r1)"
    and run: "(quiet_step hash kdf cap k)\<^sup>*\<^sup>* r1 r2"
  shows "res = (if after t (stamp (ce_expiry e)) then None else Some (e\<lparr>ce_expiry := stamp (ce_expiry e) * nanos\<rparr>))
    \<and> fst (take_oauth_code k later r2) = None
    \<and> (\<forall>ticket s. fst (take_consent_ticket ticket later (snd (take_consent_ticket ticket t s))) = None)"
proof -
  have "tbl_get oc_code k (rg_codes r0) = Some \<lparr>oc_code = k, oc_challenge = ce_challenge e, oc_client = ce_client e,
      oc_identity = ce_identity e, oc_team = ce_team e, oc_expires = stamp (ce_expiry e)\<rparr>"
    using st by (auto simp: store_oauth_code_def Let_def split: option.splits
        dest!: keyed_table.get_after_insert [OF keyed_table_tbl])
  then have "res = (if after t (stamp (ce_expiry e)) then None else Some (e\<lparr>ce_expiry := stamp (ce_expiry e) * nanos\<rparr>))"
    using tk by (auto simp: take_oauth_code_def Let_def)
  moreover have "fst (take_oauth_code k later r2) = None"
    using codes.never_held_again [OF codes.take_consumes [OF tk] run] by (simp add: quiet_step_def)
  moreover have "fst (take_consent_ticket ticket later (snd (take_consent_ticket ticket t s))) = None" for ticket s
    by (rule tickets.take_twice) (rule surjective_pairing)
  ultimately show ?thesis by blast
qed

definition code0 :: code_entry where
  "code0 = \<lparr>ce_challenge = ''ch'', ce_client = ''cli'', ce_identity = ''u'', ce_team = [], ce_expiry = 600000000000\<rparr>"

theorem oauth_code_once_witness:
  "fst (take_oauth_code ''c'' 9 (snd (store_oauth_code ''c'' code0 5 reg3))) = Some code0
   \<and> fst (take_oauth_code ''c'' 10 (snd (take_oauth_code ''c'' 9 (snd (store_oauth_code ''c'' code0 5 reg3))))) = None"
proof -
  have st: "store_oauth_code ''c'' code0 5 reg3 = (None, snd (store_oauth_code ''c'' code0 5 reg3))" by code_simp
  have tk: "take_oauth_code ''c'' 9 (snd (store_oauth_code ''c'' code0 5 reg3)) = (fst (take_oauth_code ''c'' 9 (snd (store_oauth_code ''c'' code0 5 reg3))),
      snd (take_oauth_code ''c'' 9 (snd (store_oauth_code ''c'' code0 5 reg3))))" by simp
  have "(if after 9 (stamp (ce_expiry code0)) then None else Some (code0\<lparr>ce_expiry := stamp (ce_expiry code0) * nanos\<rparr>)) = Some code0"
    by code_simp
  then show ?thesis
    using oauth_code_once [OF st tk rtranclp.rtrancl_refl [of "quiet_step id plain_kdf 2 ''c''"], of 10] by simp
qed

section \<open>Revocation\<close>

lemma revoked_stays:
  assumes step: "reg_step hash kdf cap r r'" and x: "x \<in> set (rg_grants r)" "gr_revoked x \<noteq> None"
    and ok: "grants_ok (rg_grants r)"
  shows "x \<in> set (rg_grants r')"
proof -
  consider "rg_grants r' = rg_grants r"
    | g where "insert_grant g r = Inr (r\<lparr>rg_grants := rg_grants r'\<rparr>)"
    | g t row where "tbl_get gr_id g (rg_grants r) = Some row" "gr_revoked row = None"
        "rg_grants r' = tbl_upd gr_id g (\<lambda>y. y\<lparr>gr_revoked := Some t\<rparr>) (rg_grants r)"
    using step_grants [OF step] by blast
  then show ?thesis
  proof cases
    case 2
    then have "rg_grants r' = rg_grants r @ [g]"
      by (auto simp: insert_grant_def split: if_splits dest: arg_cong [where f = rg_grants])
    then show ?thesis using x by simp
  next
    case 3
    have row: "row \<in> set (rg_grants r)" "gr_id row = g" using 3(1) by (auto dest: tbl_get_SomeD)
    have "gr_id x \<noteq> g"
    proof
      assume "gr_id x = g"
      then have "x = row" using grants_ok_unique [OF ok x(1) row(1)] row(2) by (simp add: grant_clash_def)
      then show False using x(2) 3(2) by simp
    qed
    then show ?thesis using x(1) unfolding 3(3) set_tbl_upd by (auto intro!: image_eqI [where x = x])
  qed (use x in simp)
qed

lemma revoked_stays_run:
  assumes "(reg_step hash kdf cap)\<^sup>*\<^sup>* r r'" and "x \<in> set (rg_grants r)" "gr_revoked x \<noteq> None" and "reg_ok r"
  shows "x \<in> set (rg_grants r') \<and> reg_ok r'"
  using assms
  by (induction rule: rtranclp_induct) (auto simp: reg_ok_def dest: revoked_stays step_reg_ok)

lemma resolve_grant_revoked:
  assumes ok: "grants_ok (rg_grants r)" and x: "x \<in> set (rg_grants r)" "gr_revoked x \<noteq> None" "gr_key x = Some (hash raw)"
  shows "resolve_grant hash raw r = None"
proof -
  have "\<not> (gr_key g = Some (hash raw) \<and> gr_revoked g = None)" if "g \<in> set (rg_grants r)" for g
    using grants_ok_unique [OF ok that x(1)] x(2,3) by (auto simp: grant_clash_def)
  then have "find (\<lambda>g. gr_key g = Some (hash raw) \<and> gr_revoked g = None) (rg_grants r) = None"
    by (auto simp: find_None_iff)
  then show ?thesis by (simp add: resolve_grant_def)
qed

text \<open>C23: Revoking a grant is final. Once a delegated grant is revoked, its key resolves to nobody in
  any later state, not even by minting a new grant, and the revocation leaves every account in place;
  revoking a legacy grant removes the hidden account it owns. Revoking it again is an error for ever.\<close>

theorem revocation_final:
  assumes ok: "reg_ok r" and row: "tbl_get gr_id g (rg_grants r) = Some row"
    and rev: "revoke_grant g now r = Inr r1" and run: "(reg_step hash kdf cap)\<^sup>*\<^sup>* r1 r2"
  shows "(\<forall>raw. gr_key row = Some (hash raw) \<longrightarrow> resolve_grant hash raw r2 = None)
    \<and> (if gr_key row = None then resolve_by_id (gr_identity row) r1 = Inl UnknownKey else rg_idents r1 = rg_idents r)
    \<and> revoke_grant g later r2 = Inl (AlreadyRevoked g)"
proof -
  have ok1: "reg_ok r1" using step_reg_ok [OF reg_step.Revoke [OF rev] ok] .
  let ?x = "row\<lparr>gr_revoked := Some (stamp now)\<rparr>"
  have in_r: "row \<in> set (rg_grants r)" "gr_id row = g" using row by (auto dest: tbl_get_SomeD)
  have g1: "rg_grants r1 = tbl_upd gr_id g (\<lambda>x. x\<lparr>gr_revoked := Some (stamp now)\<rparr>) (rg_grants r)"
    using rev row by (auto simp: revoke_grant_def Let_def split: if_splits)
  then have "?x \<in> set (rg_grants r1)" using in_r by (auto simp: set_tbl_upd intro!: image_eqI [where x = row])
  then have x2: "?x \<in> set (rg_grants r2)" and ok2: "reg_ok r2"
    using revoked_stays_run [OF run _ _ ok1, of ?x] by auto
  then have "grants_ok (rg_grants r2)" by (simp add: reg_ok_def)
  then have dead: "resolve_grant hash raw r2 = None" if "gr_key row = Some (hash raw)" for raw
    using resolve_grant_revoked [OF _ x2] that by simp
  have "tbl_wf gr_id (rg_grants r2)"
    using ok2 grants_ok_wf by (simp add: reg_ok_def)
  then have "tbl_get gr_id g (rg_grants r2) = Some ?x" using x2 in_r(2) by (simp add: tbl_get_Some_iff)
  then have "revoke_grant g later r2 = Inl (AlreadyRevoked g)" by (simp add: revoke_grant_def)
  moreover have "if gr_key row = None then resolve_by_id (gr_identity row) r1 = Inl UnknownKey else rg_idents r1 = rg_idents r"
    using rev row by (auto simp: revoke_grant_def Let_def resolve_by_id_def tbl_get_del split: if_splits)
  ultimately show ?thesis using dead by blast
qed

theorem revocation_final_witness:
  "resolve_grant id ''k2'' reg2 \<noteq> None \<and> resolve_grant id ''k2'' (projr (revoke_grant ''g'' 8000000000 reg2)) = None"
proof -
  have rev: "revoke_grant ''g'' 8000000000 reg2 = Inr (projr (revoke_grant ''g'' 8000000000 reg2))" by code_simp
  have row: "tbl_get gr_id ''g'' (rg_grants reg2) = Some (hd (rg_grants reg2))" by code_simp
  have key: "gr_key (hd (rg_grants reg2)) = Some (id ''k2'')" by code_simp
  have live: "resolve_grant id ''k2'' reg2 \<noteq> None" by code_simp
  show ?thesis
    using revocation_final [OF steps_reg_ok [OF steps_to_reg2 reg_ok_empty] row rev
        rtranclp.rtrancl_refl [of "reg_step id plain_kdf 2"], of 9] key live by blast
qed

section \<open>Teams\<close>

lemma cap_kept:
  "(reg_step hash kdf cap)\<^sup>*\<^sup>* r r' \<Longrightarrow> int (count_owned_teams c r) \<le> cap \<Longrightarrow> int (count_owned_teams c r') \<le> cap"
  by (induction rule: rtranclp_induct) (auto dest: step_teams(3))

text \<open>C24: Nobody ever owns more live teams than the cap, whatever the interleaving of requests: the count
  and the insert are one statement. Below the cap a valid team is created and counts; a deleted
  team stops being found, and the limit says no exactly at the cap.\<close>

theorem team_cap:
  assumes run: "(reg_step hash kdf cap)\<^sup>*\<^sup>* empty_registry r" and cap: "0 \<le> cap"
  shows "int (count_owned_teams c r) \<le> cap
    \<and> (validate_identity_fields name path = None \<longrightarrow>
        (create_team i name path c cap now r = Inl TeamLimit \<longleftrightarrow> int (count_owned_teams c r) = cap))
    \<and> (\<forall>r'. soft_delete_team i now r = Inr r' \<longrightarrow> team_by_id i r' = Inl (RowNotFound i)
        \<and> (\<forall>x \<in> set (rg_index r'). ix_team x \<noteq> i))"
proof -
  have le: "int (count_owned_teams c r) \<le> cap"
    using cap_kept [OF run] cap by (simp add: count_owned_teams_def empty_registry_def)
  moreover have "create_team i name path c cap now r = Inl TeamLimit \<longleftrightarrow> int (count_owned_teams c r) = cap"
    if "validate_identity_fields name path = None"
    using that le by (auto simp: create_team_def Let_def split: option.splits)
  moreover have "team_by_id i r' = Inl (RowNotFound i) \<and> (\<forall>x \<in> set (rg_index r'). ix_team x \<noteq> i)"
    if "soft_delete_team i now r = Inr r'" for r'
    using that by (auto simp: soft_delete_team_def update_live_team_def team_by_id_def team_live_def find_Some_iff
        split: option.splits if_splits)
  ultimately show ?thesis by blast
qed

theorem team_cap_witness:
  "count_owned_teams ''u'' reg3 = 1 \<and> team_by_id ''t'' (projr (soft_delete_team ''t'' 9 reg3)) = Inl (RowNotFound ''t'')"
proof -
  have del: "soft_delete_team ''t'' 9 reg3 = Inr (projr (soft_delete_team ''t'' 9 reg3))" by code_simp
  have one: "count_owned_teams ''u'' reg3 = 1" by code_simp
  have "team_by_id ''t'' (projr (soft_delete_team ''t'' 9 reg3)) = Inl (RowNotFound ''t'')"
    using team_cap [OF steps_to_reg3, of "''u''" _ _ "''t''" 9] del by fastforce
  then show ?thesis using one by blast
qed

section \<open>Sessions\<close>

text \<open>What the transport layer relies on: a table of logins, each with the second it lasts to.\<close>

type_synonym logins = "string \<rightharpoonup> string \<times> int"

definition login :: "string \<Rightarrow> string \<Rightarrow> int \<Rightarrow> logins \<Rightarrow> logins" where
  "login cookie i secs T = T(cookie \<mapsto> (i, secs))"

definition logout :: "string \<Rightarrow> logins \<Rightarrow> logins" where
  "logout cookie T = T(cookie := None)"

definition who :: "string \<Rightarrow> int \<Rightarrow> logins \<Rightarrow> string option" where
  "who cookie now T = (case T cookie of None \<Rightarrow> None | Some (i, secs) \<Rightarrow> if after now secs then None else Some i)"

definition sessions_refine :: "(string \<Rightarrow> string) \<Rightarrow> string set \<Rightarrow> int \<Rightarrow> registry \<Rightarrow> logins \<Rightarrow> bool" where
  "sessions_refine hash cookies now r T \<longleftrightarrow>
     (\<forall>k \<in> cookies. \<forall>t \<ge> now. resolve_session hash k t r = who k t T)"

lemma resolve_after_store:
  assumes wf: "tbl_wf ss_hash (rg_sessions r)" and t: "now \<le> t"
  shows "resolve_session hash k t (store_session hash raw i expiry now r) =
    (if hash k = hash raw then (if after t (stamp expiry) then None else Some i) else resolve_session hash k t r)"
proof -
  let ?kept = "filter (\<lambda>s. \<not> ss_expires s < stamp now) (rg_sessions r)"
  have kept: "tbl_get ss_hash h ?kept = (case tbl_get ss_hash h (rg_sessions r) of
      Some x \<Rightarrow> if \<not> ss_expires x < stamp now then Some x else None | None \<Rightarrow> None)" for h
    using tbl_get_filter [OF wf] .
  have old: "(case tbl_get ss_hash h ?kept of None \<Rightarrow> None | Some s \<Rightarrow> if after t (ss_expires s) then None else Some (ss_identity s))
      = (case tbl_get ss_hash h (rg_sessions r) of None \<Rightarrow> None | Some s \<Rightarrow> if after t (ss_expires s) then None else Some (ss_identity s))" for h
    unfolding kept using after_mono [OF swept_after t] by (auto split: option.splits)
  show ?thesis
  proof (cases "tbl_has ss_hash (hash raw) ?kept")
    case True
    then obtain s where "tbl_get ss_hash (hash raw) ?kept = Some s"
      by (metis tbl_get_key_in tbl_has_iff)
    then show ?thesis using True old [of "hash k"]
      by (simp add: resolve_session_def store_session_def Let_def tbl_get_upd)
  next
    case False
    then have "tbl_get ss_hash (hash raw) ?kept = None" by (simp add: tbl_get_None_iff tbl_has_iff)
    then show ?thesis using False old [of "hash k"]
      by (auto simp: resolve_session_def store_session_def Let_def tbl_get_append split: option.splits)
  qed
qed

text \<open>C25: The session table implements the table of logins. If at some moment the stored sessions answer
  like a login table for a set of cookies whose hashes differ, then a login and a logout change both
  alike, the sweep of expired rows included; any other registry mutation that leaves the sessions
  alone, and the passing of time, keep them in agreement.\<close>

theorem session_refinement:
  assumes ok: "reg_ok r" and inj: "inj_on hash cookies" and ref: "sessions_refine hash cookies now r T"
    and later: "now \<le> now'" and cookie: "raw \<in> cookies"
  shows "sessions_refine hash cookies now' (store_session hash raw i expiry now' r) (login raw i (stamp expiry) T)
    \<and> sessions_refine hash cookies now' (delete_session hash raw r) (logout raw T)
    \<and> (\<forall>q. rg_sessions q = rg_sessions r \<longrightarrow> sessions_refine hash cookies now' q T)"
proof -
  have wf: "tbl_wf ss_hash (rg_sessions r)" using ok by (simp add: reg_ok_def flow_ok_def)
  have same: "hash k = hash raw \<longleftrightarrow> k = raw" if "k \<in> cookies" for k
    using inj that cookie by (auto dest: inj_onD)
  have "resolve_session hash k t (store_session hash raw i expiry now' r) = who k t (login raw i (stamp expiry) T)"
    if "k \<in> cookies" "now' \<le> t" for k t
    using resolve_after_store [OF wf that(2)] ref later that same [OF that(1)]
    by (auto simp: sessions_refine_def who_def login_def)
  moreover have "resolve_session hash k t (delete_session hash raw r) = who k t (logout raw T)"
    if "k \<in> cookies" "now' \<le> t" for k t
  proof (cases "k = raw")
    case True
    then show ?thesis by (simp add: resolve_session_def delete_session_def tbl_get_del who_def logout_def)
  next
    case False
    then have "resolve_session hash k t (delete_session hash raw r) = resolve_session hash k t r"
      using same [OF that(1)] by (simp add: resolve_session_def delete_session_def tbl_get_del)
    then show ?thesis using ref that later False by (simp add: sessions_refine_def who_def logout_def)
  qed
  moreover have "sessions_refine hash cookies now' q T" if "rg_sessions q = rg_sessions r" for q
    using ref later that by (simp add: sessions_refine_def resolve_session_def)
  ultimately show ?thesis by (simp add: sessions_refine_def)
qed

theorem session_refinement_witness:
  "sessions_refine id {''c1'', ''c2''} 20 (store_session id ''c1'' ''u'' 90000000000 20 reg3) (login ''c1'' ''u'' 90 Map.empty)
   \<and> resolve_session id ''c1'' 30 (store_session id ''c1'' ''u'' 90000000000 20 reg3) = Some ''u''"
proof -
  have none: "rg_sessions reg3 = []" by code_simp
  have ref: "sessions_refine id {''c1'', ''c2''} 10 reg3 Map.empty"
    by (simp add: sessions_refine_def resolve_session_def none tbl_get_def who_def)
  have "stamp 90000000000 = 90" by code_simp
  then have "sessions_refine id {''c1'', ''c2''} 20 (store_session id ''c1'' ''u'' 90000000000 20 reg3) (login ''c1'' ''u'' 90 Map.empty)"
    using session_refinement [OF steps_reg_ok [OF steps_to_reg3 reg_ok_empty] _ ref, of 20 "''c1''" "''u''" 90000000000] by simp
  moreover have "resolve_session id ''c1'' 30 (store_session id ''c1'' ''u'' 90000000000 20 reg3) = Some ''u''" by code_simp
  ultimately show ?thesis by blast
qed

section \<open>Passwords\<close>

lemma hash_password_shape:
  assumes "hash_password kdf salt pw = Inr enc"
  obtains dk where "kdf pw salt pbkdf2_iter pbkdf2_key_len = Some dk"
    and "enc = ''pbkdf2_sha256$210000$'' @ base64_encode salt @ ''$'' @ base64_encode dk"
  using assms by (auto simp: hash_password_def split: if_splits option.splits)

text \<open>After a password reset by token, the account logs in with the new password under its e-mail
  address, and with another password only if the key derivation gives both the same key; the token
  is spent. The reset does not end anything that was open: every session, grant and API key of the
  account still resolves as before.\<close>

theorem reset_then_login:
  assumes ok: "reg_ok r" and res: "reset_password_by_token kdf salt token pw now r = Inr (idn, r')"
    and len: "\<And>p s n k d. kdf p s n k = Some d \<Longrightarrow> length d = k"
    and mail: "iy_email idn = normalize_email m" "iy_email idn \<noteq> []"
    and own: "\<forall>row \<in> set (rg_idents r). ir_rtoken row = Some token \<longrightarrow> ir_id row = iy_id idn"
  shows "authenticate_password kdf m pw r' = Inr idn
    \<and> (authenticate_password kdf m other r' = Inr idn \<longrightarrow>
         kdf other salt pbkdf2_iter pbkdf2_key_len = kdf pw salt pbkdf2_iter pbkdf2_key_len)
    \<and> (\<forall>s p t. \<exists>e. reset_password_by_token kdf s token p t r' = Inl e)
    \<and> resolve_session hash raw t r' = resolve_session hash raw t r
    \<and> map_option snd (resolve_grant hash raw r') = map_option snd (resolve_grant hash raw r)
    \<and> resolve_key hash raw r' = resolve_key hash raw r"
proof -
  have ids: "idents_ok (rg_idents r)" using ok by (simp add: reg_ok_def)
  obtain enc row where enc: "hash_password kdf salt pw = Inr enc"
    and row: "find (live_reset token now) (rg_idents r) = Some row"
    and idn: "idn = scan_identity row"
    and r': "r' = update_identity (ir_id row) (\<lambda>x. x\<lparr>ir_pw := Some enc, ir_rtoken := None, ir_rexp := None\<rparr>) r"
    using res by (auto simp: reset_password_by_token_def split: sum.splits option.splits)
  obtain dk where dk: "kdf pw salt pbkdf2_iter pbkdf2_key_len = Some dk"
    and enc': "enc = ''pbkdf2_sha256$210000$'' @ base64_encode salt @ ''$'' @ base64_encode dk"
    by (rule hash_password_shape [OF enc])
  have in_r: "row \<in> set (rg_idents r)" using row by (auto simp: find_Some_iff)
  let ?f = "\<lambda>x. x\<lparr>ir_pw := Some enc, ir_rtoken := None, ir_rexp := None\<rparr> :: ident_row"
  have idents: "rg_idents r' = tbl_upd ir_id (ir_id row) ?f (rg_idents r)" by (simp add: r' update_identity_def)
  have others: "rg_sessions r' = rg_sessions r" "rg_grants r' = rg_grants r" by (simp_all add: r' update_identity_def)
  have email: "ir_email row = Some (normalize_email m)"
    using mail by (cases "ir_email row") (auto simp: idn)
  have "x = row" if "x \<in> set (rg_idents r)" "ir_email x = Some (normalize_email m)" for x
    using idents_ok_unique [OF ids that(1) in_r] that(2) email mail
    by (simp add: ident_clash_def email_clash_def)
  then have hit: "tbl_get ir_email (Some (normalize_email m)) (rg_idents r') = Some (?f row)"
    using tbl_get_only [where key = ir_email, OF in_r email] by (simp add: idents tbl_get_upd_other)
  have verify: "verify_password kdf enc p = (kdf p salt pbkdf2_iter pbkdf2_key_len = Some dk)" for p
    using verify_encoded [of kdf salt dk p] len [OF dk] by (simp add: enc')
  have "enc \<noteq> []" by (simp add: enc')
  then have "authenticate_password kdf m p r' = (if kdf p salt pbkdf2_iter pbkdf2_key_len = Some dk then Inr idn else Inl BadCredentials)" for p
    unfolding authenticate_password_def hit by (simp add: verify idn scan_identity_def)
  then have "authenticate_password kdf m pw r' = Inr idn"
    and "authenticate_password kdf m other r' = Inr idn \<longrightarrow> kdf other salt pbkdf2_iter pbkdf2_key_len = kdf pw salt pbkdf2_iter pbkdf2_key_len"
    using dk by auto
  moreover have "\<exists>e. reset_password_by_token kdf s token p t r' = Inl e" for s p t
  proof -
    have "\<not> live_reset token t x" if "x \<in> set (rg_idents r')" for x
      using that own unfolding idents set_tbl_upd by (auto simp: live_reset_def idn split: if_splits)
    then have "find (live_reset token t) (rg_idents r') = None" by (auto simp: find_None_iff)
    then show ?thesis by (auto simp: reset_password_by_token_def split: sum.splits)
  qed
  moreover have "map_option snd (resolve_grant hash raw r') = map_option snd (resolve_grant hash raw r)"
    by (auto simp: resolve_grant_def others resolve_by_id_def idents tbl_get_upd split: option.splits sum.splits)
  moreover have "resolve_key hash raw r' = resolve_key hash raw r"
    by (auto simp: resolve_key_def idents tbl_get_upd_other scan_identity_def split: option.splits)
  ultimately show ?thesis by (simp add: resolve_session_def others)
qed

definition row_forgot :: ident_row where
  "row_forgot = (bare_identity ''v'' ''Vi'' ''k5'' ''v.rekam'' True 0)
     \<lparr>ir_email := Some ''vi@x.io'', ir_pw := Some ''old'', ir_rtoken := Some ''tok'', ir_rexp := Some 1800\<rparr>"

definition reg_forgot :: registry where
  "reg_forgot = empty_registry\<lparr>rg_idents := [row_forgot]\<rparr>"

definition reg_back :: registry where
  "reg_back = snd (projr (reset_password_by_token plain_kdf ''pepper'' ''tok'' ''password2'' 5 reg_forgot))"

lemma ran_reset: "reset_password_by_token plain_kdf ''pepper'' ''tok'' ''password2'' 5 reg_forgot
    = Inr (scan_identity row_forgot, reg_back)"
proof -
  obtain pw where "hash_password plain_kdf ''pepper'' ''password2'' = Inr pw"
    by (simp add: hash_password_def plain_kdf_def min_password_def max_password_def)
  then show ?thesis
    by (simp add: reg_back_def reset_password_by_token_def reg_forgot_def row_forgot_def live_reset_def stamp_def nanos_def)
qed

lemma forgot_ok: "reg_ok reg_forgot"
  using reg_ok_empty by (simp add: reg_ok_def reg_forgot_def empty_registry_def idents_ok_def index_ok_def flow_ok_def)

theorem reset_then_login_witness:
  "authenticate_password plain_kdf ''vi@x.io'' ''password2'' reg_back = Inr (scan_identity row_forgot)"
proof -
  have mail: "iy_email (scan_identity row_forgot) = normalize_email ''vi@x.io''"
    "iy_email (scan_identity row_forgot) \<noteq> []" by code_simp+
  have own: "\<forall>row \<in> set (rg_idents reg_forgot). ir_rtoken row = Some ''tok'' \<longrightarrow> ir_id row = iy_id (scan_identity row_forgot)"
    by (simp add: reg_forgot_def)
  show ?thesis by (rule reset_then_login [OF forgot_ok ran_reset _ mail own, THEN conjunct1]) (simp add: plain_kdf_def)
qed

end
