(* ===== verification/Replication.thy ===== *)
theory Replication
  imports Go_Prelude
begin

text \<open>
  The replication lifecycle of the tenants a node serves (\<^verbatim>\<open>internal/db/replicate.go\<close>): activation,
  the write lease and its renewal, the idle sweep. The file system, litestream and the lease service
  are outside the repository: their answers are arguments, the calls made to them are logged in
  \<open>rp_calls\<close>. Times are nanoseconds; \<open>'l\<close> is the type of leases.
\<close>

section \<open>State\<close>

datatype repl_error =
    NotPrimary string string
  | NotActive string
  | SetupFailed string string

datatype lease_error = LeaseExists string | LeaseFailed string

type_synonym 'l lease_answer = "lease_error + 'l"

record 'l tenant_state =
  ts_logical :: string
  ts_path :: string
  ts_lease :: "'l option"
  ts_primary :: bool
  ts_hint :: string
  ts_used :: int
  ts_loop :: bool

datatype 'l repl_call =
    RegisterDB string
  | UnregisterDB string
  | ReleaseLease string 'l

record repl_options =
  ro_leaser :: bool
  ro_lease_ttl :: int
  ro_idle_ttl :: int
  ro_sweep :: int

record 'l replication =
  rp_opts :: repl_options
  rp_tenants :: "'l tenant_state list"
  rp_calls :: "'l repl_call list"

definition set_defaults :: "repl_options \<Rightarrow> repl_options" where
  "set_defaults o' =
     \<lparr>ro_leaser = ro_leaser o',
      ro_lease_ttl = (if ro_lease_ttl o' \<le> 0 then 30 * 1000000000 else ro_lease_ttl o'),
      ro_idle_ttl = (if ro_idle_ttl o' \<le> 0 then 30 * 60 * 1000000000 else ro_idle_ttl o'),
      ro_sweep = (if ro_sweep o' \<le> 0 then 60 * 1000000000 else ro_sweep o')\<rparr>"

definition new_replication :: "repl_options \<Rightarrow> 'l replication" where
  "new_replication o' = \<lparr>rp_opts = set_defaults o', rp_tenants = [], rp_calls = []\<rparr>"

definition tenant_at :: "'l replication \<Rightarrow> string \<Rightarrow> 'l tenant_state option" where
  "tenant_at r k = tbl_get ts_logical k (rp_tenants r)"

definition set_tenant :: "'l tenant_state \<Rightarrow> 'l replication \<Rightarrow> 'l replication" where
  "set_tenant ts r = r\<lparr>rp_tenants := tbl_upd ts_logical (ts_logical ts) (\<lambda>_. ts) (rp_tenants r)\<rparr>"

definition touch :: "int \<Rightarrow> 'l tenant_state \<Rightarrow> 'l tenant_state" where
  "touch now ts = ts\<lparr>ts_used := now\<rparr>"

section \<open>The lease\<close>

text \<open>One attempt: renew the lease held, and acquire a new one when there is none or renewing fails.\<close>

definition attempt_lease :: "('l \<Rightarrow> 'l lease_answer) \<Rightarrow> 'l lease_answer \<Rightarrow> 'l tenant_state \<Rightarrow> 'l tenant_state" where
  "attempt_lease renew acquire ts =
     (let answer = (case ts_lease ts of
                      Some l \<Rightarrow> (case renew l of Inr l' \<Rightarrow> Inr l' | Inl _ \<Rightarrow> acquire)
                    | None \<Rightarrow> acquire)
      in case answer of
           Inl e \<Rightarrow> ts\<lparr>ts_primary := False, ts_lease := None,
                      ts_hint := (case e of LeaseExists owner \<Rightarrow> owner | LeaseFailed _ \<Rightarrow> ts_hint ts)\<rparr>
         | Inr l \<Rightarrow> ts\<lparr>ts_lease := Some l, ts_primary := True, ts_hint := []\<rparr>)"

definition renewal_interval :: "repl_options \<Rightarrow> int" where
  "renewal_interval o' = (let i = ro_lease_ttl o' div 2 in if i \<le> 0 then 15 * 1000000000 else i)"

definition require_primary :: "'l replication \<Rightarrow> string \<Rightarrow> repl_error option" where
  "require_primary r k =
     (if \<not> ro_leaser (rp_opts r) then None
      else case tenant_at r k of
             None \<Rightarrow> Some (NotActive k)
           | Some ts \<Rightarrow> if ts_primary ts then None else Some (NotPrimary k (ts_hint ts)))"

section \<open>Activation\<close>

datatype stat_answer = Present | Absent | StatError string

datatype restore_answer = Restored | NoBackup | RestoreError string

text \<open>What the outside answers while a tenant is set up; \<open>None\<close> is success.\<close>

record 'l setup_env =
  se_mkdir :: "string option"
  se_stat :: stat_answer
  se_restore_client :: "string option"
  se_restore_init :: "string option"
  se_client :: "string option"
  se_init :: "string option"
  se_restore :: restore_answer
  se_register :: "string option"
  se_leaser :: "string option"
  se_acquire :: "'l lease_answer"

definition restore_if_missing :: "'l setup_env \<Rightarrow> string option" where
  "restore_if_missing env =
     (case se_stat env of
        Present \<Rightarrow> None
      | StatError e \<Rightarrow> Some e
      | Absent \<Rightarrow>
          (case se_restore_client env of
             Some e \<Rightarrow> Some e
           | None \<Rightarrow>
               (case se_restore_init env of
                  Some e \<Rightarrow> Some e
                | None \<Rightarrow>
                    (case se_restore env of
                       RestoreError e \<Rightarrow> Some e
                     | _ \<Rightarrow> None))))"

text \<open>
  The slow part of \<^verbatim>\<open>EnsureActive\<close>, run without the lock: the state of the new tenant and the calls
  made, or the error.
\<close>

definition build_tenant ::
  "bool \<Rightarrow> 'l setup_env \<Rightarrow> int \<Rightarrow> string \<Rightarrow> string \<Rightarrow> (repl_error + 'l tenant_state) \<times> 'l repl_call list" where
  "build_tenant leaser env now k path =
     (let failed = (\<lambda>e. Inl (SetupFailed k e)) in
      case se_mkdir env of
        Some e \<Rightarrow> (failed e, [])
      | None \<Rightarrow>
      case restore_if_missing env of
        Some e \<Rightarrow> (failed e, [])
      | None \<Rightarrow>
      case se_client env of
        Some e \<Rightarrow> (failed e, [])
      | None \<Rightarrow>
      case se_init env of
        Some e \<Rightarrow> (failed e, [])
      | None \<Rightarrow>
      case se_register env of
        Some e \<Rightarrow> (failed e, [])
      | None \<Rightarrow>
        (let ts = \<lparr>ts_logical = k, ts_path = path, ts_lease = None, ts_primary = False, ts_hint = [],
                   ts_used = now, ts_loop = False\<rparr>
         in if \<not> leaser then (Inr ts, [RegisterDB path])
            else (case se_leaser env of
                    Some e \<Rightarrow> (failed e, [RegisterDB path, UnregisterDB path])
                  | None \<Rightarrow> (Inr ((attempt_lease (\<lambda>l. Inl (LeaseFailed [])) (se_acquire env) ts)\<lparr>ts_loop := True\<rparr>),
                             [RegisterDB path]))))"

text \<open>The fast path: a tenant that is already active has its idle clock reset.\<close>

definition ensure_fast :: "int \<Rightarrow> string \<Rightarrow> 'l replication \<Rightarrow> 'l replication option" where
  "ensure_fast now k r =
     (case tenant_at r k of None \<Rightarrow> None | Some ts \<Rightarrow> Some (set_tenant (touch now ts) r))"

text \<open>The end of \<^verbatim>\<open>EnsureActive\<close>, under the lock: whichever set-up landed first stays.\<close>

definition ensure_commit :: "int \<Rightarrow> 'l tenant_state \<Rightarrow> 'l replication \<Rightarrow> 'l replication" where
  "ensure_commit now ts r =
     (case tenant_at r (ts_logical ts) of
        Some existing \<Rightarrow>
          set_tenant (touch now existing) (r\<lparr>rp_calls := rp_calls r @ [UnregisterDB (ts_path ts)]\<rparr>)
      | None \<Rightarrow> r\<lparr>rp_tenants := rp_tenants r @ [ts]\<rparr>)"

definition ensure_active ::
  "'l setup_env \<Rightarrow> int \<Rightarrow> string \<Rightarrow> string \<Rightarrow> 'l replication \<Rightarrow> repl_error option \<times> 'l replication" where
  "ensure_active env now k path r =
     (case ensure_fast now k r of
        Some r' \<Rightarrow> (None, r')
      | None \<Rightarrow>
          (let (res, calls) = build_tenant (ro_leaser (rp_opts r)) env now k path;
               r1 = r\<lparr>rp_calls := rp_calls r @ calls\<rparr>
           in case res of
                Inl e \<Rightarrow> (Some e, r1)
              | Inr ts \<Rightarrow> (None, ensure_commit now ts r1)))"

definition replicated_open ::
  "'l setup_env \<Rightarrow> int \<Rightarrow> (string \<Rightarrow> string + 'h) \<Rightarrow> string \<Rightarrow> 'l replication \<Rightarrow> (repl_error + (string + 'h)) \<times> 'l replication" where
  "replicated_open env now opener path r =
     (case ensure_active env now path path r of
        (Some e, r') \<Rightarrow> (Inl e, r')
      | (None, r') \<Rightarrow> (Inr (opener path), r'))"

section \<open>Deactivation\<close>

definition deactivate :: "string \<Rightarrow> 'l replication \<Rightarrow> 'l replication" where
  "deactivate k r =
     (case tenant_at r k of
        None \<Rightarrow> r
      | Some ts \<Rightarrow>
          r\<lparr>rp_tenants := tbl_del ts_logical k (rp_tenants r),
            rp_calls := rp_calls r
              @ (case ts_lease ts of Some l \<Rightarrow> [ReleaseLease k l] | None \<Rightarrow> [])
              @ [UnregisterDB (ts_path ts)]\<rparr>)"

definition stale_tenants :: "int \<Rightarrow> 'l replication \<Rightarrow> string list" where
  "stale_tenants now r =
     map ts_logical (filter (\<lambda>ts. ts_used ts < now - ro_idle_ttl (rp_opts r)) (rp_tenants r))"

definition sweep :: "int \<Rightarrow> 'l replication \<Rightarrow> 'l replication" where
  "sweep now r = fold deactivate (stale_tenants now r) r"

definition close_replication :: "'l replication \<Rightarrow> 'l replication" where
  "close_replication r = fold deactivate (map ts_logical (rp_tenants r)) r"

end
