(* ===== verification/Replication_Facts.thy ===== *)
theory Replication_Facts
  imports Replication
begin

text \<open>
  The replication state machine and its properties: when a node believes it is primary, how a lease is
  lost and regained, and what the idle sweep does.
\<close>

section \<open>Steps\<close>

inductive repl_step :: "'l replication \<Rightarrow> 'l replication \<Rightarrow> bool" where
  Attempt: "tenant_at r k = Some ts \<Longrightarrow> ts_loop ts \<Longrightarrow> repl_step r (set_tenant (attempt_lease renew acquire ts) r)"
| Touch: "ensure_fast now k r = Some r' \<Longrightarrow> repl_step r r'"
| Setup: "build_tenant (ro_leaser (rp_opts r)) env now k path = (res, calls) \<Longrightarrow>
    repl_step r (r\<lparr>rp_calls := rp_calls r @ calls\<rparr>)"
| Commit: "build_tenant (ro_leaser (rp_opts r)) env t k path = (Inr ts, calls) \<Longrightarrow> repl_step r (ensure_commit now ts r)"
| Sweep: "repl_step r (sweep now r)"
| Close: "repl_step r (close_replication r)"

inductive_cases repl_stepE: "repl_step r r'"

definition tenant_ok :: "bool \<Rightarrow> 'l tenant_state \<Rightarrow> bool" where
  "tenant_ok leaser ts \<longleftrightarrow> (ts_primary ts \<longleftrightarrow> ts_lease ts \<noteq> None) \<and> (ts_primary ts \<longrightarrow> ts_hint ts = [])
     \<and> (ts_loop ts \<longleftrightarrow> leaser)"

definition repl_ok :: "'l replication \<Rightarrow> bool" where
  "repl_ok r \<longleftrightarrow> tbl_wf ts_logical (rp_tenants r) \<and> (\<forall>ts \<in> set (rp_tenants r). tenant_ok (ro_leaser (rp_opts r)) ts)"

section \<open>Frame facts\<close>

lemma attempt_name [simp]: "ts_logical (attempt_lease renew acquire ts) = ts_logical ts"
  by (simp add: attempt_lease_def Let_def split: option.splits sum.splits)

lemma attempt_used [simp]: "ts_used (attempt_lease renew acquire ts) = ts_used ts"
  "ts_loop (attempt_lease renew acquire ts) = ts_loop ts" "ts_path (attempt_lease renew acquire ts) = ts_path ts"
  by (simp_all add: attempt_lease_def Let_def split: option.splits sum.splits)

lemma attempt_ok: "tenant_ok b ts \<Longrightarrow> tenant_ok b (attempt_lease renew acquire ts)"
  by (auto simp: tenant_ok_def attempt_lease_def Let_def split: option.splits sum.splits lease_error.splits)

lemma touch_sel [simp]: "ts_logical (touch now ts) = ts_logical ts" "tenant_ok b (touch now ts) = tenant_ok b ts"
  "ts_lease (touch now ts) = ts_lease ts" "ts_primary (touch now ts) = ts_primary ts"
  by (simp_all add: touch_def tenant_ok_def)

lemma set_tenant_opts [simp]: "rp_opts (set_tenant ts r) = rp_opts r" "rp_calls (set_tenant ts r) = rp_calls r"
  by (simp_all add: set_tenant_def)

lemma tenant_at_in: "tenant_at r k = Some ts \<Longrightarrow> ts \<in> set (rp_tenants r) \<and> ts_logical ts = k"
  by (auto simp: tenant_at_def dest: tbl_get_SomeD)

lemma tenant_at_ok: "repl_ok r \<Longrightarrow> tenant_at r k = Some ts \<Longrightarrow> tenant_ok (ro_leaser (rp_opts r)) ts"
  by (auto simp: repl_ok_def dest: tenant_at_in)

lemma names_upd_const: "ts_logical ts = k \<Longrightarrow> map ts_logical (tbl_upd ts_logical k (\<lambda>_. ts) rows) = map ts_logical rows"
  by (simp add: tbl_upd_def comp_def)

lemma tenant_at_set:
  "tenant_at r (ts_logical ts) = Some old \<Longrightarrow>
   tenant_at (set_tenant ts r) k = (if k = ts_logical ts then Some ts else tenant_at r k)"
proof -
  have "tbl_get ts_logical k (tbl_upd ts_logical j (\<lambda>_. ts) rows) = (if k = j then map_option (\<lambda>_. ts) (tbl_get ts_logical k rows) else tbl_get ts_logical k rows)"
    if "ts_logical ts = j" for j rows
    using that by (induction rows) (auto simp: tbl_get_def tbl_upd_def)
  then show "tenant_at r (ts_logical ts) = Some old \<Longrightarrow> ?thesis"
    by (simp add: tenant_at_def set_tenant_def)
qed

lemma set_tenant_ok:
  assumes "repl_ok r" and "tenant_ok (ro_leaser (rp_opts r)) ts"
  shows "repl_ok (set_tenant ts r)"
  using assms by (auto simp: repl_ok_def set_tenant_def tbl_wf_def names_upd_const set_tbl_upd)

lemma build_ok:
  "build_tenant leaser env now k path = (Inr ts, calls) \<Longrightarrow> tenant_ok leaser ts \<and> ts_logical ts = k \<and> ts_used ts = now"
  by (auto simp: build_tenant_def Let_def tenant_ok_def attempt_lease_def split: option.splits if_splits sum.splits)

lemma deactivate_opts [simp]: "rp_opts (deactivate k r) = rp_opts r"
  by (simp add: deactivate_def split: option.splits)

lemma tenant_at_deactivate: "tenant_at (deactivate j r) k = (if k = j then None else tenant_at r k)"
  by (auto simp: deactivate_def tenant_at_def tbl_get_del split: option.splits)

lemma deactivate_ok: "repl_ok r \<Longrightarrow> repl_ok (deactivate k r)"
  by (auto simp: deactivate_def repl_ok_def tbl_wf_del set_tbl_del split: option.splits)

lemma fold_deactivate:
  "rp_opts (fold deactivate ks r) = rp_opts r \<and> (repl_ok r \<longrightarrow> repl_ok (fold deactivate ks r))
   \<and> tenant_at (fold deactivate ks r) k = (if k \<in> set ks then None else tenant_at r k)"
  by (induction ks arbitrary: r) (auto simp: tenant_at_deactivate deactivate_ok)

lemma deactivate_calls: "\<exists>more. rp_calls (deactivate k r) = rp_calls r @ more"
  by (simp add: deactivate_def split: option.splits)

lemma fold_deactivate_calls: "set (rp_calls r) \<subseteq> set (rp_calls (fold deactivate ks r))"
proof (induction ks arbitrary: r)
  case (Cons k ks)
  obtain more where "rp_calls (deactivate k r) = rp_calls r @ more" using deactivate_calls by blast
  then have "set (rp_calls r) \<subseteq> set (rp_calls (deactivate k r))" by simp
  then show ?case using Cons [of "deactivate k r"] by auto
qed simp

lemma fold_releases:
  assumes "k \<in> set ks" and "tenant_at r k = Some ts" and "ts_lease ts = Some l"
  shows "ReleaseLease k l \<in> set (rp_calls (fold deactivate ks r))"
  using assms
proof (induction ks arbitrary: r)
  case (Cons j ks)
  show ?case
  proof (cases "j = k")
    case True
    then have "ReleaseLease k l \<in> set (rp_calls (deactivate j r))"
      using Cons.prems by (simp add: deactivate_def)
    then show ?thesis using fold_deactivate_calls by fastforce
  next
    case False
    then show ?thesis using Cons by (simp add: tenant_at_deactivate)
  qed
qed simp

lemma step_repl_ok: "repl_step r r' \<Longrightarrow> repl_ok r \<Longrightarrow> repl_ok r' \<and> rp_opts r' = rp_opts r"
proof (erule repl_stepE)
  fix k ts renew acquire
  assume "repl_ok r" "r' = set_tenant (attempt_lease renew acquire ts) r" "tenant_at r k = Some ts"
  then show ?thesis by (simp add: set_tenant_ok attempt_ok tenant_at_ok)
next
  fix now k assume "repl_ok r" "ensure_fast now k r = Some r'"
  then show ?thesis by (auto simp: ensure_fast_def set_tenant_ok tenant_at_ok split: option.splits)
next
  fix env now k path res calls
  assume "repl_ok r" "r' = r\<lparr>rp_calls := rp_calls r @ calls\<rparr>"
  then show ?thesis by (simp add: repl_ok_def)
next
  fix env t k path ts calls now
  assume ok: "repl_ok r" and r': "r' = ensure_commit now ts r"
    and b: "build_tenant (ro_leaser (rp_opts r)) env t k path = (Inr ts, calls)"
  show ?thesis
  proof (cases "tenant_at r (ts_logical ts)")
    case None
    then have "ts_logical ts \<notin> ts_logical ` set (rp_tenants r)" by (simp add: tenant_at_def tbl_get_None_iff)
    then show ?thesis using ok build_ok [OF b] None
      by (auto simp: r' ensure_commit_def repl_ok_def tbl_wf_append)
  next
    case (Some old)
    have "repl_ok (r\<lparr>rp_calls := rp_calls r @ [UnregisterDB (ts_path ts)]\<rparr>)" using ok by (simp add: repl_ok_def)
    then show ?thesis using tenant_at_ok [OF ok Some] Some
      by (simp add: r' ensure_commit_def set_tenant_ok)
  qed
qed (auto simp: sweep_def close_replication_def fold_deactivate)

lemma steps_repl_ok: "repl_step\<^sup>*\<^sup>* r r' \<Longrightarrow> repl_ok r \<Longrightarrow> repl_ok r' \<and> rp_opts r' = rp_opts r"
  by (induction rule: rtranclp_induct) (auto dest: step_repl_ok)

lemma new_repl_ok: "repl_ok (new_replication o')"
  by (simp add: repl_ok_def new_replication_def)

section \<open>Leases\<close>

definition granted :: "('l \<Rightarrow> 'l lease_answer) \<Rightarrow> 'l lease_answer \<Rightarrow> 'l tenant_state \<Rightarrow> bool" where
  "granted renew acquire ts = ((case ts_lease ts of Some l \<Rightarrow> isl (renew l) | None \<Rightarrow> True) \<longrightarrow> \<not> isl acquire)"

definition retry :: "string \<Rightarrow> (('l \<Rightarrow> 'l lease_answer) \<times> 'l lease_answer) \<Rightarrow> 'l replication \<Rightarrow> 'l replication" where
  "retry k a r = (case tenant_at r k of None \<Rightarrow> r | Some ts \<Rightarrow> set_tenant (attempt_lease (fst a) (snd a) ts) r)"

lemma attempt_primary: "ts_primary (attempt_lease renew acquire ts) \<longleftrightarrow> granted renew acquire ts"
  by (auto simp: attempt_lease_def granted_def Let_def split: option.splits sum.splits)

lemma retry_tenant:
  "tenant_at r k = Some ts \<Longrightarrow> tenant_at (retry k a r) k = Some (attempt_lease (fst a) (snd a) ts)"
  using tenant_at_in [of r k ts] by (auto simp: retry_def tenant_at_set)

lemma retry_active: "tenant_at r k = Some ts \<Longrightarrow>
    \<exists>ts'. tenant_at (fold (retry k) as r) k = Some ts' \<and> ts_used ts' = ts_used ts \<and> ts_logical ts' = k"
proof (induction as arbitrary: r ts)
  case Nil
  then show ?case by (auto dest: tenant_at_in)
next
  case (Cons a as)
  show ?case using Cons.IH [OF retry_tenant [OF Cons.prems, of a]] by simp
qed

text \<open>C28: The write gate follows the lease. In every reachable state a node accepts writes for a tenant
  exactly when no lease service is configured, or the tenant is active and a lease is held; a node
  that has lost the lease refuses with the owner the service named, and however often it has been
  refused before, the first attempt the service grants makes it primary again.\<close>

theorem primary_iff_lease:
  assumes run: "repl_step\<^sup>*\<^sup>* (new_replication o') r"
  shows "(require_primary r k = None \<longleftrightarrow> \<not> ro_leaser o' \<or> (\<exists>ts l. tenant_at r k = Some ts \<and> ts_lease ts = Some l))
    \<and> (\<forall>ts. tenant_at r k = Some ts \<and> ro_leaser o' \<longrightarrow>
        (\<forall>as renew acquire. (\<forall>ts'. tenant_at (fold (retry k) as r) k = Some ts' \<longrightarrow> granted renew acquire ts') \<longrightarrow>
           require_primary (fold (retry k) (as @ [(renew, acquire)]) r) k = None)
      \<and> (\<forall>owner. require_primary (retry k (\<lambda>_. Inl (LeaseFailed []), Inl (LeaseExists owner)) r) k = Some (NotPrimary k owner)))"
proof -
  have ok: "repl_ok r" "rp_opts r = set_defaults o'"
    using steps_repl_ok [OF run new_repl_ok] by (auto simp: new_replication_def)
  have leaser: "ro_leaser (rp_opts r) = ro_leaser o'" by (simp add: ok set_defaults_def)
  have opts: "rp_opts (fold (retry k) as q) = rp_opts q" for as and q :: "'a replication"
    by (induction as arbitrary: q) (auto simp: retry_def split: option.splits)
  have "require_primary r k = None \<longleftrightarrow> \<not> ro_leaser o' \<or> (\<exists>ts l. tenant_at r k = Some ts \<and> ts_lease ts = Some l)"
    using tenant_at_ok [OF ok(1), of k] by (auto simp: require_primary_def leaser tenant_ok_def split: option.splits)
  moreover have "require_primary (fold (retry k) (as @ [(renew, acquire)]) r) k = None"
    if "tenant_at r k = Some ts" "\<forall>ts'. tenant_at (fold (retry k) as r) k = Some ts' \<longrightarrow> granted renew acquire ts'"
    for ts as renew acquire
  proof -
    note active = retry_active [OF that(1), of as] and grant = that(2)
    obtain ts' where ts': "tenant_at (fold (retry k) as r) k = Some ts'" using active by blast
    then show ?thesis using grant retry_tenant [OF ts', of "(renew, acquire)"]
      by (simp add: require_primary_def attempt_primary)
  qed
  moreover have "require_primary (retry k (\<lambda>_. Inl (LeaseFailed []), Inl (LeaseExists owner)) r) k = Some (NotPrimary k owner)"
    if "tenant_at r k = Some ts" "ro_leaser o'" for ts owner
  proof -
    have "rp_opts (retry k (\<lambda>_. Inl (LeaseFailed []), Inl (LeaseExists owner)) r) = rp_opts r"
      by (simp add: retry_def split: option.splits)
    then show ?thesis using retry_tenant [OF that(1)] leaser that(2)
      by (simp add: require_primary_def attempt_lease_def Let_def split: option.splits)
  qed
  ultimately show ?thesis by blast
qed

section \<open>The idle sweep\<close>

lemma sweep_tenant:
  assumes "repl_ok r"
  shows "tenant_at (sweep now r) k =
    (case tenant_at r k of None \<Rightarrow> None | Some ts \<Rightarrow> if ts_used ts < now - ro_idle_ttl (rp_opts r) then None else Some ts)"
proof -
  have "k \<in> set (stale_tenants now r) \<longleftrightarrow>
      (\<exists>ts. tenant_at r k = Some ts \<and> ts_used ts < now - ro_idle_ttl (rp_opts r))"
    using assms tbl_get_Some_iff [of ts_logical "rp_tenants r" k]
    by (auto simp: stale_tenants_def repl_ok_def tenant_at_def)
  then show ?thesis
    using fold_deactivate [of "stale_tenants now r" r k] by (auto simp: sweep_def split: option.splits)
qed

text \<open>The idle sweep looks only at when a tenant was last opened. A tenant opened within the idle
  time keeps its state; one opened longer ago is dropped and its lease released, however many leases
  were renewed and writes accepted in between, and from then on every write is refused with an error
  that is not even a redirect, until something opens the tenant again.\<close>

theorem sweep_drops_busy_tenant:
  assumes run: "repl_step\<^sup>*\<^sup>* (new_replication o') r" and at: "tenant_at r k = Some ts" and leaser: "ro_leaser o'"
    and busy: "require_primary (fold (retry k) as r) k = None"
  shows "if ts_used ts < now - ro_idle_ttl (set_defaults o')
    then require_primary (sweep now (fold (retry k) as r)) k = Some (NotActive k)
      \<and> (\<exists>l. ReleaseLease k l \<in> set (rp_calls (sweep now (fold (retry k) as r))))
    else require_primary (sweep now (fold (retry k) as r)) k = None"
proof -
  let ?r = "fold (retry k) as r"
  have ok0: "repl_ok r" "rp_opts r = set_defaults o'"
    using steps_repl_ok [OF run new_repl_ok] by (auto simp: new_replication_def)
  have "repl_ok (retry k a q) \<and> rp_opts (retry k a q) = rp_opts q" if "repl_ok q" for a and q :: "'a replication"
    using that by (auto simp: retry_def set_tenant_ok attempt_ok tenant_at_ok split: option.splits)
  then have "repl_ok q \<Longrightarrow> repl_ok (fold (retry k) bs q) \<and> rp_opts (fold (retry k) bs q) = rp_opts q" for bs and q :: "'a replication"
    by (induction bs arbitrary: q) auto
  then have ok: "repl_ok ?r" "rp_opts ?r = set_defaults o'" using ok0 by simp_all
  obtain ts' where ts': "tenant_at ?r k = Some ts'" "ts_used ts' = ts_used ts" "ts_logical ts' = k"
    using retry_active [OF at] by blast
  have ro: "ro_leaser (set_defaults o')" using leaser by (simp add: set_defaults_def)
  then obtain l where l: "ts_lease ts' = Some l"
    using busy tenant_at_ok [OF ok(1) ts'(1)] ts'(1) ok(2) by (auto simp: require_primary_def tenant_ok_def split: if_splits)
  have opts: "rp_opts (sweep now ?r) = set_defaults o'" by (simp add: sweep_def fold_deactivate ok)
  show ?thesis
  proof (cases "ts_used ts < now - ro_idle_ttl (set_defaults o')")
    case True
    have "k \<in> set (stale_tenants now ?r)"
      using True ts' ok(2) tenant_at_in [OF ts'(1)] by (auto simp: stale_tenants_def)
    then have "ReleaseLease k l \<in> set (rp_calls (sweep now ?r))"
      unfolding sweep_def using fold_releases [OF _ ts'(1) l] by blast
    then show ?thesis using True ts' sweep_tenant [OF ok(1), of now k] opts ro ok(2)
      by (auto simp: require_primary_def)
  next
    case False
    then show ?thesis using ts' sweep_tenant [OF ok(1), of now k] opts ok(2) busy by (simp add: require_primary_def ro split: if_splits)
  qed
qed

section \<open>A node that serves the registry\<close>

definition repl_opts :: repl_options where
  "repl_opts = \<lparr>ro_leaser = True, ro_lease_ttl = 0, ro_idle_ttl = 0, ro_sweep = 0\<rparr>"

definition good_env :: "nat setup_env" where
  "good_env = \<lparr>se_mkdir = None, se_stat = Absent, se_restore_client = None, se_restore_init = None, se_client = None, se_init = None, se_restore = NoBackup,
     se_register = None, se_leaser = None, se_acquire = Inr 1\<rparr>"

definition repl_started :: "nat replication" where
  "repl_started = ensure_commit 5 (projr (fst (build_tenant True good_env 5 ''reg'' ''reg''))) (new_replication repl_opts)"

lemma repl_started_reached: "repl_step\<^sup>*\<^sup>* (new_replication repl_opts) repl_started"
proof -
  have "build_tenant (ro_leaser (rp_opts (new_replication repl_opts))) good_env 5 ''reg'' ''reg''
      = (Inr (projr (fst (build_tenant True good_env 5 ''reg'' ''reg''))), snd (build_tenant True good_env 5 ''reg'' ''reg''))"
    by code_simp
  then show ?thesis unfolding repl_started_def by (intro r_into_rtranclp repl_step.Commit)
qed

theorem primary_iff_lease_witness:
  "require_primary repl_started ''reg'' = None
   \<and> require_primary (retry ''reg'' (\<lambda>_. Inl (LeaseFailed []), Inl (LeaseExists ''other'')) repl_started) ''reg'' = Some (NotPrimary ''reg'' ''other'')"
proof -
  have at: "tenant_at repl_started ''reg'' = Some (hd (rp_tenants repl_started))" by code_simp
  have l: "ts_lease (hd (rp_tenants repl_started)) = Some 1" by code_simp
  have ro: "ro_leaser repl_opts" by (simp add: repl_opts_def)
  note p = primary_iff_lease [OF repl_started_reached, of "''reg''"]
  have "require_primary repl_started ''reg'' = None" using p at l by blast
  moreover have "require_primary (retry ''reg'' (\<lambda>_. Inl (LeaseFailed []), Inl (LeaseExists ''other'')) repl_started) ''reg'' = Some (NotPrimary ''reg'' ''other'')"
    using p [THEN conjunct2, THEN spec, THEN mp, OF conjI [OF at ro], THEN conjunct2, THEN spec] .
  ultimately show ?thesis by blast
qed

theorem sweep_drops_busy_tenant_witness:
  "require_primary (fold (retry ''reg'') [(\<lambda>l. Inr (l + 1), Inl (LeaseFailed []))] repl_started) ''reg'' = None
   \<and> require_primary (sweep 2000000000000 (fold (retry ''reg'') [(\<lambda>l. Inr (l + 1), Inl (LeaseFailed []))] repl_started)) ''reg'' = Some (NotActive ''reg'')"
proof -
  have at: "tenant_at repl_started ''reg'' = Some (hd (rp_tenants repl_started))" by code_simp
  have ro: "ro_leaser repl_opts" by (simp add: repl_opts_def)
  have busy: "require_primary (fold (retry ''reg'') [(\<lambda>l. Inr (l + 1), Inl (LeaseFailed []))] repl_started) ''reg'' = None" by code_simp
  have "ts_used (hd (rp_tenants repl_started)) < 2000000000000 - ro_idle_ttl (set_defaults repl_opts)" by code_simp
  then show ?thesis
    using sweep_drops_busy_tenant [OF repl_started_reached at ro busy, of 2000000000000] busy by simp
qed

end
