(* ===== verification/File_Store.thy ===== *)
theory File_Store
  imports Registry_Data
begin

text \<open>
  The blob store of uploaded images (\<^verbatim>\<open>internal/db/files.go\<close>) and the rule that places it beside the
  memory file of its owner (\<^verbatim>\<open>Engine.filesStore\<close>).
\<close>

record file_row =
  fl_id :: string
  fl_mime :: string
  fl_size :: int
  fl_data :: string
  fl_created :: int

definition store_blob :: "string \<Rightarrow> string \<Rightarrow> string \<Rightarrow> int \<Rightarrow> file_row list \<Rightarrow> file_row list option" where
  "store_blob i mime data now rows =
     tbl_ins fl_id \<lparr>fl_id = i, fl_mime = mime, fl_size = int (length data), fl_data = data, fl_created = stamp now\<rparr> rows"

definition load_blob :: "string \<Rightarrow> file_row list \<Rightarrow> file_row option" where
  "load_blob i rows = tbl_get fl_id i rows"

interpretation blobs: keyed_table fl_id "tbl_get fl_id" "tbl_ins fl_id" "tbl_del fl_id" "tbl_wf fl_id"
  by (rule keyed_table_tbl)

text \<open>\<^verbatim>\<open>filepath.Ext\<close>: from the last dot of the last path element.\<close>

definition filepath_ext :: "string \<Rightarrow> string" where
  "filepath_ext s =
     (let base = takeWhile (\<lambda>c. c \<noteq> CHR ''/'') (rev s) in
      if CHR ''.'' \<in> set base then CHR ''.'' # rev (takeWhile (\<lambda>c. c \<noteq> CHR ''.'') base) else [])"

definition files_path :: "string \<Rightarrow> string" where
  "files_path mp = take (length mp - length (filepath_ext mp)) mp @ ''.files''"

lemma files_path_ext:
  assumes "CHR ''.'' \<notin> set x" and "CHR ''/'' \<notin> set x"
  shows "files_path (p @ CHR ''.'' # x) = p @ ''.files''"
proof -
  have run: "takeWhile P (rev x @ ys) = rev x @ takeWhile P ys" if "\<forall>c \<in> set x. P c" for P and ys :: string
    by (rule takeWhile_append2) (use that in simp)
  have "takeWhile (\<lambda>c. c \<noteq> CHR ''/'') (rev x @ (CHR ''.'' # rev p))
      = rev x @ takeWhile (\<lambda>c. c \<noteq> CHR ''/'') (CHR ''.'' # rev p)"
    using assms(2) by (intro run) auto
  moreover have "takeWhile (\<lambda>c. c \<noteq> CHR ''.'') (rev x @ ys) = rev x @ takeWhile (\<lambda>c. c \<noteq> CHR ''.'') ys" for ys
    using assms(1) by (intro run) auto
  ultimately have "filepath_ext (p @ CHR ''.'' # x) = CHR ''.'' # x"
    by (simp add: filepath_ext_def Let_def)
  then show ?thesis by (simp add: files_path_def)
qed

lemma stored_blob_loads: "store_blob i mime data now rows = Some rows' \<Longrightarrow>
    load_blob i rows' = Some \<lparr>fl_id = i, fl_mime = mime, fl_size = int (length data), fl_data = data, fl_created = stamp now\<rparr>"
  unfolding store_blob_def load_blob_def using blobs.get_after_insert by fastforce

end
