(* ===== verification/Engine_Core.thy ===== *)
theory Engine_Core
  imports Store_Machine Registry_Grants Replication File_Store
begin

text \<open>
  The engine's authority (\<^verbatim>\<open>internal/engine/engine.go\<close>): bearer tokens, session tokens, the routing
  of a request to a tenant file and the checks on the way. The tenant files are a map from paths to
  stores; a path nobody has written to opens as an empty file. The clock, the hash of API keys, the
  MAC of the session secret (HMAC-SHA256 in the code), whether a file can be opened and how large it
  is, the letters outside ASCII, the BM25 rank of an index row, the rounding of floats and the key
  derivation of passwords are outside: the record \<open>world\<close>.
\<close>

section \<open>State and outside\<close>

record world =
  wd_now :: int
  wd_hash :: "string \<Rightarrow> string"
  wd_mac :: "string \<Rightarrow> string"
  wd_opens :: "string \<Rightarrow> bool"
  wd_size :: "string \<Rightarrow> int option"
  wd_wide :: "string \<Rightarrow> bool"
  wd_rank :: "fts_row list \<Rightarrow> string \<Rightarrow> fts_row \<Rightarrow> rat option"
  wd_round :: "rat \<Rightarrow> rat"
  wd_kdf :: kdf

record engine =
  en_registry :: registry
  en_files :: "string \<Rightarrow> store"
  en_blobs :: "string \<Rightarrow> file_row list"
  en_budget :: int
  en_primary :: "string \<Rightarrow> repl_error option"
  en_reg_path :: string

text \<open>\<open>en_primary\<close> is \<^verbatim>\<open>RequirePrimary\<close> of the node's replication, or no check at all without one.\<close>

definition new_engine ::
  "registry \<Rightarrow> (string \<Rightarrow> store) \<Rightarrow> (string \<Rightarrow> file_row list) \<Rightarrow> int \<Rightarrow> 'l replication option \<Rightarrow> string \<Rightarrow> engine" where
  "new_engine reg files blobs budget repl reg_path =
     \<lparr>en_registry = reg, en_files = files, en_blobs = blobs, en_budget = budget,
      en_primary = (case repl of None \<Rightarrow> (\<lambda>_. None) | Some r \<Rightarrow> require_primary r), en_reg_path = reg_path\<rparr>"

definition put_file :: "string \<Rightarrow> store \<Rightarrow> engine \<Rightarrow> engine" where
  "put_file path st e = e\<lparr>en_files := (en_files e)(path := st)\<rparr>"

definition put_blobs :: "string \<Rightarrow> file_row list \<Rightarrow> engine \<Rightarrow> engine" where
  "put_blobs path rows e = e\<lparr>en_blobs := (en_blobs e)(path := rows)\<rparr>"

definition put_registry :: "registry \<Rightarrow> engine \<Rightarrow> engine" where
  "put_registry r e = e\<lparr>en_registry := r\<rparr>"

section \<open>Errors\<close>

datatype engine_error =
    AuthFailed reg_error
  | WriteNotAllowed
  | NoSuchTeam
  | NotAMember
  | OpenFailed
  | NotPrimaryNode string
  | LeaseCheckFailed repl_error
  | MemoryNotFound string
  | DeletedMemory tombstone
  | TitleTaken string string
  | VersionStale int int
  | MissingFields "string list"
  | MissingQuery
  | MissingTaxonomy
  | InvalidTaxonomy string
  | TaxonomyForbidden string
  | InvalidFormat string
  | InvalidField
  | NoChanges
  | StorageLimit int
  | StorageUnknown
  | HasInboundLinks nat
  | Forbidden
  | InvalidRole
  | LastOwner
  | SeatLimit int nat
  | TeamLimitReached nat
  | NoSuchIdentity string
  | NotOnRoster string
  | NoAccount
  | InvalidEmail reg_error
  | AlreadyRegistered
  | BadInvite
  | WrongEmail
  | SignupFailed reg_error
  | ConfirmFailed reg_error
  | ResetFailed reg_error
  | InvalidPassword
  | BlobNotFound
  | BlobRejected
  | StoreError db_error
  | RegistryError reg_error

text \<open>\<^verbatim>\<open>asActionable\<close>, on the errors of the store.\<close>

definition as_actionable :: "db_error \<Rightarrow> engine_error" where
  "as_actionable e =
     (case e of
        DeletedError ts \<Rightarrow> DeletedMemory ts
      | TitleConflict t other \<Rightarrow> TitleTaken t other
      | _ \<Rightarrow> StoreError e)"

section \<open>Session tokens\<close>

definition session_prefix :: string where "session_prefix = ''sess_''"

definition hex_digit :: "nat \<Rightarrow> char" where
  "hex_digit v = (if v < 10 then char_of (v + 48) else char_of (v + 87))"

definition hex_value :: "char \<Rightarrow> nat option" where
  "hex_value c =
     (let n = (of_char c :: nat) in
      if 48 \<le> n \<and> n \<le> 57 then Some (n - 48) else if 97 \<le> n \<and> n \<le> 102 then Some (n - 87)
      else if 65 \<le> n \<and> n \<le> 70 then Some (n - 55) else None)"

fun hex_encode :: "string \<Rightarrow> string" where
  "hex_encode [] = []"
| "hex_encode (c # s) = hex_digit (of_char c div 16) # hex_digit (of_char c mod 16) # hex_encode s"

fun hex_decode :: "string \<Rightarrow> string option" where
  "hex_decode [] = Some []"
| "hex_decode [c] = None"
| "hex_decode (a # b # s) =
     (case hex_value a of
        None \<Rightarrow> None
      | Some x \<Rightarrow>
          (case hex_value b of
             None \<Rightarrow> None
           | Some y \<Rightarrow> map_option ((#) (char_of (x * 16 + y))) (hex_decode s)))"

fun last_index_byte :: "char \<Rightarrow> string \<Rightarrow> nat option" where
  "last_index_byte c [] = None"
| "last_index_byte c (x # s) =
     (case last_index_byte c s of
        Some i \<Rightarrow> Some (Suc i)
      | None \<Rightarrow> if x = c then Some 0 else None)"

definition session_token_for :: "(string \<Rightarrow> string) \<Rightarrow> string \<Rightarrow> string \<Rightarrow> string" where
  "session_token_for mac i team =
     (let body = (if team = [] then i else i @ ''|'' @ team)
      in session_prefix @ body @ ''.'' @ hex_encode (mac body))"

definition identity_from_session_token :: "(string \<Rightarrow> string) \<Rightarrow> string \<Rightarrow> (string \<times> string) option" where
  "identity_from_session_token mac token =
     (if \<not> prefix session_prefix token then None
      else (let body = drop (length session_prefix) token in
        case last_index_byte (CHR ''.'') body of
          None \<Rightarrow> None
        | Some dot \<Rightarrow>
            if dot = 0 then None
            else (let signed = take dot body; sig = drop (dot + 1) body in
              case hex_decode sig of
                None \<Rightarrow> None
              | Some want \<Rightarrow>
                  if want \<noteq> mac signed then None
                  else (case index_byte (CHR ''|'') signed of
                          Some bar \<Rightarrow> Some (take bar signed, drop (bar + 1) signed)
                        | None \<Rightarrow> Some (signed, [])))))"

section \<open>Bearers\<close>

definition resolve_bearer :: "world \<Rightarrow> engine \<Rightarrow> string \<Rightarrow> reg_error + identity \<times> string" where
  "resolve_bearer w e key =
     (case identity_from_session_token (wd_mac w) key of
        Some (i, team) \<Rightarrow>
          (case resolve_by_id i (en_registry e) of Inl err \<Rightarrow> Inl err | Inr idn \<Rightarrow> Inr (idn, team))
      | None \<Rightarrow>
          (case resolve_grant (wd_hash w) key (en_registry e) of
             Some (idn, team) \<Rightarrow> Inr (idn, team)
           | None \<Rightarrow>
               (case resolve_key (wd_hash w) key (en_registry e) of
                  Inl err \<Rightarrow> Inl err
                | Inr idn \<Rightarrow> Inr (idn, []))))"

definition resolve_identity :: "world \<Rightarrow> engine \<Rightarrow> string \<Rightarrow> reg_error + identity" where
  "resolve_identity w e key = (case resolve_bearer w e key of Inl err \<Rightarrow> Inl err | Inr (idn, _) \<Rightarrow> Inr idn)"

definition bearer_for_team :: "world \<Rightarrow> engine \<Rightarrow> string \<Rightarrow> string \<Rightarrow> reg_error + string" where
  "bearer_for_team w e bearer team =
     (if team = [] then Inr bearer
      else (case resolve_bearer w e bearer of
              Inl err \<Rightarrow> Inl err
            | Inr (idn, _) \<Rightarrow> Inr (session_token_for (wd_mac w) (iy_id idn) team)))"

section \<open>Write leases\<close>

definition lease_error_of :: "repl_error \<Rightarrow> engine_error" where
  "lease_error_of err = (case err of NotPrimary _ owner \<Rightarrow> NotPrimaryNode owner | _ \<Rightarrow> LeaseCheckFailed err)"

definition require_tenant_primary :: "engine \<Rightarrow> string \<Rightarrow> engine_error option" where
  "require_tenant_primary e path = map_option lease_error_of (en_primary e path)"

definition require_registry_primary :: "engine \<Rightarrow> engine_error option" where
  "require_registry_primary e = map_option lease_error_of (en_primary e (en_reg_path e))"

section \<open>Routing a request to a tenant\<close>

record resolved =
  rv_identity :: identity
  rv_member :: member
  rv_scope :: scope
  rv_team :: string
  rv_path :: string
  rv_store :: store

definition tenant_path :: "engine \<Rightarrow> identity \<Rightarrow> string \<Rightarrow> engine_error + string" where
  "tenant_path e idn team =
     (if team = [] then Inr (iy_path idn)
      else (case team_by_id team (en_registry e) of
              Inl _ \<Rightarrow> Inl NoSuchTeam
            | Inr t \<Rightarrow> Inr (te_path t)))"

definition resolve_tenant :: "world \<Rightarrow> engine \<Rightarrow> string \<Rightarrow> bool \<Rightarrow> engine_error + resolved" where
  "resolve_tenant w e key require_write =
     (case resolve_bearer w e key of
        Inl err \<Rightarrow> Inl (AuthFailed err)
      | Inr (idn, team) \<Rightarrow>
     (if require_write \<and> \<not> iy_write idn then Inl WriteNotAllowed else
     (case tenant_path e idn team of
        Inl err \<Rightarrow> Inl err
      | Inr path \<Rightarrow>
     (if \<not> wd_opens w path then Inl OpenFailed else
     (let st = en_files e path in
      case effective_member st (iy_id idn) of
        (None, _) \<Rightarrow> Inl NotAMember
      | (Some m, _) \<Rightarrow>
     (if require_write \<and> \<not> can_write_any (mm_role m) then Inl WriteNotAllowed else
     (case (if require_write then require_tenant_primary e path else None) of
        Some err \<Rightarrow> Inl err
      | None \<Rightarrow>
          Inr \<lparr>rv_identity = idn, rv_member = m, rv_scope = member_scope m, rv_team = team,
               rv_path = path, rv_store = st\<rparr>)))))))"

definition member_of :: "store \<Rightarrow> string \<Rightarrow> engine_error + member" where
  "member_of st i = (case effective_member st i of (None, _) \<Rightarrow> Inl NotAMember | (Some m, _) \<Rightarrow> Inr m)"

definition get_current_identity :: "world \<Rightarrow> engine \<Rightarrow> string \<Rightarrow> engine_error + identity" where
  "get_current_identity w e key =
     (case resolve_tenant w e key False of Inl err \<Rightarrow> Inl err | Inr v \<Rightarrow> Inr (rv_identity v))"

section \<open>Facts about tokens\<close>

lemma hex_value_digit: "v < 16 \<Longrightarrow> hex_value (hex_digit v) = Some v"
proof -
  assume "v < 16"
  then consider "v < 10" | "10 \<le> v" "v < 16" by linarith
  then show ?thesis by cases (auto simp: hex_value_def hex_digit_def Let_def)
qed

lemma hex_roundtrip [simp]: "hex_decode (hex_encode s) = Some s"
proof (induction s)
  case (Cons c s)
  have "(of_char c :: nat) < 256" by simp
  then have "(of_char c :: nat) div 16 < 16" by linarith
  then show ?case using Cons by (simp add: hex_value_digit div_mult_mod_eq)
qed simp

lemma hex_digit_ne_dot: "v < 16 \<Longrightarrow> hex_digit v \<noteq> CHR ''.''"
proof
  assume v: "v < 16" and d: "hex_digit v = CHR ''.''"
  have "48 \<le> (of_char (hex_digit v) :: nat)" using v by (auto simp: hex_digit_def)
  then show False unfolding d by simp
qed

lemma hex_no_dot: "CHR ''.'' \<notin> set (hex_encode s)"
proof (induction s)
  case (Cons c s)
  have "(of_char c :: nat) < 256" by simp
  then have "(of_char c :: nat) div 16 < 16" by linarith
  then show ?case using Cons hex_digit_ne_dot [of "of_char c div 16"] hex_digit_ne_dot [of "of_char c mod 16"] by simp
qed simp

lemma last_index_None: "last_index_byte c s = None \<longleftrightarrow> c \<notin> set s"
  by (induction s) (auto split: option.splits)

lemma last_index_append:
  assumes "c \<notin> set ys"
  shows "last_index_byte c (xs @ c # ys) = Some (length xs)"
proof -
  have "last_index_byte c ys = None" using assms by (simp add: last_index_None)
  then show ?thesis by (induction xs) simp_all
qed

lemma last_index_Some:
  "last_index_byte c s = Some i \<Longrightarrow> i < length s \<and> s ! i = c \<and> c \<notin> set (drop (Suc i) s)"
  by (induction s arbitrary: i) (auto split: option.splits if_splits simp: last_index_None)

lemma token_roundtrip:
  assumes "CHR ''|'' \<notin> set i" and "i \<noteq> []"
  shows "identity_from_session_token mac (session_token_for mac i team) = Some (i, team)"
proof -
  let ?body = "if team = [] then i else i @ ''|'' @ team"
  have dot: "last_index_byte (CHR ''.'') (?body @ CHR ''.'' # hex_encode (mac ?body)) = Some (length ?body)"
    using last_index_append [OF hex_no_dot] .
  have bar: "index_byte (CHR ''|'') ?body = (if team = [] then None else Some (length i))"
    using assms(1) index_byte_append [OF assms(1), of team] by (simp add: index_byte_None)
  have "?body \<noteq> []" using assms(2) by simp
  then show ?thesis
    using dot bar
    by (simp add: identity_from_session_token_def session_token_for_def Let_def session_prefix_def split del: if_split)
       (simp split: if_splits)
qed

text \<open>Whatever token is accepted carries the MAC of a text that names the identity and the team.\<close>

lemma token_sound:
  assumes "identity_from_session_token mac token = Some (i, team)"
  obtains body sig where "token = session_prefix @ body @ ''.'' @ sig" and "hex_decode sig = Some (mac body)"
    and "body \<in> {i, i @ ''|'' @ team}" and "CHR ''|'' \<notin> set i"
proof -
  from assms obtain rest where rest: "token = session_prefix @ rest"
    by (auto simp: identity_from_session_token_def prefix_def split: if_splits)
  then obtain dot where dot: "last_index_byte (CHR ''.'') rest = Some dot"
    and sig: "hex_decode (drop (dot + 1) rest) = Some (mac (take dot rest))"
    and parts: "(case index_byte (CHR ''|'') (take dot rest) of
        Some bar \<Rightarrow> Some (take bar (take dot rest), drop (bar + 1) (take dot rest)) | None \<Rightarrow> Some (take dot rest, [])) = Some (i, team)"
    using assms by (auto simp: identity_from_session_token_def Let_def split: if_splits option.splits)
  have "rest = take dot rest @ ''.'' @ drop (dot + 1) rest"
    using last_index_Some [OF dot] by (metis Suc_eq_plus1 append_Cons append_Nil id_take_nth_drop)
  moreover have "take dot rest \<in> {i, i @ ''|'' @ team} \<and> CHR ''|'' \<notin> set i"
  proof (cases "index_byte (CHR ''|'') (take dot rest)")
    case None
    then have "take dot rest = i" using parts by simp
    moreover have "CHR ''|'' \<notin> set (take dot rest)" using None index_byte_None by blast
    ultimately show ?thesis by simp
  next
    case (Some bar)
    have b: "bar < length (take dot rest)" "take dot rest ! bar = CHR ''|''" "CHR ''|'' \<notin> set (take bar (take dot rest))"
      using index_byte_Some [OF Some] by blast+
    have "take dot rest = take bar (take dot rest) @ take dot rest ! bar # drop (Suc bar) (take dot rest)"
      using b(1) by (rule id_take_nth_drop)
    moreover have i: "take bar (take dot rest) = i" and team: "drop (Suc bar) (take dot rest) = team"
      using parts by (simp_all add: Some)
    ultimately have "take dot rest = i @ CHR ''|'' # team" using b(2) by (simp only: i team)
    then show ?thesis using b(3) unfolding i by simp
  qed
  ultimately show ?thesis
    using that [of "take dot rest" "drop (dot + 1) rest"] rest sig by simp
qed

section \<open>Facts about routing\<close>

lemma resolve_tenant_cases:
  assumes "resolve_tenant w e key rw = Inr v"
  shows "resolve_bearer w e key = Inr (rv_identity v, rv_team v)"
    and "tenant_path e (rv_identity v) (rv_team v) = Inr (rv_path v)"
    and "rv_store v = en_files e (rv_path v)" and "wd_opens w (rv_path v)"
    and "fst (effective_member (rv_store v) (iy_id (rv_identity v))) = Some (rv_member v)"
    and "rv_scope v = member_scope (rv_member v)"
    and "rw \<Longrightarrow> iy_write (rv_identity v) \<and> can_write_any (mm_role (rv_member v)) \<and> require_tenant_primary e (rv_path v) = None"
  using assms by (auto simp: resolve_tenant_def Let_def split: sum.splits if_splits option.splits prod.splits)

end
