(* ===== verification/Engine_Taxonomy.thy ===== *)
theory Engine_Taxonomy
  imports Memory_Query
begin

text \<open>
  Taxonomy paths and formats at the boundary of the engine (\<^verbatim>\<open>internal/engine/engine.go\<close>): the closed
  set of formats, the dot notation, and the catalog folded to a depth.
\<close>

section \<open>Formats and paths\<close>

definition allowed_formats :: "string list" where
  "allowed_formats = [''markdown'', ''mermaid'', ''code'', ''table'']"

definition normalize_format :: "string \<Rightarrow> string \<times> bool" where
  "normalize_format s0 =
     (let s = to_lower (trim_space s0) in
      if s = [] then (''markdown'', True) else (s, s \<in> set allowed_formats))"

definition taxonomy_char :: "char \<Rightarrow> bool" where
  "taxonomy_char c = (ascii_alnum c \<or> c = CHR ''_'')"

definition taxonomy_segment :: "string \<Rightarrow> bool" where
  "taxonomy_segment seg = (seg \<noteq> [] \<and> list_all taxonomy_char seg)"

definition valid_taxonomy :: "string \<Rightarrow> bool" where
  "valid_taxonomy t = list_all taxonomy_segment (split_on CHR ''.'' t)"

section \<open>The catalog folded to a depth\<close>

definition rollup_depth :: "string \<Rightarrow> int \<Rightarrow> nat" where
  "rollup_depth pfx depth =
     (if depth \<le> 0 then (if pfx = [] then 1 else count_list pfx CHR ''.'' + 2) else nat depth)"

definition in_branch :: "string \<Rightarrow> string \<Rightarrow> bool" where
  "in_branch pfx path = (pfx = [] \<or> path = pfx \<or> prefix (pfx @ ''.'') path)"

definition fold_key :: "nat \<Rightarrow> string \<Rightarrow> string \<times> bool" where
  "fold_key depth path =
     (let segs = split_on CHR ''.'' path in
      if depth < length segs then (join_with ''.'' (take depth segs), True) else (path, False))"

fun bump :: "string \<Rightarrow> nat \<Rightarrow> bool \<Rightarrow> taxonomy_entry list \<Rightarrow> taxonomy_entry list" where
  "bump k n x [] = [\<lparr>te_path = k, te_count = n, te_expandable = x\<rparr>]"
| "bump k n x (a # as) =
     (if te_path a = k
      then a\<lparr>te_count := te_count a + n, te_expandable := te_expandable a \<or> x\<rparr> # as
      else a # bump k n x as)"

fun rollup_loop :: "nat \<Rightarrow> taxonomy_entry list \<Rightarrow> taxonomy_entry list \<Rightarrow> taxonomy_entry list" where
  "rollup_loop depth [] agg = agg"
| "rollup_loop depth (l # ls) agg =
     (let (k, x) = fold_key depth (te_path l) in rollup_loop depth ls (bump k (te_count l) x agg))"

definition rollup_catalog :: "taxonomy_entry list \<Rightarrow> string \<Rightarrow> int \<Rightarrow> taxonomy_entry list" where
  "rollup_catalog leaves pfx depth0 =
     (let depth = rollup_depth pfx depth0 in
      sort_key te_path (rollup_loop depth (filter (\<lambda>l. in_branch pfx (te_path l)) leaves) []))"

section \<open>The same by grouping\<close>

text \<open>The reference: group the leaves by their folded path, add up each group.\<close>

definition group_entry :: "nat \<Rightarrow> taxonomy_entry list \<Rightarrow> string \<Rightarrow> taxonomy_entry" where
  "group_entry depth ls p =
     (let mine = filter (\<lambda>l. fst (fold_key depth (te_path l)) = p) ls in
      \<lparr>te_path = p, te_count = sum_list (map te_count mine),
       te_expandable = list_ex (\<lambda>l. snd (fold_key depth (te_path l))) mine\<rparr>)"

definition rollup_spec :: "nat \<Rightarrow> taxonomy_entry list \<Rightarrow> taxonomy_entry list" where
  "rollup_spec depth ls =
     map (group_entry depth ls) (sort (remdups (map (\<lambda>l. fst (fold_key depth (te_path l))) ls)))"

definition seen_key :: "string \<Rightarrow> string list \<Rightarrow> string list" where
  "seen_key k ks = (if k \<in> set ks then ks else ks @ [k])"

lemma te_path_group [simp]: "te_path (group_entry d ls p) = p"
  by (simp add: group_entry_def Let_def)

lemma group_entry_snoc:
  "group_entry d (ls @ [l]) p =
     (if fst (fold_key d (te_path l)) = p
      then (group_entry d ls p)\<lparr>te_count := te_count (group_entry d ls p) + te_count l,
             te_expandable := te_expandable (group_entry d ls p) \<or> snd (fold_key d (te_path l))\<rparr>
      else group_entry d ls p)"
  by (simp add: group_entry_def Let_def)

lemma group_entry_fresh:
  "p \<notin> (\<lambda>l. fst (fold_key d (te_path l))) ` set ls \<Longrightarrow>
     group_entry d ls p = \<lparr>te_path = p, te_count = 0, te_expandable = False\<rparr>"
proof -
  assume "p \<notin> (\<lambda>l. fst (fold_key d (te_path l))) ` set ls"
  then have "filter (\<lambda>l. fst (fold_key d (te_path l)) = p) ls = []"
    by (auto simp: filter_empty_conv)
  then show ?thesis by (simp add: group_entry_def Let_def)
qed

lemma bump_group:
  assumes "distinct ks" and "k = fst (fold_key d (te_path l))" and "x = snd (fold_key d (te_path l))"
    and "k \<notin> set ks \<Longrightarrow> group_entry d ls k = \<lparr>te_path = k, te_count = 0, te_expandable = False\<rparr>"
  shows "bump k (te_count l) x (map (group_entry d ls) ks) = map (group_entry d (ls @ [l])) (seen_key k ks)"
  using assms(1,4)
proof (induction ks)
  case Nil
  then show ?case using assms(2,3) by (simp add: seen_key_def group_entry_snoc)
next
  case (Cons a ks)
  show ?case
  proof (cases "a = k")
    case True
    then have "map (group_entry d (ls @ [l])) ks = map (group_entry d ls) ks"
      using Cons.prems(1) assms(2) by (auto simp: group_entry_snoc)
    then show ?thesis using True assms(2,3) by (simp add: seen_key_def group_entry_snoc)
  next
    case False
    then show ?thesis using Cons assms(2) by (auto simp: seen_key_def group_entry_snoc)
  qed
qed

lemma set_seen_key [simp]: "set (seen_key k ks) = insert k (set ks)"
  by (auto simp: seen_key_def)

lemma distinct_seen_key: "distinct ks \<Longrightarrow> distinct (seen_key k ks)"
  by (simp add: seen_key_def)

lemma rollup_loop_groups:
  assumes "distinct ks" and "set ks = (\<lambda>l. fst (fold_key d (te_path l))) ` set done"
  shows "\<exists>ks'. distinct ks' \<and> set ks' = (\<lambda>l. fst (fold_key d (te_path l))) ` set (done @ ls)
     \<and> rollup_loop d ls (map (group_entry d done) ks) = map (group_entry d (done @ ls)) ks'"
  using assms
proof (induction ls arbitrary: "done" ks)
  case Nil
  then show ?case by auto
next
  case (Cons l ls)
  let ?k = "fst (fold_key d (te_path l))"
  have "bump ?k (te_count l) (snd (fold_key d (te_path l))) (map (group_entry d done) ks)
      = map (group_entry d (done @ [l])) (seen_key ?k ks)"
    using Cons.prems group_entry_fresh by (intro bump_group) auto
  then have step: "rollup_loop d (l # ls) (map (group_entry d done) ks)
      = rollup_loop d ls (map (group_entry d (done @ [l])) (seen_key ?k ks))"
    by (simp add: case_prod_beta)
  have "set (seen_key ?k ks) = (\<lambda>l. fst (fold_key d (te_path l))) ` set (done @ [l])"
    using Cons.prems(2) by auto
  from Cons.IH [OF distinct_seen_key [OF Cons.prems(1)] this] show ?case
    unfolding step by simp
qed

lemma sort_groups:
  assumes "distinct ks"
  shows "sort_key te_path (map (group_entry d ls) ks) = map (group_entry d ls) (sort ks)"
proof -
  have eq: "map te_path (sort_key te_path (map (group_entry d ls) ks)) = sort ks"
  proof (rule sorted_distinct_set_unique)
    show "distinct (map te_path (sort_key te_path (map (group_entry d ls) ks)))"
      using assms by (auto simp: distinct_map inj_on_def) (metis te_path_group)
  qed (use assms in \<open>simp_all add: image_image\<close>)
  have "sort_key te_path (map (group_entry d ls) ks)
      = map (group_entry d ls) (map te_path (sort_key te_path (map (group_entry d ls) ks)))"
    by (rule sym, simp, rule map_idI) auto
  then show ?thesis unfolding eq .
qed

text \<open>\<^verbatim>\<open>rollupCatalog\<close> returns one entry for each folded path of the branch, sorted, with the counts
  of all leaves that fold into it added up and marked expandable exactly when a deeper leaf folded.\<close>

theorem rollup_groups:
  "rollup_catalog leaves pfx depth =
     rollup_spec (rollup_depth pfx depth) (filter (\<lambda>l. in_branch pfx (te_path l)) leaves)"
proof -
  let ?d = "rollup_depth pfx depth" and ?ls = "filter (\<lambda>l. in_branch pfx (te_path l)) leaves"
  obtain ks where ks: "distinct ks" "set ks = (\<lambda>l. fst (fold_key ?d (te_path l))) ` set ?ls"
    and loop: "rollup_loop ?d ?ls [] = map (group_entry ?d ?ls) ks"
    using rollup_loop_groups [of "[]" ?d "[]" ?ls] by auto
  have "sort ks = sort (remdups (map (\<lambda>l. fst (fold_key ?d (te_path l))) ?ls))"
    by (rule sorted_distinct_set_unique) (use ks in \<open>simp_all add: distinct_sort\<close>)
  then show ?thesis
    by (simp add: rollup_catalog_def rollup_spec_def Let_def loop sort_groups [OF ks(1)])
qed

end
