(* ===== verification/Engine_Memory.thy ===== *)
theory Engine_Memory
  imports Engine_Core Engine_Taxonomy
begin

text \<open>
  The operations of the engine on one tenant (\<^verbatim>\<open>internal/engine/engine.go\<close>,
  \<^verbatim>\<open>internal/engine/taxonomy_template.go\<close>): every one resolves the bearer to a tenant, checks the
  role and the scope, and calls the store. Writes return the engine with the tenant file replaced.
\<close>

section \<open>Resolving\<close>

text \<open>\<^verbatim>\<open>Engine.resolve\<close> with its error return, followed by the rest of the handler.\<close>

definition with_tenant ::
  "world \<Rightarrow> engine \<Rightarrow> string \<Rightarrow> bool \<Rightarrow> (resolved \<Rightarrow> engine_error + 'a) \<Rightarrow> engine_error + 'a" where
  "with_tenant w e key rw f = (case resolve_tenant w e key rw of Inl err \<Rightarrow> Inl err | Inr v \<Rightarrow> f v)"

definition tenant_now :: "world \<Rightarrow> int" where "tenant_now w = stamp (wd_now w)"

text \<open>The memory at an id for a caller: deleted, absent or unreadable, readable, writable.\<close>

definition fetch_readable :: "resolved \<Rightarrow> string \<Rightarrow> engine_error + memory" where
  "fetch_readable v i =
     (case get_memory (rv_store v) i of
        Inl err \<Rightarrow> Inl (case err of DeletedError ts \<Rightarrow> DeletedMemory ts | _ \<Rightarrow> MemoryNotFound i)
      | Inr mem \<Rightarrow>
          if can_read (rv_scope v) (mem_taxonomy mem) then Inr mem else Inl (MemoryNotFound i))"

definition fetch_writable :: "resolved \<Rightarrow> string \<Rightarrow> engine_error + memory" where
  "fetch_writable v i =
     (case fetch_readable v i of
        Inl err \<Rightarrow> Inl err
      | Inr mem \<Rightarrow>
          if can_write (rv_scope v) (mem_taxonomy mem) then Inr mem
          else Inl (TaxonomyForbidden (mem_taxonomy mem)))"

section \<open>Reading\<close>

definition engine_catalog ::
  "world \<Rightarrow> engine \<Rightarrow> string \<Rightarrow> string \<Rightarrow> int \<Rightarrow> engine_error + taxonomy_entry list" where
  "engine_catalog w e key pfx depth =
     with_tenant w e key False (\<lambda>v. Inr (rollup_catalog (catalog (rv_store v) (rv_scope v)) pfx depth))"

definition engine_search ::
  "world \<Rightarrow> engine \<Rightarrow> string \<Rightarrow> string \<Rightarrow> string \<Rightarrow> int \<Rightarrow> engine_error + search_result" where
  "engine_search w e key query tax token_budget =
     (if query = [] then Inl MissingQuery
      else with_tenant w e key False (\<lambda>v.
        Inr (search (wd_wide w) (wd_rank w (st_fts (rv_store v))) (rv_store v) (rv_scope v) query tax
               (if 0 < token_budget then token_budget else en_budget e))))"

definition engine_get :: "world \<Rightarrow> engine \<Rightarrow> string \<Rightarrow> string \<Rightarrow> engine_error + memory" where
  "engine_get w e key i =
     with_tenant w e key False (\<lambda>v.
       case fetch_readable v i of
         Inl err \<Rightarrow> Inl err
       | Inr mem \<Rightarrow> Inr (mem\<lparr>mem_linked_from := backlinks (rv_store v) (rv_scope v) i,
                              mem_in_review := in_review (rv_store v) i\<rparr>))"

definition engine_suggest :: "world \<Rightarrow> engine \<Rightarrow> string \<Rightarrow> int \<Rightarrow> engine_error + suggestion list" where
  "engine_suggest w e key limit =
     with_tenant w e key False (\<lambda>v.
       Inr (suggest_links (wd_wide w) (wd_rank w (st_fts (rv_store v))) (rv_store v) (rv_scope v) limit))"

definition engine_list ::
  "world \<Rightarrow> engine \<Rightarrow> string \<Rightarrow> string \<Rightarrow> int \<Rightarrow> int \<Rightarrow> engine_error + memory list \<times> nat" where
  "engine_list w e key tax limit offset =
     with_tenant w e key False (\<lambda>v. Inr (list_memories (rv_store v) (rv_scope v) tax limit offset))"

definition engine_scope :: "world \<Rightarrow> engine \<Rightarrow> string \<Rightarrow> string \<Rightarrow> int \<Rightarrow> engine_error + scope_result" where
  "engine_scope w e key tax token_budget =
     (if tax = [] then Inl MissingTaxonomy
      else with_tenant w e key False (\<lambda>v.
        Inr (scope_browse (rv_store v) (rv_scope v) tax (if 0 < token_budget then token_budget else 2000))))"

definition skills_manifest :: "world \<Rightarrow> engine \<Rightarrow> string \<Rightarrow> engine_error + scope_result" where
  "skills_manifest w e key =
     with_tenant w e key False (\<lambda>v. Inr (scope_browse (rv_store v) (rv_scope v) ''skills'' 0))"

definition engine_edge_health :: "world \<Rightarrow> engine \<Rightarrow> string \<Rightarrow> engine_error + edge_stats" where
  "engine_edge_health w e key =
     with_tenant w e key False (\<lambda>v. Inr (edge_health (rv_store v) (rv_scope v)))"

definition engine_graph ::
  "world \<Rightarrow> engine \<Rightarrow> string \<Rightarrow> string \<Rightarrow> int \<Rightarrow> string \<Rightarrow> engine_error + link_graph" where
  "engine_graph w e key center depth tax =
     with_tenant w e key False (\<lambda>v.
       case graph (rv_store v) (rv_scope v) center depth tax of
         Inl err \<Rightarrow> Inl (case err of NotFound i \<Rightarrow> MemoryNotFound i | _ \<Rightarrow> StoreError err)
       | Inr g \<Rightarrow> Inr g)"

definition deleted_memories ::
  "world \<Rightarrow> engine \<Rightarrow> string \<Rightarrow> string \<Rightarrow> int \<Rightarrow> engine_error + tombstone list" where
  "deleted_memories w e key tax limit =
     with_tenant w e key False (\<lambda>v. Inr (tombstones (rv_store v) (rv_scope v) tax limit))"

record revision_view =
  vw_revision :: revision
  vw_name :: string
  vw_email :: string

definition display_of :: "registry \<Rightarrow> string \<Rightarrow> string \<times> string" where
  "display_of r i = (case resolve_by_id i r of Inl _ \<Rightarrow> ([], []) | Inr idn \<Rightarrow> (iy_name idn, iy_email idn))"

definition view_revision :: "registry \<Rightarrow> revision \<Rightarrow> revision_view" where
  "view_revision r x =
     (let (name, email) = (if rev_author x = [] then ([], []) else display_of r (rev_author x))
      in \<lparr>vw_revision = x, vw_name = name, vw_email = email\<rparr>)"

definition memory_history :: "world \<Rightarrow> engine \<Rightarrow> string \<Rightarrow> string \<Rightarrow> engine_error + revision_view list" where
  "memory_history w e key i =
     with_tenant w e key False (\<lambda>v.
       case fetch_readable v i of
         Inl err \<Rightarrow> Inl err
       | Inr _ \<Rightarrow> Inr (map (view_revision (en_registry e)) (revisions (rv_store v) i)))"

definition engine_due :: "world \<Rightarrow> engine \<Rightarrow> string \<Rightarrow> int \<Rightarrow> engine_error + review_card list \<times> review_stats" where
  "engine_due w e key limit =
     with_tenant w e key False (\<lambda>v.
       Inr (due_reviews limit (tenant_now w) (rv_store v), review_stats_of (tenant_now w) (rv_store v)))"

section \<open>Writing\<close>

definition commit_file :: "resolved \<Rightarrow> store \<Rightarrow> engine \<Rightarrow> engine" where
  "commit_file v st e = put_file (rv_path v) st e"

definition max_tenant_bytes :: int where "max_tenant_bytes = 2 * 2 ^ 30"

definition check_storage_ceiling :: "world \<Rightarrow> string \<Rightarrow> engine_error option" where
  "check_storage_ceiling w path =
     (case wd_size w path of
        None \<Rightarrow> Some StorageUnknown
      | Some n \<Rightarrow> if max_tenant_bytes \<le> n then Some (StorageLimit n) else None)"

definition redact_link_resolution :: "store \<Rightarrow> scope \<Rightarrow> memory \<Rightarrow> memory" where
  "redact_link_resolution st sc mem =
     (if unrestricted sc then mem
      else mem\<lparr>mem_links := map (\<lambda>l.
             if \<not> ls_resolved l then l
             else (case title_taxonomy st (ls_target l) of
                     None \<Rightarrow> l
                   | Some tax \<Rightarrow> if title_visible sc tax then l else l\<lparr>ls_resolved := False\<rparr>)) (mem_links mem)\<rparr>)"

record write_input =
  wi_title :: string
  wi_content :: string
  wi_taxonomy :: string
  wi_format :: string
  wi_agent :: string

definition missing_fields :: "write_input \<Rightarrow> string list" where
  "missing_fields inp = (if wi_title inp = [] then [''title''] else []) @ (if wi_taxonomy inp = [] then [''taxonomy''] else [])"

text \<open>The checks of \<^verbatim>\<open>WriteMemory\<close> in their order; the normalised format when all pass.\<close>

definition check_write :: "world \<Rightarrow> resolved \<Rightarrow> write_input \<Rightarrow> engine_error + string" where
  "check_write w v inp =
     (if missing_fields inp \<noteq> [] then Inl (MissingFields (missing_fields inp))
      else if \<not> valid_taxonomy (wi_taxonomy inp) then Inl (InvalidTaxonomy (wi_taxonomy inp))
      else if \<not> can_write (rv_scope v) (wi_taxonomy inp) then Inl (TaxonomyForbidden (wi_taxonomy inp))
      else (let (format, ok) = normalize_format (wi_format inp) in
        if \<not> ok then Inl (InvalidFormat (wi_format inp))
        else (case check_storage_ceiling w (rv_path v) of Some err \<Rightarrow> Inl err | None \<Rightarrow> Inr format)))"

definition write_memory ::
  "world \<Rightarrow> engine \<Rightarrow> string \<Rightarrow> string \<Rightarrow> write_input \<Rightarrow> engine_error + memory \<times> engine" where
  "write_memory w e key newid inp =
     with_tenant w e key True (\<lambda>v.
       case check_write w v inp of
         Inl err \<Rightarrow> Inl err
       | Inr format \<Rightarrow>
           (case insert_memory newid (tenant_now w)
                   \<lparr>nm_title = wi_title inp, nm_content = wi_content inp, nm_taxonomy = wi_taxonomy inp, nm_format = format\<rparr>
                   (iy_id (rv_identity v)) (wi_agent inp) (rv_store v) of
              Inl err \<Rightarrow> Inl (as_actionable err)
            | Inr (mem, st) \<Rightarrow> Inr (redact_link_resolution st (rv_scope v) mem, commit_file v st e)))"

record update_input =
  ui_title :: "string option"
  ui_content :: "string option"
  ui_taxonomy :: "string option"
  ui_format :: "string option"
  ui_base :: "int option"
  ui_agent :: string

definition check_title :: "string option \<Rightarrow> engine_error option" where
  "check_title t = (case t of None \<Rightarrow> None | Some s \<Rightarrow> if trim_space s = [] then Some InvalidField else None)"

definition check_move :: "scope \<Rightarrow> string option \<Rightarrow> engine_error option" where
  "check_move sc t =
     (case t of
        None \<Rightarrow> None
      | Some tax \<Rightarrow>
          if \<not> valid_taxonomy tax then Some (InvalidTaxonomy tax)
          else if \<not> can_write sc tax then Some (TaxonomyForbidden tax) else None)"

definition check_format :: "string option \<Rightarrow> engine_error + string option" where
  "check_format f =
     (case f of
        None \<Rightarrow> Inr None
      | Some s \<Rightarrow> (let (format, ok) = normalize_format s in if ok then Inr (Some format) else Inl (InvalidFormat s)))"

definition check_update :: "world \<Rightarrow> resolved \<Rightarrow> update_input \<Rightarrow> engine_error + updates" where
  "check_update w v inp =
     (case check_title (ui_title inp) of
        Some err \<Rightarrow> Inl err
      | None \<Rightarrow>
     (case check_move (rv_scope v) (ui_taxonomy inp) of
        Some err \<Rightarrow> Inl err
      | None \<Rightarrow>
     (case check_format (ui_format inp) of
        Inl err \<Rightarrow> Inl err
      | Inr format \<Rightarrow>
     (let u = \<lparr>up_title = ui_title inp, up_content = ui_content inp, up_taxonomy = ui_taxonomy inp, up_format = format\<rparr> in
      if up_title u = None \<and> up_content u = None \<and> up_taxonomy u = None \<and> up_format u = None then Inl NoChanges
      else (case check_storage_ceiling w (rv_path v) of Some err \<Rightarrow> Inl err | None \<Rightarrow> Inr u)))))"

definition update_error :: "db_error \<Rightarrow> engine_error" where
  "update_error err =
     (case err of VersionConflict _ base current \<Rightarrow> VersionStale base current | _ \<Rightarrow> as_actionable err)"

definition engine_update ::
  "world \<Rightarrow> engine \<Rightarrow> string \<Rightarrow> string \<Rightarrow> update_input \<Rightarrow> engine_error + memory \<times> engine" where
  "engine_update w e key i inp =
     with_tenant w e key True (\<lambda>v.
       case fetch_writable v i of
         Inl err \<Rightarrow> Inl err
       | Inr _ \<Rightarrow>
           (case check_update w v inp of
              Inl err \<Rightarrow> Inl err
            | Inr u \<Rightarrow>
                (case update_memory i u (iy_id (rv_identity v)) (ui_agent inp) (ui_base inp) (tenant_now w) (rv_store v) of
                   Inl err \<Rightarrow> Inl (update_error err)
                 | Inr (mem, st) \<Rightarrow> Inr (redact_link_resolution st (rv_scope v) mem, commit_file v st e))))"

definition updates_of_revision :: "revision \<Rightarrow> updates" where
  "updates_of_revision x =
     \<lparr>up_title = Some (rev_title x), up_content = Some (rev_content x),
      up_taxonomy = Some (rev_taxonomy x), up_format = Some (rev_format x)\<rparr>"

definition restore_revision ::
  "world \<Rightarrow> engine \<Rightarrow> string \<Rightarrow> string \<Rightarrow> int \<Rightarrow> engine_error + memory \<times> engine" where
  "restore_revision w e key i version =
     with_tenant w e key True (\<lambda>v.
       case fetch_writable v i of
         Inl err \<Rightarrow> Inl err
       | Inr _ \<Rightarrow>
           (case revision_at (rv_store v) i version of
              Inl _ \<Rightarrow> Inl (MemoryNotFound i)
            | Inr x \<Rightarrow>
                (case update_memory i (updates_of_revision x) (iy_id (rv_identity v)) [] None (tenant_now w) (rv_store v) of
                   Inl err \<Rightarrow> Inl (StoreError err)
                 | Inr (mem, st) \<Rightarrow> Inr (mem, commit_file v st e))))"

definition engine_delete :: "world \<Rightarrow> engine \<Rightarrow> string \<Rightarrow> string \<Rightarrow> bool \<Rightarrow> engine_error + engine" where
  "engine_delete w e key i force =
     with_tenant w e key True (\<lambda>v.
       case fetch_writable v i of
         Inl err \<Rightarrow> Inl err
       | Inr _ \<Rightarrow>
           if \<not> force \<and> 0 < inbound_link_count (rv_store v) i
           then Inl (HasInboundLinks (inbound_link_count (rv_store v) i))
           else (case delete_memory i (iy_id (rv_identity v)) (tenant_now w) (rv_store v) of
                   Inl err \<Rightarrow> Inl (as_actionable err)
                 | Inr st \<Rightarrow> Inr (commit_file v st e)))"

text \<open>\<^verbatim>\<open>INSERT INTO memories_fts(memories_fts) VALUES('rebuild')\<close>: the index again from the table. It
  commits before \<^verbatim>\<open>RebuildEdges\<close> begins, so it stays when that fails.\<close>

definition rebuild_index :: "store \<Rightarrow> store" where
  "rebuild_index st = st\<lparr>st_fts := map fts_of (st_mems st)\<rparr>"

definition rebuild_fts :: "world \<Rightarrow> engine \<Rightarrow> string \<Rightarrow> engine_error + engine_error option \<times> engine" where
  "rebuild_fts w e key =
     with_tenant w e key False (\<lambda>v.
       case rebuild_edges (rebuild_index (rv_store v)) of
         Inl err \<Rightarrow> Inr (Some (StoreError err), commit_file v (rebuild_index (rv_store v)) e)
       | Inr st \<Rightarrow> Inr (None, commit_file v st e))"

section \<open>The review deck\<close>

definition engine_enrol :: "world \<Rightarrow> engine \<Rightarrow> string \<Rightarrow> string \<Rightarrow> engine_error + srs_row \<times> engine" where
  "engine_enrol w e key i =
     with_tenant w e key True (\<lambda>v.
       case get_memory (rv_store v) i of
         Inl _ \<Rightarrow> Inl (MemoryNotFound i)
       | Inr mem \<Rightarrow>
           if \<not> can_read (rv_scope v) (mem_taxonomy mem) then Inl (MemoryNotFound i)
           else (case add_to_review i (tenant_now w) (rv_store v) of
                   Inl err \<Rightarrow> Inl (case err of NotFound _ \<Rightarrow> MemoryNotFound i | _ \<Rightarrow> StoreError err)
                 | Inr (s, st) \<Rightarrow> Inr (s, commit_file v st e)))"

definition engine_unenrol :: "world \<Rightarrow> engine \<Rightarrow> string \<Rightarrow> string \<Rightarrow> engine_error + engine" where
  "engine_unenrol w e key i =
     with_tenant w e key True (\<lambda>v. Inr (commit_file v (remove_from_review i (rv_store v)) e))"

definition engine_grade :: "world \<Rightarrow> engine \<Rightarrow> string \<Rightarrow> string \<Rightarrow> int \<Rightarrow> engine_error + srs_row \<times> engine" where
  "engine_grade w e key i grade =
     with_tenant w e key True (\<lambda>v.
       case grade_review (wd_round w) i grade (tenant_now w) (rv_store v) of
         Inl err \<Rightarrow> Inl (case err of NotInDeck _ \<Rightarrow> MemoryNotFound i | BadGrade _ \<Rightarrow> InvalidField | _ \<Rightarrow> StoreError err)
       | Inr (s, st) \<Rightarrow> Inr (s, commit_file v st e))"

section \<open>The taxonomy template\<close>

definition engine_template :: "world \<Rightarrow> engine \<Rightarrow> string \<Rightarrow> engine_error + template_result" where
  "engine_template w e key =
     with_tenant w e key False (\<lambda>v.
       case member_of (rv_store v) (iy_id (rv_identity v)) of
         Inl err \<Rightarrow> Inl err
       | Inr caller \<Rightarrow> Inr (taxonomy_template_for (rv_store v) caller (rv_team v)))"

definition engine_set_template ::
  "world \<Rightarrow> engine \<Rightarrow> string \<Rightarrow> branch list \<Rightarrow> engine_error + template_result \<times> engine" where
  "engine_set_template w e key bs =
     with_tenant w e key False (\<lambda>v.
       case member_of (rv_store v) (iy_id (rv_identity v)) of
         Inl err \<Rightarrow> Inl err
       | Inr caller \<Rightarrow>
           if \<not> can_manage_members (mm_role caller) then Inl Forbidden
           else (case require_tenant_primary e (rv_path v) of
                   Some err \<Rightarrow> Inl err
                 | None \<Rightarrow>
                     (let st = set_taxonomy_template bs (rv_store v)
                      in Inr (taxonomy_template_for st caller (rv_team v), commit_file v st e))))"

end
