(* ===== verification/Engine_Team.thy ===== *)
theory Engine_Team
  imports Engine_Memory
begin

text \<open>
  Team management in the engine (\<^verbatim>\<open>internal/engine/engine.go\<close>): the roster of the tenant, invites,
  the caller's teams, creating, renaming and deleting a team. An operation may fail after one of its
  files has changed, so the engine is returned beside every outcome.
\<close>

type_synonym 'a outcome = "(engine_error + 'a) \<times> engine"

definition acting ::
  "world \<Rightarrow> engine \<Rightarrow> string \<Rightarrow> (resolved \<Rightarrow> member \<Rightarrow> 'a outcome) \<Rightarrow> 'a outcome" where
  "acting w e key f =
     (case resolve_tenant w e key False of
        Inl err \<Rightarrow> (Inl err, e)
      | Inr v \<Rightarrow>
          (case member_of (rv_store v) (iy_id (rv_identity v)) of
             Inl err \<Rightarrow> (Inl err, e)
           | Inr caller \<Rightarrow> f v caller))"

section \<open>Guards\<close>

definition guard_last_owner :: "store \<Rightarrow> engine_error option" where
  "guard_last_owner st = (if count_owners st \<le> 1 then Some LastOwner else None)"

definition check_seat_limit :: "engine \<Rightarrow> store \<Rightarrow> string \<Rightarrow> engine_error option" where
  "check_seat_limit e st t =
     (case team_by_id t (en_registry e) of
        Inl _ \<Rightarrow> None
      | Inr row \<Rightarrow>
          if te_seats row \<le> int (count_members st) then Some (SeatLimit (te_seats row) (count_members st)) else None)"

definition registry_primary_in_team :: "engine \<Rightarrow> string \<Rightarrow> engine_error option" where
  "registry_primary_in_team e t = (if t = [] then None else require_registry_primary e)"

section \<open>The roster\<close>

definition my_membership :: "world \<Rightarrow> engine \<Rightarrow> string \<Rightarrow> engine_error + member" where
  "my_membership w e key = with_tenant w e key False (\<lambda>v. member_of (rv_store v) (iy_id (rv_identity v)))"

record team_member =
  tm_member :: member
  tm_name :: string
  tm_email :: string

definition named_member :: "registry \<Rightarrow> member \<Rightarrow> team_member" where
  "named_member r m = (let (name, email) = display_of r (mm_id m) in \<lparr>tm_member = m, tm_name = name, tm_email = email\<rparr>)"

definition team_members :: "world \<Rightarrow> engine \<Rightarrow> string \<Rightarrow> engine_error + team_member list" where
  "team_members w e key =
     with_tenant w e key False (\<lambda>v. Inr (map (named_member (en_registry e)) (list_members (rv_store v))))"

text \<open>The refusals of \<^verbatim>\<open>SetMember\<close> in their order; \<open>None\<close> lets the change through.\<close>

definition owner_guard :: "member \<Rightarrow> member option \<Rightarrow> role \<Rightarrow> engine_error option" where
  "owner_guard caller existing role =
     (if can_manage_team (mm_role caller) then None
      else if role = RoleOwner then Some Forbidden
      else (case existing of None \<Rightarrow> None | Some m \<Rightarrow> if mm_role m = RoleOwner then Some Forbidden else None))"

definition demotion_guard :: "store \<Rightarrow> member option \<Rightarrow> role \<Rightarrow> engine_error option" where
  "demotion_guard st existing role =
     (case existing of
        None \<Rightarrow> None
      | Some m \<Rightarrow> if mm_role m = RoleOwner \<and> role \<noteq> RoleOwner then guard_last_owner st else None)"

definition seat_guard :: "engine \<Rightarrow> store \<Rightarrow> string \<Rightarrow> member option \<Rightarrow> engine_error option" where
  "seat_guard e st t existing = (if t \<noteq> [] \<and> existing = None then check_seat_limit e st t else None)"

fun first_error :: "engine_error option list \<Rightarrow> engine_error option" where
  "first_error [] = None"
| "first_error (c # cs) = (case c of Some err \<Rightarrow> Some err | None \<Rightarrow> first_error cs)"

definition set_member_checks :: "engine \<Rightarrow> resolved \<Rightarrow> member \<Rightarrow> string \<Rightarrow> role \<Rightarrow> engine_error option" where
  "set_member_checks e v caller target role =
     (let existing = member_at (rv_store v) target in
      first_error
       [if can_manage_members (mm_role caller) then None else Some Forbidden,
        require_tenant_primary e (rv_path v),
        if valid_role role then None else Some InvalidRole,
        case resolve_by_id target (en_registry e) of Inl _ \<Rightarrow> Some (NoSuchIdentity target) | Inr _ \<Rightarrow> None,
        owner_guard caller existing role,
        demotion_guard (rv_store v) existing role,
        seat_guard e (rv_store v) (rv_team v) existing,
        registry_primary_in_team e (rv_team v)])"

text \<open>\<^verbatim>\<open>if teamID != "" { IndexTeamMember }\<close>, after the tenant file has changed.\<close>

definition index_in_team :: "world \<Rightarrow> string \<Rightarrow> string \<Rightarrow> engine \<Rightarrow> engine_error option \<times> engine" where
  "index_in_team w t i e =
     (if t = [] then (None, e)
      else (case index_team_member t i (wd_now w) (en_registry e) of
              Inl err \<Rightarrow> (Some (RegistryError err), e)
            | Inr r \<Rightarrow> (None, put_registry r e)))"

definition set_member ::
  "world \<Rightarrow> engine \<Rightarrow> string \<Rightarrow> string \<Rightarrow> role \<Rightarrow> string list \<Rightarrow> string list \<Rightarrow> (member option) outcome" where
  "set_member w e key target role rd ti =
     acting w e key (\<lambda>v caller.
       case set_member_checks e v caller target role of
         Some err \<Rightarrow> (Inl err, e)
       | None \<Rightarrow>
           (case put_member target role rd ti (iy_id (rv_identity v)) (tenant_now w) (rv_store v) of
              Inl err \<Rightarrow> (Inl (StoreError err), e)
            | Inr st \<Rightarrow>
                (case index_in_team w (rv_team v) target (commit_file v st e) of
                   (Some err, e') \<Rightarrow> (Inl err, e')
                 | (None, e') \<Rightarrow> (Inr (member_at st target), e'))))"

definition remove_member_checks :: "engine \<Rightarrow> resolved \<Rightarrow> member \<Rightarrow> string \<Rightarrow> engine_error option" where
  "remove_member_checks e v caller target =
     (if \<not> can_manage_members (mm_role caller) then Some Forbidden
      else (case member_at (rv_store v) target of
              None \<Rightarrow> Some (NotOnRoster target)
            | Some m \<Rightarrow>
                first_error
                 [if mm_role m = RoleOwner \<and> \<not> can_manage_team (mm_role caller) then Some Forbidden else None,
                  if mm_role m = RoleOwner then guard_last_owner (rv_store v) else None,
                  require_tenant_primary e (rv_path v),
                  registry_primary_in_team e (rv_team v)]))"

definition unindex_in_team :: "string \<Rightarrow> string \<Rightarrow> engine \<Rightarrow> engine" where
  "unindex_in_team t i e = (if t = [] then e else put_registry (unindex_team_member t i (en_registry e)) e)"

definition remove_member :: "world \<Rightarrow> engine \<Rightarrow> string \<Rightarrow> string \<Rightarrow> unit outcome" where
  "remove_member w e key target =
     acting w e key (\<lambda>v caller.
       case remove_member_checks e v caller target of
         Some err \<Rightarrow> (Inl err, e)
       | None \<Rightarrow>
           (case remove_member_row target (rv_store v) of
              Inl err \<Rightarrow> (Inl (StoreError err), e)
            | Inr st \<Rightarrow> (Inr (), unindex_in_team (rv_team v) target (commit_file v st e))))"

record candidate =
  cd_id :: string
  cd_name :: string
  cd_email :: string

definition lookup_member_by_email :: "world \<Rightarrow> engine \<Rightarrow> string \<Rightarrow> string \<Rightarrow> engine_error + candidate" where
  "lookup_member_by_email w e key email =
     with_tenant w e key False (\<lambda>v.
       if rv_team v = [] then Inl Forbidden
       else (case member_of (rv_store v) (iy_id (rv_identity v)) of
               Inl err \<Rightarrow> Inl err
             | Inr caller \<Rightarrow>
                 if \<not> can_manage_members (mm_role caller) then Inl Forbidden
                 else (case lookup_by_email email (en_registry e) of
                         None \<Rightarrow> Inl NoAccount
                       | Some t \<Rightarrow> Inr \<lparr>cd_id = iy_id t, cd_name = iy_name t, cd_email = iy_email t\<rparr>)))"

section \<open>Invites\<close>

definition invite_ttl :: int where "invite_ttl = 7 * 24 * 3600 * nanos"

definition invite_checks :: "engine \<Rightarrow> resolved \<Rightarrow> member \<Rightarrow> role \<Rightarrow> string \<Rightarrow> engine_error option" where
  "invite_checks e v caller role email =
     first_error
      [if can_manage_members (mm_role caller) then None else Some Forbidden,
       if valid_role role then None else Some InvalidRole,
       if role = RoleOwner \<and> \<not> can_manage_team (mm_role caller) then Some Forbidden else None,
       map_option InvalidEmail (validate_email email),
       case lookup_by_email email (en_registry e) of None \<Rightarrow> None | Some _ \<Rightarrow> Some AlreadyRegistered,
       check_seat_limit e (rv_store v) (rv_team v)]"

definition invite_member ::
  "world \<Rightarrow> engine \<Rightarrow> string \<Rightarrow> string \<Rightarrow> string \<Rightarrow> role \<Rightarrow> string list \<Rightarrow> string list \<Rightarrow> (string \<times> string) outcome" where
  "invite_member w e key token email0 role rd ti =
     (case resolve_tenant w e key False of
        Inl err \<Rightarrow> (Inl err, e)
      | Inr v \<Rightarrow>
     (if rv_team v = [] then (Inl Forbidden, e) else
     (case member_of (rv_store v) (iy_id (rv_identity v)) of
        Inl err \<Rightarrow> (Inl err, e)
      | Inr caller \<Rightarrow>
     (let email = normalize_email email0 in
      case invite_checks e v caller role email of
        Some err \<Rightarrow> (Inl err, e)
      | None \<Rightarrow>
     (case team_by_id (rv_team v) (en_registry e) of
        Inl err \<Rightarrow> (Inl (RegistryError err), e)
      | Inr t \<Rightarrow>
          (case store_invite (wd_hash w) token (rv_team v) email role rd ti (iy_id (rv_identity v)) invite_ttl
                  (wd_now w) (en_registry e) of
             (Some err, r) \<Rightarrow> (Inl (RegistryError err), put_registry r e)
           | (None, r) \<Rightarrow> (Inr (token, te_name t), put_registry r e)))))))"

definition accept_invite :: "world \<Rightarrow> engine \<Rightarrow> string \<Rightarrow> string \<Rightarrow> (member option) outcome" where
  "accept_invite w e key token =
     (case resolve_bearer w e key of
        Inl err \<Rightarrow> (Inl (AuthFailed err), e)
      | Inr (idn, _) \<Rightarrow>
     (case resolve_invite (wd_hash w) token (wd_now w) (en_registry e) of
        None \<Rightarrow> (Inl BadInvite, e)
      | Some ivt \<Rightarrow>
     (if normalize_email (iy_email idn) \<noteq> in_email ivt then (Inl WrongEmail, e) else
     (case team_by_id (in_team ivt) (en_registry e) of
        Inl _ \<Rightarrow> (Inl NoSuchTeam, e)
      | Inr t \<Rightarrow>
     (case first_error
             [require_tenant_primary e (te_path t), require_registry_primary e,
              if wd_opens w (te_path t) then None else Some OpenFailed,
              if member_at (en_files e (te_path t)) (iy_id idn) = None
              then check_seat_limit e (en_files e (te_path t)) (in_team ivt) else None] of
        Some err \<Rightarrow> (Inl err, e)
      | None \<Rightarrow>
     (case put_member (iy_id idn) (in_role ivt) (in_read ivt) (in_titles ivt) (in_by ivt) (tenant_now w)
             (en_files e (te_path t)) of
        Inl err \<Rightarrow> (Inl (StoreError err), e)
      | Inr st \<Rightarrow>
     (let e1 = put_file (te_path t) st e in
      case index_team_member (in_team ivt) (iy_id idn) (wd_now w) (en_registry e1) of
        Inl err \<Rightarrow> (Inl (RegistryError err), e1)
      | Inr r \<Rightarrow>
          (Inr (member_at st (iy_id idn)), put_registry (delete_invite (wd_hash w) token r) e1))))))))"

section \<open>Teams\<close>

record team_ref =
  tf_id :: string
  tf_name :: string
  tf_home :: bool
  tf_role :: role
  tf_active :: bool

definition role_in :: "world \<Rightarrow> engine \<Rightarrow> string \<Rightarrow> string \<Rightarrow> role option" where
  "role_in w e path i =
     (if wd_opens w path then map_option mm_role (fst (effective_member (en_files e path) i)) else None)"

definition team_ref_of :: "world \<Rightarrow> engine \<Rightarrow> string \<Rightarrow> string \<Rightarrow> team \<Rightarrow> team_ref" where
  "team_ref_of w e i active t =
     \<lparr>tf_id = te_id t, tf_name = te_name t, tf_home = False,
      tf_role = (case role_in w e (te_path t) i of None \<Rightarrow> RoleViewer | Some r \<Rightarrow> r), tf_active = (te_id t = active)\<rparr>"

definition my_teams :: "world \<Rightarrow> engine \<Rightarrow> string \<Rightarrow> engine_error + team_ref list" where
  "my_teams w e key =
     (case resolve_bearer w e key of
        Inl err \<Rightarrow> Inl (AuthFailed err)
      | Inr (idn, active) \<Rightarrow>
          Inr ((case role_in w e (iy_path idn) (iy_id idn) of
                  None \<Rightarrow> []
                | Some r \<Rightarrow> [\<lparr>tf_id = [], tf_name = ''Personal'', tf_home = True, tf_role = r, tf_active = (active = [])\<rparr>])
               @ map (team_ref_of w e (iy_id idn) active) (teams_for_identity (iy_id idn) (en_registry e))))"

definition max_owned_teams :: int where "max_owned_teams = 2"

text \<open>Putting the first owner into the file of the new team and indexing it.\<close>

definition seed_owner :: "world \<Rightarrow> team \<Rightarrow> string \<Rightarrow> string \<Rightarrow> engine \<Rightarrow> team outcome" where
  "seed_owner w t path i e =
     (if \<not> wd_opens w path then (Inl OpenFailed, e)
      else (case put_member i RoleOwner [] [] i (tenant_now w) (en_files e path) of
              Inl err \<Rightarrow> (Inl (StoreError err), e)
            | Inr st \<Rightarrow>
                (let e1 = put_file path st e in
                 case index_team_member (te_id t) i (wd_now w) (en_registry e1) of
                   Inl err \<Rightarrow> (Inl (RegistryError err), e1)
                 | Inr r \<Rightarrow> (Inr t, put_registry r e1))))"

definition engine_create_team :: "world \<Rightarrow> engine \<Rightarrow> string \<Rightarrow> string \<Rightarrow> string \<Rightarrow> string \<Rightarrow> team outcome" where
  "engine_create_team w e key newid name path =
     (case resolve_bearer w e key of
        Inl err \<Rightarrow> (Inl (AuthFailed err), e)
      | Inr (idn, _) \<Rightarrow>
     (if trim_space name = [] then (Inl (MissingFields [''name'']), e) else
     (case require_registry_primary e of
        Some err \<Rightarrow> (Inl err, e)
      | None \<Rightarrow>
     (case create_team newid name path (iy_id idn) max_owned_teams (wd_now w) (en_registry e) of
        Inl err \<Rightarrow> (Inl (if err = TeamLimit then TeamLimitReached (count_owned_teams (iy_id idn) (en_registry e))
                      else RegistryError err), e)
      | Inr (t, r) \<Rightarrow> seed_owner w t path (iy_id idn) (put_registry r e)))))"

definition resolve_team_manager :: "world \<Rightarrow> engine \<Rightarrow> string \<Rightarrow> engine_error + string \<times> string \<times> member" where
  "resolve_team_manager w e key =
     with_tenant w e key False (\<lambda>v.
       if rv_team v = [] then Inl Forbidden
       else (case member_of (rv_store v) (iy_id (rv_identity v)) of
               Inl err \<Rightarrow> Inl err
             | Inr caller \<Rightarrow> Inr (iy_id (rv_identity v), rv_team v, caller)))"

definition engine_rename_team :: "world \<Rightarrow> engine \<Rightarrow> string \<Rightarrow> string \<Rightarrow> team outcome" where
  "engine_rename_team w e key name =
     (case resolve_team_manager w e key of
        Inl err \<Rightarrow> (Inl err, e)
      | Inr (_, t, caller) \<Rightarrow>
     (if \<not> can_manage_members (mm_role caller) then (Inl Forbidden, e)
      else if trim_space name = [] then (Inl (MissingFields [''name'']), e) else
     (case require_registry_primary e of
        Some err \<Rightarrow> (Inl err, e)
      | None \<Rightarrow>
     (case rename_team t (trim_space name) (en_registry e) of
        Inl err \<Rightarrow> (Inl (RegistryError err), e)
      | Inr r \<Rightarrow>
          (case team_by_id t r of
             Inl err \<Rightarrow> (Inl (RegistryError err), put_registry r e)
           | Inr row \<Rightarrow> (Inr row, put_registry r e))))))"

definition delete_in_registry :: "world \<Rightarrow> string \<Rightarrow> engine \<Rightarrow> (reg_error \<Rightarrow> engine_error) \<Rightarrow> unit outcome" where
  "delete_in_registry w t e wrap =
     (case require_registry_primary e of
        Some err \<Rightarrow> (Inl err, e)
      | None \<Rightarrow>
          (case soft_delete_team t (wd_now w) (en_registry e) of
             Inl err \<Rightarrow> (Inl (wrap err), e)
           | Inr r \<Rightarrow> (Inr (), put_registry r e)))"

definition engine_delete_team :: "world \<Rightarrow> engine \<Rightarrow> string \<Rightarrow> unit outcome" where
  "engine_delete_team w e key =
     (case resolve_team_manager w e key of
        Inl err \<Rightarrow> (Inl err, e)
      | Inr (_, t, caller) \<Rightarrow>
          if \<not> can_manage_team (mm_role caller) then (Inl Forbidden, e)
          else delete_in_registry w t e RegistryError)"

definition admin_delete_team :: "world \<Rightarrow> engine \<Rightarrow> string \<Rightarrow> unit outcome" where
  "admin_delete_team w e t = delete_in_registry w t e (\<lambda>_. NoSuchTeam)"

definition engine_set_team_plan :: "engine \<Rightarrow> string \<Rightarrow> string \<Rightarrow> int \<Rightarrow> unit outcome" where
  "engine_set_team_plan e t plan seats =
     (case set_team_plan t plan seats (en_registry e) of
        Inl err \<Rightarrow> (Inl (RegistryError err), e)
      | Inr r \<Rightarrow> (Inr (), put_registry r e))"

record admin_team =
  at_team :: team
  at_members :: nat
  at_name :: string
  at_email :: string

definition engine_all_teams :: "engine \<Rightarrow> admin_team list" where
  "engine_all_teams e =
     map (\<lambda>(t, n). let (name, email) = (if te_creator t = [] then ([], []) else display_of (en_registry e) (te_creator t))
                   in \<lparr>at_team = t, at_members = n, at_name = name, at_email = email\<rparr>)
       (all_teams (en_registry e))"

end
