(* ===== verification/Engine_Accounts.thy ===== *)
theory Engine_Accounts
  imports Engine_Team
begin

text \<open>
  Accounts, OAuth state, browser sessions and uploaded files in the engine
  (\<^verbatim>\<open>internal/engine/users.go\<close>, \<^verbatim>\<open>internal/engine/engine.go\<close>). What the code draws at random (ids,
  keys, tokens, salts) is an argument.
\<close>

section \<open>Registry writes behind the lease\<close>

definition on_registry ::
  "engine \<Rightarrow> (registry \<Rightarrow> reg_error + 'a \<times> registry) \<Rightarrow> (reg_error \<Rightarrow> engine_error) \<Rightarrow> 'a outcome" where
  "on_registry e f wrap =
     (case require_registry_primary e of
        Some err \<Rightarrow> (Inl err, e)
      | None \<Rightarrow>
          (case f (en_registry e) of
             Inl err \<Rightarrow> (Inl (wrap err), e)
           | Inr (x, r) \<Rightarrow> (Inr x, put_registry r e)))"

abbreviation no_value :: "reg_error + registry \<Rightarrow> reg_error + unit \<times> registry" where
  "no_value res \<equiv> (case res of Inl err \<Rightarrow> Inl err | Inr r \<Rightarrow> Inr ((), r))"

section \<open>Accounts\<close>

definition engine_create_user ::
  "world \<Rightarrow> engine \<Rightarrow> string \<Rightarrow> string \<Rightarrow> string \<Rightarrow> string \<Rightarrow> string \<Rightarrow> string \<Rightarrow> string \<Rightarrow> bool \<Rightarrow> bool \<Rightarrow> identity outcome" where
  "engine_create_user w e i raw salt name email pw path aw adm =
     (case on_registry e (create_user (wd_hash w) (wd_kdf w) i raw salt name email pw path aw adm True (wd_now w)) SignupFailed of
        (Inl err, e') \<Rightarrow> (Inl err, e')
      | (Inr idn, e') \<Rightarrow> if wd_opens w path then (Inr idn, e') else (Inl OpenFailed, e'))"

definition engine_authenticate :: "world \<Rightarrow> engine \<Rightarrow> string \<Rightarrow> string \<Rightarrow> engine_error + identity" where
  "engine_authenticate w e email pw =
     (case authenticate_password (wd_kdf w) email pw (en_registry e) of
        Inl err \<Rightarrow> Inl (AuthFailed err) | Inr idn \<Rightarrow> Inr idn)"

definition set_user_password :: "world \<Rightarrow> engine \<Rightarrow> string \<Rightarrow> string \<Rightarrow> string \<Rightarrow> unit outcome" where
  "set_user_password w e salt i pw = on_registry e (\<lambda>r. no_value (set_password (wd_kdf w) salt i pw r)) RegistryError"

definition update_user_flags :: "engine \<Rightarrow> string \<Rightarrow> bool option \<Rightarrow> bool option \<Rightarrow> unit outcome" where
  "update_user_flags e i aw adm = on_registry e (\<lambda>r. no_value (update_flags i aw adm r)) RegistryError"

definition promote_to_admin ::
  "world \<Rightarrow> engine \<Rightarrow> string \<Rightarrow> string \<Rightarrow> string \<Rightarrow> string \<Rightarrow> identity outcome" where
  "promote_to_admin w e salt key email pw =
     on_registry e (\<lambda>r.
       case resolve_key (wd_hash w) key r of
         Inl err \<Rightarrow> Inl err
       | Inr idn \<Rightarrow>
           (case set_credentials (wd_kdf w) salt (iy_id idn) email pw True r of
              Inl err \<Rightarrow> Inl err
            | Inr r' \<Rightarrow>
                (case resolve_by_id (iy_id idn) r' of Inl err \<Rightarrow> Inl err | Inr idn' \<Rightarrow> Inr (idn', r')))) RegistryError"

definition hours :: "int \<Rightarrow> int" where "hours n = n * 3600 * nanos"
definition minutes :: "int \<Rightarrow> int" where "minutes n = n * 60 * nanos"

definition create_unconfirmed ::
  "world \<Rightarrow> engine \<Rightarrow> string \<Rightarrow> string \<Rightarrow> string \<Rightarrow> string \<Rightarrow> string \<Rightarrow> string \<Rightarrow> string \<Rightarrow> string \<Rightarrow> bool \<Rightarrow> (identity \<times> string) outcome" where
  "create_unconfirmed w e i raw salt token name email0 pw path aw =
     (case require_registry_primary e of
        Some err \<Rightarrow> (Inl err, e)
      | None \<Rightarrow>
     (let email = normalize_email email0 in
      case validate_email email of
        Some err \<Rightarrow> (Inl (InvalidEmail err), e)
      | None \<Rightarrow>
     (case create_user (wd_hash w) (wd_kdf w) i raw salt name email pw path aw False False (wd_now w) (en_registry e) of
        Inl err \<Rightarrow> (Inl (SignupFailed err), e)
      | Inr (idn, r1) \<Rightarrow>
          (let (t, r2) = set_confirm_token token (iy_id idn) (hours 24) (wd_now w) r1
           in (Inr (idn\<lparr>iy_key := raw\<rparr>, t), put_registry r2 e)))))"

definition confirm_email :: "world \<Rightarrow> engine \<Rightarrow> string \<Rightarrow> identity outcome" where
  "confirm_email w e token = on_registry e (confirm_by_token token (wd_now w)) ConfirmFailed"

definition forgot_password :: "world \<Rightarrow> engine \<Rightarrow> string \<Rightarrow> string \<Rightarrow> (identity option \<times> string) outcome" where
  "forgot_password w e token email =
     on_registry e (\<lambda>r.
       case lookup_by_email (normalize_email email) r of
         None \<Rightarrow> Inr ((None, []), r)
       | Some idn \<Rightarrow>
           (let (t, r') = set_reset_token token (iy_id idn) (minutes 30) (wd_now w) r in Inr ((Some idn, t), r'))) RegistryError"

definition reset_password :: "world \<Rightarrow> engine \<Rightarrow> string \<Rightarrow> string \<Rightarrow> string \<Rightarrow> identity outcome" where
  "reset_password w e salt token pw =
     (case require_registry_primary e of
        Some err \<Rightarrow> (Inl err, e)
      | None \<Rightarrow>
          if length pw < min_password \<or> max_password < length pw then (Inl InvalidPassword, e)
          else on_registry e (reset_password_by_token (wd_kdf w) salt token pw (wd_now w)) ResetFailed)"

definition engine_create_identity ::
  "world \<Rightarrow> engine \<Rightarrow> string \<Rightarrow> string \<Rightarrow> string \<Rightarrow> string \<Rightarrow> bool \<Rightarrow> identity outcome" where
  "engine_create_identity w e i name raw path aw =
     on_registry e (create_identity (wd_hash w) i name raw path aw (wd_now w)) RegistryError"

definition engine_set_memory_path :: "engine \<Rightarrow> string \<Rightarrow> string \<Rightarrow> unit outcome" where
  "engine_set_memory_path e i path = on_registry e (\<lambda>r. no_value (set_memory_path i path r)) RegistryError"

definition engine_delete_identity :: "engine \<Rightarrow> string \<Rightarrow> unit outcome" where
  "engine_delete_identity e i = on_registry e (\<lambda>r. no_value (delete_identity i r)) RegistryError"

section \<open>OAuth\<close>

definition client_or_unknown :: "string \<Rightarrow> string" where
  "client_or_unknown c = (if c = [] then ''unknown'' else c)"

definition engine_mint_grant ::
  "world \<Rightarrow> engine \<Rightarrow> string \<Rightarrow> string \<Rightarrow> string \<Rightarrow> string \<Rightarrow> string \<Rightarrow> (string \<times> string) outcome" where
  "engine_mint_grant w e g i raw base_key client0 =
     (case require_registry_primary e of
        Some err \<Rightarrow> (Inl err, e)
      | None \<Rightarrow>
     (case resolve_key (wd_hash w) base_key (en_registry e) of
        Inl err \<Rightarrow> (Inl (AuthFailed err), e)
      | Inr base \<Rightarrow>
     (let client = client_or_unknown client0 in
      case mint_grant (wd_hash w) g i raw client (''oauth:'' @ client) (iy_path base) (iy_write base) (wd_now w) (en_registry e) of
        Inl err \<Rightarrow> (Inl (RegistryError err), e)
      | Inr ((gr, key), r) \<Rightarrow> (Inr (key, gt_id gr), put_registry r e))))"

definition assert_member_of_team :: "world \<Rightarrow> engine \<Rightarrow> string \<Rightarrow> string \<Rightarrow> engine_error option" where
  "assert_member_of_team w e i t =
     (case team_by_id t (en_registry e) of
        Inl _ \<Rightarrow> Some NoSuchTeam
      | Inr row \<Rightarrow>
          if \<not> wd_opens w (te_path row) then Some OpenFailed
          else (case effective_member (en_files e (te_path row)) i of
                  (None, _) \<Rightarrow> Some Forbidden | (Some _, _) \<Rightarrow> None))"

definition mint_grant_by_id ::
  "world \<Rightarrow> engine \<Rightarrow> string \<Rightarrow> string \<Rightarrow> string \<Rightarrow> string \<Rightarrow> string \<Rightarrow> (string \<times> string) outcome" where
  "mint_grant_by_id w e g raw i client t =
     (case require_registry_primary e of
        Some err \<Rightarrow> (Inl err, e)
      | None \<Rightarrow>
     (case resolve_by_id i (en_registry e) of
        Inl err \<Rightarrow> (Inl (AuthFailed err), e)
      | Inr _ \<Rightarrow>
     (case (if t = [] then None else assert_member_of_team w e i t) of
        Some err \<Rightarrow> (Inl err, e)
      | None \<Rightarrow>
     (case mint_delegated_grant (wd_hash w) g raw (client_or_unknown client) i t (wd_now w) (en_registry e) of
        Inl err \<Rightarrow> (Inl (RegistryError err), e)
      | Inr ((gr, key), r) \<Rightarrow> (Inr (key, gt_id gr), put_registry r e)))))"

definition engine_revoke_grant :: "world \<Rightarrow> engine \<Rightarrow> string \<Rightarrow> unit outcome" where
  "engine_revoke_grant w e g = on_registry e (\<lambda>r. no_value (revoke_grant g (wd_now w) r)) RegistryError"

text \<open>The flow state: an insert may fail after the sweep of the expired entries has been committed.\<close>

definition engine_store_code :: "world \<Rightarrow> engine \<Rightarrow> string \<Rightarrow> code_entry \<Rightarrow> unit outcome" where
  "engine_store_code w e code entry =
     (case require_registry_primary e of
        Some err \<Rightarrow> (Inl err, e)
      | None \<Rightarrow>
          (case store_oauth_code code entry (wd_now w) (en_registry e) of
             (Some err, r) \<Rightarrow> (Inl (RegistryError err), put_registry r e)
           | (None, r) \<Rightarrow> (Inr (), put_registry r e)))"

definition engine_take_code :: "world \<Rightarrow> engine \<Rightarrow> string \<Rightarrow> (code_entry option) outcome" where
  "engine_take_code w e code = on_registry e (\<lambda>r. Inr (take_oauth_code code (wd_now w) r)) RegistryError"

definition engine_store_ticket :: "world \<Rightarrow> engine \<Rightarrow> string \<Rightarrow> consent_entry \<Rightarrow> unit outcome" where
  "engine_store_ticket w e ticket entry =
     (case require_registry_primary e of
        Some err \<Rightarrow> (Inl err, e)
      | None \<Rightarrow>
          (case store_consent_ticket ticket entry (wd_now w) (en_registry e) of
             (Some err, r) \<Rightarrow> (Inl (RegistryError err), put_registry r e)
           | (None, r) \<Rightarrow> (Inr (), put_registry r e)))"

definition engine_take_ticket :: "world \<Rightarrow> engine \<Rightarrow> string \<Rightarrow> (consent_entry option) outcome" where
  "engine_take_ticket w e ticket = on_registry e (\<lambda>r. Inr (take_consent_ticket ticket (wd_now w) r)) RegistryError"

definition engine_put_client :: "world \<Rightarrow> engine \<Rightarrow> string \<Rightarrow> string list \<Rightarrow> unit outcome" where
  "engine_put_client w e client uris = on_registry e (\<lambda>r. no_value (put_oauth_client client uris (wd_now w) r)) RegistryError"

section \<open>Browser sessions\<close>

definition create_session :: "world \<Rightarrow> engine \<Rightarrow> string \<Rightarrow> string \<Rightarrow> int \<Rightarrow> engine" where
  "create_session w e raw i ttl = put_registry (store_session (wd_hash w) raw i (wd_now w + ttl) (wd_now w) (en_registry e)) e"

definition engine_resolve_session :: "world \<Rightarrow> engine \<Rightarrow> string \<Rightarrow> string option" where
  "engine_resolve_session w e raw = resolve_session (wd_hash w) raw (wd_now w) (en_registry e)"

definition engine_delete_session :: "world \<Rightarrow> engine \<Rightarrow> string \<Rightarrow> engine" where
  "engine_delete_session w e raw = put_registry (delete_session (wd_hash w) raw (en_registry e)) e"

section \<open>Uploaded files\<close>

text \<open>\<^verbatim>\<open>Engine.filesStore\<close>: the path of the blob store, opened, with the lease when writing.\<close>

definition files_store :: "world \<Rightarrow> engine \<Rightarrow> identity \<Rightarrow> bool \<Rightarrow> engine_error + string" where
  "files_store w e idn rw =
     (let path = files_path (iy_path idn) in
      if \<not> wd_opens w path then Inl OpenFailed
      else (case (if rw then require_tenant_primary e path else None) of
              Some err \<Rightarrow> Inl err | None \<Rightarrow> Inr path))"

definition upload_file :: "world \<Rightarrow> engine \<Rightarrow> string \<Rightarrow> string \<Rightarrow> string \<Rightarrow> string \<Rightarrow> (string \<times> string) outcome" where
  "upload_file w e key newid mime data =
     (case resolve_identity w e key of
        Inl err \<Rightarrow> (Inl (AuthFailed err), e)
      | Inr idn \<Rightarrow>
     (if \<not> iy_write idn then (Inl WriteNotAllowed, e) else
     (case files_store w e idn True of
        Inl err \<Rightarrow> (Inl err, e)
      | Inr path \<Rightarrow>
          (case store_blob newid mime data (wd_now w) (en_blobs e path) of
             None \<Rightarrow> (Inl BlobRejected, e)
           | Some rows \<Rightarrow> (Inr (newid, iy_id idn), put_blobs path rows e)))))"

definition fetch_file :: "world \<Rightarrow> engine \<Rightarrow> string \<Rightarrow> string \<Rightarrow> engine_error + file_row" where
  "fetch_file w e i fid =
     (case resolve_by_id i (en_registry e) of
        Inl _ \<Rightarrow> Inl BlobNotFound
      | Inr idn \<Rightarrow>
     (case files_store w e idn False of
        Inl err \<Rightarrow> Inl err
      | Inr path \<Rightarrow>
          (case load_blob fid (en_blobs e path) of None \<Rightarrow> Inl BlobNotFound | Some f \<Rightarrow> Inr f)))"

end
