(* ===== verification/Engine_Machine.thy ===== *)
theory Engine_Machine
  imports Engine_Accounts Registry_Machine
begin

text \<open>
  The engine as a state machine. A step is one call of any mutating operation by anybody, with any
  arguments, whether it succeeds or fails half-way. Every call is a sequence of moves, each one
  committed transaction of a tenant file, of the registry or of a blob store; the invariants of the
  parts therefore hold in every reachable engine.
\<close>

section \<open>Success through a chain of checks\<close>

lemma case_sum_Inr: "(case x of Inl a \<Rightarrow> Inl (g a) | Inr b \<Rightarrow> f b) = Inr y \<longleftrightarrow> (\<exists>b. x = Inr b \<and> f b = Inr y)"
  by (cases x) auto

lemma case_option_Inr: "(case x of None \<Rightarrow> z | Some a \<Rightarrow> Inl (g a)) = Inr y \<longleftrightarrow> x = None \<and> z = Inr y"
  by (cases x) auto

lemma if_Inr: "(if c then Inl a else z) = Inr y \<longleftrightarrow> \<not> c \<and> z = Inr y" "(if c then z else Inl a) = Inr y \<longleftrightarrow> c \<and> z = Inr y"
  by auto

lemma case_prod_Inr: "(case p of (a, b) \<Rightarrow> f a b) = Inr y \<longleftrightarrow> (\<exists>a b. p = (a, b) \<and> f a b = Inr y)"
  by (cases p) auto

lemmas success_iff = case_sum_Inr case_option_Inr if_Inr case_prod_Inr

section \<open>Moves\<close>

inductive move :: "world \<Rightarrow> engine \<Rightarrow> engine \<Rightarrow> bool" for w where
  File: "store_step (wd_round w) (en_files e p) st \<Longrightarrow> move w e (put_file p st e)"
| Reindex: "move w e (put_file p (rebuild_index (en_files e p)) e)"
| Registry: "reg_step (wd_hash w) (wd_kdf w) max_owned_teams (en_registry e) r \<Longrightarrow> move w e (put_registry r e)"
| Blob: "store_blob i mime data now (en_blobs e p) = Some rows \<Longrightarrow> move w e (put_blobs p rows e)"

abbreviation moves :: "world \<Rightarrow> engine \<Rightarrow> engine \<Rightarrow> bool" where
  "moves w \<equiv> (move w)\<^sup>*\<^sup>*"

lemma engine_simps [simp]:
  "en_files (put_file p st e) = (en_files e)(p := st)" "en_registry (put_file p st e) = en_registry e"
  "en_blobs (put_file p st e) = en_blobs e" "en_primary (put_file p st e) = en_primary e"
  "en_reg_path (put_file p st e) = en_reg_path e"
  "en_files (put_registry r e) = en_files e" "en_registry (put_registry r e) = r"
  "en_blobs (put_registry r e) = en_blobs e" "en_primary (put_registry r e) = en_primary e"
  "en_reg_path (put_registry r e) = en_reg_path e"
  "en_files (put_blobs p rows e) = en_files e" "en_registry (put_blobs p rows e) = en_registry e"
  "en_blobs (put_blobs p rows e) = (en_blobs e)(p := rows)" "en_primary (put_blobs p rows e) = en_primary e"
  "en_reg_path (put_blobs p rows e) = en_reg_path e"
  by (simp_all add: put_file_def put_registry_def put_blobs_def)

lemma put_file_twice [simp]: "put_file p st' (put_file p st e) = put_file p st' e"
  by (simp add: put_file_def)

lemma put_registry_twice [simp]: "put_registry r' (put_registry r e) = put_registry r' e"
  by (simp add: put_registry_def)

definition engine_ok :: "world \<Rightarrow> engine \<Rightarrow> bool" where
  "engine_ok w e \<longleftrightarrow> (\<forall>p. file_ok (wd_round w) (en_files e p)) \<and> reg_ok (en_registry e)
     \<and> (\<forall>p. tbl_wf fl_id (en_blobs e p))"

lemma rebuild_index_ok: "file_ok fl st \<Longrightarrow> file_ok fl (rebuild_index st)"
proof -
  assume ok: "file_ok fl st"
  then have m: "inv_mems st" by (simp add: file_ok_def store_inv_def)
  have "inv_fts (rebuild_index st)"
    using m by (auto simp: inv_fts_def rebuild_index_def inv_mems_def tbl_wf_def fts_of_def comp_def)
  then show ?thesis
    using ok by (simp add: file_ok_def store_inv_def inv_defs rebuild_index_def deck_ok_def inv_members_def versions_of_def)
qed

text \<open>The float nearest to the ease floor 1.3 stays below 2.5.\<close>

definition rounding_ok :: "world \<Rightarrow> bool" where
  "rounding_ok w \<longleftrightarrow> wd_round w min_ease \<le> 5 / 2"

lemma move_ok: "move w e e' \<Longrightarrow> rounding_ok w \<Longrightarrow> engine_ok w e \<Longrightarrow> engine_ok w e'"
proof (induction rule: move.induct)
  case (File e p st)
  then show ?case using step_file_ok [OF File(1)] by (simp add: engine_ok_def rounding_ok_def)
next
  case (Reindex e p)
  then show ?case using rebuild_index_ok by (auto simp: engine_ok_def)
next
  case (Registry e r)
  then show ?case using step_reg_ok by (auto simp: engine_ok_def)
next
  case (Blob i mime data now e p rows)
  then show ?case
    by (auto simp: engine_ok_def store_blob_def tbl_ins_Some_iff tbl_wf_append tbl_wf_def)
qed

lemma moves_ok: "moves w e e' \<Longrightarrow> rounding_ok w \<Longrightarrow> engine_ok w e \<Longrightarrow> engine_ok w e'"
  by (induction rule: rtranclp_induct) (auto intro: move_ok)

section \<open>Operations are moves\<close>

lemma with_tenant_Inr:
  "with_tenant w e key rw f = Inr x \<longleftrightarrow> (\<exists>v. resolve_tenant w e key rw = Inr v \<and> f v = Inr x)"
  by (auto simp: with_tenant_def split: sum.splits)

lemma resolved_store: "resolve_tenant w e key rw = Inr v \<Longrightarrow> rv_store v = en_files e (rv_path v)"
  by (rule resolve_tenant_cases(3))

lemma file_moves: "store_step (wd_round w) (en_files e p) st \<Longrightarrow> moves w e (put_file p st e)"
  by (rule r_into_rtranclp) (rule move.File)

lemma registry_moves:
  "reg_step (wd_hash w) (wd_kdf w) max_owned_teams (en_registry e) r \<Longrightarrow> moves w e (put_registry r e)"
  by (rule r_into_rtranclp) (rule move.Registry)

lemma tenant_moves:
  "resolve_tenant w e key rw = Inr v \<Longrightarrow> store_step (wd_round w) (rv_store v) st \<Longrightarrow> moves w e (commit_file v st e)"
  by (simp add: commit_file_def file_moves resolved_store)

text \<open>An id drawn by \<^verbatim>\<open>uuid.New\<close> names nothing deleted in any file.\<close>

definition fresh_id :: "engine \<Rightarrow> string \<Rightarrow> bool" where
  "fresh_id e i \<longleftrightarrow> (\<forall>p. i \<notin> tomb_ids (en_files e p))"

lemma write_memory_moves:
  assumes "fresh_id e newid" and "write_memory w e key newid inp = Inr (mem, e')"
  shows "moves w e e'"
proof -
  from assms(2) obtain v format st m where v: "resolve_tenant w e key True = Inr v"
    and ins: "insert_memory newid (tenant_now w)
          \<lparr>nm_title = wi_title inp, nm_content = wi_content inp, nm_taxonomy = wi_taxonomy inp, nm_format = format\<rparr>
          (iy_id (rv_identity v)) (wi_agent inp) (rv_store v) = Inr (m, st)"
    and e': "e' = commit_file v st e"
    by (auto simp: write_memory_def with_tenant_Inr success_iff)
  have "newid \<notin> tomb_ids (rv_store v)" using assms(1) resolved_store [OF v] by (simp add: fresh_id_def)
  from store_step.Insert [OF this ins] show ?thesis unfolding e' by (rule tenant_moves [OF v])
qed

lemma engine_update_moves: "engine_update w e key i inp = Inr (mem, e') \<Longrightarrow> moves w e e'"
  by (auto simp: engine_update_def with_tenant_Inr success_iff intro!: tenant_moves store_step.Update)

lemma restore_revision_moves: "restore_revision w e key i n = Inr (mem, e') \<Longrightarrow> moves w e e'"
  by (auto simp: restore_revision_def with_tenant_Inr success_iff intro!: tenant_moves store_step.Update)

lemma engine_delete_moves: "engine_delete w e key i force = Inr e' \<Longrightarrow> moves w e e'"
  by (auto simp: engine_delete_def with_tenant_Inr success_iff intro!: tenant_moves store_step.Delete)

lemma rebuild_fts_moves:
  assumes "rebuild_fts w e key = Inr (err, e')"
  shows "moves w e e'"
proof -
  from assms obtain v where v: "resolve_tenant w e key False = Inr v"
    and body: "(case rebuild_edges (rebuild_index (rv_store v)) of
        Inl x \<Rightarrow> Inr (Some (StoreError x), commit_file v (rebuild_index (rv_store v)) e)
      | Inr st \<Rightarrow> Inr (None, commit_file v st e)) = (Inr (err, e') :: engine_error + engine_error option \<times> engine)"
    unfolding rebuild_fts_def with_tenant_Inr by blast
  from body have cases: "e' = commit_file v (rebuild_index (rv_store v)) e
      \<or> (\<exists>st. rebuild_edges (rebuild_index (rv_store v)) = Inr st \<and> e' = commit_file v st e)"
    by (cases "rebuild_edges (rebuild_index (rv_store v))") auto
  let ?e = "put_file (rv_path v) (rebuild_index (rv_store v)) e"
  have first: "move w e ?e" unfolding resolved_store [OF v] by (rule move.Reindex)
  from cases show ?thesis
  proof
    assume "e' = commit_file v (rebuild_index (rv_store v)) e"
    then show ?thesis using first by (simp add: commit_file_def)
  next
    assume "\<exists>st. rebuild_edges (rebuild_index (rv_store v)) = Inr st \<and> e' = commit_file v st e"
    then obtain st where st: "rebuild_edges (rebuild_index (rv_store v)) = Inr st" "e' = commit_file v st e" by blast
    have "move w ?e (put_file (rv_path v) st ?e)"
      by (rule move.File) (simp add: store_step.Rebuild [OF st(1)])
    then show ?thesis using first st(2) by (simp add: commit_file_def)
  qed
qed

lemma engine_enrol_moves: "engine_enrol w e key i = Inr (s, e') \<Longrightarrow> moves w e e'"
  by (auto simp: engine_enrol_def with_tenant_Inr success_iff intro!: tenant_moves store_step.Enrol)

lemma engine_unenrol_moves: "engine_unenrol w e key i = Inr e' \<Longrightarrow> moves w e e'"
  by (auto simp: engine_unenrol_def with_tenant_Inr intro!: tenant_moves store_step.Unenrol)

lemma engine_grade_moves: "engine_grade w e key i g = Inr (s, e') \<Longrightarrow> moves w e e'"
  by (auto simp: engine_grade_def with_tenant_Inr success_iff intro!: tenant_moves store_step.Grade)

lemma engine_set_template_moves: "engine_set_template w e key bs = Inr (t, e') \<Longrightarrow> moves w e e'"
  by (auto simp: engine_set_template_def with_tenant_Inr Let_def success_iff
      intro!: tenant_moves store_step.SetTemplate)

section \<open>Outcomes\<close>

text \<open>An operation with an outcome moves when every branch of its body does.\<close>

definition moved :: "world \<Rightarrow> engine \<Rightarrow> 'a outcome \<Rightarrow> bool" where
  "moved w e out \<longleftrightarrow> moves w e (snd out)"

lemma moved_same [simp, intro]: "moved w e (x, e)"
  by (simp add: moved_def)

lemma moved_pair: "moves w e e' \<Longrightarrow> moved w e (x, e')"
  by (simp add: moved_def)

lemma moved_trans: "moves w e e1 \<Longrightarrow> moved w e1 out \<Longrightarrow> moved w e out"
  by (simp add: moved_def)

lemma moved_acting:
  "(\<And>v caller. resolve_tenant w e key False = Inr v \<Longrightarrow> moved w e (f v caller)) \<Longrightarrow> moved w e (acting w e key f)"
  by (auto simp: acting_def split: sum.split)

lemma moved_registry:
  assumes "\<And>x r. f (en_registry e) = Inr (x, r) \<Longrightarrow>
      (reg_step (wd_hash w) (wd_kdf w) max_owned_teams)\<^sup>*\<^sup>* (en_registry e) r"
  shows "moved w e (on_registry e f wrap)"
proof -
  have "moves w e (put_registry r e)"
    if "(reg_step (wd_hash w) (wd_kdf w) max_owned_teams)\<^sup>*\<^sup>* (en_registry e) r" for r
    using that
  proof (induction rule: rtranclp_induct)
    case base
    then show ?case by (simp add: put_registry_def)
  next
    case (step r1 r2)
    have "move w (put_registry r1 e) (put_registry r2 (put_registry r1 e))"
      by (rule move.Registry) (simp add: step.hyps(2))
    then show ?case using step.IH by simp
  qed
  then show ?thesis using assms by (auto simp: on_registry_def moved_def split: option.split sum.split)
qed

lemma registry_moved: "reg_step (wd_hash w) (wd_kdf w) max_owned_teams (en_registry e) r \<Longrightarrow> moved w e (x, put_registry r e)"
  by (rule moved_pair) (rule registry_moves)

lemma index_in_team_moves: "moves w e (snd (index_in_team w t i e))"
  by (auto simp: index_in_team_def split: sum.split intro!: registry_moves reg_step.IndexMember)

lemma unindex_in_team_moves: "moves w e (unindex_in_team t i e)"
  by (auto simp: unindex_in_team_def intro!: registry_moves reg_step.UnindexMember)

lemma set_member_moved: "moved w e (set_member w e key target role rd ti)"
proof -
  have "moved w e (case index_in_team w (rv_team v) target (commit_file v st e) of
      (Some err, e') \<Rightarrow> (Inl err, e') | (None, e') \<Rightarrow> (Inr (member_at st target), e'))"
    if v: "resolve_tenant w e key False = Inr v"
      and st: "put_member target role rd ti (iy_id (rv_identity v)) (tenant_now w) (rv_store v) = Inr st" for v st
  proof -
    have "moves w e (commit_file v st e)" by (rule tenant_moves [OF v]) (rule store_step.PutMember [OF st])
    moreover have "moves w (commit_file v st e) (snd (index_in_team w (rv_team v) target (commit_file v st e)))"
      by (rule index_in_team_moves)
    ultimately show ?thesis by (auto simp: moved_def split: prod.splits option.splits)
  qed
  then show ?thesis
    unfolding set_member_def by (intro moved_acting) (auto split: option.split sum.split)
qed

lemma remove_member_moved: "moved w e (remove_member w e key target)"
proof -
  have "moved w e (x, unindex_in_team t target (commit_file v st e))"
    if v: "resolve_tenant w e key False = Inr v" and st: "remove_member_row target (rv_store v) = Inr st" for v st t x
  proof -
    have "moves w e (commit_file v st e)" by (rule tenant_moves [OF v]) (rule store_step.RemoveMember [OF st])
    then show ?thesis using unindex_in_team_moves [of w "commit_file v st e" t target] by (auto simp: moved_def)
  qed
  then show ?thesis
    unfolding remove_member_def by (intro moved_acting) (auto split: option.split sum.split)
qed

lemma invite_member_moved: "moved w e (invite_member w e key token email role rd ti)"
proof -
  have step: "moved w e (x, put_registry r e)"
    if "store_invite (wd_hash w) token t em role rd ti b invite_ttl (wd_now w) (en_registry e) = (res, r)" for x t em b res r
    by (rule registry_moved) (rule reg_step.StoreInvite [OF that])
  then show ?thesis
    by (auto simp: invite_member_def Let_def split: sum.split option.split prod.split)
qed

text \<open>Putting a member into a file and indexing it, as \<^verbatim>\<open>AcceptInvite\<close> and \<^verbatim>\<open>CreateTeam\<close> do.\<close>

lemma enter_team_moves:
  assumes "put_member i role rd ti b (tenant_now w) (en_files e p) = Inr st"
    and "index_team_member t j (wd_now w) (en_registry e) = Inr r"
  shows "moves w e (put_registry r (put_file p st e))"
proof -
  have "moves w e (put_file p st e)" by (rule file_moves) (rule store_step.PutMember [OF assms(1)])
  moreover have "moves w (put_file p st e) (put_registry r (put_file p st e))"
    by (rule registry_moves) (simp add: reg_step.IndexMember [OF assms(2)])
  ultimately show ?thesis by simp
qed

lemma seed_owner_moved: "moved w e (seed_owner w t p i e)"
  by (auto simp: seed_owner_def Let_def moved_def split: sum.split
      intro: file_moves store_step.PutMember enter_team_moves)

lemma engine_create_team_moved: "moved w e (engine_create_team w e key newid name path)"
proof -
  have "moved w e (seed_owner w t path i (put_registry r e))"
    if "create_team newid name path i max_owned_teams (wd_now w) (en_registry e) = Inr (t, r)" for i t r
    using registry_moves [OF reg_step.CreateTeam [OF that]] seed_owner_moved by (rule moved_trans)
  then show ?thesis by (auto simp: engine_create_team_def split: sum.split option.split)
qed

lemma accept_invite_moved: "moved w e (accept_invite w e key token)"
proof -
  have fail: "moved w e (x, put_file p st e)"
    if "put_member i role rd ti b (tenant_now w) (en_files e p) = Inr st" for x :: "engine_error + member option" and i role rd ti b p st
    by (rule moved_pair) (rule file_moves, rule store_step.PutMember [OF that])
  have full: "moved w e (x, put_registry (delete_invite (wd_hash w) token r) (put_file p st e))"
    if "put_member i role rd ti b (tenant_now w) (en_files e p) = Inr st"
      and "index_team_member t j (wd_now w) (en_registry e) = Inr r"
    for x :: "engine_error + member option" and i role rd ti b p st t j r
  proof -
    let ?e1 = "put_registry r (put_file p st e)"
    have "moves w ?e1 (put_registry (delete_invite (wd_hash w) token r) ?e1)"
      by (rule registry_moves) (simp add: reg_step.DeleteInvite)
    then show ?thesis using enter_team_moves [OF that] by (simp add: moved_def)
  qed
  show ?thesis
    by (auto simp: accept_invite_def Let_def split: sum.split option.split intro: fail full)
qed

lemma engine_rename_team_moved: "moved w e (engine_rename_team w e key name)"
  by (auto simp: engine_rename_team_def split: sum.split option.split intro!: registry_moved reg_step.RenameTeam)

lemma delete_in_registry_moved: "moved w e (delete_in_registry w t e wrap)"
  by (auto simp: delete_in_registry_def split: sum.split option.split intro!: registry_moved reg_step.DeleteTeam)

lemma engine_delete_team_moved: "moved w e (engine_delete_team w e key)"
  using delete_in_registry_moved by (auto simp: engine_delete_team_def split: sum.split)

lemma engine_set_team_plan_moved: "moved w e (engine_set_team_plan e t plan seats)"
  by (auto simp: engine_set_team_plan_def split: sum.split intro!: registry_moved reg_step.TeamPlan)

end
