(* ===== verification/Engine_Reachable.thy ===== *)
theory Engine_Reachable
  imports Engine_Machine
begin

text \<open>
  The calls on accounts, OAuth state, sessions and files as moves, the step relation of the whole
  engine, and the invariant of every reachable engine.
\<close>

section \<open>Accounts and OAuth\<close>

lemmas one_reg_step = r_into_rtranclp [where r = "reg_step hash kdf cap" for hash kdf cap]

lemma no_value_Inr: "no_value res = Inr (x, r) \<longleftrightarrow> res = Inr r"
  by (cases res) auto

lemma engine_create_user_moved: "moved w e (engine_create_user w e i raw salt name email pw path aw adm)"
proof -
  let ?o = "on_registry e (create_user (wd_hash w) (wd_kdf w) i raw salt name email pw path aw adm True (wd_now w)) SignupFailed"
  have "moved w e ?o" by (rule moved_registry) (rule one_reg_step, rule reg_step.CreateUser)
  then show ?thesis by (auto simp: engine_create_user_def moved_def split: prod.split sum.split)
qed

lemma set_user_password_moved: "moved w e (set_user_password w e salt i pw)"
  unfolding set_user_password_def
  by (rule moved_registry) (auto simp: no_value_Inr intro!: one_reg_step reg_step.SetPassword)

lemma update_user_flags_moved: "moved w e (update_user_flags e i aw adm)"
  unfolding update_user_flags_def
  by (rule moved_registry) (auto simp: no_value_Inr intro!: one_reg_step reg_step.Flags)

lemma promote_to_admin_moved: "moved w e (promote_to_admin w e salt key email pw)"
  unfolding promote_to_admin_def
  by (rule moved_registry) (auto simp: success_iff intro!: one_reg_step intro: reg_step.Credentials)

lemma create_unconfirmed_moved: "moved w e (create_unconfirmed w e i raw salt token name email pw path aw)"
proof -
  have "moved w e (x, put_registry r2 e)"
    if "create_user (wd_hash w) (wd_kdf w) i raw salt name em pw path aw False False (wd_now w) (en_registry e) = Inr (idn, r1)"
      and "set_confirm_token token (iy_id idn) (hours 24) (wd_now w) r1 = (t, r2)"
    for x :: "engine_error + identity \<times> string" and em idn r1 r2 t
  proof -
    have "moves w e (put_registry r1 e)" by (rule registry_moves) (rule reg_step.CreateUser [OF that(1)])
    moreover have "moves w (put_registry r1 e) (put_registry r2 (put_registry r1 e))"
      by (rule registry_moves) (simp add: reg_step.ConfirmToken [OF that(2)])
    ultimately show ?thesis by (simp add: moved_def)
  qed
  then show ?thesis by (auto simp: create_unconfirmed_def Let_def split: option.split sum.split prod.split)
qed

lemma confirm_email_moved: "moved w e (confirm_email w e token)"
  unfolding confirm_email_def by (rule moved_registry) (rule one_reg_step, rule reg_step.Confirm)

lemma forgot_password_moved: "moved w e (forgot_password w e token email)"
  unfolding forgot_password_def
  by (rule moved_registry)
     (auto simp: Let_def split: option.splits prod.splits intro!: one_reg_step intro: reg_step.ResetToken)

lemma reset_password_moved: "moved w e (reset_password w e salt token pw)"
proof -
  have "moved w e (on_registry e (reset_password_by_token (wd_kdf w) salt token pw (wd_now w)) ResetFailed)"
    by (rule moved_registry) (rule one_reg_step, rule reg_step.Reset)
  then show ?thesis by (auto simp: reset_password_def split: option.split)
qed

lemma engine_create_identity_moved: "moved w e (engine_create_identity w e i name raw path aw)"
  unfolding engine_create_identity_def by (rule moved_registry) (rule one_reg_step, rule reg_step.CreateIdentity)

lemma engine_set_memory_path_moved: "moved w e (engine_set_memory_path e i path)"
  unfolding engine_set_memory_path_def
  by (rule moved_registry) (auto simp: no_value_Inr intro!: one_reg_step reg_step.SetPath)

lemma engine_delete_identity_moved: "moved w e (engine_delete_identity e i)"
  unfolding engine_delete_identity_def
  by (rule moved_registry) (auto simp: no_value_Inr intro!: one_reg_step reg_step.DeleteIdentity)

lemma engine_mint_grant_moved: "moved w e (engine_mint_grant w e g i raw base client)"
  by (auto simp: engine_mint_grant_def Let_def split: option.split sum.split
      intro!: registry_moved reg_step.MintLegacy)

lemma mint_grant_by_id_moved: "moved w e (mint_grant_by_id w e g raw i client t)"
  unfolding mint_grant_by_id_def
  by (auto split: option.split sum.split intro!: registry_moved reg_step.MintDelegated)

lemma engine_revoke_grant_moved: "moved w e (engine_revoke_grant w e g)"
  unfolding engine_revoke_grant_def
  by (rule moved_registry) (auto simp: no_value_Inr intro!: one_reg_step reg_step.Revoke)

lemma engine_store_code_moved: "moved w e (engine_store_code w e code entry)"
  by (auto simp: engine_store_code_def split: option.split prod.split intro!: registry_moved intro: reg_step.StoreCode)

lemma engine_take_code_moved: "moved w e (engine_take_code w e code)"
  unfolding engine_take_code_def
  by (rule moved_registry) (auto intro!: one_reg_step intro: reg_step.TakeCode)

lemma engine_store_ticket_moved: "moved w e (engine_store_ticket w e ticket entry)"
  by (auto simp: engine_store_ticket_def split: option.split prod.split intro!: registry_moved intro: reg_step.StoreTicket)

lemma engine_take_ticket_moved: "moved w e (engine_take_ticket w e ticket)"
  unfolding engine_take_ticket_def
  by (rule moved_registry) (auto intro!: one_reg_step intro: reg_step.TakeTicket)

lemma engine_put_client_moved: "moved w e (engine_put_client w e client uris)"
  unfolding engine_put_client_def
  by (rule moved_registry) (auto simp: no_value_Inr intro!: one_reg_step reg_step.PutClient)

lemma create_session_moves: "moves w e (create_session w e raw i ttl)"
  unfolding create_session_def by (rule registry_moves) (rule reg_step.StoreSession)

lemma engine_delete_session_moves: "moves w e (engine_delete_session w e raw)"
  unfolding engine_delete_session_def by (rule registry_moves) (rule reg_step.DeleteSession)

lemma upload_file_moved: "moved w e (upload_file w e key newid mime data)"
  by (auto simp: upload_file_def split: option.split sum.split
      intro!: moved_pair r_into_rtranclp [where r = "move w"] intro: move.Blob)

section \<open>Steps of the engine\<close>

inductive engine_step :: "world \<Rightarrow> engine \<Rightarrow> engine \<Rightarrow> bool" for w where
  WriteMemory: "fresh_id e i \<Longrightarrow> write_memory w e key i inp = Inr (mem, e') \<Longrightarrow> engine_step w e e'"
| UpdateMemory: "engine_update w e key i u = Inr (mem, e') \<Longrightarrow> engine_step w e e'"
| RestoreRevision: "restore_revision w e key i n = Inr (mem, e') \<Longrightarrow> engine_step w e e'"
| DeleteMemory: "engine_delete w e key i force = Inr e' \<Longrightarrow> engine_step w e e'"
| RebuildFTS: "rebuild_fts w e key = Inr (err, e') \<Longrightarrow> engine_step w e e'"
| AddToReview: "engine_enrol w e key i = Inr (s, e') \<Longrightarrow> engine_step w e e'"
| RemoveFromReview: "engine_unenrol w e key i = Inr e' \<Longrightarrow> engine_step w e e'"
| GradeReview: "engine_grade w e key i g = Inr (s, e') \<Longrightarrow> engine_step w e e'"
| SetTemplate: "engine_set_template w e key bs = Inr (t, e') \<Longrightarrow> engine_step w e e'"
| SetMember: "engine_step w e (snd (set_member w e key target role rd ti))"
| RemoveMember: "engine_step w e (snd (remove_member w e key target))"
| InviteMember: "engine_step w e (snd (invite_member w e key token email role rd ti))"
| AcceptInvite: "engine_step w e (snd (accept_invite w e key token))"
| CreateTeam: "engine_step w e (snd (engine_create_team w e key newid name path))"
| RenameTeam: "engine_step w e (snd (engine_rename_team w e key name))"
| DeleteTeam: "engine_step w e (snd (engine_delete_team w e key))"
| AdminDeleteTeam: "engine_step w e (snd (admin_delete_team w e t))"
| SetTeamPlan: "engine_step w e (snd (engine_set_team_plan e t plan seats))"
| CreateUser: "engine_step w e (snd (engine_create_user w e i raw salt name email pw path aw adm))"
| SetUserPassword: "engine_step w e (snd (set_user_password w e salt i pw))"
| UpdateUserFlags: "engine_step w e (snd (update_user_flags e i aw adm))"
| PromoteToAdmin: "engine_step w e (snd (promote_to_admin w e salt key email pw))"
| CreateUnconfirmed: "engine_step w e (snd (create_unconfirmed w e i raw salt token name email pw path aw))"
| ConfirmEmail: "engine_step w e (snd (confirm_email w e token))"
| ForgotPassword: "engine_step w e (snd (forgot_password w e token email))"
| ResetPassword: "engine_step w e (snd (reset_password w e salt token pw))"
| CreateIdentity: "engine_step w e (snd (engine_create_identity w e i name raw path aw))"
| SetMemoryPath: "engine_step w e (snd (engine_set_memory_path e i path))"
| DeleteIdentity: "engine_step w e (snd (engine_delete_identity e i))"
| MintGrant: "engine_step w e (snd (engine_mint_grant w e g i raw base client))"
| MintGrantByID: "engine_step w e (snd (mint_grant_by_id w e g raw i client t))"
| RevokeGrant: "engine_step w e (snd (engine_revoke_grant w e g))"
| StoreCode: "engine_step w e (snd (engine_store_code w e code ce))"
| TakeCode: "engine_step w e (snd (engine_take_code w e code))"
| StoreTicket: "engine_step w e (snd (engine_store_ticket w e ticket co))"
| TakeTicket: "engine_step w e (snd (engine_take_ticket w e ticket))"
| PutClient: "engine_step w e (snd (engine_put_client w e client uris))"
| CreateSession: "engine_step w e (create_session w e raw i ttl)"
| DeleteSession: "engine_step w e (engine_delete_session w e raw)"
| PutFile: "engine_step w e (snd (upload_file w e key newid mime data))"

lemma moved_moves: "moved w e out \<Longrightarrow> moves w e (snd out)"
  by (simp add: moved_def)

lemma step_moves: "engine_step w e e' \<Longrightarrow> moves w e e'"
proof (induction rule: engine_step.induct)
  case (AdminDeleteTeam e t)
  then show ?case unfolding admin_delete_team_def by (rule moved_moves [OF delete_in_registry_moved])
qed (blast intro: write_memory_moves engine_update_moves restore_revision_moves engine_delete_moves
    rebuild_fts_moves engine_enrol_moves engine_unenrol_moves engine_grade_moves engine_set_template_moves
    create_session_moves engine_delete_session_moves
    moved_moves [OF set_member_moved] moved_moves [OF remove_member_moved] moved_moves [OF invite_member_moved]
    moved_moves [OF accept_invite_moved] moved_moves [OF engine_create_team_moved]
    moved_moves [OF engine_rename_team_moved] moved_moves [OF engine_delete_team_moved]
    moved_moves [OF engine_set_team_plan_moved] moved_moves [OF engine_create_user_moved]
    moved_moves [OF set_user_password_moved] moved_moves [OF update_user_flags_moved]
    moved_moves [OF promote_to_admin_moved] moved_moves [OF create_unconfirmed_moved]
    moved_moves [OF confirm_email_moved] moved_moves [OF forgot_password_moved] moved_moves [OF reset_password_moved]
    moved_moves [OF engine_create_identity_moved] moved_moves [OF engine_set_memory_path_moved]
    moved_moves [OF engine_delete_identity_moved] moved_moves [OF engine_mint_grant_moved]
    moved_moves [OF mint_grant_by_id_moved] moved_moves [OF engine_revoke_grant_moved]
    moved_moves [OF engine_store_code_moved] moved_moves [OF engine_take_code_moved]
    moved_moves [OF engine_store_ticket_moved] moved_moves [OF engine_take_ticket_moved]
    moved_moves [OF engine_put_client_moved] moved_moves [OF upload_file_moved])+

text \<open>The clock and the disk may change from one call to the next, the algorithms do not.\<close>

definition same_algorithms :: "world \<Rightarrow> world \<Rightarrow> bool" where
  "same_algorithms w w' \<longleftrightarrow> wd_round w' = wd_round w \<and> wd_hash w' = wd_hash w \<and> wd_kdf w' = wd_kdf w \<and> wd_mac w' = wd_mac w"

inductive served :: "world \<Rightarrow> engine \<Rightarrow> engine \<Rightarrow> bool" for w where
  Start: "served w e e"
| Call: "served w e e1 \<Longrightarrow> same_algorithms w w' \<Longrightarrow> engine_step w' e1 e2 \<Longrightarrow> served w e e2"

definition fresh_engine :: "int \<Rightarrow> (string \<Rightarrow> repl_error option) \<Rightarrow> string \<Rightarrow> engine" where
  "fresh_engine budget prim reg_path =
     \<lparr>en_registry = empty_registry, en_files = (\<lambda>_. empty_store), en_blobs = (\<lambda>_. []), en_budget = budget,
      en_primary = prim, en_reg_path = reg_path\<rparr>"

lemma same_engine_ok: "same_algorithms w w' \<Longrightarrow> engine_ok w' e = engine_ok w e"
  by (simp add: same_algorithms_def engine_ok_def)

lemma same_rounding_ok: "same_algorithms w w' \<Longrightarrow> rounding_ok w' = rounding_ok w"
  by (simp add: same_algorithms_def rounding_ok_def)

lemma fresh_engine_ok: "engine_ok w (fresh_engine budget prim reg_path)"
  by (simp add: engine_ok_def fresh_engine_def file_ok_empty reg_ok_empty)

lemma served_ok: "served w e e' \<Longrightarrow> rounding_ok w \<Longrightarrow> engine_ok w e \<Longrightarrow> engine_ok w e'"
proof (induction rule: served.induct)
  case (Call e e1 w' e2)
  then have "engine_ok w' e1" "rounding_ok w'" by (simp_all add: same_engine_ok same_rounding_ok)
  then have "engine_ok w' e2" using moves_ok [OF step_moves [OF Call.hyps(3)]] by blast
  then show ?case using Call.hyps(2) by (simp add: same_engine_ok)
qed

end
