(* ===== verification/Engine_Examples.thy ===== *)
theory Engine_Examples
  imports Engine_Reachable Registry_Properties
begin

text \<open>
  One concrete engine for the witnesses: a team with an owner, an editor of the branch \<open>work\<close> and a
  viewer, each with an API key pinned to the team, and three memories, one of which was moved from
  the branch \<open>home\<close> to \<open>work\<close>. It is reached by committed operations only.
\<close>

definition eg_world :: world where
  "eg_world = \<lparr>wd_now = 1000 * nanos, wd_hash = id, wd_mac = (\<lambda>s. take 2 s), wd_opens = (\<lambda>_. True),
     wd_size = (\<lambda>_. Some 4096), wd_wide = (\<lambda>_. False), wd_rank = (\<lambda>_ _ _. None), wd_round = (\<lambda>x. x), wd_kdf = plain_kdf\<rparr>"

lemma eg_rounding: "rounding_ok eg_world"
  by (simp add: rounding_ok_def eg_world_def min_ease_def)

section \<open>The registry\<close>

definition eg_r1 :: registry where
  "eg_r1 = snd (projr (create_identity id ''u'' ''Ann'' ''k1'' ''a.rekam'' True 1 empty_registry))"
definition eg_r2 :: registry where
  "eg_r2 = snd (projr (create_identity id ''e'' ''Ed'' ''k2'' ''e.rekam'' True 1 eg_r1))"
definition eg_r3 :: registry where
  "eg_r3 = snd (projr (create_identity id ''v'' ''Vi'' ''k3'' ''v.rekam'' True 1 eg_r2))"
definition eg_r4 :: registry where
  "eg_r4 = snd (projr (create_team ''t'' ''Team'' ''t.rekam'' ''u'' 2 1 eg_r3))"

lemma eg_r4_value [code]:
  "eg_r4 =
   \<lparr>rg_idents =
    [\<lparr>ir_id = ''u'', ir_name = ''Ann'', ir_email = None, ir_key = ''k1'', ir_path = ''a.rekam'',
        ir_write = True, ir_admin = False, ir_pw = None, ir_confirmed = False, ir_ctoken = None,
        ir_cexp = None, ir_rtoken = None, ir_rexp = None, ir_created = 0\<rparr>,
     \<lparr>ir_id = ''e'', ir_name = ''Ed'', ir_email = None, ir_key = ''k2'', ir_path = ''e.rekam'',
        ir_write = True, ir_admin = False, ir_pw = None, ir_confirmed = False, ir_ctoken = None,
        ir_cexp = None, ir_rtoken = None, ir_rexp = None, ir_created = 0\<rparr>,
     \<lparr>ir_id = ''v'', ir_name = ''Vi'', ir_email = None, ir_key = ''k3'', ir_path = ''v.rekam'',
        ir_write = True, ir_admin = False, ir_pw = None, ir_confirmed = False, ir_ctoken = None,
        ir_cexp = None, ir_rtoken = None, ir_rexp = None, ir_created = 0\<rparr>],
    rg_grants = [],
    rg_teams =
      [\<lparr>tw_id = ''t'', tw_name = ''Team'', tw_path = ''t.rekam'', tw_creator = Some ''u'', tw_created = 0,
          tw_deleted = None, tw_plan = ''free'', tw_seats = 1\<rparr>],
    rg_index = [], rg_codes = [], rg_consents = [], rg_sessions = [], rg_invites = [], rg_clients = [],
    rg_ents = []\<rparr>"
  by code_simp

definition eg_r5 :: registry where
  "eg_r5 = projr (set_team_plan ''t'' ''team'' 4 eg_r4)"
definition eg_r6 :: registry where
  "eg_r6 = snd (projr (mint_delegated_grant id ''g1'' ''ku'' ''cli'' ''u'' ''t'' 1 eg_r5))"
definition eg_r7 :: registry where
  "eg_r7 = snd (projr (mint_delegated_grant id ''g2'' ''ke'' ''cli'' ''e'' ''t'' 1 eg_r6))"
definition eg_reg :: registry where
  "eg_reg = snd (projr (mint_delegated_grant id ''g3'' ''kv'' ''cli'' ''v'' ''t'' 1 eg_r7))"

lemma eg_reg_value [code]:
  "eg_reg =
   \<lparr>rg_idents =
    [\<lparr>ir_id = ''u'', ir_name = ''Ann'', ir_email = None, ir_key = ''k1'', ir_path = ''a.rekam'',
        ir_write = True, ir_admin = False, ir_pw = None, ir_confirmed = False, ir_ctoken = None,
        ir_cexp = None, ir_rtoken = None, ir_rexp = None, ir_created = 0\<rparr>,
     \<lparr>ir_id = ''e'', ir_name = ''Ed'', ir_email = None, ir_key = ''k2'', ir_path = ''e.rekam'',
        ir_write = True, ir_admin = False, ir_pw = None, ir_confirmed = False, ir_ctoken = None,
        ir_cexp = None, ir_rtoken = None, ir_rexp = None, ir_created = 0\<rparr>,
     \<lparr>ir_id = ''v'', ir_name = ''Vi'', ir_email = None, ir_key = ''k3'', ir_path = ''v.rekam'',
        ir_write = True, ir_admin = False, ir_pw = None, ir_confirmed = False, ir_ctoken = None,
        ir_cexp = None, ir_rtoken = None, ir_rexp = None, ir_created = 0\<rparr>],
    rg_grants =
      [\<lparr>gr_id = ''g1'', gr_client = ''cli'', gr_identity = ''u'', gr_created = 0, gr_revoked = None,
          gr_key = Some ''ku'', gr_team = Some ''t''\<rparr>,
       \<lparr>gr_id = ''g2'', gr_client = ''cli'', gr_identity = ''e'', gr_created = 0, gr_revoked = None,
          gr_key = Some ''ke'', gr_team = Some ''t''\<rparr>,
       \<lparr>gr_id = ''g3'', gr_client = ''cli'', gr_identity = ''v'', gr_created = 0, gr_revoked = None,
          gr_key = Some ''kv'', gr_team = Some ''t''\<rparr>],
    rg_teams =
      [\<lparr>tw_id = ''t'', tw_name = ''Team'', tw_path = ''t.rekam'', tw_creator = Some ''u'', tw_created = 0,
          tw_deleted = None, tw_plan = ''team'', tw_seats = 4\<rparr>],
    rg_index = [], rg_codes = [], rg_consents = [], rg_sessions = [], rg_invites = [], rg_clients = [],
    rg_ents = []\<rparr>"
  by code_simp


lemma Inr_projr: "\<not> isl x \<Longrightarrow> x = Inr (projr x)"
  by (cases x) auto

lemma Inr_pair: "\<not> isl x \<Longrightarrow> x = Inr (fst (projr x), snd (projr x))"
  by (cases x) auto

abbreviation eg_step :: "registry \<Rightarrow> registry \<Rightarrow> bool" where
  "eg_step \<equiv> reg_step id plain_kdf max_owned_teams"

lemma eg_ident:
  "\<not> isl (create_identity id i n k p aw now r) \<Longrightarrow> eg_step r (snd (projr (create_identity id i n k p aw now r)))"
  by (rule reg_step.CreateIdentity [OF Inr_pair])

lemma eg_mint:
  "\<not> isl (mint_delegated_grant id g k c i t now r) \<Longrightarrow> eg_step r (snd (projr (mint_delegated_grant id g k c i t now r)))"
  by (rule reg_step.MintDelegated [OF Inr_pair])

lemma eg_team:
  "\<not> isl (create_team t n p c max_owned_teams now r) \<Longrightarrow> eg_step r (snd (projr (create_team t n p c max_owned_teams now r)))"
  by (rule reg_step.CreateTeam [OF Inr_pair])

lemma eg_plan:
  "\<not> isl (set_team_plan t p s r) \<Longrightarrow> eg_step r (projr (set_team_plan t p s r))"
  by (rule reg_step.TeamPlan [OF Inr_projr])

lemma eg_reg_ok: "reg_ok eg_reg"
proof -
  note ok = reg_ok_empty
  have "\<not> isl (create_identity id ''u'' ''Ann'' ''k1'' ''a.rekam'' True 1 empty_registry)" by code_simp
  note ok = step_reg_ok [OF eg_ident [OF this] ok, folded eg_r1_def]
  have "\<not> isl (create_identity id ''e'' ''Ed'' ''k2'' ''e.rekam'' True 1 eg_r1)" by code_simp
  note ok = step_reg_ok [OF eg_ident [OF this] ok, folded eg_r2_def]
  have "\<not> isl (create_identity id ''v'' ''Vi'' ''k3'' ''v.rekam'' True 1 eg_r2)" by code_simp
  note ok = step_reg_ok [OF eg_ident [OF this] ok, folded eg_r3_def]
  have "\<not> isl (create_team ''t'' ''Team'' ''t.rekam'' ''u'' max_owned_teams 1 eg_r3)" by code_simp
  note ok = step_reg_ok [OF eg_team [OF this] ok, unfolded max_owned_teams_def, folded eg_r4_def]
  have "\<not> isl (set_team_plan ''t'' ''team'' 4 eg_r4)" by code_simp
  note ok = step_reg_ok [OF eg_plan [OF this] ok, folded eg_r5_def]
  have "\<not> isl (mint_delegated_grant id ''g1'' ''ku'' ''cli'' ''u'' ''t'' 1 eg_r5)" by code_simp
  note ok = step_reg_ok [OF eg_mint [OF this] ok, folded eg_r6_def]
  have "\<not> isl (mint_delegated_grant id ''g2'' ''ke'' ''cli'' ''e'' ''t'' 1 eg_r6)" by code_simp
  note ok = step_reg_ok [OF eg_mint [OF this] ok, folded eg_r7_def]
  have "\<not> isl (mint_delegated_grant id ''g3'' ''kv'' ''cli'' ''v'' ''t'' 1 eg_r7)" by code_simp
  from step_reg_ok [OF eg_mint [OF this] ok] show ?thesis unfolding eg_reg_def .
qed

section \<open>The file of the team\<close>

definition eg_nm :: "string \<Rightarrow> string \<Rightarrow> string \<Rightarrow> new_memory" where
  "eg_nm title content tax = \<lparr>nm_title = title, nm_content = content, nm_taxonomy = tax, nm_format = ''markdown''\<rparr>"

definition eg_move :: updates where
  "eg_move = \<lparr>up_title = None, up_content = None, up_taxonomy = Some ''work.y'', up_format = None\<rparr>"

definition eg_f1 :: store where "eg_f1 = projr (put_member ''u'' RoleOwner [] [] ''u'' 1 empty_store)"
definition eg_f2 :: store where "eg_f2 = projr (put_member ''e'' RoleEditor [''work''] [] ''u'' 2 eg_f1)"
definition eg_f3 :: store where "eg_f3 = projr (put_member ''v'' RoleViewer [''work''] [] ''u'' 3 eg_f2)"

lemma eg_f3_value [code]:
  "eg_f3 =
   \<lparr>st_mems = [], st_fts = [], st_edges = [], st_srs = [], st_revs = [], st_tombs = [], st_template = [],
    st_members =
      [\<lparr>mb_id = ''u'', mb_role = RoleOwner, mb_added_at = 1, mb_added_by = Some ''u''\<rparr>,
       \<lparr>mb_id = ''e'', mb_role = RoleEditor, mb_added_at = 2, mb_added_by = Some ''u''\<rparr>,
       \<lparr>mb_id = ''v'', mb_role = RoleViewer, mb_added_at = 3, mb_added_by = Some ''u''\<rparr>],
    st_grants =
      [\<lparr>g_identity = ''e'', g_kind = ''read'', g_prefix = ''work''\<rparr>,
       \<lparr>g_identity = ''v'', g_kind = ''read'', g_prefix = ''work''\<rparr>]\<rparr>"
  by code_simp

definition eg_f4 :: store where "eg_f4 = snd (projr (insert_memory ''m1'' 4 (eg_nm ''Plan'' ''see [[Pay]]'' ''work.x'') ''u'' [] eg_f3))"
definition eg_f5 :: store where "eg_f5 = snd (projr (insert_memory ''m2'' 5 (eg_nm ''Pay'' '''' ''home'') ''u'' [] eg_f4))"

lemma eg_f5_value [code]:
  "eg_f5 =
   \<lparr>st_mems =
    [\<lparr>m_rowid = 1, m_id = ''m1'', m_title = ''Plan'', m_content = Some ''see [[Pay]]'',
        m_taxonomy = Some ''work.x'', m_format = ''markdown'', m_created = 4, m_updated = 4, m_version = 1\<rparr>,
     \<lparr>m_rowid = 2, m_id = ''m2'', m_title = ''Pay'', m_content = None, m_taxonomy = Some ''home'',
        m_format = ''markdown'', m_created = 5, m_updated = 5, m_version = 1\<rparr>],
    st_fts =
      [\<lparr>f_rowid = 1, f_title = ''Plan'', f_content = Some ''see [[Pay]]''\<rparr>,
       \<lparr>f_rowid = 2, f_title = ''Pay'', f_content = None\<rparr>],
    st_edges = [\<lparr>e_src = ''m1'', e_dst = Some ''m2'', e_raw = ''pay'', e_rel = ''relates''\<rparr>], st_srs = [],
    st_revs =
      [\<lparr>r_id = ''m1'', r_version = 1, r_title = ''Plan'', r_content = Some ''see [[Pay]]'',
          r_taxonomy = Some ''work.x'', r_format = ''markdown'', r_author = Some ''u'', r_agent = None,
          r_created = 4\<rparr>,
       \<lparr>r_id = ''m2'', r_version = 1, r_title = ''Pay'', r_content = None, r_taxonomy = Some ''home'',
          r_format = ''markdown'', r_author = Some ''u'', r_agent = None, r_created = 5\<rparr>],
    st_tombs = [], st_template = [],
    st_members =
      [\<lparr>mb_id = ''u'', mb_role = RoleOwner, mb_added_at = 1, mb_added_by = Some ''u''\<rparr>,
       \<lparr>mb_id = ''e'', mb_role = RoleEditor, mb_added_at = 2, mb_added_by = Some ''u''\<rparr>,
       \<lparr>mb_id = ''v'', mb_role = RoleViewer, mb_added_at = 3, mb_added_by = Some ''u''\<rparr>],
    st_grants =
      [\<lparr>g_identity = ''e'', g_kind = ''read'', g_prefix = ''work''\<rparr>,
       \<lparr>g_identity = ''v'', g_kind = ''read'', g_prefix = ''work''\<rparr>]\<rparr>"
  by code_simp

definition eg_f6 :: store where "eg_f6 = snd (projr (insert_memory ''m3'' 6 (eg_nm ''Note'' '''' ''home'') ''u'' [] eg_f5))"
definition eg_file :: store where "eg_file = snd (projr (update_memory ''m3'' eg_move ''u'' [] None 7 eg_f6))"

lemma eg_file_value [code]:
  "eg_file =
   \<lparr>st_mems =
    [\<lparr>m_rowid = 1, m_id = ''m1'', m_title = ''Plan'', m_content = Some ''see [[Pay]]'',
        m_taxonomy = Some ''work.x'', m_format = ''markdown'', m_created = 4, m_updated = 4, m_version = 1\<rparr>,
     \<lparr>m_rowid = 2, m_id = ''m2'', m_title = ''Pay'', m_content = None, m_taxonomy = Some ''home'',
        m_format = ''markdown'', m_created = 5, m_updated = 5, m_version = 1\<rparr>,
     \<lparr>m_rowid = 3, m_id = ''m3'', m_title = ''Note'', m_content = None, m_taxonomy = Some ''work.y'',
        m_format = ''markdown'', m_created = 6, m_updated = 7, m_version = 2\<rparr>],
    st_fts =
      [\<lparr>f_rowid = 1, f_title = ''Plan'', f_content = Some ''see [[Pay]]''\<rparr>,
       \<lparr>f_rowid = 2, f_title = ''Pay'', f_content = None\<rparr>,
       \<lparr>f_rowid = 3, f_title = ''Note'', f_content = None\<rparr>],
    st_edges = [\<lparr>e_src = ''m1'', e_dst = Some ''m2'', e_raw = ''pay'', e_rel = ''relates''\<rparr>], st_srs = [],
    st_revs =
      [\<lparr>r_id = ''m1'', r_version = 1, r_title = ''Plan'', r_content = Some ''see [[Pay]]'',
          r_taxonomy = Some ''work.x'', r_format = ''markdown'', r_author = Some ''u'', r_agent = None,
          r_created = 4\<rparr>,
       \<lparr>r_id = ''m2'', r_version = 1, r_title = ''Pay'', r_content = None, r_taxonomy = Some ''home'',
          r_format = ''markdown'', r_author = Some ''u'', r_agent = None, r_created = 5\<rparr>,
       \<lparr>r_id = ''m3'', r_version = 1, r_title = ''Note'', r_content = None, r_taxonomy = Some ''home'',
          r_format = ''markdown'', r_author = Some ''u'', r_agent = None, r_created = 6\<rparr>,
       \<lparr>r_id = ''m3'', r_version = 2, r_title = ''Note'', r_content = None, r_taxonomy = Some ''work.y'',
          r_format = ''markdown'', r_author = Some ''u'', r_agent = None, r_created = 7\<rparr>],
    st_tombs = [], st_template = [],
    st_members =
      [\<lparr>mb_id = ''u'', mb_role = RoleOwner, mb_added_at = 1, mb_added_by = Some ''u''\<rparr>,
       \<lparr>mb_id = ''e'', mb_role = RoleEditor, mb_added_at = 2, mb_added_by = Some ''u''\<rparr>,
       \<lparr>mb_id = ''v'', mb_role = RoleViewer, mb_added_at = 3, mb_added_by = Some ''u''\<rparr>],
    st_grants =
      [\<lparr>g_identity = ''e'', g_kind = ''read'', g_prefix = ''work''\<rparr>,
       \<lparr>g_identity = ''v'', g_kind = ''read'', g_prefix = ''work''\<rparr>]\<rparr>"
  by code_simp


lemma eg_put:
  "\<not> isl (put_member i ro rd ti b now st) \<Longrightarrow> store_step fl st (projr (put_member i ro rd ti b now st))"
  by (rule store_step.PutMember [OF Inr_projr])

lemma eg_ins:
  "i \<notin> tomb_ids st \<Longrightarrow> \<not> isl (insert_memory i now nm a g st) \<Longrightarrow> store_step fl st (snd (projr (insert_memory i now nm a g st)))"
  by (rule store_step.Insert [OF _ Inr_pair])

lemma eg_upd:
  "\<not> isl (update_memory i u a g b now st) \<Longrightarrow> store_step fl st (snd (projr (update_memory i u a g b now st)))"
  by (rule store_step.Update [OF Inr_pair])

lemma eg_file_ok: "file_ok (wd_round eg_world) eg_file"
proof -
  have fl: "wd_round eg_world min_ease \<le> 5 / 2" using eg_rounding by (simp add: rounding_ok_def)
  note ok = file_ok_empty [of "wd_round eg_world"]
  have "\<not> isl (put_member ''u'' RoleOwner [] [] ''u'' 1 empty_store)" by code_simp
  note ok = step_file_ok [OF eg_put [OF this] ok fl, folded eg_f1_def]
  have "\<not> isl (put_member ''e'' RoleEditor [''work''] [] ''u'' 2 eg_f1)" by code_simp
  note ok = step_file_ok [OF eg_put [OF this] ok fl, folded eg_f2_def]
  have "\<not> isl (put_member ''v'' RoleViewer [''work''] [] ''u'' 3 eg_f2)" by code_simp
  note ok = step_file_ok [OF eg_put [OF this] ok fl, folded eg_f3_def]
  have "''m1'' \<notin> tomb_ids eg_f3" "\<not> isl (insert_memory ''m1'' 4 (eg_nm ''Plan'' ''see [[Pay]]'' ''work.x'') ''u'' [] eg_f3)" by code_simp+
  note ok = step_file_ok [OF eg_ins [OF this] ok fl, folded eg_f4_def]
  have "''m2'' \<notin> tomb_ids eg_f4" "\<not> isl (insert_memory ''m2'' 5 (eg_nm ''Pay'' '''' ''home'') ''u'' [] eg_f4)" by code_simp+
  note ok = step_file_ok [OF eg_ins [OF this] ok fl, folded eg_f5_def]
  have "''m3'' \<notin> tomb_ids eg_f5" "\<not> isl (insert_memory ''m3'' 6 (eg_nm ''Note'' '''' ''home'') ''u'' [] eg_f5)" by code_simp+
  note ok = step_file_ok [OF eg_ins [OF this] ok fl, folded eg_f6_def]
  have "\<not> isl (update_memory ''m3'' eg_move ''u'' [] None 7 eg_f6)" by code_simp
  from step_file_ok [OF eg_upd [OF this] ok fl] show ?thesis unfolding eg_file_def .
qed

section \<open>The engine\<close>

definition eg_engine :: engine where
  "eg_engine = new_engine eg_reg (\<lambda>p. if p = ''t.rekam'' then eg_file else empty_store) (\<lambda>_. []) 2000
     (None :: nat replication option) ''registry.sqlite''"

lemma eg_engine_ok: "engine_ok eg_world eg_engine"
  by (simp add: engine_ok_def eg_engine_def new_engine_def eg_reg_ok eg_file_ok file_ok_empty)

definition eg_resolved :: "string \<Rightarrow> bool \<Rightarrow> resolved" where
  "eg_resolved key rw = projr (resolve_tenant eg_world eg_engine key rw)"

lemma eg_resolves: "resolve_tenant eg_world eg_engine ''ke'' True = Inr (eg_resolved ''ke'' True)"
  "resolve_tenant eg_world eg_engine ''ku'' True = Inr (eg_resolved ''ku'' True)"
  "resolve_tenant eg_world eg_engine ''kv'' False = Inr (eg_resolved ''kv'' False)"
  unfolding eg_resolved_def by (rule Inr_projr, code_simp)+

end
