(* ===== verification/Engine_Properties.thy ===== *)
theory Engine_Properties
  imports Engine_Examples
begin

text \<open>
  The properties of the engine on memories: the invariant of every reachable engine, what a caller
  restricted to some branches can change and learn, reading back what was written, tokens.
\<close>

section \<open>Every reachable engine\<close>

text \<open>C9: Whatever calls the engine has served since an empty start, in any order, by anybody, failed
  ones included, every tenant file, the registry and every blob store satisfy their invariants. (The
  algorithms stay the same from call to call; rounding the ease floor 1.3 to a float stays below 2.5.)\<close>

theorem served_engine_ok:
  assumes "served w (fresh_engine budget prim reg_path) e" and "rounding_ok w"
  shows "engine_ok w e"
  using served_ok [OF assms(1,2) fresh_engine_ok] .

theorem served_engine_ok_witness:
  "engine_ok eg_world (snd (engine_create_identity eg_world (fresh_engine 2000 (\<lambda>_. None) []) ''u'' ''Ann'' ''k1'' ''a.rekam'' True))"
proof -
  have "same_algorithms eg_world eg_world" by (simp add: same_algorithms_def)
  from served.Call [OF served.Start this engine_step.CreateIdentity] show ?thesis
    by (rule served_engine_ok) (rule eg_rounding)
qed

section \<open>Who may change what\<close>

definition rows_outside :: "scope \<Rightarrow> store \<Rightarrow> mem_row set" where
  "rows_outside sc st = {r \<in> set (st_mems st). \<not> can_write sc (str_of (m_taxonomy r))}"

text \<open>The three content writes of \<^verbatim>\<open>engine.go\<close> that check the branch they write to.\<close>

definition content_write :: "world \<Rightarrow> engine \<Rightarrow> string \<Rightarrow> engine \<Rightarrow> bool" where
  "content_write w e key e' \<longleftrightarrow>
     (\<exists>i inp mem. write_memory w e key i inp = Inr (mem, e'))
   \<or> (\<exists>i inp mem. engine_update w e key i inp = Inr (mem, e'))
   \<or> (\<exists>i force. engine_delete w e key i force = Inr e')"

lemma file_inv: "engine_ok w e \<Longrightarrow> resolve_tenant w e key rw = Inr v \<Longrightarrow> store_inv (rv_store v)"
  by (simp add: engine_ok_def file_ok_def resolved_store)

lemma fetch_writable_row:
  "fetch_writable v i = Inr mem \<Longrightarrow>
     \<exists>r. tbl_get m_id i (st_mems (rv_store v)) = Some r \<and> mem = scan_memory r
       \<and> can_read (rv_scope v) (str_of (m_taxonomy r)) \<and> can_write (rv_scope v) (str_of (m_taxonomy r))"
  by (auto simp: fetch_writable_def fetch_readable_def get_memory_def split: sum.splits option.splits if_splits)

lemma row_unique:
  "store_inv st \<Longrightarrow> tbl_get m_id i (st_mems st) = Some r \<Longrightarrow> x \<in> set (st_mems st) \<Longrightarrow> m_id x = i \<Longrightarrow> x = r"
  using mem_by_id [of st x] by (simp add: store_inv_def)

lemma check_update_move:
  "check_update w v inp = Inr u \<Longrightarrow> up_taxonomy u = Some t \<Longrightarrow> can_write (rv_scope v) t"
  by (auto simp: check_update_def check_move_def Let_def split: option.splits sum.splits if_splits)

lemma write_outside:
  assumes inv: "store_inv st" and ins: "insert_memory i now nm a g st = Inr (mem, st')" and ok: "can_write sc (nm_taxonomy nm)"
  shows "rows_outside sc st' = rows_outside sc st"
proof -
  have "st_mems st' = st_mems st @ [new_row i now nm st]"
    using insert_memory_cases [OF inv ins] by simp
  then show ?thesis using ok by (auto simp: rows_outside_def)
qed

lemma update_outside:
  assumes inv: "store_inv st" and up: "update_memory i u a g b now st = Inr (mem, st')"
    and old: "tbl_get m_id i (st_mems st) = Some r" "can_write sc (str_of (m_taxonomy r))"
    and new: "\<And>t. up_taxonomy u = Some t \<Longrightarrow> can_write sc t"
  shows "rows_outside sc st' = rows_outside sc st"
proof -
  obtain old' where "tbl_get m_id i (st_mems st) = Some old'" "st' = updated i u a g now old' st"
    using update_memory_cases [OF inv up] by blast
  then have mems: "st_mems st' = tbl_upd m_id i (apply_updates u now) (st_mems st)" by simp
  have "can_write sc (str_of (m_taxonomy (apply_updates u now r)))"
    using old(2) new by (auto simp: apply_updates_def split: option.split)
  moreover have "x = r" if "x \<in> set (st_mems st)" "m_id x = i" for x
    using row_unique [OF inv old(1) that] .
  ultimately show ?thesis using old(2) by (auto simp: rows_outside_def mems set_tbl_upd image_iff)
qed

lemma delete_outside:
  assumes inv: "store_inv st" and del: "delete_memory i b now st = Inr st'"
    and old: "tbl_get m_id i (st_mems st) = Some r" "can_write sc (str_of (m_taxonomy r))"
  shows "rows_outside sc st' = rows_outside sc st"
proof -
  have mems: "st_mems st' = tbl_del m_id i (st_mems st)"
    using delete_memory_cases [OF inv del] by (metis deleted_simps(1))
  have "x = r" if "x \<in> set (st_mems st)" "m_id x = i" for x
    using row_unique [OF inv old(1) that] .
  then show ?thesis using old(2) by (auto simp: rows_outside_def mems set_tbl_del)
qed

text \<open>C1: A content write succeeds only for a bearer whose identity may write, with a role that may
  write, in the tenant whose write lease this node holds. It changes that tenant's file and nothing
  else, and in it no memory outside the write scope of the member: none is altered, removed, created
  or moved there.\<close>

theorem content_write_confined:
  assumes ok: "engine_ok w e" and "content_write w e key e'"
  shows "\<exists>v. resolve_tenant w e key True = Inr v
     \<and> iy_write (rv_identity v) \<and> mm_role (rv_member v) \<noteq> RoleViewer \<and> en_primary e (rv_path v) = None
     \<and> e' = put_file (rv_path v) (en_files e' (rv_path v)) e
     \<and> rows_outside (rv_scope v) (en_files e' (rv_path v)) = rows_outside (rv_scope v) (en_files e (rv_path v))"
proof -
  have "\<exists>v st. resolve_tenant w e key True = Inr v \<and> e' = commit_file v st e
      \<and> rows_outside (rv_scope v) st = rows_outside (rv_scope v) (rv_store v)"
    using assms(2) unfolding content_write_def
  proof (elim disjE exE)
    fix i inp mem assume "write_memory w e key i inp = Inr (mem, e')"
    then obtain v format st m where v: "resolve_tenant w e key True = Inr v"
      and c: "check_write w v inp = Inr format"
      and ins: "insert_memory i (tenant_now w) \<lparr>nm_title = wi_title inp, nm_content = wi_content inp,
           nm_taxonomy = wi_taxonomy inp, nm_format = format\<rparr> (iy_id (rv_identity v)) (wi_agent inp) (rv_store v) = Inr (m, st)"
      and e': "e' = commit_file v st e"
      by (auto simp: write_memory_def with_tenant_Inr success_iff)
    have "can_write (rv_scope v) (wi_taxonomy inp)"
      using c by (auto simp: check_write_def Let_def split: if_splits)
    then show ?thesis using write_outside [OF file_inv [OF ok v] ins] v e' by auto
  next
    fix i inp mem assume "engine_update w e key i inp = Inr (mem, e')"
    then obtain v old u st m where v: "resolve_tenant w e key True = Inr v"
      and old: "fetch_writable v i = Inr old" and c: "check_update w v inp = Inr u"
      and up: "update_memory i u (iy_id (rv_identity v)) (ui_agent inp) (ui_base inp) (tenant_now w) (rv_store v) = Inr (m, st)"
      and e': "e' = commit_file v st e"
      by (auto simp: engine_update_def with_tenant_Inr success_iff)
    show ?thesis
      using update_outside [OF file_inv [OF ok v] up] fetch_writable_row [OF old] check_update_move [OF c] v e' by blast
  next
    fix i force assume "engine_delete w e key i force = Inr e'"
    then obtain v old st where v: "resolve_tenant w e key True = Inr v"
      and old: "fetch_writable v i = Inr old"
      and del: "delete_memory i (iy_id (rv_identity v)) (tenant_now w) (rv_store v) = Inr st"
      and e': "e' = commit_file v st e"
      by (auto simp: engine_delete_def with_tenant_Inr success_iff)
    show ?thesis
      using delete_outside [OF file_inv [OF ok v] del] fetch_writable_row [OF old] v e' by blast
  qed
  then obtain v st where v: "resolve_tenant w e key True = Inr v" and e': "e' = commit_file v st e"
    and rows: "rows_outside (rv_scope v) st = rows_outside (rv_scope v) (rv_store v)" by blast
  have "iy_write (rv_identity v) \<and> can_write_any (mm_role (rv_member v)) \<and> require_tenant_primary e (rv_path v) = None"
    using resolve_tenant_cases(7) [OF v] by simp
  then show ?thesis
    using v rows by (auto simp: e' commit_file_def resolved_store can_write_any_def require_tenant_primary_def)
qed

definition eg_write :: write_input where
  "eg_write = \<lparr>wi_title = ''New'', wi_content = ''see [[Pay]] and [[Plan]]'', wi_taxonomy = ''work.z'', wi_format = '' Code'', wi_agent = []\<rparr>"

definition eg_written :: "memory \<times> engine" where
  "eg_written = projr (write_memory eg_world eg_engine ''ke'' ''m4'' eg_write)"

lemma eg_wrote: "write_memory eg_world eg_engine ''ke'' ''m4'' eg_write = Inr (fst eg_written, snd eg_written)"
  unfolding eg_written_def by (rule Inr_pair) code_simp

theorem content_write_confined_witness:
  "\<exists>v. resolve_tenant eg_world eg_engine ''ke'' True = Inr v \<and> mm_role (rv_member v) = RoleEditor
     \<and> rows_outside (rv_scope v) (en_files (snd eg_written) (rv_path v)) = rows_outside (rv_scope v) (en_files eg_engine (rv_path v))"
proof -
  have "content_write eg_world eg_engine ''ke'' (snd eg_written)"
    unfolding content_write_def using eg_wrote by blast
  from content_write_confined [OF eg_engine_ok this] obtain v where v: "resolve_tenant eg_world eg_engine ''ke'' True = Inr v"
    "rows_outside (rv_scope v) (en_files (snd eg_written) (rv_path v)) = rows_outside (rv_scope v) (en_files eg_engine (rv_path v))"
    by blast
  have "mm_role (rv_member (eg_resolved ''ke'' True)) = RoleEditor" by code_simp
  then show ?thesis using v eg_resolves(1) by auto
qed

end
