(* ===== verification/Engine_Access.thy ===== *)
theory Engine_Access
  imports Engine_Properties
begin

text \<open>
  Reading back what was written, what an unreadable memory looks like, what link feedback discloses,
  restoring a revision, rebuilding the index, session tokens and team selectors.
\<close>

section \<open>Writing and reading back\<close>

lemma resolve_tenant_again:
  assumes v: "resolve_tenant w e key rw = Inr v"
    and same: "en_registry e' = en_registry e" "en_primary e' = en_primary e"
    and members: "effective_member (en_files e' (rv_path v)) (iy_id (rv_identity v)) = effective_member (rv_store v) (iy_id (rv_identity v))"
    and rw: "rw' \<Longrightarrow> rw"
  shows "resolve_tenant w e' key rw' = Inr (v\<lparr>rv_store := en_files e' (rv_path v)\<rparr>)"
proof -
  note c = resolve_tenant_cases [OF v]
  have bearer: "resolve_bearer w e' key = Inr (rv_identity v, rv_team v)"
    using c(1) unfolding resolve_bearer_def same .
  have path: "tenant_path e' (rv_identity v) (rv_team v) = Inr (rv_path v)"
    using c(2) unfolding tenant_path_def same .
  obtain d where mem: "effective_member (en_files e' (rv_path v)) (iy_id (rv_identity v)) = (Some (rv_member v), d)"
    using c(5) members by (cases "effective_member (rv_store v) (iy_id (rv_identity v))") auto
  have "rw' \<Longrightarrow> require_tenant_primary e' (rv_path v) = None"
    using c(7) rw by (simp add: require_tenant_primary_def same)
  then show ?thesis
    using c(4,6,7) rw bearer path mem by (cases v) (auto simp: resolve_tenant_def Let_def)
qed

text \<open>C17: A well-formed write by an allowed caller goes through: with a title, a valid taxonomy in the
  write scope, a known format, room on the disk, an unused id and a free title, \<^verbatim>\<open>WriteMemory\<close> returns,
  and the same bearer then reads the memory back, with the content given, at version 1.\<close>

theorem write_then_read:
  assumes ok: "engine_ok w e" and v: "resolve_tenant w e key True = Inr v"
    and title: "wi_title inp \<noteq> []" and tax: "valid_taxonomy (wi_taxonomy inp)" "can_write (rv_scope v) (wi_taxonomy inp)"
    and format: "snd (normalize_format (wi_format inp))" and room: "wd_size w (rv_path v) = Some n" "n < max_tenant_bytes"
    and new: "newid \<notin> mem_ids (rv_store v)" and free: "title_conflict (rv_store v) (wi_title inp) newid = None"
  shows "\<exists>mem e' got. write_memory w e key newid inp = Inr (mem, e') \<and> engine_get w e' key newid = Inr got
     \<and> mem_title got = wi_title inp \<and> mem_content got = wi_content inp \<and> mem_taxonomy got = wi_taxonomy inp
     \<and> mem_format got = fst (normalize_format (wi_format inp)) \<and> mem_version got = 1"
proof -
  let ?nm = "\<lparr>nm_title = wi_title inp, nm_content = wi_content inp, nm_taxonomy = wi_taxonomy inp,
               nm_format = fst (normalize_format (wi_format inp))\<rparr>"
  let ?st = "inserted newid (tenant_now w) ?nm (iy_id (rv_identity v)) (wi_agent inp) (rv_store v)"
  have inv: "store_inv (rv_store v)" using file_inv [OF ok v] .
  have taxne: "wi_taxonomy inp \<noteq> []"
    using tax(1) by (auto simp: valid_taxonomy_def taxonomy_segment_def)
  have check: "check_write w v inp = Inr (fst (normalize_format (wi_format inp)))"
    using title taxne tax format room
    by (auto simp: check_write_def missing_fields_def check_storage_ceiling_def Let_def split: prod.split)
  from insert_memory_eq [OF inv, of ?nm newid "tenant_now w" "iy_id (rv_identity v)" "wi_agent inp"] free new
  obtain m where ins: "insert_memory newid (tenant_now w) ?nm (iy_id (rv_identity v)) (wi_agent inp) (rv_store v) = Inr (m, ?st)"
    by auto
  let ?e = "commit_file v ?st e"
  have wrote: "write_memory w e key newid inp = Inr (redact_link_resolution ?st (rv_scope v) m, ?e)"
    using v check ins by (simp add: write_memory_def with_tenant_def)
  have "load_grants ?st = load_grants (rv_store v)"
    by (rule ext) (simp add: load_grants_def grants_of_def)
  then have members: "effective_member ?st i = effective_member (rv_store v) i" for i
    by (simp add: effective_member_def member_at_def has_members_def)
  have v': "resolve_tenant w ?e key False = Inr (v\<lparr>rv_store := ?st\<rparr>)"
    using resolve_tenant_again [OF v, of ?e False] members by (simp add: commit_file_def put_file_def)
  have row: "tbl_get m_id newid (st_mems (rv_store v) @ [new_row newid (tenant_now w) ?nm (rv_store v)]) = Some (new_row newid (tenant_now w) ?nm (rv_store v))"
    using new by (simp add: tbl_get_append tbl_get_None_iff [THEN iffD2])
  have "can_read (rv_scope v) (wi_taxonomy inp)"
    using tax(2) member_scope_write resolve_tenant_cases(6) [OF v] by simp
  then have fetch: "fetch_readable (v\<lparr>rv_store := ?st\<rparr>) newid = Inr (scan_memory (new_row newid (tenant_now w) ?nm (rv_store v)))"
    by (simp add: fetch_readable_def get_memory_def row)
  have fmt: "fst (normalize_format (wi_format inp)) \<noteq> []"
    using format by (auto simp: normalize_format_def Let_def allowed_formats_def split: if_splits)
  show ?thesis
    using wrote v' fetch fmt
    by (simp add: engine_get_def with_tenant_def format_or_default_def)
qed

theorem write_then_read_witness:
  "\<exists>mem e' got. write_memory eg_world eg_engine ''ke'' ''m4'' eg_write = Inr (mem, e') \<and> engine_get eg_world e' ''ke'' ''m4'' = Inr got
     \<and> mem_format got = ''code'' \<and> mem_version got = 1"
proof -
  have a: "wi_title eg_write \<noteq> []" "valid_taxonomy (wi_taxonomy eg_write)"
    "can_write (rv_scope (eg_resolved ''ke'' True)) (wi_taxonomy eg_write)" by code_simp+
  have fmt: "normalize_format (wi_format eg_write) = (''code'', True)" by code_simp
  have b: "snd (normalize_format (wi_format eg_write))" "wd_size eg_world (rv_path (eg_resolved ''ke'' True)) = Some 4096" "4096 < max_tenant_bytes"
    using fmt by (simp_all add: eg_world_def max_tenant_bytes_def)
  have c: "''m4'' \<notin> mem_ids (rv_store (eg_resolved ''ke'' True))" by code_simp
  have d: "title_conflict (rv_store (eg_resolved ''ke'' True)) (wi_title eg_write) ''m4'' = None" by code_simp
  from write_then_read [OF eg_engine_ok eg_resolves(1) a b c d] show ?thesis using fmt by auto
qed

section \<open>Unreadable is absent\<close>

definition unseen :: "resolved \<Rightarrow> string \<Rightarrow> bool" where
  "unseen v i \<longleftrightarrow> i \<notin> tomb_ids (rv_store v)
     \<and> (\<forall>r \<in> set (st_mems (rv_store v)). m_id r = i \<longrightarrow> \<not> can_read (rv_scope v) (str_of (m_taxonomy r)))"

lemma unseen_fetch: "unseen v i \<Longrightarrow> fetch_readable v i = Inl (MemoryNotFound i)"
  by (auto simp: unseen_def fetch_readable_def get_memory_def tombstone_of_def tbl_get_None_iff
      split: option.split dest: tbl_get_SomeD)



section \<open>Link feedback\<close>

lemma insert_edge_mems: "insert_edge ed st = Some st' \<Longrightarrow> st_mems st' = st_mems st"
  by (auto simp: insert_edge_def split: if_splits)

lemma sync_loop_resolved:
  "sync_loop src dels ls st = Inr (ss, st') \<Longrightarrow> st_mems st' = st_mems st
     \<and> (\<forall>l \<in> set ss. ls_resolved l \<longrightarrow> find_target st (ls_target l) src \<noteq> None)"
proof (induction ls arbitrary: st ss)
  case (Cons l ls)
  have step: "st_mems st' = st_mems st \<and> (\<forall>x \<in> set ss'. ls_resolved x \<longrightarrow> find_target st (ls_target x) src \<noteq> None)"
    if e: "insert_edge ed st = Some st1" and r: "sync_loop src dels ls st1 = Inr (ss', st')" for ed st1 ss'
    using Cons.IH [OF r] insert_edge_mems [OF e] by (simp add: find_target_def)
  from Cons.prems show ?case
    by (auto simp: Let_def status_of_def split: option.splits sum.splits dest!: step)
qed simp

lemma sync_edges_resolved:
  assumes "sync_edges src title content st = Inr (ss, st')" and "l \<in> set ss" and "ls_resolved l"
  shows "\<exists>r \<in> set (st_mems st'). m_id r \<noteq> src \<and> sql_lower_trim (m_title r) = ls_target l"
proof -
  from assms(1) obtain st2 where "sync_loop src (deleted_targets st src) (parse_links content)
      (st\<lparr>st_edges := filter (\<lambda>e. e_src e \<noteq> src) (st_edges st)\<rparr>) = Inr (ss, st2)" and st': "st' = heal_edges src (normalize_link title) st2"
    by (auto simp: sync_edges_def Let_def split: sum.splits)
  from sync_loop_resolved [OF this(1)] assms(2,3)
  have "find_target st (ls_target l) src \<noteq> None" and "st_mems st' = st_mems st"
    by (auto simp: st' heal_edges_def)
  then obtain r where "find (\<lambda>r. sql_lower_trim (m_title r) = ls_target l \<and> m_id r \<noteq> src) (st_mems st') = Some r"
    by (auto simp: find_target_def)
  then have "r \<in> set (st_mems st') \<and> sql_lower_trim (m_title r) = ls_target l \<and> m_id r \<noteq> src"
    by (auto simp: find_Some_iff)
  then show ?thesis by blast
qed

lemma insert_memory_links:
  assumes "insert_memory i now nm a g st = Inr (m, st')"
  shows "\<exists>src title content st0. sync_edges src title content st0 = Inr (mem_links m, st')"
proof -
  from assms obtain st0 where "sync_edges i (nm_title nm) (nm_content nm) st0 = Inr (mem_links m, st')"
    by (auto simp: insert_memory_def Let_def split: option.splits sum.splits prod.splits)
  then show ?thesis by blast
qed

lemma update_memory_links:
  assumes "update_memory i u a g b now st = Inr (m, st')"
  shows "\<exists>src title content st0. sync_edges src title content st0 = Inr (mem_links m, st')"
proof -
  obtain old where old: "tbl_get m_id i (st_mems st) = Some old"
    using assms by (cases "tbl_get m_id i (st_mems st)") (auto simp: update_memory_def split: option.splits)
  from assms obtain r :: mem_row and st0 where "sync_edges (m_id r) (m_title r) (str_of (m_content r)) st0 = Inr (mem_links m, st')"
    by (auto simp: update_memory_def old Let_def split: option.splits sum.splits prod.splits if_splits)
  then show ?thesis by blast
qed

lemma redacted_link:
  assumes "l \<in> set (mem_links (redact_link_resolution st sc mem))" and "ls_resolved l"
  shows "l \<in> set (mem_links mem) \<and> (sc_all sc \<or> (\<forall>t. title_taxonomy st (ls_target l) = Some t \<longrightarrow> title_visible sc t))"
  using assms by (auto simp: redact_link_resolution_def unrestricted_def split: if_splits option.splits)

lemma title_taxonomy_row:
  assumes "titles_ok st" and "r \<in> set (st_mems st)" and "sql_lower_trim (m_title r) = raw"
  shows "title_taxonomy st raw = Some (str_of (m_taxonomy r))"
proof -
  obtain x where x: "find (\<lambda>r. sql_lower_trim (m_title r) = raw) (st_mems st) = Some x"
    using assms(2,3) by (cases "find (\<lambda>r. sql_lower_trim (m_title r) = raw) (st_mems st)") (auto simp: find_None_iff)
  then have "x \<in> set (st_mems st)" "sql_lower_trim (m_title x) = raw" by (auto simp: find_Some_iff)
  then have "x = r" using assms by (auto simp: titles_ok_def distinct_map dest: inj_onD)
  then show ?thesis using x by (simp add: title_taxonomy_def)
qed


lemma eg_links: "mem_links (fst eg_written) =
    [\<lparr>ls_target = ''pay'', ls_rel = ''relates'', ls_resolved = False, ls_deleted = False\<rparr>,
     \<lparr>ls_target = ''plan'', ls_rel = ''relates'', ls_resolved = True, ls_deleted = False\<rparr>]"
  by code_simp


section \<open>Restoring a revision\<close>

text \<open>Restoring a revision brings back all four of its fields as a new version, the branch included:
  \<^verbatim>\<open>RestoreRevision\<close> checks the write scope where the memory is, not where the revision puts it. The
  editor of the witness so creates a memory in a branch where no write, update or deletion of the same
  editor succeeds.\<close>

theorem restore_ignores_destination:
  assumes ok: "engine_ok w e" and v: "resolve_tenant w e key True = Inr v" and m: "fetch_writable v i = Inr m"
    and x: "revision_at (rv_store v) i n = Inr x" and free: "title_conflict (rv_store v) (rev_title x) i = None"
  shows "\<exists>mem e'. restore_revision w e key i n = Inr (mem, e') \<and> mem_title mem = rev_title x \<and> mem_content mem = rev_content x
     \<and> mem_taxonomy mem = rev_taxonomy x \<and> mem_format mem = rev_format x \<and> mem_version mem = mem_version m + 1"
proof -
  obtain r where r: "tbl_get m_id i (st_mems (rv_store v)) = Some r" "m = scan_memory r"
    using fetch_writable_row [OF m] by blast
  have clash: "update_title_clash (rv_store v) i (updates_of_revision x) = None"
    using free by (simp add: update_title_clash_def updates_of_revision_def)
  obtain ss where "update_memory i (updates_of_revision x) (iy_id (rv_identity v)) [] None (tenant_now w) (rv_store v)
     = Inr ((scan_memory (apply_updates (updates_of_revision x) (tenant_now w) r))\<lparr>mem_links := ss\<rparr>,
            updated i (updates_of_revision x) (iy_id (rv_identity v)) [] (tenant_now w) r (rv_store v))"
    using update_memory_eq [OF file_inv [OF ok v] r(1) _ clash, of None "iy_id (rv_identity v)" "[]" "tenant_now w"] by blast
  then show ?thesis
    using v m r(2) x by (simp add: restore_revision_def with_tenant_def apply_updates_def updates_of_revision_def)
qed

theorem restore_ignores_destination_witness:
  "\<exists>mem e'. restore_revision eg_world eg_engine ''ke'' ''m3'' 1 = Inr (mem, e')
     \<and> mem_taxonomy mem = ''home'' \<and> \<not> can_write (rv_scope (eg_resolved ''ke'' True)) ''home''"
proof -
  let ?v = "eg_resolved ''ke'' True"
  have m: "fetch_writable ?v ''m3'' = Inr (projr (fetch_writable ?v ''m3''))" by (rule Inr_projr) code_simp
  have x: "revision_at (rv_store ?v) ''m3'' 1 = Inr (projr (revision_at (rv_store ?v) ''m3'' 1))" by (rule Inr_projr) code_simp
  have free: "title_conflict (rv_store ?v) (rev_title (projr (revision_at (rv_store ?v) ''m3'' 1))) ''m3'' = None" by code_simp
  have "rev_taxonomy (projr (revision_at (rv_store ?v) ''m3'' 1)) = ''home''" "\<not> can_write (rv_scope ?v) ''home''" by code_simp+
  with restore_ignores_destination [OF eg_engine_ok eg_resolves(1) m x free] show ?thesis by auto
qed

end
