(* ===== verification/Team_Properties.thy ===== *)
theory Team_Properties
  imports Engine_Properties
begin

text \<open>
  The properties of bearers and of team management: session tokens, team selectors, owners, seats,
  invites, and what is not gated.
\<close>

section \<open>Tokens and selectors\<close>

text \<open>C30: A session token gives back the identity and the team it was made for, and every token that is
  accepted carries the MAC of a text that consists of the identity and, behind a bar, the team it is
  accepted for; without the secret no selector can be swapped.\<close>

theorem session_token_exact:
  assumes "CHR ''|'' \<notin> set i" and "i \<noteq> []"
  shows "identity_from_session_token mac (session_token_for mac i t) = Some (i, t)
     \<and> (\<forall>tok j t'. identity_from_session_token mac tok = Some (j, t') \<longrightarrow>
          (\<exists>body sig. tok = session_prefix @ body @ ''.'' @ sig \<and> hex_decode sig = Some (mac body)
             \<and> (body = j \<or> body = j @ ''|'' @ t')))"
proof -
  have "\<exists>body sig. tok = session_prefix @ body @ ''.'' @ sig \<and> hex_decode sig = Some (mac body)
      \<and> (body = j \<or> body = j @ ''|'' @ t')" if "identity_from_session_token mac tok = Some (j, t')" for tok j t'
    using token_sound [OF that] by blast
  then show ?thesis using token_roundtrip [OF assms] by blast
qed

theorem session_token_exact_witness:
  "identity_from_session_token (\<lambda>s. take 2 s) (session_token_for (\<lambda>s. take 2 s) ''u-1'' ''t|1'') = Some (''u-1'', ''t|1'')"
  using session_token_exact [of "''u-1''" "\<lambda>s. take 2 s" "''t|1''"] by simp

text \<open>The team a grant is pinned to does not bound it: with the team selector the transport applies
  to every request, \<^verbatim>\<open>BearerForTeam\<close> turns any bearer, a pinned grant included, into a session token
  of the same identity for any other team.\<close>

theorem pin_is_no_ceiling:
  assumes "resolve_bearer w e key = Inr (idn, t)" and "resolve_by_id (iy_id idn) (en_registry e) = Inr idn"
    and "CHR ''|'' \<notin> set (iy_id idn)" and "iy_id idn \<noteq> []" and "t' \<noteq> []"
  shows "\<exists>b. bearer_for_team w e key t' = Inr b \<and> resolve_bearer w e b = Inr (idn, t')"
  using assms token_roundtrip [OF assms(3,4)] by (simp add: bearer_for_team_def resolve_bearer_def)

theorem pin_is_no_ceiling_witness:
  "\<exists>idn b. resolve_bearer eg_world eg_engine ''ku'' = Inr (idn, ''t'')
     \<and> bearer_for_team eg_world eg_engine ''ku'' ''other'' = Inr b \<and> resolve_bearer eg_world eg_engine b = Inr (idn, ''other'')"
proof -
  let ?idn = "fst (projr (resolve_bearer eg_world eg_engine ''ku''))"
  have b: "resolve_bearer eg_world eg_engine ''ku'' = Inr (?idn, ''t'')" by code_simp
  have i: "resolve_by_id (iy_id ?idn) (en_registry eg_engine) = Inr ?idn" "iy_id ?idn = ''u''" by code_simp+
  have "CHR ''|'' \<notin> set (iy_id ?idn)" "iy_id ?idn \<noteq> []" "''other'' \<noteq> ([] :: string)" by (simp_all add: i(2))
  from pin_is_no_ceiling [OF b i(1) this] show ?thesis using b by blast
qed

section \<open>Rebuilding the index\<close>

text \<open>\<^verbatim>\<open>RebuildFTS\<close> rewrites the search and link index of a tenant for anyone who may read there: it
  needs no write permission, no writing role and no write lease. It always succeeds and touches no
  memory, revision, tombstone or member.\<close>

theorem rebuild_needs_only_read:
  assumes ok: "engine_ok w e" and v: "resolve_tenant w e key False = Inr v"
  shows "\<exists>st. rebuild_fts w e key = Inr (None, put_file (rv_path v) st e) \<and> st_mems st = st_mems (rv_store v)
     \<and> st_revs st = st_revs (rv_store v) \<and> st_tombs st = st_tombs (rv_store v) \<and> st_members st = st_members (rv_store v)"
proof -
  have "file_ok (wd_round w) (rv_store v)" using ok by (simp add: engine_ok_def resolved_store [OF v])
  then have inv: "store_inv (rebuild_index (rv_store v))" using rebuild_index_ok by (auto simp: file_ok_def)
  then obtain st where st: "rebuild_edges (rebuild_index (rv_store v)) = Inr st"
    using rebuild_edges_ok by blast
  obtain es where "st = (rebuild_index (rv_store v))\<lparr>st_edges := es\<rparr>" using rebuild_frame [OF inv st] by blast
  then show ?thesis
    using st v by (intro exI [of _ st]) (simp add: rebuild_fts_def with_tenant_def commit_file_def rebuild_index_def)
qed

definition eg_replica :: engine where
  "eg_replica = eg_engine\<lparr>en_primary := (\<lambda>p. Some (NotPrimary p ''node-2''))\<rparr>"

theorem rebuild_needs_only_read_witness:
  "(\<exists>st. rebuild_fts eg_world eg_replica ''kv'' = Inr (None, put_file ''t.rekam'' st eg_replica))
   \<and> mm_role (rv_member (projr (resolve_tenant eg_world eg_replica ''kv'' False))) = RoleViewer
   \<and> en_primary eg_replica ''t.rekam'' = Some (NotPrimary ''t.rekam'' ''node-2'')"
proof -
  have ok: "engine_ok eg_world eg_replica" using eg_engine_ok by (simp add: engine_ok_def eg_replica_def)
  have v: "resolve_tenant eg_world eg_replica ''kv'' False = Inr (projr (resolve_tenant eg_world eg_replica ''kv'' False))"
    by (rule Inr_projr) code_simp
  have "rv_path (projr (resolve_tenant eg_world eg_replica ''kv'' False)) = ''t.rekam''"
    "mm_role (rv_member (projr (resolve_tenant eg_world eg_replica ''kv'' False))) = RoleViewer" by code_simp+
  then show ?thesis using rebuild_needs_only_read [OF ok v] by (auto simp: eg_replica_def)
qed

section \<open>Owners\<close>

definition owners :: "store \<Rightarrow> string set" where
  "owners st = mb_id ` {r \<in> set (st_members st). mb_role r = RoleOwner}"

lemma count_owners_pos: "0 < count_owners st \<longleftrightarrow> owners st \<noteq> {}"
  by (auto simp: count_owners_def owners_def filter_empty_conv)

lemma count_owners_card: "inv_members st \<Longrightarrow> count_owners st = card (owners st)"
proof -
  assume "inv_members st"
  then have "distinct (map mb_id (filter (\<lambda>r. mb_role r = RoleOwner) (st_members st)))"
    by (simp add: inv_members_def tbl_wf_def distinct_map_filter)
  from distinct_card [OF this] show ?thesis by (simp add: count_owners_def owners_def)
qed

lemma owners_iff: "x \<in> owners st \<longleftrightarrow> (\<exists>r \<in> set (st_members st). mb_id r = x \<and> mb_role r = RoleOwner)"
  by (auto simp: owners_def)

lemma owners_put:
  assumes "put_member i role rd ti b now st = Inr st'"
  shows "owners st' = (if role = RoleOwner then insert i (owners st) else owners st - {i})"
proof (rule set_eqI)
  fix x
  show "x \<in> owners st' \<longleftrightarrow> x \<in> (if role = RoleOwner then insert i (owners st) else owners st - {i})"
  proof (cases "tbl_has mb_id i (st_members st)")
    case True
    then obtain y where y: "y \<in> set (st_members st)" "mb_id y = i" by (auto simp: tbl_has_iff)
    have mems: "st_members st' = tbl_upd mb_id i (\<lambda>r. r\<lparr>mb_role := role\<rparr>) (st_members st)"
      using assms True by (auto simp: put_member_def Let_def split: if_splits)
    have eq: "x \<in> owners st' \<longleftrightarrow> (\<exists>r \<in> set (st_members st). mb_id r = x \<and> (if mb_id r = i then role = RoleOwner else mb_role r = RoleOwner))"
      unfolding owners_iff mems set_tbl_upd bex_simps(7) by (rule bex_cong) auto
    show ?thesis unfolding eq using y by (cases "x = i") (auto simp: owners_iff)
  next
    case False
    then have none: "mb_id r \<noteq> i" if "r \<in> set (st_members st)" for r using that by (auto simp: tbl_has_iff)
    have "st_members st' = st_members st @ [\<lparr>mb_id = i, mb_role = role, mb_added_at = now, mb_added_by = null_str b\<rparr>]"
      using assms False by (auto simp: put_member_def Let_def split: if_splits)
    then have "x \<in> owners st' \<longleftrightarrow> x \<in> owners st \<or> (x = i \<and> role = RoleOwner)"
      by (auto simp: owners_iff)
    moreover have "i \<notin> owners st" using none by (auto simp: owners_iff)
    ultimately show ?thesis by auto
  qed
qed

lemma owners_remove: "remove_member_row i st = Inr st' \<Longrightarrow> owners st' = owners st - {i}"
  by (auto simp: remove_member_row_def owners_def set_tbl_del split: if_splits)

lemma owner_row: "inv_members st \<Longrightarrow> member_at st i = Some m \<Longrightarrow> mm_role m = RoleOwner \<longleftrightarrow> i \<in> owners st"
proof -
  assume inv: "inv_members st" and "member_at st i = Some m"
  then obtain r where r: "tbl_get mb_id i (st_members st) = Some r" "mm_role m = mb_role r"
    by (auto simp: member_at_def load_grants_def)
  have wf: "tbl_wf mb_id (st_members st)" using inv by (simp add: inv_members_def)
  have "x = r" if "x \<in> set (st_members st)" "mb_id x = i" for x
    using tbl_get_Some_iff [OF wf, of i x] that r(1) by simp
  then show ?thesis using tbl_get_SomeD [OF r(1)] r(2) by (auto simp: owners_iff)
qed

lemma absent_no_owner: "member_at st i = None \<Longrightarrow> i \<notin> owners st"
  by (auto simp: member_at_def owners_def tbl_get_None_iff)

lemma caller_is_member:
  assumes "resolve_tenant w e key rw = Inr v" and "member_of (rv_store v) (iy_id (rv_identity v)) = Inr m"
  shows "m = rv_member v"
  using assms resolve_tenant_cases(5) [OF assms(1)] by (auto simp: member_of_def split: prod.splits option.splits)

lemma first_error_None: "first_error cs = None \<longleftrightarrow> set cs \<subseteq> {None}"
  by (induction cs) (auto split: option.splits)

lemma set_member_effect:
  assumes "set_member w e key target role rd ti = (res, e')" and "en_files e' \<noteq> en_files e \<or> (\<exists>m. res = Inr m)"
  shows "\<exists>v st. resolve_tenant w e key False = Inr v \<and> set_member_checks e v (rv_member v) target role = None
     \<and> put_member target role rd ti (iy_id (rv_identity v)) (tenant_now w) (rv_store v) = Inr st
     \<and> en_files e' = (en_files e)(rv_path v := st)"
proof -
  from assms obtain v caller where v: "resolve_tenant w e key False = Inr v"
    and c: "member_of (rv_store v) (iy_id (rv_identity v)) = Inr caller"
    and body: "(case set_member_checks e v caller target role of Some err \<Rightarrow> (Inl err, e)
       | None \<Rightarrow> (case put_member target role rd ti (iy_id (rv_identity v)) (tenant_now w) (rv_store v) of
           Inl err \<Rightarrow> (Inl (StoreError err), e)
         | Inr st \<Rightarrow> (case index_in_team w (rv_team v) target (commit_file v st e) of
             (Some err, e') \<Rightarrow> (Inl err, e') | (None, e') \<Rightarrow> (Inr (member_at st target), e')))) = (res, e')"
    by (auto simp: set_member_def acting_def split: sum.splits)
  have idx: "index_in_team w t i e0 = (x, e1) \<Longrightarrow> en_files e1 = en_files e0" for t i e0 x e1
    by (auto simp: index_in_team_def split: if_splits sum.splits)
  from body assms(2) obtain st where "set_member_checks e v caller target role = None"
    "put_member target role rd ti (iy_id (rv_identity v)) (tenant_now w) (rv_store v) = Inr st"
    "en_files e' = (en_files e)(rv_path v := st)"
    by (auto simp: commit_file_def split: option.splits sum.splits prod.splits dest!: idx)
  then show ?thesis using v caller_is_member [OF v c] by blast
qed

lemma remove_member_effect:
  assumes "remove_member w e key target = (res, e')" and "en_files e' \<noteq> en_files e"
  shows "\<exists>v st. resolve_tenant w e key False = Inr v \<and> remove_member_checks e v (rv_member v) target = None
     \<and> remove_member_row target (rv_store v) = Inr st \<and> en_files e' = (en_files e)(rv_path v := st)"
proof -
  from assms obtain v caller where v: "resolve_tenant w e key False = Inr v"
    and c: "member_of (rv_store v) (iy_id (rv_identity v)) = Inr caller"
    and body: "(case remove_member_checks e v caller target of Some err \<Rightarrow> (Inl err, e)
       | None \<Rightarrow> (case remove_member_row target (rv_store v) of
           Inl err \<Rightarrow> (Inl (StoreError err), e)
         | Inr st \<Rightarrow> (Inr (), unindex_in_team (rv_team v) target (commit_file v st e)))) = (res, e')"
    by (auto simp: remove_member_def acting_def split: sum.splits)
  from body assms(2) obtain st where "remove_member_checks e v caller target = None"
    "remove_member_row target (rv_store v) = Inr st" "en_files e' = (en_files e)(rv_path v := st)"
    by (auto simp: commit_file_def unindex_in_team_def split: option.splits sum.splits if_splits)
  then show ?thesis using v caller_is_member [OF v c] by blast
qed

lemma roster_of: "engine_ok w e \<Longrightarrow> resolve_tenant w e key rw = Inr v \<Longrightarrow> inv_members (rv_store v)"
  by (simp add: engine_ok_def file_ok_def resolved_store)

lemma two_owners:
  "inv_members st \<Longrightarrow> guard_last_owner st = None \<Longrightarrow> owners st - {i} \<noteq> {}"
proof
  assume "inv_members st" "guard_last_owner st = None" "owners st - {i} = {}"
  then have "1 < card (owners st)" "owners st \<subseteq> {i}"
    using count_owners_card by (auto simp: guard_last_owner_def split: if_splits)
  then show False using card_mono [of "{i}" "owners st"] by simp
qed

definition roster_change :: "world \<Rightarrow> engine \<Rightarrow> string \<Rightarrow> string \<Rightarrow> engine \<Rightarrow> bool" where
  "roster_change w e key target e' \<longleftrightarrow>
     (\<exists>role rd ti. e' = snd (set_member w e key target role rd ti)) \<or> e' = snd (remove_member w e key target)"

text \<open>What a roster change leaves of the owners, when it changes the file at all.\<close>

lemma roster_change_owners:
  assumes ok: "engine_ok w e" and change: "roster_change w e key target e'" and diff: "en_files e' p \<noteq> en_files e p"
  shows "\<exists>v. resolve_tenant w e key False = Inr v \<and> rv_path v = p
     \<and> (mm_role (rv_member v) \<noteq> RoleOwner \<longrightarrow> owners (en_files e' p) = owners (en_files e p))
     \<and> (owners (en_files e p) \<noteq> {} \<longrightarrow> owners (en_files e' p) \<noteq> {})"
proof -
  have files: "en_files e' \<noteq> en_files e" using diff by auto
  from change show ?thesis unfolding roster_change_def
  proof (elim disjE exE)
    fix role rd ti assume "e' = snd (set_member w e key target role rd ti)"
    then have "set_member w e key target role rd ti = (fst (set_member w e key target role rd ti), e')" by simp
    from set_member_effect [OF this disjI1 [OF files]] obtain v st where v: "resolve_tenant w e key False = Inr v"
      and checks: "set_member_checks e v (rv_member v) target role = None"
      and put: "put_member target role rd ti (iy_id (rv_identity v)) (tenant_now w) (rv_store v) = Inr st"
      and upd: "en_files e' = (en_files e)(rv_path v := st)" by blast
    have p: "rv_path v = p" using diff by (cases "p = rv_path v") (simp_all add: upd)
    have store: "rv_store v = en_files e p" using resolved_store [OF v] p by simp
    note inv = roster_of [OF ok v] and own = owners_put [OF put]
    have g: "owner_guard (rv_member v) (member_at (rv_store v) target) role = None"
      "demotion_guard (rv_store v) (member_at (rv_store v) target) role = None"
      using checks by (simp_all add: set_member_checks_def Let_def first_error_None del: first_error.simps)
    have admin: "owners st = owners (rv_store v)" if "mm_role (rv_member v) \<noteq> RoleOwner"
      using g(1) that own owner_row [OF inv] absent_no_owner [of "rv_store v" target]
      by (auto simp: owner_guard_def can_manage_team_def split: if_splits option.splits)
    have keep: "owners st \<noteq> {}" if some: "owners (rv_store v) \<noteq> {}"
    proof (cases "role = RoleOwner \<or> target \<notin> owners (rv_store v)")
      case True
      then show ?thesis using own some by auto
    next
      case False
      then obtain m where "member_at (rv_store v) target = Some m" "mm_role m = RoleOwner"
        using absent_no_owner owner_row [OF inv] by (cases "member_at (rv_store v) target") blast+
      then have "guard_last_owner (rv_store v) = None" using g(2) False by (simp add: demotion_guard_def)
      then show ?thesis using two_owners [OF inv] own False by simp
    qed
    show ?thesis using v p admin keep store by (auto simp: upd)
  next
    assume "e' = snd (remove_member w e key target)"
    then have "remove_member w e key target = (fst (remove_member w e key target), e')" by simp
    from remove_member_effect [OF this files] obtain v st where v: "resolve_tenant w e key False = Inr v"
      and checks: "remove_member_checks e v (rv_member v) target = None"
      and rem: "remove_member_row target (rv_store v) = Inr st"
      and upd: "en_files e' = (en_files e)(rv_path v := st)" by blast
    have p: "rv_path v = p" using diff by (cases "p = rv_path v") (simp_all add: upd)
    have store: "rv_store v = en_files e p" using resolved_store [OF v] p by simp
    note inv = roster_of [OF ok v] and own = owners_remove [OF rem]
    obtain m where m: "member_at (rv_store v) target = Some m"
      and g: "mm_role m = RoleOwner \<Longrightarrow> mm_role (rv_member v) = RoleOwner \<and> guard_last_owner (rv_store v) = None"
      using checks by (auto simp: remove_member_checks_def first_error_None can_manage_team_def simp del: first_error.simps
          split: if_splits option.splits)
    have "owners st = owners (rv_store v)" if "mm_role m \<noteq> RoleOwner"
      using own that owner_row [OF inv m] by auto
    moreover have "owners st \<noteq> {}" if "mm_role m = RoleOwner"
      using own two_owners [OF inv] g [OF that] by simp
    ultimately show ?thesis using v p g store by (auto simp: upd)
  qed
qed

text \<open>C18: Only an owner changes who the owners are: whatever an administrator, editor or viewer attempts
  with \<^verbatim>\<open>SetMember\<close> or \<^verbatim>\<open>RemoveMember\<close>, with any role and grants, the owners of every tenant stay the
  same.\<close>

theorem only_owners_change_owners:
  assumes "engine_ok w e" and "roster_change w e key target e'"
    and "resolve_tenant w e key False = Inr v" and "mm_role (rv_member v) \<noteq> RoleOwner"
  shows "owners (en_files e' p) = owners (en_files e p)"
  using roster_change_owners [OF assms(1,2), of p] assms(3,4) by (cases "en_files e' p = en_files e p") auto

theorem only_owners_change_owners_witness:
  "owners (en_files (snd (set_member eg_world eg_engine ''ke'' ''e'' RoleOwner [] [])) ''t.rekam'') = {''u''}"
proof -
  have "owners (en_files eg_engine ''t.rekam'') = {''u''}" by code_simp
  moreover have "roster_change eg_world eg_engine ''ke'' ''e'' (snd (set_member eg_world eg_engine ''ke'' ''e'' RoleOwner [] []))"
    by (auto simp: roster_change_def)
  moreover have "resolve_tenant eg_world eg_engine ''ke'' False = Inr (eg_resolved ''ke'' False)"
    unfolding eg_resolved_def by (rule Inr_projr) code_simp
  moreover have "mm_role (rv_member (eg_resolved ''ke'' False)) \<noteq> RoleOwner" by code_simp
  ultimately show ?thesis using only_owners_change_owners [OF eg_engine_ok] by metis
qed

text \<open>C3: A team never loses its last owner by \<^verbatim>\<open>SetMember\<close> or \<^verbatim>\<open>RemoveMember\<close>: a tenant that has an
  owner before has one after, whoever calls, whether the call succeeds or fails half-way.\<close>

theorem last_owner_stays:
  assumes "engine_ok w e" and "roster_change w e key target e'" and "0 < count_owners (en_files e p)"
  shows "0 < count_owners (en_files e' p)"
  using roster_change_owners [OF assms(1,2), of p] assms(3)
  by (cases "en_files e' p = en_files e p") (auto simp: count_owners_pos)

theorem last_owner_stays_witness:
  "0 < count_owners (en_files (snd (remove_member eg_world eg_engine ''ku'' ''u'')) ''t.rekam'')"
proof -
  have "0 < count_owners (en_files eg_engine ''t.rekam'')" by code_simp
  moreover have "roster_change eg_world eg_engine ''ku'' ''u'' (snd (remove_member eg_world eg_engine ''ku'' ''u''))"
    by (simp add: roster_change_def)
  ultimately show ?thesis by (rule last_owner_stays [OF eg_engine_ok, rotated])
qed

section \<open>Seats, invites, the first member\<close>

lemma put_member_rows:
  "put_member i role rd ti b now st = Inr st' \<Longrightarrow> member_at st i = None \<Longrightarrow>
     st_members st' = st_members st @ [\<lparr>mb_id = i, mb_role = role, mb_added_at = now, mb_added_by = null_str b\<rparr>]"
  by (auto simp: put_member_def Let_def member_at_def tbl_get_None_iff tbl_has_iff split: if_splits)

text \<open>A new member fits the plan: when \<^verbatim>\<open>SetMember\<close> adds somebody to a registered team, the roster with
  the newcomer is within the seat limit of the team's plan.\<close>

theorem seats_respected:
  assumes "set_member w e key target role rd ti = (Inr m, e')" and v: "resolve_tenant w e key False = Inr v"
    and team: "rv_team v \<noteq> []" "team_by_id (rv_team v) (en_registry e) = Inr t" and new: "member_at (rv_store v) target = None"
  shows "int (count_members (en_files e' (rv_path v))) \<le> te_seats t"
proof -
  obtain v' st where "resolve_tenant w e key False = Inr v'" and checks: "set_member_checks e v' (rv_member v') target role = None"
    and put: "put_member target role rd ti (iy_id (rv_identity v')) (tenant_now w) (rv_store v') = Inr st"
    and files: "en_files e' = (en_files e)(rv_path v' := st)"
    using set_member_effect [OF assms(1)] by blast
  then have v': "v' = v" using v by simp
  have "check_seat_limit e (rv_store v) (rv_team v) = None"
    using checks team(1) new unfolding v'
    by (simp add: set_member_checks_def Let_def first_error_None seat_guard_def del: first_error.simps)
  then have "int (count_members (rv_store v)) < te_seats t"
    using team(2) by (simp add: check_seat_limit_def split: if_splits)
  then show ?thesis using put_member_rows [OF put] new unfolding files v' by (simp add: count_members_def)
qed

definition eg_fourth :: "(engine_error + member option) \<times> engine" where
  "eg_fourth = set_member eg_world (put_registry (snd (projr (create_identity id ''x'' ''Xe'' ''k9'' ''x.rekam'' True 2 eg_reg))) eg_engine)
     ''ku'' ''x'' RoleAdmin [] []"

theorem seats_respected_witness:
  "int (count_members (en_files (snd eg_fourth) ''t.rekam'')) \<le> 4 \<and> count_members (en_files (snd eg_fourth) ''t.rekam'') = 4"
proof -
  let ?e = "put_registry (snd (projr (create_identity id ''x'' ''Xe'' ''k9'' ''x.rekam'' True 2 eg_reg))) eg_engine"
  let ?v = "projr (resolve_tenant eg_world ?e ''ku'' False)"
  have "\<not> isl (fst eg_fourth)" by code_simp
  then have res: "set_member eg_world ?e ''ku'' ''x'' RoleAdmin [] [] = (Inr (projr (fst eg_fourth)), snd eg_fourth)"
    using Inr_projr unfolding eg_fourth_def by (metis prod.collapse)
  have v: "resolve_tenant eg_world ?e ''ku'' False = Inr ?v" by (rule Inr_projr) code_simp
  have t: "rv_team ?v \<noteq> []" "team_by_id (rv_team ?v) (en_registry ?e) = Inr (projr (team_by_id (rv_team ?v) (en_registry ?e)))"
    by (code_simp, rule Inr_projr, code_simp)
  have n: "member_at (rv_store ?v) ''x'' = None" by code_simp
  have seats: "te_seats (projr (team_by_id (rv_team ?v) (en_registry ?e))) = 4" "rv_path ?v = ''t.rekam''" by code_simp+
  have "count_members (en_files (snd eg_fourth) ''t.rekam'') = 4" by code_simp
  then show ?thesis using seats_respected [OF res v t n] seats by simp
qed

text \<open>Adding somebody else to a personal memory locks its owner out: a file without members treats its
  user as owner, but once \<^verbatim>\<open>SetMember\<close> has put another identity on its roster the same bearer is no
  longer a member there, and no rule of \<^verbatim>\<open>SetMember\<close> prevents it.\<close>

theorem first_member_locks_out:
  assumes "set_member w e key target role rd ti = (Inr m, e')" and v: "resolve_tenant w e key False = Inr v"
    and home: "rv_team v = []" "\<not> has_members (rv_store v)" and other: "target \<noteq> iy_id (rv_identity v)"
  shows "resolve_tenant w e' key False = Inl NotAMember"
proof -
  obtain v' st where "resolve_tenant w e key False = Inr v'"
    and put: "put_member target role rd ti (iy_id (rv_identity v')) (tenant_now w) (rv_store v') = Inr st"
    and files: "en_files e' = (en_files e)(rv_path v' := st)"
    using set_member_effect [OF assms(1)] by blast
  then have v': "v' = v" using v by simp
  have reg: "en_registry e' = en_registry e"
    using assms(1) v home(1)
    by (auto simp: set_member_def acting_def index_in_team_def commit_file_def split: sum.splits option.splits prod.splits)
  have none: "member_at (rv_store v) target = None"
    using home(2) by (simp add: has_members_def member_at_def tbl_get_def)
  have rows: "st_members st = [\<lparr>mb_id = target, mb_role = role, mb_added_at = tenant_now w,
      mb_added_by = null_str (iy_id (rv_identity v))\<rparr>]"
    using put_member_rows [OF put] none home(2) unfolding v' by (simp add: has_members_def)
  have denied: "effective_member st (iy_id (rv_identity v)) = (None, True)"
    using other by (simp add: effective_member_def member_at_def has_members_def rows tbl_get_def)
  note c = resolve_tenant_cases [OF v]
  have "resolve_bearer w e' key = Inr (rv_identity v, rv_team v)"
    using c(1) unfolding resolve_bearer_def reg .
  moreover have "tenant_path e' (rv_identity v) (rv_team v) = Inr (rv_path v)"
    using c(2) unfolding tenant_path_def reg .
  ultimately show ?thesis using c(4) denied by (simp add: resolve_tenant_def files v' Let_def)
qed

theorem first_member_locks_out_witness:
  "resolve_tenant eg_world eg_engine ''k1'' False = Inr (eg_resolved ''k1'' False)
   \<and> resolve_tenant eg_world (snd (set_member eg_world eg_engine ''k1'' ''e'' RoleViewer [''work''] [])) ''k1'' False = Inl NotAMember"
proof -
  let ?r = "set_member eg_world eg_engine ''k1'' ''e'' RoleViewer [''work''] []"
  have v: "resolve_tenant eg_world eg_engine ''k1'' False = Inr (eg_resolved ''k1'' False)"
    unfolding eg_resolved_def by (rule Inr_projr) code_simp
  have "\<not> isl (fst ?r)" by code_simp
  then have res: "?r = (Inr (projr (fst ?r)), snd ?r)" using Inr_projr by (metis prod.collapse)
  have "rv_team (eg_resolved ''k1'' False) = []" "\<not> has_members (rv_store (eg_resolved ''k1'' False))"
    "''e'' \<noteq> iy_id (rv_identity (eg_resolved ''k1'' False))" by code_simp+
  from first_member_locks_out [OF res v this] show ?thesis using v by simp
qed

text \<open>Accepting an invite sets the caller's role in the team to the invited one, whatever it was
  before, without the guard on the last owner: an owner who accepts an older invite as viewer leaves
  the team with the other owners only, and with none if there is no other.\<close>

theorem invite_overrides_role:
  assumes res: "accept_invite w e key token = (Inr m, e')" and b: "resolve_bearer w e key = Inr (idn, t0)"
    and i: "resolve_invite (wd_hash w) token (wd_now w) (en_registry e) = Some ivt"
    and t: "team_by_id (in_team ivt) (en_registry e) = Inr t"
  shows "owners (en_files e' (te_path t)) =
    (if in_role ivt = RoleOwner then insert (iy_id idn) (owners (en_files e (te_path t)))
     else owners (en_files e (te_path t)) - {iy_id idn})"
proof -
  have "\<exists>st now. put_member (iy_id idn) (in_role ivt) (in_read ivt) (in_titles ivt) (in_by ivt) now (en_files e (te_path t)) = Inr st
      \<and> en_files e' = (en_files e)(te_path t := st)"
    using res by (auto simp: accept_invite_def b i t Let_def simp del: first_error.simps
        split: if_splits option.splits sum.splits)
  then show ?thesis using owners_put by auto
qed

definition eg_invited :: engine where
  "eg_invited = put_registry (snd (store_invite id ''tok'' ''t'' ''ann@x.io'' RoleViewer [] [] ''u'' invite_ttl 0
     (eg_reg\<lparr>rg_idents := map (\<lambda>r. if ir_id r = ''u'' then r\<lparr>ir_email := Some ''ann@x.io''\<rparr> else r) (rg_idents eg_reg)\<rparr>))) eg_engine"

theorem invite_overrides_role_witness:
  "owners (en_files eg_invited ''t.rekam'') = {''u''}
   \<and> owners (en_files (snd (accept_invite eg_world eg_invited ''k1'' ''tok'')) ''t.rekam'') = {}"
proof -
  let ?r = "accept_invite eg_world eg_invited ''k1'' ''tok''"
  let ?b = "projr (resolve_bearer eg_world eg_invited ''k1'')"
  let ?i = "the (resolve_invite (wd_hash eg_world) ''tok'' (wd_now eg_world) (en_registry eg_invited))"
  let ?t = "projr (team_by_id (in_team ?i) (en_registry eg_invited))"
  have "\<not> isl (fst ?r)" by code_simp
  then have res: "?r = (Inr (projr (fst ?r)), snd ?r)" using Inr_projr by (metis prod.collapse)
  have b: "resolve_bearer eg_world eg_invited ''k1'' = Inr (fst ?b, snd ?b)" by (rule Inr_pair) code_simp
  have "resolve_invite (wd_hash eg_world) ''tok'' (wd_now eg_world) (en_registry eg_invited) \<noteq> None" by code_simp
  then have i: "resolve_invite (wd_hash eg_world) ''tok'' (wd_now eg_world) (en_registry eg_invited) = Some ?i" by simp
  have t: "team_by_id (in_team ?i) (en_registry eg_invited) = Inr ?t" by (rule Inr_projr) code_simp
  have c: "te_path ?t = ''t.rekam''" "in_role ?i \<noteq> RoleOwner" "iy_id (fst ?b) = ''u''" by code_simp+
  have "owners (en_files eg_invited ''t.rekam'') = {''u''}" by code_simp
  then show ?thesis using invite_overrides_role [OF res b i t] c by simp
qed

end
