(* ===== verification/Net_Address.thy ===== *)
theory Net_Address
  imports Engine_Core "HOL-Library.Word"
begin

text \<open>
  Internet addresses as \<^verbatim>\<open>net/netip\<close> reads them, and what the server makes of them: the peers
  whose forwarding headers count and the address a request is throttled by
  (\<^verbatim>\<open>internal/api/ratelimit.go\<close>), and the loopback hosts of \<^verbatim>\<open>internal/api/redirect_uri.go\<close>.
\<close>

unbundle bit_operations_syntax

section \<open>Addresses\<close>

datatype ip_addr = V4 "32 word" | V6 "128 word" string

text \<open>\<^verbatim>\<open>netip.ParseAddr\<close>. A field of a dotted quad: at most 255, no leading zero.\<close>

definition v4_field :: "string \<Rightarrow> nat option" where
  "v4_field s =
     (if s = [] \<or> (1 < length s \<and> hd s = CHR ''0'') then None
      else (case all_some (map digit_val s) of
              None \<Rightarrow> None
            | Some vs \<Rightarrow> (let n = foldl (\<lambda>a d. a * 10 + d) 0 vs in if n \<le> 255 then Some n else None)))"

definition parse_quad :: "string \<Rightarrow> nat option" where
  "parse_quad s =
     (let fs = split_on CHR ''.'' s in
      if length fs \<noteq> 4 then None
      else map_option (foldl (\<lambda>a d. a * 256 + d) 0) (all_some (map v4_field fs)))"

definition hextet :: "string \<Rightarrow> nat option" where
  "hextet s =
     (if s = [] \<or> 4 < length s then None
      else map_option (foldl (\<lambda>a d. a * 16 + d) 0) (all_some (map hex_value s)))"

text \<open>
  The groups of an IPv6 text up to a \<^verbatim>\<open>::\<close> or the end. A dotted quad may stand for the last two
  groups; \<open>room\<close> groups are allowed, and a quad needs exactly two places when no \<^verbatim>\<open>::\<close> came before.
\<close>

fun v6_groups :: "string list \<Rightarrow> nat list option" where
  "v6_groups [] = Some []"
| "v6_groups [s] =
     (if CHR ''.'' \<in> set s then map_option (\<lambda>q. [q div 65536, q mod 65536]) (parse_quad s)
      else map_option (\<lambda>g. [g]) (hextet s))"
| "v6_groups (s # t # ss) =
     (case hextet s of None \<Rightarrow> None | Some g \<Rightarrow> map_option ((#) g) (v6_groups (t # ss)))"

definition v6_side :: "string \<Rightarrow> nat list option" where
  "v6_side s = (if s = [] then Some [] else v6_groups (split_on CHR '':'' s))"

definition v6_bits :: "string \<Rightarrow> nat list option" where
  "v6_bits s =
     (case str_cut ''::'' s of
        None \<Rightarrow> (case v6_side s of None \<Rightarrow> None | Some gs \<Rightarrow> if length gs = 8 then Some gs else None)
      | Some (a, b) \<Rightarrow>
          if CHR ''.'' \<in> set a \<or> prefix '':'' b then None
          else (case (v6_side a, v6_side b) of
                  (Some xs, Some ys) \<Rightarrow>
                    if length xs + length ys < 8 then Some (xs @ replicate (8 - length xs - length ys) 0 @ ys) else None
                | _ \<Rightarrow> None))"

definition v6_word :: "nat list \<Rightarrow> 128 word" where
  "v6_word gs = word_of_nat (foldl (\<lambda>a g. a * 65536 + g) 0 gs)"

definition parse_v6 :: "string \<Rightarrow> ip_addr option" where
  "parse_v6 s =
     (case index_byte CHR ''%'' s of
        None \<Rightarrow> map_option (\<lambda>gs. V6 (v6_word gs) []) (v6_bits s)
      | Some i \<Rightarrow>
          if drop (Suc i) s = [] then None
          else map_option (\<lambda>gs. V6 (v6_word gs) (drop (Suc i) s)) (v6_bits (take i s)))"

definition parse_addr :: "string \<Rightarrow> ip_addr option" where
  "parse_addr s =
     (case find (\<lambda>c. c \<in> {CHR ''.'', CHR '':'', CHR ''%''}) s of
        Some c \<Rightarrow> if c = CHR ''.'' then map_option (\<lambda>q. V4 (word_of_nat q)) (parse_quad s)
                  else if c = CHR '':'' then parse_v6 s else None
      | None \<Rightarrow> None)"

text \<open>\<^verbatim>\<open>Addr.Unmap\<close>: an IPv4-mapped address becomes the IPv4 address, without a zone.\<close>

fun unmap_addr :: "ip_addr \<Rightarrow> ip_addr" where
  "unmap_addr (V4 a) = V4 a"
| "unmap_addr (V6 a z) = (if drop_bit 32 a = 0xFFFF then V4 (ucast a) else V6 a z)"

section \<open>Prefixes\<close>

record ip_prefix =
  ip_base :: ip_addr
  ip_bits :: nat

fun bit_len :: "ip_addr \<Rightarrow> nat" where
  "bit_len (V4 _) = 32"
| "bit_len (V6 _ _) = 128"

fun without_zone :: "ip_addr \<Rightarrow> ip_addr" where
  "without_zone (V4 a) = V4 a"
| "without_zone (V6 a z) = V6 a []"

text \<open>\<^verbatim>\<open>Prefix.Contains\<close>: the first bits agree; an address with a zone is in no prefix.\<close>

fun prefix_contains :: "ip_prefix \<Rightarrow> ip_addr \<Rightarrow> bool" where
  "prefix_contains p (V4 a) =
     (case ip_base p of V4 b \<Rightarrow> drop_bit (32 - ip_bits p) (a XOR b) = 0 | V6 _ _ \<Rightarrow> False)"
| "prefix_contains p (V6 a z) =
     (case ip_base p of V4 _ \<Rightarrow> False | V6 b _ \<Rightarrow> z = [] \<and> drop_bit (128 - ip_bits p) (a XOR b) = 0)"

definition parse_prefix :: "string \<Rightarrow> ip_prefix option" where
  "parse_prefix s =
     (case last_index_byte CHR ''/'' s of
        None \<Rightarrow> None
      | Some i \<Rightarrow>
          (let bits = drop (Suc i) s in
           case parse_addr (take i s) of
             None \<Rightarrow> None
           | Some a \<Rightarrow>
               if (case a of V4 _ \<Rightarrow> False | V6 _ z \<Rightarrow> z \<noteq> []) then None
               else if 1 < length bits \<and> hd bits \<notin> set ''123456789'' then None
               else (case atoi bits of
                       None \<Rightarrow> None
                     | Some n \<Rightarrow>
                         if n < 0 \<or> int (bit_len a) < n then None
                         else Some \<lparr>ip_base = without_zone a, ip_bits = nat n\<rparr>)))"

section \<open>Trusted peers\<close>

definition default_trusted_proxies :: "ip_prefix list" where
  "default_trusted_proxies =
     [\<lparr>ip_base = V4 (127 * 2 ^ 24), ip_bits = 8\<rparr>, \<lparr>ip_base = V6 1 [], ip_bits = 128\<rparr>]"

definition proxy_field :: "string \<Rightarrow> ip_prefix option" where
  "proxy_field s =
     (case parse_prefix s of
        Some p \<Rightarrow> Some p
      | None \<Rightarrow> map_option (\<lambda>a. \<lparr>ip_base = without_zone a, ip_bits = bit_len a\<rparr>) (parse_addr s))"

text \<open>The first field that is no address is the error.\<close>

fun trusted_fields :: "string list \<Rightarrow> string + ip_prefix list" where
  "trusted_fields [] = Inr []"
| "trusted_fields (f # fs) =
     (let s = trim_space f in
      if s = [] then trusted_fields fs
      else (case proxy_field s of
              None \<Rightarrow> Inl s
            | Some p \<Rightarrow> (case trusted_fields fs of Inl e \<Rightarrow> Inl e | Inr ps \<Rightarrow> Inr (p # ps))))"

definition parse_trusted_proxies :: "string \<Rightarrow> string + ip_prefix list" where
  "parse_trusted_proxies spec = trusted_fields (split_on CHR '','' spec)"

definition peer_is_trusted :: "string \<Rightarrow> ip_prefix list \<Rightarrow> bool" where
  "peer_is_trusted host trusted =
     (case parse_addr host of
        None \<Rightarrow> False
      | Some a \<Rightarrow> list_ex (\<lambda>p. prefix_contains p (unmap_addr a)) trusted)"

text \<open>\<^verbatim>\<open>net.ParseIP(host).IsLoopback()\<close>: \<^verbatim>\<open>ParseIP\<close> takes no zone.\<close>

definition loopback_host :: "string \<Rightarrow> bool" where
  "loopback_host host =
     (case parse_addr host of
        None \<Rightarrow> False
      | Some (V4 a) \<Rightarrow> drop_bit 24 a = 127
      | Some (V6 a z) \<Rightarrow> z = [] \<and> (case unmap_addr (V6 a z) of V4 b \<Rightarrow> drop_bit 24 b = 127 | V6 b _ \<Rightarrow> b = 1))"

section \<open>Host and port\<close>

text \<open>\<^verbatim>\<open>net.SplitHostPort\<close>: the host, unless the text has no port, too many colons or stray brackets.\<close>

definition split_host_port :: "string \<Rightarrow> (string \<times> string) option" where
  "split_host_port s =
     (case last_index_byte CHR '':'' s of
        None \<Rightarrow> None
      | Some i \<Rightarrow>
     (let port = drop (Suc i) s in
      if prefix ''['' s then
        (case index_byte CHR '']'' s of
           None \<Rightarrow> None
         | Some e \<Rightarrow>
             if Suc e \<noteq> i \<or> CHR ''['' \<in> set (drop 1 s) \<or> CHR '']'' \<in> set (drop (Suc e) s) then None
             else Some (take (e - 1) (drop 1 s), port))
      else (let host = take i s in
        if CHR '':'' \<in> set host \<or> CHR ''['' \<in> set s \<or> CHR '']'' \<in> set s then None
        else Some (host, port))))"

definition remote_host :: "string \<Rightarrow> string" where
  "remote_host addr = (case split_host_port addr of None \<Rightarrow> addr | Some (h, _) \<Rightarrow> h)"

text \<open>The headers are the values of \<^verbatim>\<open>CF-Connecting-IP\<close> and \<^verbatim>\<open>X-Forwarded-For\<close>, empty when absent.\<close>

definition client_ip :: "string \<Rightarrow> string \<Rightarrow> string \<Rightarrow> ip_prefix list \<Rightarrow> string" where
  "client_ip remote cf xff trusted =
     (let host = remote_host remote in
      if \<not> peer_is_trusted host trusted then host
      else if trim_space cf \<noteq> [] then trim_space cf
      else if xff \<noteq> [] then trim_space (case str_cut '','' xff of None \<Rightarrow> xff | Some (a, _) \<Rightarrow> a)
      else host)"

section \<open>Examples\<close>

lemmas address_simps = parse_addr_def parse_quad_def parse_v6_def v6_bits_def v6_side_def v6_word_def hextet_def
  v4_field_def digit_val_def hex_value_def

lemma groups_of_zeros: "foldl (\<lambda>a g. a * 65536 + g) 0 (replicate n (0 :: nat)) = 0"
  by (induction n) simp_all

lemma parse_examples:
  "parse_addr ''127.0.0.1'' = Some (V4 2130706433)" "parse_addr ''::1'' = Some (V6 1 [])"
  "parse_addr ''1.2.3'' = None" "parse_addr ''01.2.3.4'' = None" "parse_addr ''::ffff:127.0.0.1'' = Some (V6 281472812449793 [])"
  "parse_addr ''1::2::3'' = None"
  by (simp_all add: address_simps groups_of_zeros)

lemma split_examples:
  "split_host_port ''[::1]:80'' = Some (''::1'', ''80'')" "split_host_port ''1.2.3.4:80'' = Some (''1.2.3.4'', ''80'')"
  by code_simp+

lemma trusted_examples:
  "peer_is_trusted ''127.8.9.1'' default_trusted_proxies" "peer_is_trusted ''::1'' default_trusted_proxies"
  "\<not> peer_is_trusted ''10.0.0.1'' default_trusted_proxies"
  by (simp_all add: peer_is_trusted_def default_trusted_proxies_def address_simps groups_of_zeros)

section \<open>Who decides the address\<close>

lemma xor_zero_iff: "a XOR b = 0 \<longleftrightarrow> a = (b :: 'a::len word)"
proof
  assume "a XOR b = 0"
  then have "(a XOR b) XOR b = 0 XOR b" by simp
  then show "a = b" by (simp add: xor.assoc)
qed simp

lemma in_loopback_net: "drop_bit 24 (a XOR 127 * 2 ^ 24) = 0 \<longleftrightarrow> drop_bit 24 a = (127 :: 32 word)"
proof -
  have "drop_bit 24 (127 * 2 ^ 24 :: 32 word) = 127" by simp
  then show ?thesis by (simp only: drop_bit_xor xor_zero_iff)
qed

lemma default_contains:
  "list_ex (\<lambda>p. prefix_contains p a) default_trusted_proxies
    \<longleftrightarrow> (case a of V4 b \<Rightarrow> drop_bit 24 b = 127 | V6 b z \<Rightarrow> b = 1 \<and> z = [])"
  using in_loopback_net by (cases a) (auto simp: default_trusted_proxies_def xor_zero_iff)

text \<open>Forwarding headers are believed only from a trusted peer: from anybody else the throttle key
  is the address of the connection whatever the headers say, and under the default configuration a
  peer is trusted exactly when its address is loopback, in the IPv4-mapped form too.\<close>

theorem headers_need_trust:
  shows "\<not> peer_is_trusted (remote_host remote) trusted \<Longrightarrow> client_ip remote cf xff trusted = remote_host remote"
    and "peer_is_trusted host default_trusted_proxies \<longleftrightarrow> (\<exists>a. parse_addr host = Some a \<and> (case unmap_addr a of
           V4 b \<Rightarrow> drop_bit 24 b = 127 | V6 b z \<Rightarrow> b = 1 \<and> z = []))"
  by (simp add: client_ip_def)
     (simp add: peer_is_trusted_def default_contains split: option.split)

lemma headers_need_trust_witness:
  "client_ip ''10.0.0.1:7'' ''6.6.6.6'' ''7.7.7.7'' default_trusted_proxies = ''10.0.0.1''"
proof -
  have host: "remote_host ''10.0.0.1:7'' = ''10.0.0.1''" by code_simp
  have "\<not> peer_is_trusted (remote_host ''10.0.0.1:7'') default_trusted_proxies"
    unfolding host by (rule trusted_examples(3))
  from headers_need_trust(1) [OF this] show ?thesis unfolding host .
qed

lemma str_cut_char: "c \<notin> set a \<Longrightarrow> str_cut [c] (a @ c # b) = Some (a, b)"
  by (induction a) (auto simp: prefix_def)

text \<open>A trusted peer, the default being any process on the same machine, decides the throttle key
  freely: what it puts into \<^verbatim>\<open>CF-Connecting-IP\<close>, or passes on in the first hop of
  \<^verbatim>\<open>X-Forwarded-For\<close>, is taken as it stands, an address or not, so a proxy that forwards the client's
  own header gives every request a bucket of its own.\<close>

theorem trusted_peer_names_key:
  assumes "peer_is_trusted (remote_host remote) trusted" and "trim_space name = name" and "name \<noteq> []"
  shows "client_ip remote name xff trusted = name"
    and "CHR '','' \<notin> set name \<Longrightarrow> trim_space cf = [] \<Longrightarrow> client_ip remote cf (name @ '','' @ others) trusted = name"
  using assms str_cut_char [of "CHR '',''" name others] by (simp_all add: client_ip_def Let_def)

lemma trusted_peer_names_key_witness:
  "client_ip ''127.0.0.1:7'' ''x'' ''y'' default_trusted_proxies = ''x''
    \<and> client_ip ''127.0.0.1:7'' [] (''x'' @ '','' @ ''1.1.1.1'') default_trusted_proxies = ''x''"
proof -
  have host: "remote_host ''127.0.0.1:7'' = ''127.0.0.1''" by code_simp
  have p: "peer_is_trusted (remote_host ''127.0.0.1:7'') default_trusted_proxies"
    unfolding host by (simp add: peer_is_trusted_def default_trusted_proxies_def address_simps)
  have x: "trim_space ''x'' = ''x''" "trim_space [] = []" by code_simp+
  show ?thesis
    using trusted_peer_names_key(1) [OF p x(1)] trusted_peer_names_key(2) [OF p x(1) _ _ x(2), of "''1.1.1.1''"] by simp
qed

end
