(* ===== verification/Web_Data.thy ===== *)
theory Web_Data
  imports Engine_Reachable Net_Address
begin

text \<open>
  What the HTTP server reads and writes: requests after the parsing of \<^verbatim>\<open>net/http\<close> and
  \<^verbatim>\<open>encoding/json\<close>, responses before the encoding of their bodies, and what lies outside: the
  configuration, the random source, the URL parser, SHA-256, the mail provider and the other nodes.
\<close>

section \<open>JSON\<close>

text \<open>\<open>JInt\<close> is a number written as an integer, \<open>JFloat\<close> any other; \<open>JTime\<close> an instant written as
  RFC 3339 text. Objects keep the order and the duplicates of the text.\<close>

datatype json =
    JNull
  | JBool bool
  | JInt int
  | JFloat rat
  | JStr string
  | JTime int
  | JArr "json list"
  | JObj "(string \<times> json) list"

text \<open>Decoding into a struct: \<^verbatim>\<open>null\<close> leaves it alone, keys match whatever their case, the last one
  counts, \<^verbatim>\<open>null\<close> leaves a field alone or clears a pointer, a value of another type is an error.\<close>

fun json_struct :: "json \<Rightarrow> (string \<times> json) list option" where
  "json_struct (JObj kvs) = Some kvs"
| "json_struct JNull = Some []"
| "json_struct _ = None"

definition field_values :: "string \<Rightarrow> (string \<times> json) list \<Rightarrow> json list" where
  "field_values name kvs = map snd (filter (\<lambda>kv. to_lower (fst kv) = name) kvs)"

fun decode_values :: "(json \<Rightarrow> 'a option) \<Rightarrow> 'a \<Rightarrow> json list \<Rightarrow> 'a option" where
  "decode_values dec acc [] = Some acc"
| "decode_values dec acc (v # vs) =
     (if v = JNull then decode_values dec acc vs
      else (case dec v of None \<Rightarrow> None | Some x \<Rightarrow> decode_values dec x vs))"

fun decode_pointers :: "(json \<Rightarrow> 'a option) \<Rightarrow> 'a option \<Rightarrow> json list \<Rightarrow> 'a option option" where
  "decode_pointers dec acc [] = Some acc"
| "decode_pointers dec acc (v # vs) =
     (if v = JNull then decode_pointers dec None vs
      else (case dec v of None \<Rightarrow> None | Some x \<Rightarrow> decode_pointers dec (Some x) vs))"

fun as_str :: "json \<Rightarrow> string option" where
  "as_str (JStr s) = Some s"
| "as_str _ = None"

fun as_bool :: "json \<Rightarrow> bool option" where
  "as_bool (JBool b) = Some b"
| "as_bool _ = None"

fun as_int :: "json \<Rightarrow> int option" where
  "as_int (JInt n) = (if - (2 ^ 63) \<le> n \<and> n < 2 ^ 63 then Some n else None)"
| "as_int _ = None"

definition str_field :: "string \<Rightarrow> (string \<times> json) list \<Rightarrow> string option" where
  "str_field name kvs = decode_values as_str [] (field_values name kvs)"

definition int_field :: "string \<Rightarrow> (string \<times> json) list \<Rightarrow> int option" where
  "int_field name kvs = decode_values as_int 0 (field_values name kvs)"

definition bool_field :: "string \<Rightarrow> (string \<times> json) list \<Rightarrow> bool option" where
  "bool_field name kvs = decode_values as_bool False (field_values name kvs)"

definition str_pointer :: "string \<Rightarrow> (string \<times> json) list \<Rightarrow> string option option" where
  "str_pointer name kvs = decode_pointers as_str None (field_values name kvs)"

definition int_pointer :: "string \<Rightarrow> (string \<times> json) list \<Rightarrow> int option option" where
  "int_pointer name kvs = decode_pointers as_int None (field_values name kvs)"

definition bool_pointer :: "string \<Rightarrow> (string \<times> json) list \<Rightarrow> bool option option" where
  "bool_pointer name kvs = decode_pointers as_bool None (field_values name kvs)"

text \<open>Decoding into \<^verbatim>\<open>map[string]any\<close>: exact keys, the last one counts.\<close>

definition map_value :: "string \<Rightarrow> (string \<times> json) list \<Rightarrow> json option" where
  "map_value name kvs = map_of (rev kvs) name"

text \<open>\<^verbatim>\<open>strconv.Itoa\<close>.\<close>

fun decimal :: "nat \<Rightarrow> string" where
  "decimal n = (if n < 10 then [char_of (48 + n)] else decimal (n div 10) @ [char_of (48 + n mod 10)])"

declare decimal.simps [simp del]

definition itoa :: "int \<Rightarrow> string" where
  "itoa n = (if n < 0 then CHR ''-'' # decimal (nat (- n)) else decimal (nat n))"

section \<open>Requests\<close>

text \<open>The multipart form of an upload: the length of the body and the part called \<^verbatim>\<open>file\<close>.\<close>

record file_part =
  fp_size :: int
  fp_mime :: string
  fp_data :: string

record multipart =
  mp_length :: int
  mp_file :: "file_part option"

text \<open>\<open>rq_path\<close> is the path as it was sent, escapes included; \<open>rq_broken\<close> tells that the body cannot be read
  to its end; header names have one spelling. \<open>rq_form\<close> is \<^verbatim>\<open>r.Form\<close>, \<open>None\<close> when it does not parse; \<open>rq_json\<close> the first JSON value of the
  body, \<open>None\<close> when there is none; \<open>rq_vars\<close> the wildcards of the route.\<close>

record request =
  rq_method :: string
  rq_path :: string
  rq_host :: string
  rq_tls :: bool
  rq_remote :: string
  rq_query :: "(string \<times> string) list"
  rq_headers :: "(string \<times> string) list"
  rq_cookies :: "(string \<times> string) list"
  rq_form :: "(string \<times> string) list option"
  rq_json :: "json option"
  rq_multipart :: "multipart option"
  rq_vars :: "(string \<times> string) list"
  rq_broken :: bool

definition first_value :: "string \<Rightarrow> (string \<times> string) list \<Rightarrow> string" where
  "first_value k kvs = (case map_of kvs k of None \<Rightarrow> [] | Some v \<Rightarrow> v)"

abbreviation header_of :: "request \<Rightarrow> string \<Rightarrow> string" where
  "header_of r k \<equiv> first_value k (rq_headers r)"

abbreviation query_of :: "request \<Rightarrow> string \<Rightarrow> string" where
  "query_of r k \<equiv> first_value k (rq_query r)"

abbreviation path_value :: "request \<Rightarrow> string \<Rightarrow> string" where
  "path_value r k \<equiv> first_value k (rq_vars r)"

definition form_value :: "request \<Rightarrow> string \<Rightarrow> string" where
  "form_value r k = (case rq_form r of None \<Rightarrow> [] | Some kvs \<Rightarrow> first_value k kvs)"

definition set_header :: "string \<Rightarrow> string \<Rightarrow> request \<Rightarrow> request" where
  "set_header k v r = r\<lparr>rq_headers := (k, v) # filter (\<lambda>h. fst h \<noteq> k) (rq_headers r)\<rparr>"

definition del_header :: "string \<Rightarrow> request \<Rightarrow> request" where
  "del_header k r = r\<lparr>rq_headers := filter (\<lambda>h. fst h \<noteq> k) (rq_headers r)\<rparr>"

definition api_key_from_request :: "request \<Rightarrow> string" where
  "api_key_from_request r =
     (let h = header_of r ''Authorization'' in if 7 < length h \<and> take 7 h = ''Bearer '' then drop 7 h else [])"

section \<open>Responses\<close>

record authorize_view =
  av_redirect :: string
  av_state :: string
  av_challenge :: string
  av_method :: string
  av_client :: string
  av_email :: string
  av_error :: string
  av_destination :: string
  av_ticket :: string
  av_choices :: "(string \<times> string \<times> role) list"

record cookie =
  ck_value :: string
  ck_secure :: bool
  ck_max_age :: int

text \<open>A body before its encoding: \<open>ErrorReply\<close> is \<^verbatim>\<open>{"error": ...}\<close> with a fixed text, \<open>ErrorText\<close> the
  same with the text of an error value, \<open>Failure\<close> an \<^verbatim>\<open>ActionableError\<close>, \<open>OAuthError\<close> a code with the text
  of an error value as its description, \<open>Plain\<close> text that is no JSON.\<close>

datatype reply =
    Empty
  | Plain string
  | ErrorReply string
  | ErrorText engine_error
  | Failure engine_error
  | OAuthError string engine_error
  | Fields "(string \<times> json) list"
  | LoginPage authorize_view
  | WorkspacePage authorize_view
  | CatalogReply "taxonomy_entry list"
  | TemplateReply template_result
  | SearchReply search_result
  | ScopeReply scope_result
  | MemoryReply memory
  | ListReply "memory list" nat
  | DeletedReply "tombstone list"
  | HistoryReply "revision_view list"
  | HealthReply edge_stats
  | GraphReply link_graph
  | SuggestReply "suggestion list"
  | DeckReply "review_card list" review_stats
  | CardReply srs_row
  | GrantsReply "grant list"
  | StatsReply reg_stats
  | TeamRefs "team_ref list"
  | BlobReply file_row
  | ArchiveReply "(string \<times> string) list"

record response =
  rs_status :: nat
  rs_headers :: "(string \<times> string) list"
  rs_cookies :: "cookie list"
  rs_body :: reply

definition respond :: "nat \<Rightarrow> reply \<Rightarrow> response" where
  "respond status body =
     \<lparr>rs_status = status, rs_headers = [(''Content-Type'', ''application/json'')], rs_cookies = [], rs_body = body\<rparr>"

text \<open>\<^verbatim>\<open>http.Error\<close>, \<^verbatim>\<open>http.NotFound\<close> and \<^verbatim>\<open>http.Redirect\<close>.\<close>

definition http_error :: "string \<Rightarrow> nat \<Rightarrow> response" where
  "http_error msg status =
     \<lparr>rs_status = status,
      rs_headers = [(''Content-Type'', ''text/plain; charset=utf-8''), (''X-Content-Type-Options'', ''nosniff'')],
      rs_cookies = [], rs_body = Plain msg\<rparr>"

definition http_not_found :: response where
  "http_not_found = http_error ''404 page not found'' 404"

definition redirect_to :: "string \<Rightarrow> response" where
  "redirect_to location =
     \<lparr>rs_status = 302, rs_headers = [(''Location'', location)], rs_cookies = [], rs_body = Empty\<rparr>"

definition add_header :: "string \<Rightarrow> string \<Rightarrow> response \<Rightarrow> response" where
  "add_header k v rs = rs\<lparr>rs_headers := (k, v) # rs_headers rs\<rparr>"

section \<open>Outside\<close>

text \<open>A parsed URL: \<^verbatim>\<open>u.Hostname()\<close> strips the port and the brackets of \<^verbatim>\<open>u.Host\<close>.\<close>

record url =
  ur_scheme :: string
  ur_host :: string
  ur_hostname :: string
  ur_path :: string
  ur_query :: "(string \<times> string) list"
  ur_rest :: string

record web =
  wb_world :: world
  wb_admin_key :: string
  wb_users_dir :: string
  wb_edition :: string
  wb_trusted :: "ip_prefix list"
  wb_random :: "nat \<Rightarrow> nat \<Rightarrow> string option"
  wb_fresh :: "nat \<Rightarrow> string"
  wb_parse_url :: "string \<Rightarrow> url option"
  wb_render_url :: "url \<Rightarrow> string"
  wb_join :: "string \<Rightarrow> string \<Rightarrow> string"
  wb_sha256 :: "string \<Rightarrow> string"
  wb_mailer :: bool
  wb_send :: "string \<Rightarrow> string \<Rightarrow> bool"
  wb_forward :: "string \<Rightarrow> request \<Rightarrow> response option"
  wb_today :: string
  wb_format_time :: "int \<Rightarrow> string"
  wb_assets :: "string \<Rightarrow> response"
  wb_index :: "string option"
  wb_metrics :: string

text \<open>
  \<open>wb_random k n\<close> is the \<open>k\<close>-th draw of \<open>n\<close> random bytes in hexadecimal, \<open>None\<close> when the source
  fails; \<open>wb_fresh\<close> are the ids, keys and salts the engine draws; \<open>wb_send\<close> tells whether a mail to an
  address with a link went out; \<open>wb_forward\<close> what another node answers, \<open>None\<close> when it is not reached;
  \<open>wb_today\<close> the date and \<open>wb_format_time\<close> the text of a stored time; \<open>wb_assets\<close> is the file server over the
  embedded front end, \<open>wb_index\<close> its index page, \<open>wb_metrics\<close> the text of a Prometheus scrape.
  A handler takes the request and the engine to the response and the engine after it.
\<close>

type_synonym handler = "web \<Rightarrow> request \<Rightarrow> engine \<Rightarrow> response \<times> engine"

end
