(* ===== verification/Web_Errors.thy ===== *)
theory Web_Errors
  imports Web_Data
begin

text \<open>
  How an error of the engine leaves the server (\<^verbatim>\<open>internal/api/forward.go\<close>): its status, or the replay
  of the request on the node that holds the write lease.
\<close>

section \<open>Codes\<close>

text \<open>The \<^verbatim>\<open>Code\<close> of an \<^verbatim>\<open>ActionableError\<close>; \<open>None\<close> for the errors the engine passes on wrapped.\<close>

definition error_code :: "engine_error \<Rightarrow> string option" where
  "error_code err =
     (case err of
        AuthFailed _ \<Rightarrow> Some ''auth_failed''
      | WriteNotAllowed \<Rightarrow> Some ''write_not_allowed''
      | NoSuchTeam \<Rightarrow> Some ''not_found''
      | NotAMember \<Rightarrow> Some ''not_a_member''
      | NotPrimaryNode _ \<Rightarrow> Some ''not_primary''
      | MemoryNotFound _ \<Rightarrow> Some ''not_found''
      | DeletedMemory _ \<Rightarrow> Some ''deleted''
      | TitleTaken _ _ \<Rightarrow> Some ''title_conflict''
      | VersionStale _ _ \<Rightarrow> Some ''version_conflict''
      | MissingFields _ \<Rightarrow> Some ''missing_fields''
      | MissingQuery \<Rightarrow> Some ''missing_query''
      | MissingTaxonomy \<Rightarrow> Some ''missing_taxonomy''
      | InvalidTaxonomy _ \<Rightarrow> Some ''invalid_taxonomy''
      | TaxonomyForbidden _ \<Rightarrow> Some ''taxonomy_forbidden''
      | InvalidFormat _ \<Rightarrow> Some ''invalid_format''
      | InvalidField \<Rightarrow> Some ''invalid_field''
      | NoChanges \<Rightarrow> Some ''no_changes''
      | StorageLimit _ \<Rightarrow> Some ''storage_limit''
      | HasInboundLinks _ \<Rightarrow> Some ''has_inbound_links''
      | Forbidden \<Rightarrow> Some ''forbidden''
      | InvalidRole \<Rightarrow> Some ''invalid_role''
      | LastOwner \<Rightarrow> Some ''last_owner''
      | SeatLimit _ _ \<Rightarrow> Some ''seat_limit''
      | TeamLimitReached _ \<Rightarrow> Some ''team_limit''
      | NoSuchIdentity _ \<Rightarrow> Some ''not_found''
      | NotOnRoster _ \<Rightarrow> Some ''not_found''
      | NoAccount \<Rightarrow> Some ''not_found''
      | InvalidEmail _ \<Rightarrow> Some ''invalid_email''
      | AlreadyRegistered \<Rightarrow> Some ''already_registered''
      | BadInvite \<Rightarrow> Some ''not_found''
      | WrongEmail \<Rightarrow> Some ''forbidden''
      | SignupFailed _ \<Rightarrow> Some ''signup_failed''
      | ConfirmFailed _ \<Rightarrow> Some ''confirm_failed''
      | ResetFailed _ \<Rightarrow> Some ''reset_failed''
      | InvalidPassword \<Rightarrow> Some ''invalid_password''
      | BlobNotFound \<Rightarrow> Some ''not_found''
      | _ \<Rightarrow> None)"

definition code_status :: "string \<Rightarrow> nat" where
  "code_status code =
     (if code = ''auth_failed'' then 401
      else if code \<in> {''write_not_allowed'', ''taxonomy_forbidden'', ''forbidden'', ''not_a_member''} then 403
      else if code = ''not_found'' then 404
      else if code \<in> {''version_conflict'', ''last_owner'', ''title_conflict'', ''has_inbound_links''} then 409
      else if code = ''deleted'' then 410
      else if code = ''not_primary'' then 409
      else 400)"

definition write_actionable_error :: "engine_error \<Rightarrow> response" where
  "write_actionable_error err =
     (case error_code err of
        Some code \<Rightarrow> respond (code_status code) (Failure err)
      | None \<Rightarrow> respond 500 (ErrorText err))"

section \<open>Forwarding\<close>

definition forwarded_header :: string where "forwarded_header = ''X-Rekam-Forwarded''"

definition owner_from_context :: "web \<Rightarrow> engine_error \<Rightarrow> string" where
  "owner_from_context wb err =
     (case err of
        NotPrimaryNode owner \<Rightarrow>
          if owner = [] then []
          else (case wb_parse_url wb owner of
                  None \<Rightarrow> []
                | Some u \<Rightarrow> if ur_scheme u = [] \<or> ur_host u = [] then [] else owner)
      | _ \<Rightarrow> [])"

text \<open>\<^verbatim>\<open>forwardToOwner\<close>: the same request, marked, and the answer passed on.\<close>

definition forward_to_owner :: "web \<Rightarrow> request \<Rightarrow> string \<Rightarrow> response option" where
  "forward_to_owner wb r owner = wb_forward wb owner (set_header forwarded_header ''1'' r)"

definition respond_err :: "web \<Rightarrow> request \<Rightarrow> engine_error \<Rightarrow> response" where
  "respond_err wb r err =
     (if error_code err = Some ''not_primary'' \<and> header_of r forwarded_header = [] then
        (let owner = owner_from_context wb err in
         if owner \<noteq> [] then
           (case forward_to_owner wb r owner of Some rs \<Rightarrow> rs | None \<Rightarrow> write_actionable_error err)
         else write_actionable_error err)
      else write_actionable_error err)"

text \<open>The \<^verbatim>\<open>if err != nil { s.respondErr(w, r, err); return }\<close> of the handlers, for operations that read
  and for operations that also give an engine.\<close>

definition reply_read :: "web \<Rightarrow> request \<Rightarrow> engine \<Rightarrow> engine_error + 'a \<Rightarrow> ('a \<Rightarrow> response) \<Rightarrow> response \<times> engine" where
  "reply_read wb r e res f = (case res of Inl err \<Rightarrow> respond_err wb r err | Inr x \<Rightarrow> f x, e)"

definition reply_write ::
  "web \<Rightarrow> request \<Rightarrow> engine \<Rightarrow> engine_error + 'a \<times> engine \<Rightarrow> ('a \<Rightarrow> response) \<Rightarrow> response \<times> engine" where
  "reply_write wb r e res f = (case res of Inl err \<Rightarrow> (respond_err wb r err, e) | Inr (x, e') \<Rightarrow> (f x, e'))"

definition reply_outcome :: "web \<Rightarrow> request \<Rightarrow> 'a outcome \<Rightarrow> ('a \<Rightarrow> response) \<Rightarrow> response \<times> engine" where
  "reply_outcome wb r out f = (case fst out of Inl err \<Rightarrow> respond_err wb r err | Inr x \<Rightarrow> f x, snd out)"

section \<open>No loops\<close>

lemma code_not_primary: "error_code err = Some ''not_primary'' \<longleftrightarrow> (\<exists>owner. err = NotPrimaryNode owner)"
  by (cases err) (simp_all add: error_code_def)


definition eg_forwarded :: request where
  "eg_forwarded =
     \<lparr>rq_method = ''POST'', rq_path = ''/memory'', rq_host = ''h'', rq_tls = False, rq_remote = ''9.9.9.9:1'', rq_query = [],
      rq_headers = [(forwarded_header, ''1'')], rq_cookies = [], rq_form = Some [], rq_json = None, rq_multipart = None,
      rq_vars = [], rq_broken = False\<rparr>"


end
