(* ===== verification/Web_Session.thy ===== *)
theory Web_Session
  imports Web_Errors
begin

text \<open>
  Browser sessions and self-service accounts (\<^verbatim>\<open>internal/api/session.go\<close>): the cookie that stands for a
  bearer, signup, confirmation, login, password reset, logout. The session table itself is the
  registry's.
\<close>

definition session_cookie :: string where "session_cookie = ''rekam_session''"

definition session_ttl :: int where "session_ttl = 7 * 24 * 3600 * nanos"

definition cookie_of :: "request \<Rightarrow> string \<Rightarrow> string option" where
  "cookie_of r name = map_of (rq_cookies r) name"

section \<open>From cookie to bearer\<close>

definition session_auth :: "web \<Rightarrow> engine \<Rightarrow> request \<Rightarrow> request" where
  "session_auth wb e r =
     (if header_of r ''Authorization'' \<noteq> [] then r
      else (case cookie_of r session_cookie of
              None \<Rightarrow> r
            | Some sid \<Rightarrow>
                (case engine_resolve_session (wb_world wb) e sid of
                   None \<Rightarrow> r
                 | Some i \<Rightarrow> set_header ''Authorization'' (''Bearer '' @ session_token_for (wd_mac (wb_world wb)) i []) r)))"

definition is_https :: "request \<Rightarrow> bool" where
  "is_https r = (rq_tls r \<or> header_of r ''X-Forwarded-Proto'' = ''https'')"

definition request_base_url :: "request \<Rightarrow> string" where
  "request_base_url r = (if is_https r then ''https'' else ''http'') @ ''://'' @ rq_host r"

text \<open>A mail to an address with a link; whether it went out.\<close>

definition try_send :: "web \<Rightarrow> string \<Rightarrow> string \<Rightarrow> bool" where
  "try_send wb to link = (wb_mailer wb \<and> wb_send wb to link)"

text \<open>The identity behind the cookie, or where to send the browser.\<close>

definition current_browser_identity :: "web \<Rightarrow> request \<Rightarrow> engine \<Rightarrow> string + identity" where
  "current_browser_identity wb r e =
     (case cookie_of r session_cookie of
        None \<Rightarrow> Inl ''/ui/login''
      | Some sid \<Rightarrow>
          (case engine_resolve_session (wb_world wb) e sid of
             None \<Rightarrow> Inl ''/ui/login''
           | Some i \<Rightarrow> (case resolve_by_id i (en_registry e) of Inl _ \<Rightarrow> Inl ''/ui/login'' | Inr idn \<Rightarrow> Inr idn)))"

definition identity_view :: "identity \<Rightarrow> json" where
  "identity_view idn =
     JObj [(''id'', JStr (iy_id idn)), (''name'', JStr (iy_name idn)), (''email'', JStr (iy_email idn)),
           (''allow_write'', JBool (iy_write idn)), (''is_admin'', JBool (iy_admin idn)), (''created_at'', JTime (iy_created idn))]"

text \<open>\<^verbatim>\<open>setSessionCookie\<close>; \<open>k\<close> numbers the draw of the session id. \<open>None\<close> is its error.\<close>

definition set_session_cookie :: "web \<Rightarrow> nat \<Rightarrow> request \<Rightarrow> string \<Rightarrow> engine \<Rightarrow> (cookie \<times> engine) option" where
  "set_session_cookie wb k r i e =
     map_option (\<lambda>sid.
       (\<lparr>ck_value = sid, ck_secure = is_https r, ck_max_age = session_ttl div nanos\<rparr>,
        create_session (wb_world wb) e sid i session_ttl)) (wb_random wb k 24)"

definition server_error :: response where "server_error = respond 500 (ErrorReply ''server error'')"

definition with_cookie :: "web \<Rightarrow> nat \<Rightarrow> request \<Rightarrow> identity \<Rightarrow> engine \<Rightarrow> response \<times> engine" where
  "with_cookie wb k r idn e =
     (case set_session_cookie wb k r (iy_id idn) e of
        None \<Rightarrow> (server_error, e)
      | Some (c, e') \<Rightarrow>
          ((respond 200 (Fields [(''authenticated'', JBool True), (''identity'', identity_view idn)]))\<lparr>rs_cookies := [c]\<rparr>, e'))"

record credentials =
  cr_email :: string
  cr_password :: string
  cr_name :: string

text \<open>The errors of decoding are ignored: what did not decode stays empty.\<close>

definition lax_str :: "string \<Rightarrow> json option \<Rightarrow> string" where
  "lax_str name j =
     (case j of
        Some (JObj kvs) \<Rightarrow> (case filter (\<lambda>v. as_str v \<noteq> None) (field_values name kvs) of [] \<Rightarrow> [] | vs \<Rightarrow> the (as_str (last vs)))
      | _ \<Rightarrow> [])"

definition read_credentials :: "request \<Rightarrow> credentials" where
  "read_credentials r =
     (if prefix ''application/json'' (header_of r ''Content-Type'')
      then \<lparr>cr_email = lax_str ''email'' (rq_json r), cr_password = lax_str ''password'' (rq_json r), cr_name = lax_str ''name'' (rq_json r)\<rparr>
      else \<lparr>cr_email = form_value r ''email'', cr_password = form_value r ''password'', cr_name = form_value r ''name''\<rparr>)"

section \<open>Handlers\<close>

definition handle_ui_signup :: handler where
  "handle_ui_signup wb r e =
     (if wb_users_dir wb = [] then (respond 503 (ErrorReply ''signup disabled: no users directory configured''), e) else
     (let c = read_credentials r in
      case wb_random wb 0 12 of
        None \<Rightarrow> (server_error, e)
      | Some tag \<Rightarrow>
     (case create_unconfirmed (wb_world wb) e (wb_fresh wb 0) (wb_fresh wb 1) (wb_fresh wb 2) (wb_fresh wb 3)
             (cr_name c) (cr_email c) (cr_password c) (wb_join wb (wb_users_dir wb) (''user-'' @ tag @ ''.rekam'')) True of
        (Inl err, e') \<Rightarrow> (respond_err wb r err, e')
      | (Inr (idn, token), e') \<Rightarrow>
          (let sent = try_send wb (iy_email idn) (request_base_url r @ ''/ui/confirm?token='' @ token) in
           (respond 202 (Fields ([(''status'', JStr ''unconfirmed''), (''email_sent'', JBool sent), (''identity'', identity_view idn)]
              @ (if sent then [] else [(''confirm_url'', JStr (''/ui/confirm?token='' @ token)), (''confirm_code'', JStr token)]))), e')))))"

definition handle_ui_confirm :: handler where
  "handle_ui_confirm wb r e =
     (let token = query_of r ''token'' in
      if trim_space token = [] then (respond 400 (ErrorReply ''token is required''), e)
      else (case confirm_email (wb_world wb) e token of
              (Inl err, e') \<Rightarrow> (respond_err wb r err, e')
            | (Inr idn, e') \<Rightarrow> with_cookie wb 0 r idn e'))"

definition handle_ui_login :: handler where
  "handle_ui_login wb r e =
     (let c = read_credentials r in
      case engine_authenticate (wb_world wb) e (cr_email c) (cr_password c) of
        Inl _ \<Rightarrow> (respond 401 (ErrorReply ''invalid email or password''), e)
      | Inr idn \<Rightarrow>
          (case is_confirmed (iy_id idn) (en_registry e) of
             Inl _ \<Rightarrow> (server_error, e)
           | Inr confirmed \<Rightarrow>
               if \<not> confirmed
               then (respond 403 (Fields [(''error'', JStr ''email not confirmed''),
                        (''resend'', JStr (''/ui/confirm?resend='' @ iy_email idn))]), e)
               else with_cookie wb 0 r idn e))"

text \<open>The body of a request as a struct with one string.\<close>

definition body_string :: "string \<Rightarrow> request \<Rightarrow> string option" where
  "body_string name r =
     (case rq_json r of
        None \<Rightarrow> None
      | Some j \<Rightarrow> (case json_struct j of None \<Rightarrow> None | Some kvs \<Rightarrow> str_field name kvs))"

definition invalid_request :: response where "invalid_request = respond 400 (ErrorReply ''invalid request'')"

definition handle_ui_forgot :: handler where
  "handle_ui_forgot wb r e =
     (case body_string ''email'' r of
        None \<Rightarrow> (invalid_request, e)
      | Some email \<Rightarrow>
     (case forgot_password (wb_world wb) e (wb_fresh wb 0) email of
        (Inl err, e') \<Rightarrow> (respond_err wb r err, e')
      | (Inr (None, _), e') \<Rightarrow> (respond 200 (Fields [(''status'', JStr ''no_account''), (''reset_code'', JStr [])]), e')
      | (Inr (Some idn, token), e') \<Rightarrow>
          (let sent = try_send wb (iy_email idn) (request_base_url r @ ''/ui/reset?token='' @ token) in
           (respond 200 (Fields ([(''status'', JStr ''ok''), (''email_sent'', JBool sent), (''email'', JStr (iy_email idn))]
              @ (if sent then [] else [(''reset_url'', JStr (''/ui/reset?token='' @ token)), (''reset_code'', JStr token)]))), e'))))"

definition handle_ui_reset :: handler where
  "handle_ui_reset wb r e =
     (let token = query_of r ''token'' in
      if trim_space token = [] then (respond 400 (ErrorReply ''token is required''), e)
      else (case body_string ''password'' r of
              None \<Rightarrow> (invalid_request, e)
            | Some pw \<Rightarrow>
                (case reset_password (wb_world wb) e (wb_fresh wb 0) token pw of
                   (Inl err, e') \<Rightarrow> (respond_err wb r err, e')
                 | (Inr idn, e') \<Rightarrow> with_cookie wb 0 r idn e')))"

definition handle_ui_session :: handler where
  "handle_ui_session wb r e =
     (let no = respond 200 (Fields [(''authenticated'', JBool False)]) in
      case cookie_of r session_cookie of
        None \<Rightarrow> (no, e)
      | Some sid \<Rightarrow>
          (case engine_resolve_session (wb_world wb) e sid of
             None \<Rightarrow> (no, e)
           | Some i \<Rightarrow>
               (case resolve_by_id i (en_registry e) of
                  Inl _ \<Rightarrow> (no, e)
                | Inr idn \<Rightarrow> (respond 200 (Fields [(''authenticated'', JBool True), (''identity'', identity_view idn)]), e))))"

definition handle_ui_logout :: handler where
  "handle_ui_logout wb r e =
     (let e' = (case cookie_of r session_cookie of None \<Rightarrow> e | Some sid \<Rightarrow> engine_delete_session (wb_world wb) e sid) in
      ((respond 200 (Fields [(''ok'', JBool True)]))\<lparr>rs_cookies := [\<lparr>ck_value = [], ck_secure = is_https r, ck_max_age = - 1\<rparr>]\<rparr>, e'))"

end
