(* ===== verification/Redirect_Check.thy ===== *)
theory Redirect_Check
  imports Web_Data
begin

text \<open>
  Where an authorization code may go (\<^verbatim>\<open>internal/api/redirect_uri.go\<close>).
\<close>

definition is_loopback :: "url \<Rightarrow> bool" where
  "is_loopback u = (ur_scheme u = ''http'' \<and> loopback_host (ur_hostname u))"

fun redirect_matches :: "(string \<Rightarrow> url option) \<Rightarrow> string \<Rightarrow> url \<Rightarrow> string list \<Rightarrow> bool" where
  "redirect_matches parse requested req [] = False"
| "redirect_matches parse requested req (candidate # cs) =
     (case parse candidate of
        None \<Rightarrow> redirect_matches parse requested req cs
      | Some reg \<Rightarrow>
          if is_loopback reg \<and> is_loopback req then
            (if ur_scheme reg = ur_scheme req \<and> ur_path reg = ur_path req \<and> ur_hostname reg = ur_hostname req then True
             else redirect_matches parse requested req cs)
          else if candidate = requested then True
          else redirect_matches parse requested req cs)"

definition redirect_uri_allowed :: "(string \<Rightarrow> url option) \<Rightarrow> string list \<Rightarrow> string \<Rightarrow> bool" where
  "redirect_uri_allowed parse registered requested =
     (case parse requested of None \<Rightarrow> False | Some req \<Rightarrow> redirect_matches parse requested req registered)"

text \<open>What the user is told about the destination.\<close>

definition redirect_destination :: "(string \<Rightarrow> url option) \<Rightarrow> string \<Rightarrow> string" where
  "redirect_destination parse uri =
     (case parse uri of
        None \<Rightarrow> ''an unnamed destination''
      | Some u \<Rightarrow>
          if ur_host u = [] then ''an unnamed destination''
          else if is_loopback u then ''an application on this device'' else ur_hostname u)"

section \<open>Exactness\<close>

lemma redirect_matches_iff:
  "redirect_matches parse requested req cs \<longleftrightarrow>
     (\<exists>candidate \<in> set cs. \<exists>reg. parse candidate = Some reg \<and>
        (if is_loopback reg \<and> is_loopback req
         then ur_path reg = ur_path req \<and> ur_hostname reg = ur_hostname req else candidate = requested))"
proof (induction cs)
  case (Cons c cs)
  have scheme: "is_loopback reg \<and> is_loopback req \<Longrightarrow> ur_scheme reg = ur_scheme req" for reg
    by (simp add: is_loopback_def)
  show ?case
  proof (cases "parse c")
    case None
    then show ?thesis using Cons by simp
  next
    case (Some reg)
    then show ?thesis using Cons scheme [of reg] by (cases "is_loopback reg \<and> is_loopback req") (simp_all del: de_Morgan_conj)
  qed
qed simp


text \<open>A parser that reads two texts.\<close>

definition eg_url :: "string \<Rightarrow> string \<Rightarrow> url" where
  "eg_url scheme host = \<lparr>ur_scheme = scheme, ur_host = host, ur_hostname = host, ur_path = ''/cb'', ur_query = [], ur_rest = []\<rparr>"

definition eg_parse :: "string \<Rightarrow> url option" where
  "eg_parse s = (if s = ''https://a/cb'' then Some (eg_url ''https'' ''a'')
                 else if s = ''http://127.0.0.1:9/cb'' then Some (eg_url ''http'' ''127.0.0.1'') else None)"

lemma eg_not_loopback: "\<not> is_loopback (eg_url ''https'' h)"
  by (simp add: is_loopback_def eg_url_def)


end
