(* ===== verification/Web_OAuth.thy ===== *)
theory Web_OAuth
  imports Web_Session Redirect_Check
begin

text \<open>
  The OAuth endpoints (\<^verbatim>\<open>internal/api/oauth_handlers.go\<close>): discovery, dynamic registration, the consent
  pages, the authorization code, its exchange for a grant, and the administration of grants.
\<close>

section \<open>Discovery\<close>

definition handle_oauth_meta :: handler where
  "handle_oauth_meta wb r e =
     (let base = (if header_of r ''X-Forwarded-Proto'' = ''http'' then ''http'' else ''https'') @ ''://'' @ rq_host r in
      (respond 200 (Fields
         [(''issuer'', JStr base), (''authorization_endpoint'', JStr (base @ ''/authorize'')),
          (''token_endpoint'', JStr (base @ ''/token'')), (''registration_endpoint'', JStr (base @ ''/register'')),
          (''response_types_supported'', JArr [JStr ''code'']), (''grant_types_supported'', JArr [JStr ''authorization_code'']),
          (''code_challenge_methods_supported'', JArr [JStr ''S256''])]), e))"

section \<open>The consent pages\<close>

definition html_page :: "nat \<Rightarrow> reply \<Rightarrow> response" where
  "html_page status body =
     \<lparr>rs_status = status, rs_headers = [(''Content-Type'', ''text/html; charset=utf-8'')], rs_cookies = [], rs_body = body\<rparr>"

definition render_authorize_form :: "web \<Rightarrow> authorize_view \<Rightarrow> nat \<Rightarrow> response" where
  "render_authorize_form wb v status =
     html_page status (LoginPage (v\<lparr>av_destination := redirect_destination (wb_parse_url wb) (av_redirect v)\<rparr>))"

definition render_workspace_form :: "web \<Rightarrow> authorize_view \<Rightarrow> nat \<Rightarrow> response" where
  "render_workspace_form wb v status =
     html_page status (WorkspacePage (v\<lparr>av_destination := redirect_destination (wb_parse_url wb) (av_redirect v)\<rparr>))"

definition valid_pkce :: "string \<Rightarrow> string \<Rightarrow> bool" where
  "valid_pkce challenge meth = (challenge \<noteq> [] \<and> meth = ''S256'')"

text \<open>The message of a refusal, \<open>None\<close> when a code may be delivered.\<close>

definition check_redirect_uri :: "web \<Rightarrow> engine \<Rightarrow> string \<Rightarrow> string \<Rightarrow> string option" where
  "check_redirect_uri wb e client uri =
     (if client = [] then Some ''client_id required''
      else (case oauth_client client (en_registry e) of
              None \<Rightarrow> Some ''unknown client_id: register at /register first''
            | Some row \<Rightarrow>
                if redirect_uri_allowed (wb_parse_url wb) (cl_uris row) uri then None
                else Some ''redirect_uri is not registered for this client''))"

definition pkce_required :: response where
  "pkce_required = http_error ''code_challenge with code_challenge_method=S256 is required'' 400"

definition handle_authorize_form :: handler where
  "handle_authorize_form wb r e =
     (if query_of r ''redirect_uri'' = [] then (http_error ''redirect_uri required'' 400, e)
      else if \<not> valid_pkce (query_of r ''code_challenge'') (query_of r ''code_challenge_method'') then (pkce_required, e)
      else (case check_redirect_uri wb e (query_of r ''client_id'') (query_of r ''redirect_uri'') of
              Some msg \<Rightarrow> (http_error msg 400, e)
            | None \<Rightarrow>
                (render_authorize_form wb
                   \<lparr>av_redirect = query_of r ''redirect_uri'', av_state = query_of r ''state'',
                    av_challenge = query_of r ''code_challenge'', av_method = query_of r ''code_challenge_method'',
                    av_client = query_of r ''client_id'', av_email = [], av_error = [], av_destination = [],
                    av_ticket = [], av_choices = []\<rparr> 200, e)))"

section \<open>The authorization code\<close>

definition ten_minutes :: int where "ten_minutes = 10 * 60 * nanos"

text \<open>\<^verbatim>\<open>q.Set\<close> replaces every value of the key.\<close>

definition query_set :: "string \<Rightarrow> string \<Rightarrow> (string \<times> string) list \<Rightarrow> (string \<times> string) list" where
  "query_set k v kvs = filter (\<lambda>kv. fst kv \<noteq> k) kvs @ [(k, v)]"

definition plain_server_error :: response where "plain_server_error = http_error ''server error'' 500"

definition callback_url :: "url \<Rightarrow> string \<Rightarrow> string \<Rightarrow> url" where
  "callback_url u code state =
     u\<lparr>ur_query := (if state \<noteq> [] then query_set ''state'' state else (\<lambda>q. q)) (query_set ''code'' code (ur_query u))\<rparr>"

definition finish_authorize :: "web \<Rightarrow> nat \<Rightarrow> authorize_view \<Rightarrow> string \<Rightarrow> string \<Rightarrow> engine \<Rightarrow> response \<times> engine" where
  "finish_authorize wb k v i team e =
     (if \<not> valid_pkce (av_challenge v) (av_method v) then (pkce_required, e) else
     (case check_redirect_uri wb e (av_client v) (av_redirect v) of
        Some msg \<Rightarrow> (http_error msg 400, e)
      | None \<Rightarrow>
     (case wb_random wb k 16 of
        None \<Rightarrow> (plain_server_error, e)
      | Some code \<Rightarrow>
     (case engine_store_code (wb_world wb) e code
             \<lparr>ce_challenge = av_challenge v, ce_client = av_client v, ce_identity = i, ce_team = team,
              ce_expiry = wd_now (wb_world wb) + ten_minutes\<rparr> of
        (Inl _, e') \<Rightarrow> (plain_server_error, e')
      | (Inr _, e') \<Rightarrow>
     (case wb_parse_url wb (av_redirect v) of
        None \<Rightarrow> (http_error ''invalid redirect_uri'' 400, e')
      | Some u \<Rightarrow> (redirect_to (wb_render_url wb (callback_url u code (av_state v))), e'))))))"

definition workspaces_for :: "web \<Rightarrow> engine \<Rightarrow> string \<Rightarrow> (string \<times> string \<times> role) list" where
  "workspaces_for wb e i =
     (case my_teams (wb_world wb) e (session_token_for (wd_mac (wb_world wb)) i []) of
        Inl _ \<Rightarrow> []
      | Inr ts \<Rightarrow> map (\<lambda>t. (tf_id t, if tf_home t then ''Personal memory'' else tf_name t, tf_role t)) ts)"

text \<open>The OAuth parameters a form carries.\<close>

definition form_view :: "request \<Rightarrow> authorize_view" where
  "form_view r =
     \<lparr>av_redirect = form_value r ''redirect_uri'', av_state = form_value r ''state'',
      av_challenge = form_value r ''code_challenge'', av_method = form_value r ''code_challenge_method'',
      av_client = form_value r ''client_id'', av_email = [], av_error = [], av_destination = [],
      av_ticket = [], av_choices = []\<rparr>"

definition login_again :: "web \<Rightarrow> request \<Rightarrow> string \<Rightarrow> response" where
  "login_again wb r msg =
     render_authorize_form wb ((form_view r)\<lparr>av_email := form_value r ''email'', av_error := msg\<rparr>) 401"

text \<open>What follows when the password was right.\<close>

definition offer_workspaces :: "web \<Rightarrow> request \<Rightarrow> string \<Rightarrow> engine \<Rightarrow> response \<times> engine" where
  "offer_workspaces wb r i e =
     (let v = form_view r; choices = workspaces_for wb e i in
      if length choices < 2 then finish_authorize wb 0 v i [] e
      else (case wb_random wb 0 16 of
              None \<Rightarrow> (plain_server_error, e)
            | Some ticket \<Rightarrow>
                (case engine_store_ticket (wb_world wb) e ticket
                        \<lparr>co_identity = i, co_teams = map fst choices, co_redirect = av_redirect v, co_state = av_state v,
                         co_challenge = av_challenge v, co_method = av_method v, co_client = av_client v,
                         co_expiry = wd_now (wb_world wb) + ten_minutes\<rparr> of
                   (Inl _, e') \<Rightarrow> (plain_server_error, e')
                 | (Inr _, e') \<Rightarrow> (render_workspace_form wb (v\<lparr>av_ticket := ticket, av_choices := choices\<rparr>) 200, e'))))"

definition handle_authorize_submit :: handler where
  "handle_authorize_submit wb r e =
     (if rq_form r = None then (http_error ''invalid form'' 400, e) else
     (case check_redirect_uri wb e (form_value r ''client_id'') (form_value r ''redirect_uri'') of
        Some msg \<Rightarrow> (http_error msg 400, e)
      | None \<Rightarrow>
     (case engine_authenticate (wb_world wb) e (form_value r ''email'') (form_value r ''password'') of
        Inl _ \<Rightarrow> (login_again wb r ''Incorrect email or password. Try again.'', e)
      | Inr idn \<Rightarrow>
     (case is_confirmed (iy_id idn) (en_registry e) of
        Inl _ \<Rightarrow> (plain_server_error, e)
      | Inr confirmed \<Rightarrow>
          if \<not> confirmed then (login_again wb r ''Confirm your email address first, then authorize.'', e)
          else offer_workspaces wb r (iy_id idn) e))))"

definition ticket_view :: "consent_entry \<Rightarrow> authorize_view" where
  "ticket_view t =
     \<lparr>av_redirect = co_redirect t, av_state = co_state t, av_challenge = co_challenge t, av_method = co_method t,
      av_client = co_client t, av_email = [], av_error = [], av_destination = [], av_ticket = [], av_choices = []\<rparr>"

definition handle_authorize_workspace :: handler where
  "handle_authorize_workspace wb r e =
     (if rq_form r = None then (http_error ''invalid form'' 400, e) else
     (case engine_take_ticket (wb_world wb) e (form_value r ''ticket'') of
        (Inl _, e') \<Rightarrow> (plain_server_error, e')
      | (Inr None, e') \<Rightarrow> (http_error ''this authorization expired: start again'' 400, e')
      | (Inr (Some t), e') \<Rightarrow>
          if form_value r ''team_id'' \<notin> set (co_teams t) then (http_error ''unknown workspace'' 400, e')
          else finish_authorize wb 0 (ticket_view t) (co_identity t) (form_value r ''team_id'') e'))"

section \<open>The token\<close>

text \<open>\<^verbatim>\<open>base64.RawURLEncoding\<close>: the URL alphabet, no padding.\<close>

definition url_sextet :: "nat \<Rightarrow> char" where
  "url_sextet v = (if v = 62 then CHR ''-'' else if v = 63 then CHR ''_'' else sextet_char v)"

definition raw_url_encode :: "string \<Rightarrow> string" where
  "raw_url_encode s = map url_sextet (encode_sextets (map of_char s))"

definition pkce_challenge :: "web \<Rightarrow> string \<Rightarrow> string" where
  "pkce_challenge wb verifier = raw_url_encode (wb_sha256 wb verifier)"

definition invalid_grant :: response where "invalid_grant = respond 400 (ErrorReply ''invalid_grant'')"

definition handle_oauth_token :: handler where
  "handle_oauth_token wb r e =
     (if rq_form r = None then (respond 400 (ErrorReply ''invalid_request''), e) else
     (case engine_take_code (wb_world wb) e (form_value r ''code'') of
        (Inl err, e') \<Rightarrow> (respond 500 (OAuthError ''server_error'' err), e')
      | (Inr None, e') \<Rightarrow> (invalid_grant, e')
      | (Inr (Some c), e') \<Rightarrow>
          if ce_challenge c = [] then (invalid_grant, e')
          else if pkce_challenge wb (form_value r ''code_verifier'') \<noteq> ce_challenge c then (invalid_grant, e')
          else (case mint_grant_by_id (wb_world wb) e' (wb_fresh wb 0) (wb_fresh wb 1) (ce_identity c) (ce_client c) (ce_team c) of
                  (Inl err, e'') \<Rightarrow> (respond 400 (OAuthError ''invalid_grant'' err), e'')
                | (Inr (key, g), e'') \<Rightarrow>
                    (add_header ''Cache-Control'' ''no-store'' (respond 200 (Fields
                       [(''id'', JStr g), (''identity_id'', JStr (ce_identity c)), (''access_token'', JStr key),
                        (''token_type'', JStr ''bearer'')])), e''))))"

section \<open>Registration\<close>

definition string_list :: "json option \<Rightarrow> string list" where
  "string_list v =
     (case v of
        Some (JArr items) \<Rightarrow> [s. JStr s \<leftarrow> items, s \<noteq> []]
      | _ \<Rightarrow> [])"

definition handle_oauth_register :: handler where
  "handle_oauth_register wb r e =
     (case (case rq_json r of None \<Rightarrow> None | Some j \<Rightarrow> json_struct j) of
        None \<Rightarrow> (respond 400 (ErrorReply ''invalid_request''), e)
      | Some kvs \<Rightarrow>
     (let given = (case map_value ''client_id'' kvs of Some (JStr s) \<Rightarrow> s | _ \<Rightarrow> []);
          client = (if given = [] then wb_fresh wb 0 else given);
          uris = string_list (map_value ''redirect_uris'' kvs) in
      if uris = [] then (respond 400 (Fields [(''error'', JStr ''invalid_redirect_uri''),
              (''error_description'', JStr ''redirect_uris must list at least one URI'')]), e)
      else (case engine_put_client (wb_world wb) e client uris of
              (Inl _, e') \<Rightarrow> (respond 500 (ErrorReply ''server_error''), e')
            | (Inr _, e') \<Rightarrow>
                (respond 201 (Fields [(''client_id'', JStr client), (''redirect_uris'', JArr (map JStr uris)),
                   (''grant_types'', JArr [JStr ''authorization_code'']), (''response_types'', JArr [JStr ''code'']),
                   (''token_endpoint_auth_method'', JStr ''none'')]), e'))))"

section \<open>Administration\<close>

definition require_admin :: "web \<Rightarrow> request \<Rightarrow> engine \<Rightarrow> bool" where
  "require_admin wb r e =
     (let bearer = api_key_from_request r in
      (wb_admin_key wb \<noteq> [] \<and> bearer = wb_admin_key wb)
      \<or> (case get_current_identity (wb_world wb) e bearer of Inl _ \<Rightarrow> False | Inr idn \<Rightarrow> iy_admin idn))"

text \<open>The guard at the top of every handler of the admin surface.\<close>

definition admin_only :: "string \<Rightarrow> handler \<Rightarrow> handler" where
  "admin_only msg h wb r e = (if \<not> require_admin wb r e then (respond 401 (ErrorReply msg), e) else h wb r e)"

definition handle_list_grants :: handler where
  "handle_list_grants = admin_only ''admin key required'' (\<lambda>wb r e. (respond 200 (GrantsReply (list_grants (en_registry e))), e))"

definition handle_revoke_grant :: handler where
  "handle_revoke_grant = admin_only ''admin key required'' (\<lambda>wb r e.
     case engine_revoke_grant (wb_world wb) e (path_value r ''id'') of
       (Inl err, e') \<Rightarrow> (respond 400 (ErrorText err), e')
     | (Inr _, e') \<Rightarrow> (respond 200 (Fields [(''revoked'', JStr (path_value r ''id''))]), e'))"

end
