(* ===== verification/Web_Memory.thy ===== *)
theory Web_Memory
  imports Web_OAuth
begin

text \<open>
  The handlers on memories, links, reviews and the taxonomy (\<^verbatim>\<open>internal/api/handlers.go\<close>): each takes
  the bearer and the parameters from the request, calls the engine and answers.
\<close>

section \<open>Parameters\<close>

text \<open>An optional non-negative number of the query: zero when absent, \<open>None\<close> when it is something else.\<close>

definition query_number :: "request \<Rightarrow> string \<Rightarrow> int option" where
  "query_number r name =
     (let s = query_of r name in
      if s = [] then Some 0
      else (case atoi s of None \<Rightarrow> None | Some n \<Rightarrow> if n < 0 then None else Some n))"

definition bad_number :: "string \<Rightarrow> response" where
  "bad_number name = respond 400 (ErrorReply (name @ '' must be a non-negative integer''))"

definition invalid_json :: response where "invalid_json = respond 400 (ErrorReply ''invalid JSON'')"

text \<open>The bodies as \<^verbatim>\<open>WriteInput\<close>, \<^verbatim>\<open>UpdateInput\<close>, a grade and a list of branches; \<open>None\<close> when one does not decode.\<close>

definition body_struct :: "request \<Rightarrow> (string \<times> json) list option" where
  "body_struct r = (case rq_json r of None \<Rightarrow> None | Some j \<Rightarrow> json_struct j)"

definition decode_write :: "(string \<times> json) list \<Rightarrow> write_input option" where
  "decode_write kvs =
     (case (str_field ''title'' kvs, str_field ''content'' kvs, str_field ''taxonomy'' kvs, str_field ''format'' kvs, str_field ''agent'' kvs) of
        (Some t, Some c, Some x, Some f, Some a) \<Rightarrow>
          Some \<lparr>wi_title = t, wi_content = c, wi_taxonomy = x, wi_format = f, wi_agent = a\<rparr>
      | _ \<Rightarrow> None)"

definition decode_update :: "(string \<times> json) list \<Rightarrow> update_input option" where
  "decode_update kvs =
     (case (str_pointer ''title'' kvs, str_pointer ''content'' kvs, str_pointer ''taxonomy'' kvs, str_pointer ''format'' kvs,
            int_pointer ''base_version'' kvs, str_field ''agent'' kvs) of
        (Some t, Some c, Some x, Some f, Some b, Some a) \<Rightarrow>
          Some \<lparr>ui_title = t, ui_content = c, ui_taxonomy = x, ui_format = f, ui_base = b, ui_agent = a\<rparr>
      | _ \<Rightarrow> None)"

definition decode_branch :: "json \<Rightarrow> branch option" where
  "decode_branch j =
     (case json_struct j of
        None \<Rightarrow> None
      | Some kvs \<Rightarrow>
          (case (str_field ''path'' kvs, str_field ''description'' kvs, int_field ''sort'' kvs) of
             (Some p, Some d, Some s) \<Rightarrow> Some (Branch p d s)
           | _ \<Rightarrow> None))"

fun decode_branches :: "json \<Rightarrow> branch list option" where
  "decode_branches (JArr items) = all_some (map decode_branch items)"
| "decode_branches _ = None"

section \<open>Reading\<close>

definition handle_catalog :: handler where
  "handle_catalog wb r e =
     reply_read wb r e (engine_catalog (wb_world wb) e (api_key_from_request r) [] 1000) (\<lambda>es. respond 200 (CatalogReply es))"

definition handle_taxonomy_template :: handler where
  "handle_taxonomy_template wb r e =
     reply_read wb r e (engine_template (wb_world wb) e (api_key_from_request r)) (\<lambda>t. respond 200 (TemplateReply t))"

definition handle_search :: handler where
  "handle_search wb r e =
     (case query_number r ''token_budget'' of
        None \<Rightarrow> (bad_number ''token_budget'', e)
      | Some n \<Rightarrow>
          reply_read wb r e (engine_search (wb_world wb) e (api_key_from_request r) (query_of r ''q'') (query_of r ''taxonomy'') n)
            (\<lambda>x. respond 200 (SearchReply x)))"

definition handle_get_memory :: handler where
  "handle_get_memory wb r e =
     reply_read wb r e (engine_get (wb_world wb) e (api_key_from_request r) (path_value r ''id'')) (\<lambda>m. respond 200 (MemoryReply m))"

definition handle_scope :: handler where
  "handle_scope wb r e =
     (case query_number r ''token_budget'' of
        None \<Rightarrow> (bad_number ''token_budget'', e)
      | Some n \<Rightarrow>
          reply_read wb r e (engine_scope (wb_world wb) e (api_key_from_request r) (query_of r ''taxonomy'') n)
            (\<lambda>x. respond 200 (ScopeReply x)))"

definition handle_edge_health :: handler where
  "handle_edge_health wb r e =
     reply_read wb r e (engine_edge_health (wb_world wb) e (api_key_from_request r)) (\<lambda>h. respond 200 (HealthReply h))"

definition handle_graph :: handler where
  "handle_graph wb r e =
     (case query_number r ''depth'' of
        None \<Rightarrow> (bad_number ''depth'', e)
      | Some n \<Rightarrow>
          reply_read wb r e (engine_graph (wb_world wb) e (api_key_from_request r) (query_of r ''center'') n (query_of r ''taxonomy''))
            (\<lambda>g. respond 200 (GraphReply g)))"

definition handle_suggest_links :: handler where
  "handle_suggest_links wb r e =
     (case query_number r ''limit'' of
        None \<Rightarrow> (bad_number ''limit'', e)
      | Some n \<Rightarrow>
          reply_read wb r e (engine_suggest (wb_world wb) e (api_key_from_request r) n) (\<lambda>s. respond 200 (SuggestReply s)))"

definition handle_review_due :: handler where
  "handle_review_due wb r e =
     (case query_number r ''limit'' of
        None \<Rightarrow> (bad_number ''limit'', e)
      | Some n \<Rightarrow>
          reply_read wb r e (engine_due (wb_world wb) e (api_key_from_request r) n) (\<lambda>(cards, stats). respond 200 (DeckReply cards stats)))"

definition handle_list_memories :: handler where
  "handle_list_memories wb r e =
     (case query_number r ''limit'' of
        None \<Rightarrow> (bad_number ''limit'', e)
      | Some limit \<Rightarrow>
     (case query_number r ''offset'' of
        None \<Rightarrow> (bad_number ''offset'', e)
      | Some offset \<Rightarrow>
          reply_read wb r e (engine_list (wb_world wb) e (api_key_from_request r) (query_of r ''taxonomy'') limit offset)
            (\<lambda>(ms, n). respond 200 (ListReply ms n))))"

text \<open>Here what is no number counts as zero; out of range \<^verbatim>\<open>Atoi\<close> gives the bound beside its error.\<close>

definition digits_value :: "string \<Rightarrow> int option" where
  "digits_value ds =
     (if ds = [] then None else map_option (\<lambda>vs. int (foldl (\<lambda>a d. a * 10 + d) 0 vs)) (all_some (map digit_val ds)))"

definition atoi_value :: "string \<Rightarrow> int" where
  "atoi_value s =
     (case atoi s of
        Some n \<Rightarrow> n
      | None \<Rightarrow>
          (case s of
             [] \<Rightarrow> 0
           | c # cs \<Rightarrow>
               if digits_value (if c = CHR ''-'' \<or> c = CHR ''+'' then cs else s) = None then 0
               else if c = CHR ''-'' then - (2 ^ 63) else 2 ^ 63 - 1))"

definition handle_deleted_memories :: handler where
  "handle_deleted_memories wb r e =
     reply_read wb r e
       (deleted_memories (wb_world wb) e (api_key_from_request r) (query_of r ''taxonomy'') (atoi_value (query_of r ''limit'')))
       (\<lambda>ts. respond 200 (DeletedReply ts))"

definition handle_memory_history :: handler where
  "handle_memory_history wb r e =
     reply_read wb r e (memory_history (wb_world wb) e (api_key_from_request r) (path_value r ''id''))
       (\<lambda>vs. respond 200 (HistoryReply vs))"

definition handle_me :: handler where
  "handle_me wb r e =
     reply_read wb r e (get_current_identity (wb_world wb) e (api_key_from_request r)) (\<lambda>idn.
       respond 200 (Fields [(''id'', JStr (iy_id idn)), (''name'', JStr (iy_name idn)), (''allow_write'', JBool (iy_write idn)),
         (''created_at'', JTime (iy_created idn)), (''edition'', JStr (wb_edition wb))]))"

text \<open>The listing for operators: ids and names, no address, no path, no key.\<close>

definition safe_identity :: "identity \<Rightarrow> json" where
  "safe_identity idn =
     JObj [(''id'', JStr (iy_id idn)), (''name'', JStr (iy_name idn)), (''allow_write'', JBool (iy_write idn)),
           (''created_at'', JTime (iy_created idn))]"

definition handle_list_identities :: handler where
  "handle_list_identities = admin_only ''admin key required'' (\<lambda>wb r e.
     (respond 200 (Fields [(''identities'', JArr (map safe_identity (list_identities (en_registry e))))]), e))"

section \<open>Writing\<close>

definition handle_write_memory :: handler where
  "handle_write_memory wb r e =
     (case (case body_struct r of None \<Rightarrow> None | Some kvs \<Rightarrow> decode_write kvs) of
        None \<Rightarrow> (invalid_json, e)
      | Some inp \<Rightarrow>
          reply_write wb r e (write_memory (wb_world wb) e (api_key_from_request r) (wb_fresh wb 0) inp)
            (\<lambda>m. respond 201 (MemoryReply m)))"

definition handle_update_memory :: handler where
  "handle_update_memory wb r e =
     (case (case body_struct r of None \<Rightarrow> None | Some kvs \<Rightarrow> decode_update kvs) of
        None \<Rightarrow> (invalid_json, e)
      | Some inp \<Rightarrow>
          reply_write wb r e (engine_update (wb_world wb) e (api_key_from_request r) (path_value r ''id'') inp)
            (\<lambda>m. respond 200 (MemoryReply m)))"

definition handle_restore_revision :: handler where
  "handle_restore_revision wb r e =
     (case atoi (path_value r ''version'') of
        None \<Rightarrow> (respond 400 (ErrorReply ''version must be an integer''), e)
      | Some n \<Rightarrow>
          reply_write wb r e (restore_revision (wb_world wb) e (api_key_from_request r) (path_value r ''id'') n)
            (\<lambda>m. respond 200 (MemoryReply m)))"

text \<open>An operation with no result beside the engine.\<close>

definition no_result :: "engine_error + engine \<Rightarrow> engine_error + unit \<times> engine" where
  "no_result res = (case res of Inl err \<Rightarrow> Inl err | Inr e \<Rightarrow> Inr ((), e))"

definition handle_delete_memory :: handler where
  "handle_delete_memory wb r e =
     reply_write wb r e
       (no_result (engine_delete (wb_world wb) e (api_key_from_request r) (path_value r ''id'') (query_of r ''force'' = ''true'')))
       (\<lambda>_. respond 200 (Fields [(''deleted'', JStr (path_value r ''id''))]))"

definition handle_set_taxonomy_template :: handler where
  "handle_set_taxonomy_template wb r e =
     (case (case body_struct r of None \<Rightarrow> None | Some kvs \<Rightarrow> decode_values decode_branches [] (field_values ''branches'' kvs)) of
        None \<Rightarrow> (invalid_json, e)
      | Some bs \<Rightarrow>
          reply_write wb r e (engine_set_template (wb_world wb) e (api_key_from_request r) bs) (\<lambda>t. respond 200 (TemplateReply t)))"

definition handle_rebuild_fts :: handler where
  "handle_rebuild_fts wb r e =
     (case rebuild_fts (wb_world wb) e (api_key_from_request r) of
        Inl err \<Rightarrow> (respond_err wb r err, e)
      | Inr (Some err, e') \<Rightarrow> (respond_err wb r err, e')
      | Inr (None, e') \<Rightarrow> (respond 200 (Fields [(''status'', JStr ''ok'')]), e'))"

section \<open>The review deck\<close>

definition handle_add_review :: handler where
  "handle_add_review wb r e =
     reply_write wb r e (engine_enrol (wb_world wb) e (api_key_from_request r) (path_value r ''id'')) (\<lambda>s. respond 200 (CardReply s))"

definition handle_remove_review :: handler where
  "handle_remove_review wb r e =
     reply_write wb r e (no_result (engine_unenrol (wb_world wb) e (api_key_from_request r) (path_value r ''id'')))
       (\<lambda>_. respond 200 (Fields [(''removed'', JStr (path_value r ''id''))]))"

definition handle_grade_review :: handler where
  "handle_grade_review wb r e =
     (case (case body_struct r of None \<Rightarrow> None | Some kvs \<Rightarrow> int_field ''grade'' kvs) of
        None \<Rightarrow> (invalid_json, e)
      | Some g \<Rightarrow>
          reply_write wb r e (engine_grade (wb_world wb) e (api_key_from_request r) (path_value r ''id'') g) (\<lambda>s. respond 200 (CardReply s)))"

end
