(* ===== verification/Web_Admin.thy ===== *)
theory Web_Admin
  imports Web_Memory
begin

text \<open>
  The operator's console (\<^verbatim>\<open>internal/api/admin_handlers.go\<close>) and uploaded images
  (\<^verbatim>\<open>internal/api/files_handlers.go\<close>).
\<close>

section \<open>Views\<close>

text \<open>\<^verbatim>\<open>db.FileSize\<close>, zero when the file cannot be measured.\<close>

definition storage_bytes :: "web \<Rightarrow> string \<Rightarrow> int" where
  "storage_bytes wb path = (case wd_size (wb_world wb) path of None \<Rightarrow> 0 | Some n \<Rightarrow> n)"

definition admin_user_view :: "web \<Rightarrow> identity \<Rightarrow> json" where
  "admin_user_view wb idn =
     JObj [(''id'', JStr (iy_id idn)), (''name'', JStr (iy_name idn)), (''email'', JStr (iy_email idn)),
           (''allow_write'', JBool (iy_write idn)), (''is_admin'', JBool (iy_admin idn)), (''memory_path'', JStr (iy_path idn)),
           (''storage_bytes'', JInt (storage_bytes wb (iy_path idn))), (''created_at'', JTime (iy_created idn))]"

definition admin_team_view :: "web \<Rightarrow> admin_team \<Rightarrow> json" where
  "admin_team_view wb a =
     (let t = at_team a in
      JObj [(''id'', JStr (te_id t)), (''name'', JStr (te_name t)), (''plan'', JStr (te_plan t)),
            (''seat_limit'', JInt (te_seats t)), (''member_count'', JInt (int (at_members a))), (''created_by'', JStr (te_creator t)),
            (''created_by_name'', JStr (at_name a)), (''created_by_email'', JStr (at_email a)),
            (''storage_bytes'', JInt (storage_bytes wb (te_path t))), (''created_at'', JTime (te_created t))])"

section \<open>The console\<close>

definition handle_dashboard :: handler where
  "handle_dashboard wb r e = (redirect_to ''/ui/#/admin'', e)"

abbreviation "console \<equiv> admin_only ''admin access required''"

definition handle_admin_stats :: handler where
  "handle_admin_stats = console (\<lambda>wb r e. (respond 200 (StatsReply (registry_stats (en_registry e))), e))"

definition handle_list_users :: handler where
  "handle_list_users = console (\<lambda>wb r e.
     (respond 200 (Fields [(''users'', JArr (map (admin_user_view wb) (list_identities (en_registry e))))]), e))"

record new_user =
  nu_email :: string
  nu_password :: string
  nu_name :: string
  nu_write :: "bool option"
  nu_admin :: bool

definition decode_user :: "(string \<times> json) list \<Rightarrow> new_user option" where
  "decode_user kvs =
     (case (str_field ''email'' kvs, str_field ''password'' kvs, str_field ''name'' kvs, bool_pointer ''allow_write'' kvs, bool_field ''is_admin'' kvs) of
        (Some m, Some p, Some n, Some aw, Some adm) \<Rightarrow>
          Some \<lparr>nu_email = m, nu_password = p, nu_name = n, nu_write = aw, nu_admin = adm\<rparr>
      | _ \<Rightarrow> None)"

definition bad_body :: response where "bad_body = respond 400 (ErrorReply ''invalid request body'')"

definition handle_create_user :: handler where
  "handle_create_user = console (\<lambda>wb r e.
     if wb_users_dir wb = [] then (respond 503 (ErrorReply ''no users directory configured''), e) else
     (case (case body_struct r of None \<Rightarrow> None | Some kvs \<Rightarrow> decode_user kvs) of
        None \<Rightarrow> (bad_body, e)
      | Some u \<Rightarrow>
     (case wb_random wb 0 12 of
        None \<Rightarrow> (server_error, e)
      | Some tag \<Rightarrow>
          reply_outcome wb r
            (engine_create_user (wb_world wb) e (wb_fresh wb 0) (wb_fresh wb 1) (wb_fresh wb 2) (nu_name u) (nu_email u) (nu_password u)
               (wb_join wb (wb_users_dir wb) (''user-'' @ tag @ ''.rekam'')) (case nu_write u of None \<Rightarrow> True | Some b \<Rightarrow> b) (nu_admin u))
            (\<lambda>idn. respond 200 (Fields [(''user'', admin_user_view wb idn)])))))"

definition decode_flags :: "(string \<times> json) list \<Rightarrow> (bool option \<times> bool option \<times> string option) option" where
  "decode_flags kvs =
     (case (bool_pointer ''allow_write'' kvs, bool_pointer ''is_admin'' kvs, str_pointer ''password'' kvs) of
        (Some aw, Some adm, Some pw) \<Rightarrow> Some (aw, adm, pw)
      | _ \<Rightarrow> None)"

text \<open>The flags are committed before the password is tried.\<close>

definition handle_update_user :: handler where
  "handle_update_user = console (\<lambda>wb r e.
     case (case body_struct r of None \<Rightarrow> None | Some kvs \<Rightarrow> decode_flags kvs) of
       None \<Rightarrow> (bad_body, e)
     | Some (aw, adm, pw) \<Rightarrow>
         (let i = path_value r ''id'' in
          case update_user_flags e i aw adm of
            (Inl err, e1) \<Rightarrow> (respond 400 (ErrorText err), e1)
          | (Inr _, e1) \<Rightarrow>
         (case (case pw of None \<Rightarrow> (Inr (), e1) | Some p \<Rightarrow> set_user_password (wb_world wb) e1 (wb_fresh wb 0) i p) of
            (Inl err, e2) \<Rightarrow> (respond 400 (ErrorText err), e2)
          | (Inr _, e2) \<Rightarrow>
              (respond 200 (case resolve_by_id i (en_registry e2) of
                 Inl _ \<Rightarrow> Fields [(''updated'', JStr i)]
               | Inr idn \<Rightarrow> Fields [(''user'', admin_user_view wb idn)]), e2))))"

definition handle_list_teams :: handler where
  "handle_list_teams = console (\<lambda>wb r e.
     (respond 200 (Fields [(''teams'', JArr (map (admin_team_view wb) (engine_all_teams e)))]), e))"

definition handle_admin_delete_team :: handler where
  "handle_admin_delete_team = console (\<lambda>wb r e.
     reply_outcome wb r (admin_delete_team (wb_world wb) e (path_value r ''id''))
       (\<lambda>_. respond 200 (Fields [(''deleted'', JStr (path_value r ''id''))])))"

text \<open>Deleting an account: an operator any, anybody else only the own one.\<close>

definition handle_revoke_identity :: handler where
  "handle_revoke_identity wb r e =
     (let i = path_value r ''id'';
          refusal = (if require_admin wb r e then None
            else (case get_current_identity (wb_world wb) e (api_key_from_request r) of
                    Inl _ \<Rightarrow> Some (respond 401 (ErrorReply ''authentication required''))
                  | Inr caller \<Rightarrow>
                      if iy_id caller \<noteq> i
                      then Some (respond 403 (ErrorReply ''only an admin or the identity owner may revoke this key''))
                      else None)) in
      case refusal of
        Some rs \<Rightarrow> (rs, e)
      | None \<Rightarrow>
          (case engine_delete_identity e i of
             (Inl err, e') \<Rightarrow> (respond 400 (ErrorText err), e')
           | (Inr _, e') \<Rightarrow> (respond 200 (Fields [(''revoked'', JStr i)]), e')))"

section \<open>Images\<close>

definition max_upload_bytes :: int where "max_upload_bytes = 2 * 2 ^ 20"

definition allowed_upload_mime :: "string list" where
  "allowed_upload_mime = [''image/png'', ''image/jpeg'', ''image/gif'', ''image/webp'']"

definition too_large :: response where "too_large = respond 413 (ErrorReply ''upload too large (max 2 MiB)'')"

definition handle_upload_file :: handler where
  "handle_upload_file wb r e =
     (case rq_multipart r of
        None \<Rightarrow> (too_large, e)
      | Some mp \<Rightarrow>
     (if max_upload_bytes + 1024 < mp_length mp then (too_large, e) else
     (case mp_file mp of
        None \<Rightarrow> (respond 400 (ErrorReply ''missing 'file' field''), e)
      | Some f \<Rightarrow>
     (if max_upload_bytes < fp_size f then (too_large, e)
      else if fp_mime f \<notin> set allowed_upload_mime
           then (respond 415 (ErrorReply (''unsupported image type: '' @ fp_mime f)), e)
      else if max_upload_bytes < int (length (fp_data f)) then (too_large, e)
      else reply_outcome wb r (upload_file (wb_world wb) e (api_key_from_request r) (wb_fresh wb 0) (fp_mime f) (fp_data f))
             (\<lambda>(i, owner). respond 201 (Fields [(''id'', JStr i), (''url'', JStr (''/files/'' @ owner @ ''/'' @ i))]))))))"

definition handle_get_file :: handler where
  "handle_get_file wb r e =
     reply_read wb r e (fetch_file (wb_world wb) e (path_value r ''identity'') (path_value r ''id'')) (\<lambda>f.
       \<lparr>rs_status = 200,
        rs_headers = [(''Content-Type'', fl_mime f), (''Content-Length'', itoa (fl_size f)),
                      (''Cache-Control'', ''private, max-age=31536000, immutable'')],
        rs_cookies = [], rs_body = BlobReply f\<rparr>)"

end
