(* ===== verification/Web_Export.thy ===== *)
theory Web_Export
  imports Web_Memory
begin

text \<open>
  The export of a corpus as Markdown files (\<^verbatim>\<open>internal/api/export.go\<close>).
\<close>

section \<open>Slugs\<close>

definition slug_char :: "char \<Rightarrow> bool" where
  "slug_char c = (let n = (of_char c :: nat) in (97 \<le> n \<and> n \<le> 122) \<or> (48 \<le> n \<and> n \<le> 57))"

text \<open>\<^verbatim>\<open>[^a-z0-9]+\<close> replaced by a dash; \<open>skip\<close> is true inside such a run.\<close>

fun strip_runs :: "bool \<Rightarrow> string \<Rightarrow> string" where
  "strip_runs skip [] = []"
| "strip_runs skip (c # s) =
     (if slug_char c then c # strip_runs False s
      else if skip then strip_runs True s else CHR ''-'' # strip_runs True s)"

definition trim_dashes :: "string \<Rightarrow> string" where
  "trim_dashes s = trim_by (\<lambda>c. c = CHR ''-'') s"

definition slugify :: "string \<Rightarrow> string" where
  "slugify s =
     (let t = trim_dashes (strip_runs False (to_lower (trim_space s))) in
      if 80 < length t then trim_dashes (take 80 t) else t)"

section \<open>Paths\<close>

definition or_default :: "string \<Rightarrow> string \<Rightarrow> string" where
  "or_default dflt s = (if s = [] then dflt else s)"

definition export_dirs :: "string \<Rightarrow> string list" where
  "export_dirs tax =
     (let dirs = filter (\<lambda>s. s \<noteq> []) (map slugify (split_on CHR ''.'' tax)) in
      if dirs = [] then [''unclassified''] else dirs)"

definition export_path :: "memory \<Rightarrow> string set \<Rightarrow> string" where
  "export_path m used =
     (let dirs = export_dirs (mem_taxonomy m);
          base = or_default ''untitled'' (slugify (mem_title m));
          full = join_with ''/'' (dirs @ [base @ ''.md'']) in
      if full \<in> used then join_with ''/'' (dirs @ [base @ ''-'' @ take 8 (mem_id m) @ ''.md'']) else full)"

section \<open>Documents\<close>

definition nl :: string where "nl = [CHR 0x0A]"

definition yaml_special :: "char \<Rightarrow> bool" where
  "yaml_special c = (c \<in> {CHR '':'', CHR ''#'', CHR 0x22, CHR 0x27, CHR 0x0A})"

text \<open>The two \<^verbatim>\<open>ReplaceAll\<close> of the quoting, backslash first.\<close>

definition escape_quoted :: "string \<Rightarrow> string" where
  "escape_quoted s =
     concat (map (\<lambda>c. if c = CHR 0x22 then [CHR 0x5C, c] else [c])
       (concat (map (\<lambda>c. if c = CHR 0x5C then [c, c] else [c]) s)))"

definition yaml_string :: "string \<Rightarrow> string" where
  "yaml_string s =
     (if s = [] then [CHR 0x22, CHR 0x22]
      else if list_ex yaml_special s \<or> hd s = CHR '' '' \<or> last s = CHR '' ''
           then CHR 0x22 # escape_quoted s @ [CHR 0x22] else s)"

definition fenced :: "memory \<Rightarrow> bool" where
  "fenced m = (mem_format m \<noteq> [] \<and> mem_format m \<noteq> ''markdown'')"

definition front_line :: "string \<Rightarrow> string \<Rightarrow> string" where
  "front_line k v = k @ '': '' @ v @ nl"

definition ticks :: string where "ticks = replicate 3 (CHR 0x60)"

definition render_body :: "memory \<Rightarrow> string" where
  "render_body m =
     (if mem_content m = [] then []
      else (if fenced m then ticks @ mem_format m @ nl else [])
        @ mem_content m @ (if last (mem_content m) \<noteq> CHR 0x0A then nl else [])
        @ (if fenced m then ticks @ nl else []))"

definition render_markdown :: "web \<Rightarrow> memory \<Rightarrow> string" where
  "render_markdown wb m =
     ''---'' @ nl @ front_line ''id'' (mem_id m) @ front_line ''title'' (yaml_string (mem_title m))
     @ front_line ''taxonomy'' (mem_taxonomy m)
     @ (if fenced m then front_line ''format'' (mem_format m) else [])
     @ front_line ''created_at'' (wb_format_time wb (mem_created m)) @ front_line ''updated_at'' (wb_format_time wb (mem_updated m))
     @ ''---'' @ nl @ nl @ ''# '' @ mem_title m @ nl @ nl @ render_body m"

section \<open>Handlers\<close>

fun export_entries :: "web \<Rightarrow> memory list \<Rightarrow> string set \<Rightarrow> (string \<times> string) list" where
  "export_entries wb [] used = []"
| "export_entries wb (m # ms) used =
     (let name = export_path m used in (name, render_markdown wb m) # export_entries wb ms (insert name used))"

definition download :: "string \<Rightarrow> string \<Rightarrow> reply \<Rightarrow> response" where
  "download mime filename body =
     \<lparr>rs_status = 200,
      rs_headers = [(''Content-Type'', mime), (''Content-Disposition'', ''attachment; filename='' @ [CHR 0x22] @ filename @ [CHR 0x22])],
      rs_cookies = [], rs_body = body\<rparr>"

definition handle_export :: handler where
  "handle_export wb r e =
     reply_read wb r e (engine_list (wb_world wb) e (api_key_from_request r) [] 0 0) (\<lambda>(ms, _).
       download ''application/zip'' (''rekam-export-'' @ wb_today wb @ ''.zip'') (ArchiveReply (export_entries wb ms {})))"

definition handle_export_memory :: handler where
  "handle_export_memory wb r e =
     reply_read wb r e (engine_get (wb_world wb) e (api_key_from_request r) (path_value r ''id'')) (\<lambda>m.
       download ''text/markdown; charset=utf-8'' (or_default ''untitled'' (slugify (mem_title m)) @ ''.md'')
         (Plain (render_markdown wb m)))"

section \<open>Names inside the archive\<close>

definition slug_like :: "string \<Rightarrow> bool" where
  "slug_like s \<longleftrightarrow> s \<noteq> [] \<and> hd s \<noteq> CHR ''-'' \<and> last s \<noteq> CHR ''-'' \<and> (\<forall>c \<in> set s. slug_char c \<or> c = CHR ''-'')"

lemma strip_runs_chars: "c \<in> set (strip_runs b s) \<Longrightarrow> slug_char c \<or> c = CHR ''-''"
  by (induction b s rule: strip_runs.induct) (auto split: if_splits)

lemma trim_dashes_like:
  assumes "\<forall>c \<in> set s. slug_char c \<or> c = CHR ''-''" and "trim_dashes s \<noteq> []"
  shows "slug_like (trim_dashes s)"
  using assms set_trim_by [of "\<lambda>c. c = CHR ''-''" s] trim_by_hd [of "\<lambda>c. c = CHR ''-''" s] trim_by_last [of "\<lambda>c. c = CHR ''-''" s]
  by (auto simp: slug_like_def trim_dashes_def)

lemma slugify_like: "slugify s = [] \<or> slug_like (slugify s)"
proof -
  let ?r = "strip_runs False (to_lower (trim_space s))"
  let ?t = "trim_dashes ?r"
  have r: "\<forall>c \<in> set ?r. slug_char c \<or> c = CHR ''-''" using strip_runs_chars by blast
  then have t: "\<forall>c \<in> set ?t. slug_char c \<or> c = CHR ''-''"
    using set_trim_by unfolding trim_dashes_def by blast
  have "\<forall>c \<in> set (take 80 ?t). slug_char c \<or> c = CHR ''-''" using t by (meson in_set_takeD)
  then show ?thesis
    unfolding slugify_def Let_def using trim_dashes_like [of "take 80 ?t"] trim_dashes_like [OF r] by auto
qed

lemma slug_literals: "slug_like ''untitled''" "slug_like ''unclassified''"
  by (simp_all add: slug_like_def slug_char_def)

lemma export_dirs_like: "d \<in> set (export_dirs tax) \<Longrightarrow> slug_like d"
  using slugify_like slug_literals by (fastforce simp: export_dirs_def Let_def split: if_splits)

lemma export_base_like: "slug_like (or_default ''untitled'' (slugify t))"
  using slugify_like [of t] slug_literals by (auto simp: or_default_def)

lemma slugify_length: "length (slugify s) \<le> 80"
proof -
  have le: "length (trim_dashes u) \<le> length u" for u
    by (simp add: trim_dashes_def trim_by_def) (metis length_dropWhile_le length_rev order_trans)
  show ?thesis using le [of "take 80 _"] unfolding slugify_def Let_def by (auto intro: order_trans)
qed

lemma slug_like_parts:
  assumes "slug_like s"
  shows "CHR ''/'' \<notin> set s" and "CHR ''.'' \<notin> set s"
  using assms by (auto simp: slug_like_def slug_char_def)

text \<open>C39: No title and no taxonomy makes an entry of the archive leave its place: the path is one or
  more folder names, each of them lower-case letters, digits and inner dashes, and a file name that starts
  with such a letter or digit, has no slash and ends in \<^verbatim>\<open>.md\<close>; so it is relative and has no empty, dot
  or parent segment.\<close>

theorem export_path_safe:
  assumes "CHR ''/'' \<notin> set (mem_id m)"
  shows "\<exists>dirs name. export_path m used = join_with ''/'' (dirs @ [name @ ''.md'']) \<and> dirs \<noteq> []
    \<and> (\<forall>d \<in> set dirs. slug_like d) \<and> CHR ''/'' \<notin> set name \<and> name \<noteq> [] \<and> slug_char (hd name)"
proof -
  let ?dirs = "export_dirs (mem_taxonomy m)" and ?base = "or_default ''untitled'' (slugify (mem_title m))"
  have dirs: "?dirs \<noteq> []" "\<forall>d \<in> set ?dirs. slug_like d"
    using export_dirs_like by (auto simp: export_dirs_def Let_def)
  have base: "?base \<noteq> []" "CHR ''/'' \<notin> set ?base" "slug_char (hd ?base)"
    using export_base_like [of "mem_title m"] slug_like_parts(1) by (auto simp: slug_like_def)
  define name where "name = (if join_with ''/'' (?dirs @ [?base @ ''.md'']) \<in> used
    then ?base @ ''-'' @ take 8 (mem_id m) else ?base)"
  have "export_path m used = join_with ''/'' (?dirs @ [name @ ''.md''])"
    by (simp add: export_path_def Let_def name_def)
  moreover have "CHR ''/'' \<notin> set name" using base(2) assms by (auto simp: name_def dest: in_set_takeD)
  moreover have "name \<noteq> []" "slug_char (hd name)" using base by (auto simp: name_def)
  ultimately show ?thesis using dirs by blast
qed

definition eg_mem :: "string \<Rightarrow> string \<Rightarrow> memory" where
  "eg_mem i title = \<lparr>mem_id = i, mem_title = title, mem_content = [], mem_taxonomy = ''w'', mem_format = ''markdown'',
     mem_created = 0, mem_updated = 0, mem_version = 1, mem_backlinks = 0, mem_superseded = False,
     mem_linked_from = [], mem_links = [], mem_in_review = False\<rparr>"

lemma export_path_safe_witness:
  "\<exists>dirs name. export_path (eg_mem ''7'' ''../x'') {} = join_with ''/'' (dirs @ [name @ ''.md'']) \<and> dirs \<noteq> []
    \<and> (\<forall>d \<in> set dirs. slug_like d) \<and> CHR ''/'' \<notin> set name \<and> name \<noteq> [] \<and> slug_char (hd name)"
  by (rule export_path_safe) (simp add: eg_mem_def)

text \<open>The suffix that tells colliding names apart is not checked against the names given before, so
  three records with different ids and titles can leave the archive with the same path twice.\<close>

theorem export_path_collision:
  shows "map (\<lambda>m. (mem_id m, mem_title m)) [eg_mem ''1'' ''a b'', eg_mem ''2'' ''a'', eg_mem ''b'' ''a!''] = [(''1'', ''a b''), (''2'', ''a''), (''b'', ''a!'')]"
    and "map fst (export_entries wb [eg_mem ''1'' ''a b'', eg_mem ''2'' ''a'', eg_mem ''b'' ''a!''] {}) = [''w/a-b.md'', ''w/a.md'', ''w/a-b.md'']"
proof -
  show "map (\<lambda>m. (mem_id m, mem_title m)) [eg_mem ''1'' ''a b'', eg_mem ''2'' ''a'', eg_mem ''b'' ''a!''] = [(''1'', ''a b''), (''2'', ''a''), (''b'', ''a!'')]"
    by (simp add: eg_mem_def)
  have "export_path (eg_mem ''1'' ''a b'') {} = ''w/a-b.md''" by code_simp
  moreover have "export_path (eg_mem ''2'' ''a'') {''w/a-b.md''} = ''w/a.md''" by code_simp
  moreover have "export_path (eg_mem ''b'' ''a!'') {''w/a.md'', ''w/a-b.md''} = ''w/a-b.md''" by code_simp
  ultimately show "map fst (export_entries wb [eg_mem ''1'' ''a b'', eg_mem ''2'' ''a'', eg_mem ''b'' ''a!''] {}) = [''w/a-b.md'', ''w/a.md'', ''w/a-b.md'']"
    by (simp add: Let_def)
qed

end
