(* ===== verification/Docs_Sync.thy ===== *)
theory Docs_Sync
  imports Engine_Reachable Web_Data
begin

text \<open>
  The documentation corpus (\<^verbatim>\<open>internal/docs/docs.go\<close>): parsing the embedded Markdown files and bringing
  a tenant file in line with them. The embedded directory is an argument.
\<close>

section \<open>Parsing\<close>

record doc =
  dc_title :: string
  dc_taxonomy :: string
  dc_format :: string
  dc_content :: string
  dc_file :: string

datatype doc_error =
    NoFrontmatter | NotClosed | NotKeyValue string | UnknownKey string
  | NoTitle | NoTaxonomy | EmptyBody | DuplicateTitle string
  | StoreFailed db_error

definition newline :: char where "newline = CHR 0x0A"

fun unify_newlines :: "string \<Rightarrow> string" where
  "unify_newlines (a # b # s) =
     (if a = CHR 0x0D \<and> b = CHR 0x0A then CHR 0x0A # unify_newlines s else a # unify_newlines (b # s))"
| "unify_newlines s = s"

definition set_key :: "string \<Rightarrow> string \<Rightarrow> doc \<Rightarrow> doc_error + doc" where
  "set_key key value d =
     (if trim_space key = ''title'' then Inr (d\<lparr>dc_title := value\<rparr>)
      else if trim_space key = ''taxonomy'' then Inr (d\<lparr>dc_taxonomy := value\<rparr>)
      else if trim_space key = ''format'' then Inr (d\<lparr>dc_format := value\<rparr>)
      else Inl (UnknownKey key))"

fun parse_lines :: "doc \<Rightarrow> string list \<Rightarrow> doc_error + doc" where
  "parse_lines d [] = Inr d"
| "parse_lines d (l # ls) =
     (let line = trim_space l in
      if line = [] \<or> prefix ''#'' line then parse_lines d ls
      else (case str_cut '':'' line of
              None \<Rightarrow> Inl (NotKeyValue line)
            | Some (key, value) \<Rightarrow>
                (case set_key key (trim_space value) d of Inl err \<Rightarrow> Inl err | Inr d' \<Rightarrow> parse_lines d' ls)))"

definition check_doc :: "doc \<Rightarrow> doc_error + doc" where
  "check_doc d =
     (if dc_title d = [] then Inl NoTitle else if dc_taxonomy d = [] then Inl NoTaxonomy
      else if dc_content d = [] then Inl EmptyBody else Inr d)"

definition parse_doc :: "string \<Rightarrow> string \<Rightarrow> doc_error + doc" where
  "parse_doc raw path =
     (let body = unify_newlines raw in
      if \<not> prefix (''---'' @ [newline]) body then Inl NoFrontmatter
      else (case str_cut ([newline] @ ''---'' @ [newline]) (drop 4 body) of
              None \<Rightarrow> Inl NotClosed
            | Some (front, rest) \<Rightarrow>
                (case parse_lines \<lparr>dc_title = [], dc_taxonomy = [], dc_format = [], dc_content = trim_space rest, dc_file = path\<rparr>
                        (split_on newline front) of
                   Inl err \<Rightarrow> Inl err
                 | Inr d \<Rightarrow> check_doc d)))"

text \<open>The directory entries: name, whether a directory, content.\<close>

type_synonym entry = "string \<times> bool \<times> string"

fun load_docs :: "entry list \<Rightarrow> string list \<Rightarrow> doc_error + doc list" where
  "load_docs [] seen = Inr []"
| "load_docs ((name, dir, raw) # es) seen =
     (if dir \<or> \<not> (length ''.md'' \<le> length name \<and> drop (length name - length ''.md'') name = ''.md'') then load_docs es seen
      else (case parse_doc raw (''corpus/'' @ name) of
              Inl err \<Rightarrow> Inl err
            | Inr d \<Rightarrow>
                if dc_title d \<in> set seen then Inl (DuplicateTitle (dc_title d))
                else (case load_docs es (dc_title d # seen) of Inl err \<Rightarrow> Inl err | Inr ds \<Rightarrow> Inr (d # ds))))"

definition sorted_docs :: "entry list \<Rightarrow> doc_error + doc list" where
  "sorted_docs es = (case load_docs es [] of Inl err \<Rightarrow> Inl err | Inr ds \<Rightarrow> Inr (sort_key dc_file ds))"

section \<open>Syncing\<close>

record sync_state =
  sy_store :: store
  sy_inserted :: nat
  sy_updated :: nat
  sy_removed :: nat

definition doc_format :: "doc \<Rightarrow> string" where
  "doc_format d = (if dc_format d = [] then ''markdown'' else dc_format d)"

definition doc_memory :: "doc \<Rightarrow> new_memory" where
  "doc_memory d = \<lparr>nm_title = dc_title d, nm_content = dc_content d, nm_taxonomy = dc_taxonomy d, nm_format = doc_format d\<rparr>"

definition doc_updates :: "doc \<Rightarrow> updates" where
  "doc_updates d = \<lparr>up_title = None, up_content = Some (dc_content d), up_taxonomy = Some (dc_taxonomy d), up_format = Some (doc_format d)\<rparr>"

definition doc_matches :: "doc \<Rightarrow> memory \<Rightarrow> bool" where
  "doc_matches d m = (mem_content m = dc_content d \<and> mem_taxonomy m = dc_taxonomy d \<and> mem_format m = doc_format d)"

text \<open>\<^verbatim>\<open>byTitle[m.Title] = m\<close>: the last of the listing wins.\<close>

definition by_title :: "memory list \<Rightarrow> string \<Rightarrow> memory option" where
  "by_title ms t = find (\<lambda>m. mem_title m = t) (rev ms)"

definition sync_agent :: string where "sync_agent = ''docs-sync''"

text \<open>\<open>ids\<close> gives the id of the \<open>k\<close>-th insert.\<close>

definition sync_doc ::
  "(nat \<Rightarrow> string) \<Rightarrow> int \<Rightarrow> string \<Rightarrow> memory list \<Rightarrow> doc \<Rightarrow> sync_state \<Rightarrow> doc_error option \<times> sync_state" where
  "sync_doc ids now author existing d s =
     (case by_title existing (dc_title d) of
        None \<Rightarrow>
          (case insert_memory (ids (sy_inserted s)) now (doc_memory d) author sync_agent (sy_store s) of
             Inl err \<Rightarrow> (Some (StoreFailed err), s)
           | Inr (_, st) \<Rightarrow> (None, s\<lparr>sy_store := st, sy_inserted := Suc (sy_inserted s)\<rparr>))
      | Some m \<Rightarrow>
          if doc_matches d m then (None, s)
          else (case update_memory (mem_id m) (doc_updates d) author sync_agent None now (sy_store s) of
                  Inl err \<Rightarrow> (Some (StoreFailed err), s)
                | Inr (_, st) \<Rightarrow> (None, s\<lparr>sy_store := st, sy_updated := Suc (sy_updated s)\<rparr>)))"

fun sync_docs ::
  "(nat \<Rightarrow> string) \<Rightarrow> int \<Rightarrow> string \<Rightarrow> memory list \<Rightarrow> doc list \<Rightarrow> sync_state \<Rightarrow> doc_error option \<times> sync_state" where
  "sync_docs ids now author existing [] s = (None, s)"
| "sync_docs ids now author existing (d # ds) s =
     (case sync_doc ids now author existing d s of
        (Some err, s') \<Rightarrow> (Some err, s')
      | (None, s') \<Rightarrow> sync_docs ids now author existing ds s')"

fun sync_removals :: "int \<Rightarrow> string \<Rightarrow> memory list \<Rightarrow> sync_state \<Rightarrow> doc_error option \<times> sync_state" where
  "sync_removals now author [] s = (None, s)"
| "sync_removals now author (m # ms) s =
     (case delete_memory (mem_id m) author now (sy_store s) of
        Inl err \<Rightarrow> (Some (StoreFailed err), s)
      | Inr st \<Rightarrow> sync_removals now author ms (s\<lparr>sy_store := st, sy_removed := Suc (sy_removed s)\<rparr>))"

text \<open>
  \<open>order\<close> is the order in which Go walks the map \<^verbatim>\<open>byTitle\<close>; the walk takes the records whose title no
  document has.
\<close>

definition unwanted :: "doc list \<Rightarrow> memory list \<Rightarrow> memory list" where
  "unwanted ds existing = filter (\<lambda>m. mem_title m \<notin> dc_title ` set ds \<and> by_title existing (mem_title m) = Some m) existing"

definition sync_corpus ::
  "(nat \<Rightarrow> string) \<Rightarrow> (memory list \<Rightarrow> memory list) \<Rightarrow> int \<Rightarrow> string \<Rightarrow> entry list \<Rightarrow> store \<Rightarrow> doc_error option \<times> sync_state" where
  "sync_corpus ids order now author es st =
     (let s0 = \<lparr>sy_store = st, sy_inserted = 0, sy_updated = 0, sy_removed = 0\<rparr> in
      case sorted_docs es of
        Inl err \<Rightarrow> (Some err, s0)
      | Inr ds \<Rightarrow>
     (let existing = fst (list_memories st full_scope [] 0 0) in
      case sync_docs ids now author existing ds s0 of
        (Some err, s1) \<Rightarrow> (Some err, s1)
      | (None, s1) \<Rightarrow>
     (case sync_removals now author (order (unwanted ds existing)) s1 of
        (Some err, s2) \<Rightarrow> (Some err, s2)
      | (None, s2) \<Rightarrow>
          (case rebuild_edges (sy_store s2) of
             Inl err \<Rightarrow> (Some (StoreFailed err), s2)
           | Inr st' \<Rightarrow> (None, s2\<lparr>sy_store := st'\<rparr>)))))"

end
