(* ===== verification/Web_Public.thy ===== *)
theory Web_Public
  imports Web_Admin Web_Export Docs_Sync
begin

text \<open>
  The anonymous documentation mirror (\<^verbatim>\<open>internal/api/public.go\<close>): the account it reads as, the corpus
  built at start-up, and the substitution of its bearer for whatever the caller sent.
\<close>

section \<open>The corpus\<close>

record docs_corpus =
  dx_bearer :: string
  dx_identity :: string
  dx_path :: string
  dx_inserted :: nat
  dx_updated :: nat
  dx_removed :: nat

definition docs_identity_name :: string where "docs_identity_name = ''rekam-docs''"

datatype docs_failure =
    NoCorpusPath
  | KeyNotMinted
  | AccountFailed engine_error
  | AccountCanWrite string
  | CorpusNotOpened
  | SyncFailed doc_error

text \<open>\<open>wb_fresh wb 0\<close> is the id of a new account.\<close>

definition docs_identity :: "web \<Rightarrow> string \<Rightarrow> engine \<Rightarrow> (docs_failure + identity) \<times> engine" where
  "docs_identity wb corpus e =
     (case find (\<lambda>idn. iy_name idn = docs_identity_name) (list_identities (en_registry e)) of
        Some idn \<Rightarrow>
          if iy_path idn = corpus then (Inr idn, e)
          else (case engine_set_memory_path e (iy_id idn) corpus of
                  (Inl err, e') \<Rightarrow> (Inl (AccountFailed err), e')
                | (Inr _, e') \<Rightarrow> (Inr (idn\<lparr>iy_path := corpus\<rparr>), e'))
      | None \<Rightarrow>
          (case wb_random wb 0 32 of
             None \<Rightarrow> (Inl KeyNotMinted, e)
           | Some key \<Rightarrow>
               (case engine_create_identity (wb_world wb) e (wb_fresh wb 0) docs_identity_name key corpus False of
                  (Inl err, e') \<Rightarrow> (Inl (AccountFailed err), e')
                | (Inr idn, e') \<Rightarrow> (Inr idn, e'))))"

text \<open>\<open>es\<close> is the embedded directory, \<open>order\<close> the order of a walk through a Go map.\<close>

definition enable_docs ::
  "web \<Rightarrow> (memory list \<Rightarrow> memory list) \<Rightarrow> entry list \<Rightarrow> string \<Rightarrow> engine \<Rightarrow> (docs_failure + docs_corpus) \<times> engine" where
  "enable_docs wb order es corpus e =
     (if corpus = [] then (Inl NoCorpusPath, e) else
     (case docs_identity wb corpus e of
        (Inl err, e1) \<Rightarrow> (Inl err, e1)
      | (Inr idn, e1) \<Rightarrow>
     (if iy_write idn then (Inl (AccountCanWrite (iy_id idn)), e1)
      else if \<not> wd_opens (wb_world wb) corpus then (Inl CorpusNotOpened, e1)
      else (case sync_corpus (\<lambda>k. wb_fresh wb (Suc k)) order (tenant_now (wb_world wb)) (iy_id idn) es (en_files e1 corpus) of
              (Some err, s) \<Rightarrow> (Inl (SyncFailed err), put_file corpus (sy_store s) e1)
            | (None, s) \<Rightarrow>
                (Inr \<lparr>dx_bearer = session_token_for (wd_mac (wb_world wb)) (iy_id idn) [], dx_identity = iy_id idn, dx_path = corpus,
                      dx_inserted = sy_inserted s, dx_updated = sy_updated s, dx_removed = sy_removed s\<rparr>,
                 put_file corpus (sy_store s) e1)))))"

text \<open>The zero value without a corpus.\<close>

definition docs_sync_counts :: "docs_corpus option \<Rightarrow> nat \<times> nat \<times> nat" where
  "docs_sync_counts dx = (case dx of None \<Rightarrow> (0, 0, 0) | Some d \<Rightarrow> (dx_inserted d, dx_updated d, dx_removed d))"

section \<open>The substitution\<close>

definition team_header :: string where "team_header = ''X-Rekam-Team''"

text \<open>What \<^verbatim>\<open>publicRead\<close> makes of a request before a handler sees it.\<close>

definition public_request :: "docs_corpus \<Rightarrow> request \<Rightarrow> request" where
  "public_request d r =
     set_header ''Authorization'' (''Bearer '' @ dx_bearer d)
       ((del_header team_header r)\<lparr>rq_query := filter (\<lambda>kv. fst kv \<noteq> ''team'') (rq_query r)\<rparr>)"

end
