(* ===== verification/Rate_Limit.thy ===== *)
theory Rate_Limit
  imports Go_Prelude Complex_Main
begin

text \<open>
  The per-address token bucket of the HTTP server (\<^verbatim>\<open>internal/api/ratelimit.go\<close>). Times and durations
  are in nanoseconds, \<^verbatim>\<open>float64\<close> operations go through a rounding \<open>fl\<close>. A call of \<^verbatim>\<open>allow\<close> holds the
  mutex from the sweep to the end, so calls are taken in the order they get it.
\<close>

section \<open>Durations\<close>

definition second :: int where "second = 10 ^ 9"

text \<open>\<^verbatim>\<open>Duration.Seconds\<close> on a duration that is not negative.\<close>

definition seconds :: "(rat \<Rightarrow> rat) \<Rightarrow> int \<Rightarrow> rat" where
  "seconds fl d = fl (of_int (d div second) + fl (of_int (d mod second) / of_int second))"

section \<open>The limiter\<close>

record token_bucket =
  bk_tokens :: rat
  bk_fill :: int

record rate_limiter =
  rl_buckets :: "string \<Rightarrow> token_bucket option"
  rl_burst :: rat
  rl_refill :: rat
  rl_ttl :: int
  rl_swept :: "int option"

text \<open>\<open>rl_swept = None\<close> is the zero time, which lies longer ago than any duration.\<close>

definition new_rate_limiter :: "(rat \<Rightarrow> rat) \<Rightarrow> nat \<Rightarrow> int \<Rightarrow> rate_limiter" where
  "new_rate_limiter fl burst window =
     \<lparr>rl_buckets = Map.empty, rl_burst = of_nat burst, rl_refill = fl (of_nat burst / seconds fl window),
      rl_ttl = 10 * window, rl_swept = None\<rparr>"

definition sweep_locked :: "int \<Rightarrow> rate_limiter \<Rightarrow> rate_limiter" where
  "sweep_locked now rl =
     (if (case rl_swept rl of None \<Rightarrow> False | Some t \<Rightarrow> now - t < rl_ttl rl) then rl
      else rl\<lparr>rl_swept := Some now,
              rl_buckets := (\<lambda>k. case rl_buckets rl k of
                 None \<Rightarrow> None
               | Some b \<Rightarrow> if rl_ttl rl < now - bk_fill b then None else Some b)\<rparr>)"

definition refilled :: "(rat \<Rightarrow> rat) \<Rightarrow> int \<Rightarrow> rate_limiter \<Rightarrow> token_bucket option \<Rightarrow> rat" where
  "refilled fl now rl old =
     (case old of
        None \<Rightarrow> rl_burst rl
      | Some b \<Rightarrow> min (rl_burst rl) (fl (bk_tokens b + fl (seconds fl (now - bk_fill b) * rl_refill rl))))"

definition wait_for :: "(rat \<Rightarrow> rat) \<Rightarrow> rate_limiter \<Rightarrow> rat \<Rightarrow> int" where
  "wait_for fl rl tokens = \<lfloor>fl (fl (fl (1 - tokens) / rl_refill rl) * of_int second)\<rfloor> + second"

definition allow :: "(rat \<Rightarrow> rat) \<Rightarrow> string \<Rightarrow> int \<Rightarrow> rate_limiter \<Rightarrow> (bool \<times> int) \<times> rate_limiter" where
  "allow fl key now rl0 =
     (let rl = sweep_locked now rl0;
          tokens = refilled fl now rl (rl_buckets rl key);
          put = (\<lambda>t. rl\<lparr>rl_buckets := (rl_buckets rl)(key \<mapsto> \<lparr>bk_tokens = t, bk_fill = now\<rparr>)\<rparr>)
      in if 1 \<le> tokens then ((True, 0), put (fl (tokens - 1)))
         else ((False, wait_for fl rl tokens), put tokens))"

text \<open>The \<^verbatim>\<open>Retry-After\<close> header of a refusal, in seconds.\<close>

definition retry_after :: "(rat \<Rightarrow> rat) \<Rightarrow> int \<Rightarrow> int" where
  "retry_after fl wait = max \<lceil>seconds fl wait\<rceil> 1"

section \<open>Histories\<close>

text \<open>A history is a list of calls, each with its key and its time. How many calls for a key it admits.\<close>

fun run_limiter :: "(rat \<Rightarrow> rat) \<Rightarrow> rate_limiter \<Rightarrow> (string \<times> int) list \<Rightarrow> rate_limiter" where
  "run_limiter fl rl [] = rl"
| "run_limiter fl rl ((k, now) # cs) = run_limiter fl (snd (allow fl k now rl)) cs"

fun admitted :: "(rat \<Rightarrow> rat) \<Rightarrow> string \<Rightarrow> rate_limiter \<Rightarrow> (string \<times> int) list \<Rightarrow> nat" where
  "admitted fl key rl [] = 0"
| "admitted fl key rl ((k, now) # cs) =
     (if k = key \<and> fst (fst (allow fl k now rl)) then 1 else 0) + admitted fl key (snd (allow fl k now rl)) cs"

definition calls_of :: "string \<Rightarrow> (string \<times> int) list \<Rightarrow> nat" where
  "calls_of key cs = length (filter (\<lambda>c. fst c = key) cs)"

text \<open>A rounding with relative error \<open>u\<close>; \<open>2 ^ -53\<close> for \<^verbatim>\<open>float64\<close>, \<open>0\<close> for exact arithmetic.\<close>

definition rounds_within :: "rat \<Rightarrow> (rat \<Rightarrow> rat) \<Rightarrow> bool" where
  "rounds_within u fl \<longleftrightarrow> 0 \<le> u \<and> u < 1 \<and> (\<forall>x. 0 \<le> x \<longrightarrow> x * (1 - u) \<le> fl x \<and> fl x \<le> x * (1 + u))"

section \<open>Rounding\<close>

lemma fl_le: "rounds_within u fl \<Longrightarrow> 0 \<le> x \<Longrightarrow> fl x \<le> x * (1 + u)"
  by (simp add: rounds_within_def)

lemma u_bounds: "rounds_within u fl \<Longrightarrow> 0 \<le> u \<and> u < 1"
  by (simp add: rounds_within_def)

lemma fl_nonneg: "rounds_within u fl \<Longrightarrow> 0 \<le> x \<Longrightarrow> 0 \<le> fl x"
proof -
  assume fl: "rounds_within u fl" and x: "0 \<le> x"
  have "0 \<le> x * (1 - u)" using x u_bounds [OF fl] by simp
  also have "\<dots> \<le> fl x" using fl x by (simp add: rounds_within_def)
  finally show "0 \<le> fl x" .
qed

lemma fl_mono_bound: "rounds_within u fl \<Longrightarrow> 0 \<le> x \<Longrightarrow> x \<le> y \<Longrightarrow> fl x \<le> y * (1 + u)"
proof -
  assume fl: "rounds_within u fl" and x: "0 \<le> x" "x \<le> y"
  have "fl x \<le> x * (1 + u)" using fl x(1) by (rule fl_le)
  also have "\<dots> \<le> y * (1 + u)" using x(2) u_bounds [OF fl] by (intro mult_right_mono) simp_all
  finally show "fl x \<le> y * (1 + u)" .
qed

lemma split_duration: "of_int (d div second) + of_int (d mod second) / of_int second = (of_int d / of_int second :: rat)"
proof -
  have nz: "(of_int second :: rat) \<noteq> 0" by (simp add: second_def)
  have "(of_int d :: rat) = of_int (d div second * second + d mod second)" by (simp only: div_mult_mod_eq)
  then have "(of_int d / of_int second :: rat) = (of_int (d div second) * of_int second + of_int (d mod second)) / of_int second"
    by (simp only: of_int_add of_int_mult)
  then show ?thesis by (simp only: add_divide_distrib nonzero_mult_div_cancel_right [OF nz])
qed

lemma second_pos: "0 < second"
  by (simp add: second_def)

lemma whole_nonneg: "0 \<le> d \<Longrightarrow> (0 :: rat) \<le> of_int (d div second)"
  using second_pos by (simp add: pos_imp_zdiv_nonneg_iff)

lemma part_nonneg: "(0 :: rat) \<le> of_int (d mod second) / of_int second"
  using second_pos by simp

lemma seconds_nonneg:
  assumes "rounds_within u fl" and "0 \<le> d"
  shows "0 \<le> seconds fl d"
  unfolding seconds_def
  by (rule fl_nonneg [OF assms(1)], rule add_nonneg_nonneg, rule whole_nonneg [OF assms(2)],
      rule fl_nonneg [OF assms(1) part_nonneg])

lemma seconds_le:
  assumes "rounds_within u fl" and "0 \<le> d"
  shows "seconds fl d \<le> of_int d / of_int second * (1 + u) ^ 2"
proof -
  have u: "0 \<le> u" using assms(1) u_bounds by blast
  note whole = whole_nonneg [OF assms(2)] and part = part_nonneg [of d]
  have "of_int (d div second) + fl (of_int (d mod second) / of_int second)
      \<le> of_int (d div second) * (1 + u) + of_int (d mod second) / of_int second * (1 + u)"
  proof (rule add_mono)
    show "of_int (d div second) \<le> of_int (d div second) * (1 + u)"
      using mult_left_mono [of 1 "1 + u", OF _ whole] u by simp
  qed (rule fl_le [OF assms(1) part])
  also have "\<dots> = of_int d / of_int second * (1 + u)"
    unfolding split_duration [of d, symmetric] by (simp add: algebra_simps)
  finally have "seconds fl d \<le> (of_int d / of_int second * (1 + u)) * (1 + u)"
    unfolding seconds_def using whole fl_nonneg [OF assms(1) part] by (intro fl_mono_bound [OF assms(1)]) simp_all
  then show ?thesis by (simp add: power2_eq_square mult.assoc)
qed

section \<open>The bound\<close>

text \<open>What refills in a nanosecond, at most.\<close>

definition refill_bound :: "rat \<Rightarrow> rate_limiter \<Rightarrow> rat" where
  "refill_bound u rl = rl_refill rl * (1 + u) ^ 4 / of_int second"

definition bucket_ok :: "rate_limiter \<Rightarrow> int \<Rightarrow> token_bucket \<Rightarrow> bool" where
  "bucket_ok rl now b \<longleftrightarrow> 0 \<le> bk_tokens b \<and> bk_tokens b \<le> rl_burst rl \<and> bk_fill b \<le> now"

definition limiter_ok :: "rat \<Rightarrow> int \<Rightarrow> rate_limiter \<Rightarrow> bool" where
  "limiter_ok u now rl \<longleftrightarrow>
     0 \<le> rl_burst rl \<and> rl_burst rl * u \<le> 1 \<and> 0 \<le> rl_refill rl \<and> rl_burst rl \<le> refill_bound u rl * of_int (rl_ttl rl)
     \<and> (\<forall>k b. rl_buckets rl k = Some b \<longrightarrow> bucket_ok rl now b)"

definition potential :: "rat \<Rightarrow> rate_limiter \<Rightarrow> string \<Rightarrow> int \<Rightarrow> rat" where
  "potential u rl key now =
     (case rl_buckets rl key of
        None \<Rightarrow> rl_burst rl
      | Some b \<Rightarrow> bk_tokens b + refill_bound u rl * of_int (now - bk_fill b))"

lemma sweep_fields [simp]:
  "rl_burst (sweep_locked now rl) = rl_burst rl" "rl_refill (sweep_locked now rl) = rl_refill rl"
  "rl_ttl (sweep_locked now rl) = rl_ttl rl" "refill_bound u (sweep_locked now rl) = refill_bound u rl"
  by (auto simp: sweep_locked_def refill_bound_def)

lemma refill_bound_nonneg: "rounds_within u fl \<Longrightarrow> 0 \<le> rl_refill rl \<Longrightarrow> 0 \<le> refill_bound u rl"
  using u_bounds [of u fl] by (simp add: refill_bound_def second_def)

lemma sweep_ok: "limiter_ok u t rl \<Longrightarrow> t \<le> now \<Longrightarrow> limiter_ok u now (sweep_locked now rl)"
  unfolding limiter_ok_def sweep_fields
  by (fastforce simp: sweep_locked_def bucket_ok_def split: if_splits option.splits)

lemma sweep_potential:
  assumes "limiter_ok u t rl" and "t \<le> now" and "rounds_within u fl"
  shows "potential u (sweep_locked now rl) key now \<le> potential u rl key now"
proof (cases "rl_buckets rl key")
  case None
  then show ?thesis by (auto simp: potential_def sweep_locked_def)
next
  case (Some b)
  have c: "0 \<le> refill_bound u rl" using assms(1,3) by (simp add: limiter_ok_def refill_bound_nonneg)
  have b: "0 \<le> bk_tokens b" using assms(1) Some by (auto simp: limiter_ok_def bucket_ok_def)
  have "rl_burst rl \<le> bk_tokens b + refill_bound u rl * of_int (now - bk_fill b)" if "rl_ttl rl < now - bk_fill b"
  proof -
    have "refill_bound u rl * of_int (rl_ttl rl) \<le> refill_bound u rl * of_int (now - bk_fill b)"
      using that c by (intro mult_left_mono) simp_all
    then show ?thesis using assms(1) b unfolding limiter_ok_def by linarith
  qed
  then show ?thesis using Some by (auto simp: potential_def sweep_locked_def refill_bound_def)
qed

lemma refilled_bounds:
  assumes "limiter_ok u now rl" and "rounds_within u fl"
  shows "0 \<le> refilled fl now rl (rl_buckets rl key)" and "refilled fl now rl (rl_buckets rl key) \<le> rl_burst rl"
    and "refilled fl now rl (rl_buckets rl key) \<le> potential u rl key now + rl_burst rl * u"
proof -
  have u: "0 \<le> u" using assms(2) u_bounds by blast
  have burst: "0 \<le> rl_burst rl" and refill: "0 \<le> rl_refill rl" using assms(1) by (simp_all add: limiter_ok_def)
  have "0 \<le> refilled fl now rl (rl_buckets rl key) \<and> refilled fl now rl (rl_buckets rl key) \<le> rl_burst rl
      \<and> refilled fl now rl (rl_buckets rl key) \<le> potential u rl key now + rl_burst rl * u"
  proof (cases "rl_buckets rl key")
    case None
    then show ?thesis using burst u by (simp add: refilled_def potential_def)
  next
    case (Some b)
    define d where "d = now - bk_fill b"
    have b: "0 \<le> bk_tokens b" "bk_tokens b \<le> rl_burst rl" "0 \<le> d"
      using assms(1) Some by (auto simp: limiter_ok_def bucket_ok_def d_def)
    have el: "0 \<le> seconds fl d" "seconds fl d \<le> of_int d / of_int second * (1 + u) ^ 2"
      using seconds_nonneg [OF assms(2) b(3)] seconds_le [OF assms(2) b(3)] by blast+
    let ?p = "fl (seconds fl d * rl_refill rl)"
    have p: "0 \<le> ?p" using el(1) refill assms(2) by (simp add: fl_nonneg)
    have "?p \<le> (of_int d / of_int second * (1 + u) ^ 2 * rl_refill rl) * (1 + u)"
      using el refill by (intro fl_mono_bound [OF assms(2)] mult_right_mono) simp_all
    then have "?p * (1 + u) \<le> (of_int d / of_int second * (1 + u) ^ 2 * rl_refill rl) * (1 + u) * (1 + u)"
      using u by (intro mult_right_mono) simp_all
    also have "\<dots> = refill_bound u rl * of_int d"
      by (simp add: refill_bound_def power2_eq_square power4_eq_xxxx)
    finally have pc: "?p * (1 + u) \<le> refill_bound u rl * of_int d" .
    have "fl (bk_tokens b + ?p) \<le> (bk_tokens b + ?p) * (1 + u)" using b p by (intro fl_le [OF assms(2)]) simp
    also have "\<dots> = bk_tokens b + bk_tokens b * u + ?p * (1 + u)" by (simp add: algebra_simps)
    also have "\<dots> \<le> bk_tokens b + rl_burst rl * u + refill_bound u rl * of_int d"
      using pc mult_right_mono [OF b(2) u] by linarith
    finally have "fl (bk_tokens b + ?p) \<le> potential u rl key now + rl_burst rl * u"
      by (simp add: potential_def Some d_def)
    moreover have "0 \<le> fl (bk_tokens b + ?p)" using b p by (intro fl_nonneg [OF assms(2)]) simp
    ultimately show ?thesis using burst by (simp add: refilled_def Some d_def min_le_iff_disj)
  qed
  then show "0 \<le> refilled fl now rl (rl_buckets rl key)" and "refilled fl now rl (rl_buckets rl key) \<le> rl_burst rl"
    and "refilled fl now rl (rl_buckets rl key) \<le> potential u rl key now + rl_burst rl * u" by blast+
qed

lemma allow_fields [simp]:
  "rl_burst (snd (allow fl k now rl)) = rl_burst rl" "rl_refill (snd (allow fl k now rl)) = rl_refill rl"
  "rl_ttl (snd (allow fl k now rl)) = rl_ttl rl" "refill_bound u (snd (allow fl k now rl)) = refill_bound u rl"
  by (auto simp: allow_def Let_def refill_bound_def)

lemma allow_other:
  "k \<noteq> key \<Longrightarrow> rl_buckets (snd (allow fl k now rl)) key = rl_buckets (sweep_locked now rl) key"
  by (simp add: allow_def Let_def)

text \<open>What one call for \<open>key\<close> leaves in its bucket.\<close>

lemma allow_key:
  assumes "limiter_ok u t rl" and "t \<le> now" and "rounds_within u fl"
  obtains r where "rl_buckets (snd (allow fl key now rl)) key = Some \<lparr>bk_tokens = r, bk_fill = now\<rparr>"
    and "0 \<le> r" and "r \<le> rl_burst rl"
    and "(if fst (fst (allow fl key now rl)) then 1 else 0) + r
      \<le> refilled fl now (sweep_locked now rl) (rl_buckets (sweep_locked now rl) key) + rl_burst rl * u"
proof -
  let ?s = "sweep_locked now rl"
  let ?t = "refilled fl now ?s (rl_buckets ?s key)"
  have ok: "limiter_ok u now ?s" using sweep_ok [OF assms(1,2)] .
  have u: "0 \<le> u" using u_bounds [OF assms(3)] by blast
  have burst: "0 \<le> rl_burst rl" using assms(1) by (simp add: limiter_ok_def)
  have t: "0 \<le> ?t" "?t \<le> rl_burst rl" using refilled_bounds [OF ok assms(3)] by simp_all
  show ?thesis
  proof (cases "1 \<le> ?t")
    case True
    have "fl (?t - 1) \<le> (?t - 1) * (1 + u)" using True by (intro fl_le [OF assms(3)]) simp
    also have "\<dots> = ?t - 1 + (?t - 1) * u" by (simp add: algebra_simps)
    also have "\<dots> \<le> ?t - 1 + rl_burst rl * u" using t(2) u by (intro add_left_mono mult_right_mono) simp_all
    finally have le: "fl (?t - 1) \<le> ?t - 1 + rl_burst rl * u" .
    moreover have "0 \<le> fl (?t - 1)" using True by (intro fl_nonneg [OF assms(3)]) simp
    moreover have "rl_burst rl * u \<le> 1" using assms(1) by (simp add: limiter_ok_def)
    ultimately show ?thesis using that [of "fl (?t - 1)"] True t(2) by (simp add: allow_def Let_def)
  next
    case False
    then show ?thesis using that [of ?t] t u burst by (simp add: allow_def Let_def)
  qed
qed

lemma allow_ok:
  assumes "limiter_ok u t rl" and "t \<le> now" and "rounds_within u fl"
  shows "limiter_ok u now (snd (allow fl k now rl))"
proof -
  obtain r where r: "rl_buckets (snd (allow fl k now rl)) k = Some \<lparr>bk_tokens = r, bk_fill = now\<rparr>" "0 \<le> r" "r \<le> rl_burst rl"
    using allow_key [OF assms] by blast
  have ok: "limiter_ok u now (sweep_locked now rl)" using sweep_ok [OF assms(1,2)] .
  have "bucket_ok (snd (allow fl k now rl)) now b" if b: "rl_buckets (snd (allow fl k now rl)) k' = Some b" for k' b
  proof (cases "k' = k")
    case True
    then show ?thesis using b r by (auto simp: bucket_ok_def)
  next
    case False
    then have "rl_buckets (sweep_locked now rl) k' = Some b" using b allow_other [of k k'] by metis
    then show ?thesis using ok by (auto simp: limiter_ok_def bucket_ok_def)
  qed
  then show ?thesis using ok by (simp add: limiter_ok_def)
qed

lemma potential_later:
  assumes "limiter_ok u t rl" and "t \<le> now" and "rounds_within u fl"
  shows "potential u rl key now \<le> potential u rl key t + refill_bound u rl * of_int (now - t)"
proof -
  have "0 \<le> refill_bound u rl * of_int (now - t)"
    using assms by (intro mult_nonneg_nonneg refill_bound_nonneg [OF assms(3)]) (simp_all add: limiter_ok_def)
  then show ?thesis by (auto simp: potential_def algebra_simps split: option.split)
qed

lemma potential_nonneg:
  assumes "limiter_ok u t rl" and "rounds_within u fl"
  shows "0 \<le> potential u rl key t"
proof (cases "rl_buckets rl key")
  case None
  then show ?thesis using assms(1) by (simp add: potential_def limiter_ok_def)
next
  case (Some b)
  then have "bucket_ok rl t b" using assms(1) by (auto simp: limiter_ok_def)
  moreover have "0 \<le> refill_bound u rl" using assms by (simp add: limiter_ok_def refill_bound_nonneg)
  ultimately show ?thesis using Some by (simp add: potential_def bucket_ok_def)
qed

text \<open>One call, whoever makes it, takes from the potential of \<open>key\<close> what it admits.\<close>

lemma allow_potential:
  assumes "limiter_ok u t rl" and "t \<le> now" and "rounds_within u fl"
  shows "(if k = key \<and> fst (fst (allow fl k now rl)) then 1 else 0) + potential u (snd (allow fl k now rl)) key now
    \<le> potential u rl key t + refill_bound u rl * of_int (now - t) + (if k = key then 2 * (rl_burst rl * u) else 0)"
proof -
  let ?s = "sweep_locked now rl"
  have later: "potential u ?s key now \<le> potential u rl key t + refill_bound u rl * of_int (now - t)"
    using sweep_potential [OF assms] potential_later [OF assms] by (rule order_trans)
  show ?thesis
  proof (cases "k = key")
    case True
    obtain r where r: "rl_buckets (snd (allow fl key now rl)) key = Some \<lparr>bk_tokens = r, bk_fill = now\<rparr>"
      and le: "(if fst (fst (allow fl key now rl)) then 1 else 0) + r
        \<le> refilled fl now ?s (rl_buckets ?s key) + rl_burst rl * u"
      using allow_key [OF assms] by blast
    have "refilled fl now ?s (rl_buckets ?s key) \<le> potential u ?s key now + rl_burst rl * u"
      using refilled_bounds(3) [OF sweep_ok [OF assms(1,2)] assms(3)] by simp
    moreover have "potential u (snd (allow fl key now rl)) key now = r" using r by (simp add: potential_def)
    ultimately show ?thesis unfolding True using le later by simp
  next
    case False
    have "potential u (snd (allow fl k now rl)) key now = potential u ?s key now"
      using False by (simp add: potential_def allow_other cong: option.case_cong)
    then show ?thesis using False later by simp
  qed
qed

fun last_time :: "int \<Rightarrow> (string \<times> int) list \<Rightarrow> int" where
  "last_time t [] = t"
| "last_time t (c # cs) = last_time (snd c) cs"

lemma admitted_potential:
  assumes "rounds_within u fl" and "limiter_ok u t rl" and "sorted (t # map snd cs)"
  shows "of_nat (admitted fl key rl cs)
    \<le> potential u rl key t + refill_bound u rl * of_int (last_time t cs - t) + of_nat (calls_of key cs) * (2 * (rl_burst rl * u))"
  using assms(2,3)
proof (induction cs arbitrary: t rl)
  case Nil
  then show ?case using potential_nonneg [OF Nil(1) assms(1)] by (simp add: calls_of_def)
next
  case (Cons c cs)
  obtain k now where c: "c = (k, now)" by (cases c)
  have t: "t \<le> now" and sorted: "sorted (now # map snd cs)" using Cons.prems(2) c by auto
  let ?rl = "snd (allow fl k now rl)"
  let ?a = "(if k = key \<and> fst (fst (allow fl k now rl)) then 1 else 0 :: rat)"
  have "of_nat (admitted fl key ?rl cs)
      \<le> potential u ?rl key now + refill_bound u rl * of_int (last_time now cs - now) + of_nat (calls_of key cs) * (2 * (rl_burst rl * u))"
    using Cons.IH [OF allow_ok [OF Cons.prems(1) t assms(1)] sorted] by simp
  moreover have "?a + potential u ?rl key now
      \<le> potential u rl key t + refill_bound u rl * of_int (now - t) + (if k = key then 2 * (rl_burst rl * u) else 0)"
    using allow_potential [OF Cons.prems(1) t assms(1)] .
  moreover have "of_nat (admitted fl key rl (c # cs)) = ?a + of_nat (admitted fl key ?rl cs)"
    by (cases "k = key") (simp_all add: c)
  moreover have "of_nat (calls_of key (c # cs)) * (2 * (rl_burst rl * u))
      = (if k = key then 2 * (rl_burst rl * u) else 0) + of_nat (calls_of key cs) * (2 * (rl_burst rl * u))"
    by (simp add: calls_of_def c distrib_right)
  ultimately show ?case by (simp add: c algebra_simps)
qed

section \<open>From the first call\<close>

lemma fl_pos: "rounds_within u fl \<Longrightarrow> 0 < x \<Longrightarrow> 0 < fl x"
proof -
  assume fl: "rounds_within u fl" and x: "0 < x"
  have "0 < x * (1 - u)" using x u_bounds [OF fl] by simp
  also have "\<dots> \<le> fl x" using fl x by (simp add: rounds_within_def)
  finally show "0 < fl x" .
qed

lemma seconds_pos:
  assumes "rounds_within u fl" and "0 < d"
  shows "0 < seconds fl d"
proof -
  have whole: "(0 :: rat) \<le> of_int (d div second)" using assms(2) by (intro whole_nonneg) simp
  have part: "0 \<le> fl (of_int (d mod second) / of_int second)" by (rule fl_nonneg [OF assms(1) part_nonneg])
  have "0 < d div second \<or> 0 < d mod second"
    using assms(2) second_pos pos_imp_zdiv_nonneg_iff [of second d] pos_mod_sign [of second d] div_mult_mod_eq [of d second]
    by (metis add_0 less_le mult_zero_left)
  then have "0 < of_int (d div second) + fl (of_int (d mod second) / of_int second)"
  proof
    assume "0 < d div second"
    then show ?thesis using part by (simp add: add_pos_nonneg)
  next
    assume "0 < d mod second"
    then have "0 < (of_int (d mod second) / of_int second :: rat)" using second_pos by simp
    then show ?thesis using whole fl_pos [OF assms(1)] by (simp add: add_nonneg_pos)
  qed
  then show ?thesis unfolding seconds_def by (rule fl_pos [OF assms(1)])
qed

lemma new_fields [simp]:
  "rl_burst (new_rate_limiter fl burst window) = of_nat burst" "rl_ttl (new_rate_limiter fl burst window) = 10 * window"
  "rl_refill (new_rate_limiter fl burst window) = fl (of_nat burst / seconds fl window)"
  "rl_buckets (new_rate_limiter fl burst window) k = None"
  by (simp_all add: new_rate_limiter_def)

lemma new_limiter_ok:
  assumes "rounds_within u fl" and "of_nat burst * u \<le> 1" and "u \<le> 1 / 2" and "0 < window"
  shows "limiter_ok u t (new_rate_limiter fl burst window)"
proof -
  have u: "0 \<le> u" using u_bounds [OF assms(1)] by blast
  define s where "s = seconds fl window"
  define x :: rat where "x = of_nat burst / s"
  define w :: rat where "w = of_int window / of_int second"
  have s: "0 < s" "s \<le> w * (1 + u) ^ 2"
    using seconds_pos [OF assms(1,4)] seconds_le [OF assms(1), of window] assms(4) by (simp_all add: s_def w_def)
  have x: "0 \<le> x" "of_nat burst = x * s" using s(1) by (simp_all add: x_def)
  have w: "0 \<le> w" using assms(4) second_pos by (simp add: w_def)
  have "x * (1 / 2) \<le> x * (1 - u)" using x(1) assms(3) by (intro mult_left_mono) simp_all
  also have "\<dots> \<le> fl x" using assms(1) x(1) by (simp add: rounds_within_def)
  finally have fx: "x \<le> 10 * fl x" using x(1) by simp
  have one: "1 \<le> (1 + u) ^ 2" using u by simp
  have "of_nat burst \<le> x * (w * (1 + u) ^ 2)" unfolding x(2) using s(2) x(1) by (rule mult_left_mono)
  also have "\<dots> \<le> (10 * fl x) * (w * (1 + u) ^ 2)" using fx w one by (intro mult_right_mono) simp_all
  also have "\<dots> \<le> (10 * fl x) * (w * (1 + u) ^ 2) * (1 + u) ^ 2"
    using mult_left_mono [OF one, of "(10 * fl x) * (w * (1 + u) ^ 2)"] fl_nonneg [OF assms(1) x(1)] w by simp
  also have "\<dots> = fl x * (1 + u) ^ 4 / of_int second * of_int (10 * window)"
    by (simp add: w_def power2_eq_square power4_eq_xxxx)
  finally have "of_nat burst \<le> fl x * (1 + u) ^ 4 / of_int second * of_int (10 * window)" .
  then show ?thesis
    using assms(2) fl_nonneg [OF assms(1) x(1)] by (simp add: limiter_ok_def refill_bound_def x_def s_def)
qed

lemma run_fields [simp]:
  "rl_burst (run_limiter fl rl cs) = rl_burst rl" "rl_refill (run_limiter fl rl cs) = rl_refill rl"
  "refill_bound u (run_limiter fl rl cs) = refill_bound u rl"
  by (induction fl rl cs rule: run_limiter.induct) simp_all

lemma run_ok:
  "limiter_ok u t rl \<Longrightarrow> sorted (t # map snd cs) \<Longrightarrow> rounds_within u fl \<Longrightarrow> limiter_ok u (last_time t cs) (run_limiter fl rl cs)"
  by (induction fl rl cs arbitrary: t rule: run_limiter.induct) (auto intro: allow_ok)

lemma last_time_le: "sorted (t # map snd cs @ [t']) \<Longrightarrow> last_time t cs \<le> t'"
  by (induction t cs rule: last_time.induct) auto

text \<open>C26: The token bucket keeps its promise: whatever calls other addresses make in between and
  whatever the sweep evicts, in any stretch of time one address gets through at most \<open>burst\<close> times plus
  what refills meanwhile, up to the rounding of floats (\<open>2 \<cdot> burst \<cdot> u\<close> a call).\<close>

theorem rate_limit_bound:
  assumes "rounds_within u fl" and "of_nat burst * u \<le> 1" and "u \<le> 1 / 2" and "0 < window"
    and "sorted (map snd (before @ (key, t) # cs))"
  shows "of_nat (admitted fl key (run_limiter fl (new_rate_limiter fl burst window) before) ((key, t) # cs))
    \<le> of_nat burst + fl (of_nat burst / seconds fl window) * (1 + u) ^ 4 / of_int second * of_int (last_time t cs - t)
      + of_nat (Suc (calls_of key cs)) * (2 * (of_nat burst * u))"
proof -
  let ?new = "new_rate_limiter fl burst window"
  let ?rl = "run_limiter fl ?new before"
  let ?t0 = "hd (map snd (before @ [(key, t)]))"
  have u: "0 \<le> u" using u_bounds [OF assms(1)] by blast
  have sorted: "sorted (?t0 # map snd before @ [t])" and after: "sorted (t # map snd cs)"
    using assms(5) by (cases before; auto simp: sorted_append)+
  have before: "limiter_ok u (last_time ?t0 before) ?rl"
  proof (rule run_ok [OF new_limiter_ok [OF assms(1-4)] _ assms(1)])
    have "sorted ((?t0 # map snd before) @ [t])" using sorted by simp
    then show "sorted (?t0 # map snd before)" unfolding sorted_append by (rule conjunct1)
  qed
  note now = last_time_le [OF sorted]
  have burst: "rl_burst ?rl = of_nat burst" by simp
  let ?s = "sweep_locked t ?rl" and ?next = "snd (allow fl key t ?rl)"
  obtain r where r: "rl_buckets ?next key = Some \<lparr>bk_tokens = r, bk_fill = t\<rparr>"
    and first: "(if fst (fst (allow fl key t ?rl)) then 1 else 0) + r \<le> refilled fl t ?s (rl_buckets ?s key) + of_nat burst * u"
    by (rule allow_key [OF before now assms(1), of key, unfolded burst])
  have full: "refilled fl t ?s (rl_buckets ?s key) \<le> of_nat burst"
    using refilled_bounds(2) [OF sweep_ok [OF before now] assms(1)] by simp
  have "of_nat (admitted fl key ?next cs)
      \<le> potential u ?next key t + refill_bound u ?new * of_int (last_time t cs - t) + of_nat (calls_of key cs) * (2 * (of_nat burst * u))"
    using admitted_potential [OF assms(1) allow_ok [OF before now assms(1)] after, of key] by simp
  moreover have "potential u ?next key t = r" using r by (simp add: potential_def)
  moreover have "of_nat (admitted fl key ?rl ((key, t) # cs))
      = (if fst (fst (allow fl key t ?rl)) then 1 else 0) + (of_nat (admitted fl key ?next cs) :: rat)" by simp
  moreover have "of_nat burst * u \<le> 2 * (of_nat burst * u)" using u by simp
  moreover have "fl (of_nat burst / seconds fl window) * (1 + u) ^ 4 / of_int second = refill_bound u ?new"
    by (simp add: refill_bound_def)
  ultimately show ?thesis using first full by (simp only: of_nat_Suc distrib_right)
qed

lemma rate_limit_bound_witness:
  "of_nat (admitted id ''a'' (run_limiter id (new_rate_limiter id 2 second) [(''b'', 0)]) [(''a'', 5), (''a'', 6), (''a'', 7)])
    \<le> (of_nat 2 + id (of_nat 2 / seconds id second) * (1 + 0) ^ 4 / of_int second * of_int (last_time 5 [(''a'', 6), (''a'', 7)] - 5)
      + of_nat (Suc (calls_of ''a'' [(''a'', 6), (''a'', 7)])) * (2 * (of_nat 2 * 0)) :: rat)"
  by (rule rate_limit_bound) (simp_all add: rounds_within_def second_def)

section \<open>Waiting\<close>

lemma seconds_id: "seconds id d = of_int d / of_int second"
  unfolding seconds_def id_apply by (rule split_duration)

lemma allow_others:
  "k \<noteq> key \<Longrightarrow> rl_buckets (snd (allow fl k now rl)) key \<in> {None, rl_buckets rl key}"
  by (auto simp: allow_other sweep_locked_def split: option.split)

lemma run_others:
  "\<forall>c \<in> set cs. fst c \<noteq> key \<Longrightarrow> rl_buckets (run_limiter fl rl cs) key \<in> {None, rl_buckets rl key}"
proof (induction fl rl cs rule: run_limiter.induct)
  case (2 fl rl k now cs)
  then have "rl_buckets (run_limiter fl (snd (allow fl k now rl)) cs) key \<in> {None, rl_buckets (snd (allow fl k now rl)) key}" by simp
  moreover have "rl_buckets (snd (allow fl k now rl)) key \<in> {None, rl_buckets rl key}" using 2(2) by (intro allow_others) simp
  ultimately show ?case by auto
qed simp

lemma retry_after_covers: "wait \<le> retry_after id wait * second"
proof -
  have "of_int wait / of_int second \<le> (of_int \<lceil>of_int wait / of_int second :: rat\<rceil> :: rat)" by (rule le_of_int_ceiling)
  then have "(of_int wait :: rat) \<le> of_int (\<lceil>of_int wait / of_int second :: rat\<rceil> * second)"
    using second_pos by (simp only: divide_le_eq of_int_mult of_int_0_less_iff if_True)
  then have "wait \<le> \<lceil>of_int wait / of_int second :: rat\<rceil> * second" by (simp only: of_int_le_iff)
  also have "\<dots> \<le> retry_after id wait * second"
    using second_pos by (simp add: retry_after_def seconds_id)
  finally show ?thesis .
qed

lemma denied_bucket:
  assumes "allow id key now rl = ((False, wait), rl1)"
  obtains tk where "rl_buckets rl1 key = Some \<lparr>bk_tokens = tk, bk_fill = now\<rparr>" and "tk < 1"
    and "wait = \<lfloor>(1 - tk) / rl_refill rl * of_int second\<rfloor> + second"
    and "rl_refill rl1 = rl_refill rl" and "rl_burst rl1 = rl_burst rl"
proof -
  let ?t = "refilled id now (sweep_locked now rl) (rl_buckets (sweep_locked now rl) key)"
  have "\<not> 1 \<le> ?t" using assms by (auto simp: allow_def Let_def split: if_splits)
  then show ?thesis
    using assms that [of ?t] by (auto simp: allow_def Let_def wait_for_def)
qed

text \<open>A refusal comes with an honest hint: in exact arithmetic, whoever keeps away as long as
  \<^verbatim>\<open>allow\<close> said, or as long as the \<^verbatim>\<open>Retry-After\<close> header said, gets through, whatever others do
  in between.\<close>

theorem retry_after_enough:
  assumes "1 \<le> rl_burst rl" and "0 < rl_refill rl" and "allow id key now rl = ((False, wait), rl1)"
    and "\<forall>c \<in> set cs. fst c \<noteq> key"
    and "now + wait \<le> later \<or> now + retry_after id wait * second \<le> later"
  shows "fst (fst (allow id key later (run_limiter id rl1 cs)))"
proof -
  obtain tk where tk: "rl_buckets rl1 key = Some \<lparr>bk_tokens = tk, bk_fill = now\<rparr>" "tk < 1"
      "wait = \<lfloor>(1 - tk) / rl_refill rl * of_int second\<rfloor> + second"
    and same: "rl_refill rl1 = rl_refill rl" "rl_burst rl1 = rl_burst rl"
    using denied_bucket [OF assms(3)] by blast
  let ?s = "sweep_locked later (run_limiter id rl1 cs)"
  have "(1 :: rat) \<le> of_int second" by (simp add: second_def)
  then have "(1 - tk) / rl_refill rl * of_int second \<le> of_int wait"
    unfolding tk(3) using floor_correct [of "(1 - tk) / rl_refill rl * of_int second"]
    by (simp only: of_int_add of_int_1) linarith
  also have "(of_int wait :: rat) \<le> of_int (later - now)"
  proof -
    have "wait \<le> later - now" using assms(5) retry_after_covers [of wait] by linarith
    then show ?thesis by (simp only: of_int_le_iff)
  qed
  finally have "(1 - tk) / rl_refill rl \<le> of_int (later - now) / of_int second"
    using second_pos by (simp add: le_divide_eq)
  then have enough: "1 - tk \<le> of_int (later - now) / of_int second * rl_refill rl"
    using assms(2) by (simp add: divide_le_eq)
  have "rl_buckets ?s key \<in> {None, rl_buckets rl1 key}"
    using run_others [OF assms(4), of id rl1] by (auto simp: sweep_locked_def split: option.split)
  then have "1 \<le> refilled id later ?s (rl_buckets ?s key)"
    using tk(1) enough assms(1) by (auto simp: refilled_def seconds_id same)
  then show ?thesis by (simp add: allow_def Let_def)
qed

definition eg_limiter :: rate_limiter where
  "eg_limiter = run_limiter id (new_rate_limiter id 1 second) [(''a'', 0)]"

lemma eg_denied: "allow id ''a'' 0 eg_limiter = ((False, 2 * second), snd (allow id ''a'' 0 eg_limiter))"
  by (rule prod_eqI)
     (simp_all add: eg_limiter_def allow_def Let_def new_rate_limiter_def sweep_locked_def refilled_def seconds_def wait_for_def second_def)

lemma retry_after_enough_witness:
  "fst (fst (allow id ''a'' (2 * second) (run_limiter id (snd (allow id ''a'' 0 eg_limiter)) [(''b'', 1)])))"
  by (rule retry_after_enough [OF _ _ eg_denied]) (simp_all add: eg_limiter_def seconds_def second_def)

end
