(* ===== verification/Web_Server.thy ===== *)
theory Web_Server
  imports Web_Public Rate_Limit
begin

text \<open>
  The HTTP server (\<^verbatim>\<open>internal/api/server.go\<close>, \<^verbatim>\<open>routes_core.go\<close>, \<^verbatim>\<open>edition_solo.go\<close>, \<^verbatim>\<open>metrics.go\<close>):
  its state, the wrappers around the handlers, the route table of the solo edition as
  \<^verbatim>\<open>http.ServeMux\<close> reads it, and the chain a request goes through.
\<close>

section \<open>State\<close>

text \<open>\<open>sv_served\<close> and \<open>sv_rejected\<close> are the counters of \<^verbatim>\<open>metrics.go\<close>, by route, method and status, and by limiter.\<close>

record server =
  sv_engine :: engine
  sv_auth :: rate_limiter
  sv_signup :: rate_limiter
  sv_public :: rate_limiter
  sv_docs :: "docs_corpus option"
  sv_served :: "string \<times> string \<times> nat \<Rightarrow> nat"
  sv_rejected :: "string \<Rightarrow> nat"

type_synonym endpoint = "web \<Rightarrow> request \<Rightarrow> server \<Rightarrow> response \<times> server"

definition public_read_rate :: nat where "public_read_rate = 120"

definition new_server :: "web \<Rightarrow> engine \<Rightarrow> server" where
  "new_server wb e =
     (let fl = wd_round (wb_world wb) in
      \<lparr>sv_engine = e, sv_auth = new_rate_limiter fl 10 (minutes 1), sv_signup = new_rate_limiter fl 5 (minutes 1),
       sv_public = new_rate_limiter fl public_read_rate (minutes 1), sv_docs = None,
       sv_served = (\<lambda>_. 0), sv_rejected = (\<lambda>_. 0)\<rparr>)"

definition handled :: "handler \<Rightarrow> endpoint" where
  "handled h wb r sv = (case h wb r (sv_engine sv) of (rs, e) \<Rightarrow> (rs, sv\<lparr>sv_engine := e\<rparr>))"

section \<open>Throttling\<close>

datatype limiter = Auth | Signup | PublicReads

fun limiter_name :: "limiter \<Rightarrow> string" where
  "limiter_name Auth = ''auth''"
| "limiter_name Signup = ''signup''"
| "limiter_name PublicReads = ''public''"

fun limiter_of :: "limiter \<Rightarrow> server \<Rightarrow> rate_limiter" where
  "limiter_of Auth sv = sv_auth sv"
| "limiter_of Signup sv = sv_signup sv"
| "limiter_of PublicReads sv = sv_public sv"

fun put_limiter :: "limiter \<Rightarrow> rate_limiter \<Rightarrow> server \<Rightarrow> server" where
  "put_limiter Auth rl sv = sv\<lparr>sv_auth := rl\<rparr>"
| "put_limiter Signup rl sv = sv\<lparr>sv_signup := rl\<rparr>"
| "put_limiter PublicReads rl sv = sv\<lparr>sv_public := rl\<rparr>"

definition request_ip :: "web \<Rightarrow> request \<Rightarrow> string" where
  "request_ip wb r = client_ip (rq_remote r) (header_of r ''CF-Connecting-IP'') (header_of r ''X-Forwarded-For'') (wb_trusted wb)"

definition too_many :: "web \<Rightarrow> int \<Rightarrow> response" where
  "too_many wb wait =
     add_header ''Retry-After'' (itoa (retry_after (wd_round (wb_world wb)) wait))
       (respond 429 (ErrorReply ''too many requests - slow down and try again shortly''))"

definition rate_limit :: "limiter \<Rightarrow> endpoint \<Rightarrow> endpoint" where
  "rate_limit l next wb r sv =
     (case allow (wd_round (wb_world wb)) (request_ip wb r) (wd_now (wb_world wb)) (limiter_of l sv) of
        ((ok, wait), rl) \<Rightarrow>
          if \<not> ok
          then (too_many wb wait,
                (put_limiter l rl sv)\<lparr>sv_rejected := (sv_rejected sv)(limiter_name l := sv_rejected sv (limiter_name l) + 1)\<rparr>)
          else next wb r (put_limiter l rl sv))"

definition public_read :: "handler \<Rightarrow> endpoint" where
  "public_read h wb r sv =
     (case sv_docs sv of
        None \<Rightarrow> (http_not_found, sv)
      | Some d \<Rightarrow>
          (case rate_limit PublicReads (handled h) wb (public_request d r) sv of
             (rs, sv') \<Rightarrow> (add_header ''Cache-Control'' ''public, max-age=60'' rs, sv')))"

definition handle_metrics :: handler where
  "handle_metrics = admin_only ''admin key required'' (\<lambda>wb r e.
     (\<lparr>rs_status = 200, rs_headers = [], rs_cookies = [], rs_body = Plain (wb_metrics wb)\<rparr>, e))"

section \<open>The front end\<close>

text \<open>\<^verbatim>\<open>url.PathUnescape\<close>; an escape that is not one cannot arrive.\<close>

fun path_unescape :: "string \<Rightarrow> string" where
  "path_unescape (c # a # b # s) =
     (if c = CHR ''%'' then
        (case (hex_value a, hex_value b) of
           (Some x, Some y) \<Rightarrow> char_of (x * 16 + y) # path_unescape s
         | _ \<Rightarrow> c # path_unescape (a # b # s))
      else c # path_unescape (a # b # s))"
| "path_unescape s = s"

definition url_path :: "request \<Rightarrow> string" where "url_path r = path_unescape (rq_path r)"

definition trim_right_slashes :: "string \<Rightarrow> string" where
  "trim_right_slashes p = rev (dropWhile (\<lambda>c. c = CHR ''/'') (rev p))"

definition is_spa_document_path :: "web \<Rightarrow> string \<Rightarrow> bool" where
  "is_spa_document_path wb p0 =
     (let p = trim_right_slashes p0 in
      if p = [] then True else wb_edition wb = ''managed'' \<and> (p = ''/docs'' \<or> prefix ''/docs/'' p))"

definition spa_shell :: handler where
  "spa_shell wb r e =
     (if \<not> is_spa_document_path wb (url_path r)
      then (respond 404 (Fields [(''error'', JStr ''not_found''),
              (''message'', JStr (''no such endpoint in the '' @ wb_edition wb @ '' edition''))]), e)
      else (case wb_index wb of
              None \<Rightarrow> (http_not_found, e)
            | Some html \<Rightarrow>
                (\<lparr>rs_status = 200, rs_headers = [(''Content-Type'', ''text/html; charset=utf-8''), (''Cache-Control'', ''no-store'')],
                  rs_cookies = [], rs_body = Plain html\<rparr>, e)))"

definition newline_text :: "string list \<Rightarrow> string" where "newline_text ls = concat (map (\<lambda>l. l @ [newline]) ls)"

definition handle_robots :: handler where
  "handle_robots wb r e =
     (\<lparr>rs_status = 200, rs_headers = [(''Content-Type'', ''text/plain; charset=utf-8'')], rs_cookies = [],
       rs_body = Plain (newline_text [''User-agent: *'', ''Allow: /'', ''Allow: /docs'', ''Allow: /ui/'',
         ''Disallow: /admin/'', ''Disallow: /files/'', ''Disallow: /mcp/'', ''Disallow: /api/''])\<rparr>, e)"

definition trim_prefix :: "string \<Rightarrow> string \<Rightarrow> string" where
  "trim_prefix p s = (if prefix p s then drop (length p) s else s)"

definition ends_with :: "string \<Rightarrow> string \<Rightarrow> bool" where
  "ends_with s t = (length t \<le> length s \<and> drop (length s - length t) s = t)"

definition no_cache_index :: "request \<Rightarrow> response \<Rightarrow> response" where
  "no_cache_index r rs =
     (let p = trim_prefix ''/ui'' (url_path r) in
      if p = [] \<or> p = ''/'' \<or> ends_with p ''index.html''
      then add_header ''Cache-Control'' ''no-store, no-cache, must-revalidate'' (add_header ''Pragma'' ''no-cache'' rs) else rs)"

text \<open>Substring search, \<^verbatim>\<open>strings.Contains\<close>.\<close>

definition contains_text :: "string \<Rightarrow> string \<Rightarrow> bool" where "contains_text s t = (str_cut t s \<noteq> None)"

text \<open>The body is given before compression; the length of the uncompressed one is not sent.\<close>

definition gzip_middleware :: "request \<Rightarrow> response \<Rightarrow> response" where
  "gzip_middleware r rs =
     (if \<not> contains_text (header_of r ''Accept-Encoding'') ''gzip'' \<or> header_of r ''Range'' \<noteq> [] then rs
      else add_header ''Content-Encoding'' ''gzip'' (add_header ''Vary'' ''Accept-Encoding''
             (rs\<lparr>rs_headers := filter (\<lambda>h. fst h \<noteq> ''Content-Length'') (rs_headers rs)\<rparr>)))"

definition ui_files :: handler where
  "ui_files wb r e = (gzip_middleware r (no_cache_index r (wb_assets wb (trim_prefix ''/ui'' (url_path r)))), e)"

end
