(* ===== verification/Web_Routes.thy ===== *)
theory Web_Routes
  imports Web_Server
begin

text \<open>
  The route table of the solo edition (\<^verbatim>\<open>routes_core.go\<close>, \<^verbatim>\<open>public.go\<close>, \<^verbatim>\<open>server.go\<close>) with its look-up in
  \<^verbatim>\<open>http.ServeMux\<close>, and one request through the whole chain.
\<close>

section \<open>Patterns\<close>

text \<open>
  A pattern is its segments; \<open>{x}\<close> stands for one segment that is not empty, an empty last segment for
  any rest. A path is cut the same way.
\<close>

record route =
  rt_method :: string
  rt_pattern :: string
  rt_serve :: endpoint

definition segments_of :: "string \<Rightarrow> string list" where "segments_of p = split_on (CHR ''/'') (drop 1 p)"

fun wildcard :: "string \<Rightarrow> string option" where
  "wildcard [] = None"
| "wildcard (c # s) = (if c = CHR ''{'' then Some (butlast s) else None)"

fun match_segments :: "string list \<Rightarrow> string list \<Rightarrow> (string \<times> string) list option" where
  "match_segments [] segs = (if segs = [] then Some [] else None)"
| "match_segments (p # ps) [] = None"
| "match_segments (p # ps) (s # segs) =
     (if p = [] \<and> ps = [] then Some []
      else (case wildcard p of
              Some name \<Rightarrow>
                if s = [] \<or> path_unescape s = ''/'' then None
                else map_option ((#) (name, path_unescape s)) (match_segments ps segs)
            | None \<Rightarrow> if p = path_unescape s then match_segments ps segs else None))"

definition is_subtree :: "string \<Rightarrow> bool" where "is_subtree p = (last (segments_of p) = [])"

section \<open>The table\<close>

definition public_routes :: "route list" where
  "public_routes =
     [\<lparr>rt_method = ''GET'', rt_pattern = ''/public/catalog'', rt_serve = public_read handle_catalog\<rparr>,
      \<lparr>rt_method = ''GET'', rt_pattern = ''/public/memories'', rt_serve = public_read handle_list_memories\<rparr>,
      \<lparr>rt_method = ''GET'', rt_pattern = ''/public/memory/{id}'', rt_serve = public_read handle_get_memory\<rparr>,
      \<lparr>rt_method = ''GET'', rt_pattern = ''/public/memory/{id}/revisions'', rt_serve = public_read handle_memory_history\<rparr>,
      \<lparr>rt_method = ''GET'', rt_pattern = ''/public/search'', rt_serve = public_read handle_search\<rparr>]"

definition account_routes :: "route list" where
  "account_routes =
     [\<lparr>rt_method = ''GET'', rt_pattern = ''/.well-known/oauth-authorization-server'', rt_serve = handled handle_oauth_meta\<rparr>,
      \<lparr>rt_method = ''POST'', rt_pattern = ''/register'', rt_serve = handled handle_oauth_register\<rparr>,
      \<lparr>rt_method = ''GET'', rt_pattern = ''/authorize'', rt_serve = handled handle_authorize_form\<rparr>,
      \<lparr>rt_method = ''POST'', rt_pattern = ''/authorize'', rt_serve = rate_limit Auth (handled handle_authorize_submit)\<rparr>,
      \<lparr>rt_method = ''POST'', rt_pattern = ''/authorize/workspace'', rt_serve = handled handle_authorize_workspace\<rparr>,
      \<lparr>rt_method = ''POST'', rt_pattern = ''/token'', rt_serve = rate_limit Auth (handled handle_oauth_token)\<rparr>,
      \<lparr>rt_method = ''POST'', rt_pattern = ''/ui/login'', rt_serve = rate_limit Auth (handled handle_ui_login)\<rparr>,
      \<lparr>rt_method = ''GET'', rt_pattern = ''/ui/session'', rt_serve = handled handle_ui_session\<rparr>,
      \<lparr>rt_method = ''POST'', rt_pattern = ''/ui/logout'', rt_serve = handled handle_ui_logout\<rparr>,
      \<lparr>rt_method = ''POST'', rt_pattern = ''/ui/forgot'', rt_serve = rate_limit Signup (handled handle_ui_forgot)\<rparr>,
      \<lparr>rt_method = ''POST'', rt_pattern = ''/ui/reset'', rt_serve = rate_limit Auth (handled handle_ui_reset)\<rparr>,
      \<lparr>rt_method = ''GET'', rt_pattern = ''/metrics'', rt_serve = handled handle_metrics\<rparr>]"

definition api_routes :: "route list" where
  "api_routes =
     [\<lparr>rt_method = ''GET'', rt_pattern = ''/scope'', rt_serve = handled handle_scope\<rparr>,
      \<lparr>rt_method = ''POST'', rt_pattern = ''/admin/rebuild-fts'', rt_serve = handled handle_rebuild_fts\<rparr>,
      \<lparr>rt_method = ''GET'', rt_pattern = ''/me'', rt_serve = handled handle_me\<rparr>,
      \<lparr>rt_method = ''GET'', rt_pattern = ''/identities'', rt_serve = handled handle_list_identities\<rparr>,
      \<lparr>rt_method = ''DELETE'', rt_pattern = ''/identities/{id}'', rt_serve = handled handle_revoke_identity\<rparr>,
      \<lparr>rt_method = ''GET'', rt_pattern = ''/memories'', rt_serve = handled handle_list_memories\<rparr>,
      \<lparr>rt_method = ''GET'', rt_pattern = ''/catalog'', rt_serve = handled handle_catalog\<rparr>,
      \<lparr>rt_method = ''GET'', rt_pattern = ''/taxonomy/template'', rt_serve = handled handle_taxonomy_template\<rparr>,
      \<lparr>rt_method = ''PUT'', rt_pattern = ''/taxonomy/template'', rt_serve = handled handle_set_taxonomy_template\<rparr>,
      \<lparr>rt_method = ''GET'', rt_pattern = ''/admin/edge-health'', rt_serve = handled handle_edge_health\<rparr>,
      \<lparr>rt_method = ''GET'', rt_pattern = ''/graph'', rt_serve = handled handle_graph\<rparr>,
      \<lparr>rt_method = ''GET'', rt_pattern = ''/suggest-links'', rt_serve = handled handle_suggest_links\<rparr>,
      \<lparr>rt_method = ''GET'', rt_pattern = ''/review'', rt_serve = handled handle_review_due\<rparr>,
      \<lparr>rt_method = ''POST'', rt_pattern = ''/review/{id}'', rt_serve = handled handle_add_review\<rparr>,
      \<lparr>rt_method = ''DELETE'', rt_pattern = ''/review/{id}'', rt_serve = handled handle_remove_review\<rparr>,
      \<lparr>rt_method = ''POST'', rt_pattern = ''/review/{id}/grade'', rt_serve = handled handle_grade_review\<rparr>,
      \<lparr>rt_method = ''GET'', rt_pattern = ''/export'', rt_serve = handled handle_export\<rparr>,
      \<lparr>rt_method = ''GET'', rt_pattern = ''/export/{id}'', rt_serve = handled handle_export_memory\<rparr>,
      \<lparr>rt_method = ''GET'', rt_pattern = ''/search'', rt_serve = handled handle_search\<rparr>,
      \<lparr>rt_method = ''GET'', rt_pattern = ''/memory/{id}'', rt_serve = handled handle_get_memory\<rparr>,
      \<lparr>rt_method = ''POST'', rt_pattern = ''/memory'', rt_serve = handled handle_write_memory\<rparr>,
      \<lparr>rt_method = ''PATCH'', rt_pattern = ''/memory/{id}'', rt_serve = handled handle_update_memory\<rparr>,
      \<lparr>rt_method = ''DELETE'', rt_pattern = ''/memory/{id}'', rt_serve = handled handle_delete_memory\<rparr>,
      \<lparr>rt_method = ''GET'', rt_pattern = ''/deleted'', rt_serve = handled handle_deleted_memories\<rparr>,
      \<lparr>rt_method = ''GET'', rt_pattern = ''/memory/{id}/revisions'', rt_serve = handled handle_memory_history\<rparr>,
      \<lparr>rt_method = ''POST'', rt_pattern = ''/memory/{id}/restore/{version}'', rt_serve = handled handle_restore_revision\<rparr>,
      \<lparr>rt_method = ''POST'', rt_pattern = ''/files'', rt_serve = handled handle_upload_file\<rparr>,
      \<lparr>rt_method = ''GET'', rt_pattern = ''/files/{identity}/{id}'', rt_serve = handled handle_get_file\<rparr>]"

text \<open>The subtrees come last, the longer one first: a pattern that says more wins.\<close>

definition page_routes :: "route list" where
  "page_routes =
     [\<lparr>rt_method = ''GET'', rt_pattern = ''/robots.txt'', rt_serve = handled handle_robots\<rparr>,
      \<lparr>rt_method = ''GET'', rt_pattern = ''/ui/'', rt_serve = handled ui_files\<rparr>,
      \<lparr>rt_method = ''GET'', rt_pattern = ''/'', rt_serve = handled spa_shell\<rparr>]"

definition core_routes :: "route list" where "core_routes = account_routes @ api_routes"

definition edition_routes :: "route list" where "edition_routes = []"

definition all_routes :: "route list" where "all_routes = core_routes @ edition_routes @ page_routes"

section \<open>Look-up\<close>

fun clean_segments :: "string list \<Rightarrow> string list \<Rightarrow> string list" where
  "clean_segments acc [] = rev acc"
| "clean_segments acc (s # ss) =
     (if s = [] \<or> s = ''.'' then clean_segments acc ss
      else if s = ''..'' then clean_segments (drop 1 acc) ss
      else clean_segments (s # acc) ss)"

definition clean_path :: "string \<Rightarrow> string" where
  "clean_path p =
     (if p = [] then ''/''
      else (let rooted = (if hd p = CHR ''/'' then p else CHR ''/'' # p);
                np = CHR ''/'' # join_with ''/'' (clean_segments [] (split_on (CHR ''/'') rooted)) in
            if last p = CHR ''/'' \<and> np \<noteq> ''/'' then np @ ''/'' else np))"

definition serves :: "string \<Rightarrow> route \<Rightarrow> bool" where
  "serves meth rt = (rt_method rt = meth \<or> (meth = ''HEAD'' \<and> rt_method rt = ''GET''))"

fun find_route :: "route list \<Rightarrow> string \<Rightarrow> string \<Rightarrow> (route \<times> (string \<times> string) list) option" where
  "find_route [] meth path = None"
| "find_route (rt # rts) meth path =
     (case (if serves meth rt then match_segments (segments_of (rt_pattern rt)) (segments_of path) else None) of
        Some vars \<Rightarrow> Some (rt, vars)
      | None \<Rightarrow> find_route rts meth path)"

definition exact_match :: "(route \<times> (string \<times> string) list) option \<Rightarrow> string \<Rightarrow> bool" where
  "exact_match m path =
     (case m of
        None \<Rightarrow> False
      | Some (rt, _) \<Rightarrow>
          \<not> is_subtree (rt_pattern rt)
          \<or> (path \<noteq> [] \<and> last path = CHR ''/'' \<and> length (segments_of (rt_pattern rt)) = length (segments_of path)))"

datatype found =
    Matched route "(string \<times> string) list"
  | Moved string string
  | WrongMethod
  | Unmatched

definition pattern_text :: "(route \<times> (string \<times> string) list) option \<Rightarrow> string" where
  "pattern_text m = (case m of None \<Rightarrow> [] | Some (rt, _) \<Rightarrow> rt_method rt @ '' '' @ rt_pattern rt)"

definition methods :: "string list" where
  "methods = [''DELETE'', ''GET'', ''HEAD'', ''PATCH'', ''POST'', ''PUT'']"

definition allowed_methods :: "route list \<Rightarrow> string \<Rightarrow> string list" where
  "allowed_methods rts path = filter (\<lambda>meth. find_route rts meth path \<noteq> None) methods"

definition find_handler :: "route list \<Rightarrow> request \<Rightarrow> found" where
  "find_handler rts r =
     (let path = (if rq_method r = ''CONNECT'' then rq_path r else clean_path (rq_path r));
          m = find_route rts (rq_method r) path;
          slashed = find_route rts (rq_method r) (path @ ''/'') in
      if \<not> exact_match m path \<and> \<not> ends_with (rq_path r) ''/'' \<and> exact_match slashed (path @ ''/'')
      then Moved (clean_path (url_path r) @ ''/'') (pattern_text slashed)
      else if path \<noteq> rq_path r then Moved path (pattern_text m)
      else (case m of
              Some (rt, vars) \<Rightarrow> Matched rt vars
            | None \<Rightarrow> if allowed_methods rts path = [] then Unmatched else WrongMethod))"

definition mux_serve :: "route list \<Rightarrow> endpoint" where
  "mux_serve rts wb r sv =
     (case find_handler rts r of
        Matched rt vars \<Rightarrow> rt_serve rt wb (r\<lparr>rq_vars := vars\<rparr>) sv
      | Moved path _ \<Rightarrow>
          ((redirect_to (wb_render_url wb \<lparr>ur_scheme = [], ur_host = [], ur_hostname = [], ur_path = path,
                            ur_query = rq_query r, ur_rest = []\<rparr>))\<lparr>rs_status := 307\<rparr>, sv)
      | WrongMethod \<Rightarrow>
          (add_header ''Allow'' (join_with '', '' (allowed_methods rts (rq_path r))) (http_error ''Method Not Allowed'' 405), sv)
      | Unmatched \<Rightarrow> (http_not_found, sv))"

section \<open>The chain\<close>

definition buffer_body :: "endpoint \<Rightarrow> endpoint" where
  "buffer_body next wb r sv =
     (if rq_broken r then (respond 400 (ErrorReply ''failed to read request body''), sv) else next wb r sv)"

text \<open>The team selector of the solo edition.\<close>

definition team_selector :: "request \<Rightarrow> request" where "team_selector r = r"

definition security_headers :: "response \<Rightarrow> response" where
  "security_headers rs =
     add_header ''Strict-Transport-Security'' ''max-age=31536000; includeSubDomains''
       (add_header ''X-Content-Type-Options'' ''nosniff'' (add_header ''Referrer-Policy'' ''no-referrer'' rs))"

definition route_label :: "string \<Rightarrow> string" where
  "route_label pattern =
     (if pattern = [] then ''unmatched''
      else (case str_cut '' '' pattern of None \<Rightarrow> pattern | Some (_, rest) \<Rightarrow> rest))"

definition found_pattern :: "found \<Rightarrow> string" where
  "found_pattern f =
     (case f of Matched rt vars \<Rightarrow> pattern_text (Some (rt, vars)) | Moved _ pattern \<Rightarrow> pattern | _ \<Rightarrow> [])"

definition count_request :: "string \<times> string \<times> nat \<Rightarrow> server \<Rightarrow> server" where
  "count_request k sv = sv\<lparr>sv_served := (sv_served sv)(k := sv_served sv k + 1)\<rparr>"

definition serve_routes :: "route list \<Rightarrow> endpoint" where
  "serve_routes rts wb r sv =
     (case buffer_body (mux_serve rts) wb (team_selector (session_auth wb (sv_engine sv) r)) sv of
        (rs, sv') \<Rightarrow>
          (security_headers rs,
           count_request (route_label (found_pattern (find_handler rts r)), rq_method r, rs_status rs) sv'))"

definition serve :: endpoint where "serve = serve_routes all_routes"

end
