(* ===== verification/Web_Contract.thy ===== *)
theory Web_Contract
  imports Web_Routes
begin

text \<open>
  What the server relies on from its handlers: the contract of a route table, proved of the chain once,
  and the facts that the handlers act on the engine through its operations only.
\<close>

section \<open>The contract of a route table\<close>

text \<open>
  \<open>A\<close> is what is known of a request, \<open>R\<close> what a request may do to the engine. The chain around the
  handlers adds nothing to what the handlers do.
\<close>

locale route_contract =
  fixes wb :: web and rts :: "route list"
    and A :: "engine \<Rightarrow> request \<Rightarrow> bool" and R :: "engine \<Rightarrow> engine \<Rightarrow> bool"
  assumes route_keeps: "rt \<in> set rts \<Longrightarrow> A (sv_engine sv) r \<Longrightarrow> R (sv_engine sv) (sv_engine (snd (rt_serve rt wb r sv)))"
    and vars_irrelevant: "A e r \<Longrightarrow> A e (r\<lparr>rq_vars := vs\<rparr>)"
    and idle: "R e e"
begin

lemma found_in_table: "find_route rts' meth path = Some (rt, vars) \<Longrightarrow> rt \<in> set rts'"
  by (induction rts') (auto split: option.splits if_splits)

lemma matched_in_table: "find_handler rts r = Matched rt vars \<Longrightarrow> rt \<in> set rts"
  by (auto simp: find_handler_def Let_def intro: found_in_table split: if_splits option.splits)

lemma mux_keeps: "A (sv_engine sv) r \<Longrightarrow> R (sv_engine sv) (sv_engine (snd (mux_serve rts wb r sv)))"
  by (auto simp: mux_serve_def idle dest: matched_in_table intro: route_keeps vars_irrelevant split: found.split)

lemma serve_keeps:
  assumes "A (sv_engine sv) (session_auth wb (sv_engine sv) r)"
  shows "R (sv_engine sv) (sv_engine (snd (serve_routes rts wb r sv)))"
  using mux_keeps [OF assms] idle
  by (auto simp: serve_routes_def buffer_body_def team_selector_def count_request_def split: prod.split)

end

section \<open>Wrappers\<close>

lemma handled_engine [simp]: "sv_engine (snd (handled h wb r sv)) = snd (h wb r (sv_engine sv))"
  by (simp add: handled_def split: prod.split)

lemma handled_response [simp]: "fst (handled h wb r sv) = fst (h wb r (sv_engine sv))"
  by (simp add: handled_def split: prod.split)

lemma put_limiter_engine [simp]: "sv_engine (put_limiter l rl sv) = sv_engine sv"
  by (cases l) simp_all

lemma put_limiter_docs [simp]: "sv_docs (put_limiter l rl sv) = sv_docs sv"
  by (cases l) simp_all

text \<open>A throttled handler sees the same engine or is not called.\<close>

lemma rate_limit_cases:
  "rate_limit l (handled h) wb r sv = (too_many wb (snd (fst (allow (wd_round (wb_world wb)) (request_ip wb r) (wd_now (wb_world wb)) (limiter_of l sv)))),
      snd (rate_limit l (handled h) wb r sv)) \<and> sv_engine (snd (rate_limit l (handled h) wb r sv)) = sv_engine sv
   \<or> fst (rate_limit l (handled h) wb r sv) = fst (h wb r (sv_engine sv))
     \<and> sv_engine (snd (rate_limit l (handled h) wb r sv)) = snd (h wb r (sv_engine sv))"
  by (auto simp: rate_limit_def split: prod.split)

text \<open>The handlers behind the routes.\<close>

definition handlers :: "handler list" where
  "handlers =
     [handle_oauth_meta, handle_oauth_register, handle_authorize_form, handle_authorize_submit, handle_authorize_workspace,
      handle_oauth_token, handle_ui_login, handle_ui_session, handle_ui_logout, handle_ui_forgot, handle_ui_reset, handle_metrics,
      handle_scope, handle_rebuild_fts, handle_me, handle_list_identities, handle_revoke_identity, handle_list_memories,
      handle_catalog, handle_taxonomy_template, handle_set_taxonomy_template, handle_edge_health, handle_graph,
      handle_suggest_links, handle_review_due, handle_add_review, handle_remove_review, handle_grade_review, handle_export,
      handle_export_memory, handle_search, handle_get_memory, handle_write_memory, handle_update_memory, handle_delete_memory,
      handle_deleted_memories, handle_memory_history, handle_restore_revision, handle_upload_file, handle_get_file,
      handle_robots, ui_files, spa_shell]"

lemma in_handlers:
  "handle_oauth_meta \<in> set handlers" "handle_oauth_register \<in> set handlers" "handle_authorize_form \<in> set handlers" "handle_authorize_submit \<in> set handlers"
  "handle_authorize_workspace \<in> set handlers" "handle_oauth_token \<in> set handlers" "handle_ui_login \<in> set handlers" "handle_ui_session \<in> set handlers"
  "handle_ui_logout \<in> set handlers" "handle_ui_forgot \<in> set handlers" "handle_ui_reset \<in> set handlers" "handle_metrics \<in> set handlers"
  "handle_scope \<in> set handlers" "handle_rebuild_fts \<in> set handlers" "handle_me \<in> set handlers" "handle_list_identities \<in> set handlers"
  "handle_revoke_identity \<in> set handlers" "handle_list_memories \<in> set handlers" "handle_catalog \<in> set handlers" "handle_taxonomy_template \<in> set handlers"
  "handle_set_taxonomy_template \<in> set handlers" "handle_edge_health \<in> set handlers" "handle_graph \<in> set handlers" "handle_suggest_links \<in> set handlers"
  "handle_review_due \<in> set handlers" "handle_add_review \<in> set handlers" "handle_remove_review \<in> set handlers" "handle_grade_review \<in> set handlers"
  "handle_export \<in> set handlers" "handle_export_memory \<in> set handlers" "handle_search \<in> set handlers" "handle_get_memory \<in> set handlers"
  "handle_write_memory \<in> set handlers" "handle_update_memory \<in> set handlers" "handle_delete_memory \<in> set handlers" "handle_deleted_memories \<in> set handlers"
  "handle_memory_history \<in> set handlers" "handle_restore_revision \<in> set handlers" "handle_upload_file \<in> set handlers" "handle_get_file \<in> set handlers"
  "handle_robots \<in> set handlers" "ui_files \<in> set handlers" "spa_shell \<in> set handlers"
  by (simp_all add: handlers_def)

lemma route_cases:
  assumes "\<And>h. h \<in> set handlers \<Longrightarrow> P (handled h)" and "\<And>h l. h \<in> set handlers \<Longrightarrow> P (rate_limit l (handled h))"
  shows "rt \<in> set all_routes \<Longrightarrow> P (rt_serve rt)"
proof -
  have "list_all (\<lambda>rt. P (rt_serve rt)) account_routes" by (simp add: account_routes_def assms in_handlers)
  moreover have "list_all (\<lambda>rt. P (rt_serve rt)) api_routes" by (simp add: api_routes_def assms in_handlers)
  moreover have "list_all (\<lambda>rt. P (rt_serve rt)) page_routes" by (simp add: page_routes_def assms in_handlers)
  ultimately show "rt \<in> set all_routes \<Longrightarrow> P (rt_serve rt)"
    by (auto simp: all_routes_def core_routes_def edition_routes_def list_all_iff)
qed

lemma route_engine:
  assumes "rt \<in> set all_routes" and "R e e" and "\<And>h. h \<in> set handlers \<Longrightarrow> R e (snd (h wb r e))" and "sv_engine sv = e"
  shows "R e (sv_engine (snd (rt_serve rt wb r sv)))"
proof (rule route_cases [OF _ _ assms(1), where P = "\<lambda>f. R e (sv_engine (snd (f wb r sv)))"])
  show "R e (sv_engine (snd (handled h wb r sv)))" if "h \<in> set handlers" for h
    using assms(3) [OF that] assms(4) by simp
  show "R e (sv_engine (snd (rate_limit l (handled h) wb r sv)))" if "h \<in> set handlers" for h l
    using assms(3) [OF that] assms(2,4) rate_limit_cases [of l h wb r sv] by auto
qed

end
