(* ===== verification/Web_Examples.thy ===== *)
theory Web_Examples
  imports Web_Contract Engine_Examples
begin

text \<open>
  A concrete server for the witnesses: the team of \<^verbatim>\<open>Engine_Examples\<close> behind it, a source of randomness
  that counts, and a URL parser that knows two callback addresses.
\<close>

definition eg_url :: "string \<Rightarrow> string \<Rightarrow> url" where
  "eg_url scheme host = \<lparr>ur_scheme = scheme, ur_host = host, ur_hostname = host, ur_path = ''/cb'', ur_query = [], ur_rest = []\<rparr>"

definition eg_parse_url :: "string \<Rightarrow> url option" where
  "eg_parse_url s =
     (if s = ''https://c/cb'' then Some (eg_url ''https'' ''c'')
      else if s = ''https://x/cb'' then Some (eg_url ''https'' ''x'') else None)"

definition eg_render_url :: "url \<Rightarrow> string" where
  "eg_render_url u = ur_scheme u @ ''://'' @ ur_host u @ ur_path u @ concat (map (\<lambda>(k, v). ''?'' @ k @ ''='' @ v) (ur_query u))"

definition eg_web :: web where
  "eg_web =
     \<lparr>wb_world = eg_world, wb_admin_key = ''adm'', wb_users_dir = ''users'', wb_edition = ''solo'', wb_trusted = default_trusted_proxies,
      wb_random = (\<lambda>k n. Some (CHR ''r'' # replicate k (CHR ''x''))), wb_fresh = (\<lambda>k. CHR ''f'' # replicate k (CHR ''x'')),
      wb_parse_url = eg_parse_url, wb_render_url = eg_render_url, wb_join = (\<lambda>a b. a @ ''/'' @ b), wb_sha256 = (\<lambda>s. s),
      wb_mailer = False, wb_send = (\<lambda>_ _. False), wb_forward = (\<lambda>_ _. None), wb_today = ''2026-01-01'', wb_format_time = (\<lambda>_. []),
      wb_assets = (\<lambda>_. http_not_found), wb_index = None, wb_metrics = []\<rparr>"

lemma eg_web_simps [simp]: "wb_world eg_web = eg_world" "wb_admin_key eg_web = ''adm''" "wb_parse_url eg_web = eg_parse_url"
  "wb_mailer eg_web = False" "wb_random eg_web = (\<lambda>k n. Some (CHR ''r'' # replicate k (CHR ''x'')))"
  "wb_fresh eg_web = (\<lambda>k. CHR ''f'' # replicate k (CHR ''x''))" "wb_sha256 eg_web = (\<lambda>s. s)" "wb_render_url eg_web = eg_render_url"
  "wb_edition eg_web = ''solo''"
  by (simp_all add: eg_web_def)

definition eg_server :: server where "eg_server = new_server eg_web eg_engine"

lemma eg_server_simps [simp]: "sv_engine eg_server = eg_engine" "sv_docs eg_server = None"
  by (simp_all add: eg_server_def new_server_def Let_def)

definition plain_request :: "string \<Rightarrow> string \<Rightarrow> string \<Rightarrow> request" where
  "plain_request meth path bearer =
     \<lparr>rq_method = meth, rq_path = path, rq_host = ''h'', rq_tls = False, rq_remote = ''9.9.9.9:1'', rq_query = [],
      rq_headers = [(''Authorization'', ''Bearer '' @ bearer)],
      rq_cookies = [], rq_form = Some [], rq_json = None, rq_multipart = None, rq_vars = [], rq_broken = False\<rparr>"

lemma plain_request_simps [simp]:
  "rq_method (plain_request meth path b) = meth" "rq_path (plain_request meth path b) = path" "rq_broken (plain_request meth path b) = False"
  "rq_cookies (plain_request meth path b) = []" "rq_json (plain_request meth path b) = None" "rq_query (plain_request meth path b) = []"
  "rq_form (plain_request meth path b) = Some []" "rq_vars (plain_request meth path b) = []"
  by (simp_all add: plain_request_def)

lemma plain_request_session [simp]: "session_auth wb e (plain_request meth path b) = plain_request meth path b"
  by (simp add: session_auth_def plain_request_def first_value_def)

lemma plain_request_bearer [simp]: "b \<noteq> [] \<Longrightarrow> api_key_from_request (plain_request meth path b) = b"
  by (simp add: api_key_from_request_def plain_request_def first_value_def Let_def)

lemma vars_bearer [simp]: "api_key_from_request (r\<lparr>rq_vars := vs\<rparr>) = api_key_from_request r"
  by (simp add: api_key_from_request_def)

lemmas route_simps = find_handler_def clean_path_def Let_def all_routes_def core_routes_def edition_routes_def
  page_routes_def account_routes_def api_routes_def serves_def segments_of_def exact_match_def is_subtree_def ends_with_def

end
