(* ===== verification/Web_Mirror.thy ===== *)
theory Web_Mirror
  imports Web_Examples
begin

text \<open>
  The documentation mirror discloses the documentation and nothing else: whoever asks, with whatever
  credentials, gets what the documentation account reads, and nothing changes.
\<close>

definition public_handlers :: "handler list" where
  "public_handlers = [handle_catalog, handle_list_memories, handle_get_memory, handle_memory_history, handle_search]"

lemma public_routes_handlers:
  "map rt_serve public_routes = map public_read [handle_catalog, handle_list_memories, handle_get_memory, handle_memory_history, handle_search]"
  by (simp add: public_routes_def)

section \<open>Reading needs no lease\<close>

lemma resolve_read_error: "resolve_tenant w e key False = Inl err \<Longrightarrow> err \<noteq> NotPrimaryNode owner"
  by (auto simp: resolve_tenant_def tenant_path_def Let_def split: sum.splits if_splits option.splits prod.splits)

lemma with_tenant_read_error:
  assumes "with_tenant w e key False f = Inl err" and "\<And>v. f v \<noteq> Inl (NotPrimaryNode owner)"
  shows "err \<noteq> NotPrimaryNode owner"
proof (cases "resolve_tenant w e key False")
  case (Inl err')
  then show ?thesis using assms(1) resolve_read_error by (auto simp: with_tenant_def)
next
  case (Inr v)
  then show ?thesis using assms by (auto simp: with_tenant_def)
qed

lemma fetch_readable_error: "fetch_readable v i \<noteq> Inl (NotPrimaryNode owner)"
  by (auto simp: fetch_readable_def as_actionable_def split: sum.splits db_error.splits if_splits)

lemma answered_here:
  assumes "\<And>err owner. res = Inl err \<Longrightarrow> err \<noteq> NotPrimaryNode owner"
  shows "reply_read wb r e res f = (case res of Inl err \<Rightarrow> write_actionable_error err | Inr x \<Rightarrow> f x, e)"
  using assms by (auto simp: reply_read_def respond_err_def code_not_primary split: sum.split)

lemma read_errors:
  "engine_catalog w e k p d = Inl err \<Longrightarrow> err \<noteq> NotPrimaryNode owner"
  "engine_list w e k t l off = Inl err \<Longrightarrow> err \<noteq> NotPrimaryNode owner"
  "engine_get w e k i = Inl err \<Longrightarrow> err \<noteq> NotPrimaryNode owner"
  "memory_history w e k i = Inl err \<Longrightarrow> err \<noteq> NotPrimaryNode owner"
  "engine_search w e k q t n = Inl err \<Longrightarrow> err \<noteq> NotPrimaryNode owner"
proof -
  have fetched: "fetch_readable v i = Inl err' \<Longrightarrow> err' \<noteq> NotPrimaryNode owner" for v err'
    using fetch_readable_error by metis
  show "engine_catalog w e k p d = Inl err \<Longrightarrow> err \<noteq> NotPrimaryNode owner"
    unfolding engine_catalog_def by (erule with_tenant_read_error) simp
  show "engine_list w e k t l off = Inl err \<Longrightarrow> err \<noteq> NotPrimaryNode owner"
    unfolding engine_list_def by (erule with_tenant_read_error) simp
  show "engine_get w e k i = Inl err \<Longrightarrow> err \<noteq> NotPrimaryNode owner"
    unfolding engine_get_def by (erule with_tenant_read_error) (auto split: sum.split dest: fetched)
  show "memory_history w e k i = Inl err \<Longrightarrow> err \<noteq> NotPrimaryNode owner"
    unfolding memory_history_def by (erule with_tenant_read_error) (auto split: sum.split dest: fetched)
  show "engine_search w e k q t n = Inl err \<Longrightarrow> err \<noteq> NotPrimaryNode owner"
    unfolding engine_search_def by (auto split: if_splits dest: with_tenant_read_error)
qed

lemmas read_answers = answered_here [OF read_errors(1)] answered_here [OF read_errors(2)] answered_here [OF read_errors(3)]
  answered_here [OF read_errors(4)] answered_here [OF read_errors(5)]

section \<open>The substitution\<close>

text \<open>Two requests that ask the mirror the same: path, question and throttle key agree, whatever else they say.\<close>

definition same_question :: "web \<Rightarrow> request \<Rightarrow> request \<Rightarrow> bool" where
  "same_question wb r r' \<longleftrightarrow> rq_vars r' = rq_vars r \<and> request_ip wb r' = request_ip wb r
     \<and> filter (\<lambda>kv. fst kv \<noteq> ''team'') (rq_query r') = filter (\<lambda>kv. fst kv \<noteq> ''team'') (rq_query r)"

lemma public_request_ip: "request_ip wb (public_request d r) = request_ip wb r"
proof -
  have keep: "map_of (filter (\<lambda>h. fst h \<noteq> k) hs) k' = map_of hs k'" if "k' \<noteq> k" for k k' and hs :: "(string \<times> string) list"
    using that by (induction hs) auto
  show ?thesis
    by (simp add: request_ip_def public_request_def set_header_def del_header_def first_value_def team_header_def keep del: filter_filter)
qed

lemma public_request_bearer: "api_key_from_request (public_request d r) = dx_bearer d"
  by (simp add: api_key_from_request_def public_request_def set_header_def first_value_def Let_def)

lemma handler_of_question:
  assumes "h \<in> set public_handlers" and "same_question wb r r'"
  shows "h wb (public_request d r') e = h wb (public_request d r) e"
proof -
  have q: "rq_query (public_request d r') = rq_query (public_request d r)" "rq_vars (public_request d r') = rq_vars (public_request d r)"
    using assms(2) by (simp_all add: same_question_def public_request_def set_header_def del_header_def)
  have "list_all (\<lambda>h. h wb (public_request d r') e = h wb (public_request d r) e) public_handlers"
    by (simp add: public_handlers_def handle_catalog_def handle_list_memories_def handle_get_memory_def handle_memory_history_def
        handle_search_def query_number_def read_answers public_request_bearer q Let_def split: option.split)
  then show ?thesis using assms(1) by (simp add: list_all_iff)
qed

lemma public_reader: "h \<in> set public_handlers \<Longrightarrow> snd (h wb r e) = e"
  by (auto simp: public_handlers_def handle_catalog_def handle_list_memories_def handle_get_memory_def handle_memory_history_def
      handle_search_def reply_read_def split: option.split)

text \<open>C20: The mirror shows the documentation account's view and nothing else: no request changes anything,
  and two requests that agree in path, question and client address get the same answer, whatever
  bearer, cookie, team selector or other header they carry; without a corpus there is no mirror.\<close>

theorem public_reads_confined:
  assumes "h \<in> set public_handlers"
  shows "(sv_docs sv = None \<longrightarrow> public_read h wb r sv = (http_not_found, sv))
    \<and> (sv_engine (snd (public_read h wb r sv)) = sv_engine sv)
    \<and> (same_question wb r r' \<longrightarrow> fst (public_read h wb r' sv) = fst (public_read h wb r sv))
    \<and> (sv_docs sv = Some d \<longrightarrow> rs_status (fst (public_read h wb r sv)) = 429
      \<or> fst (public_read h wb r sv) = add_header ''Cache-Control'' ''public, max-age=60'' (fst (h wb (public_request d r) (sv_engine sv)))
        \<and> api_key_from_request (public_request d r) = dx_bearer d)"
proof (rule conjI [OF _ conjI [OF _ conjI]]; (intro impI)?)
  show "sv_docs sv = None \<Longrightarrow> public_read h wb r sv = (http_not_found, sv)"
    by (simp add: public_read_def)
  show "sv_engine (snd (public_read h wb r sv)) = sv_engine sv"
    using public_reader [OF assms] rate_limit_cases [of PublicReads h wb "public_request _ r" sv]
    by (auto simp: public_read_def split: option.split prod.split) (metis snd_conv)
  show "same_question wb r r' \<Longrightarrow> fst (public_read h wb r' sv) = fst (public_read h wb r sv)"
  proof -
    assume q: "same_question wb r r'"
    then have ip: "request_ip wb (public_request d r') = request_ip wb (public_request d r)" for d
      by (simp add: public_request_ip same_question_def)
    show ?thesis
      using handler_of_question [OF assms q] ip
      by (simp add: public_read_def rate_limit_def handled_def split: option.split prod.split)
  qed
  show "sv_docs sv = Some d \<Longrightarrow> rs_status (fst (public_read h wb r sv)) = 429
      \<or> fst (public_read h wb r sv) = add_header ''Cache-Control'' ''public, max-age=60'' (fst (h wb (public_request d r) (sv_engine sv)))
        \<and> api_key_from_request (public_request d r) = dx_bearer d"
    by (auto simp: public_read_def rate_limit_def too_many_def add_header_def respond_def handled_def public_request_bearer
        split: option.split prod.split)
qed

definition eg_docs :: docs_corpus where
  "eg_docs = \<lparr>dx_bearer = ''kv'', dx_identity = ''v'', dx_path = ''t.rekam'', dx_inserted = 0, dx_updated = 0, dx_removed = 0\<rparr>"

lemma public_reads_confined_witness:
  "public_read handle_catalog eg_web (plain_request ''GET'' ''/public/catalog'' ''ku'') eg_server = (http_not_found, eg_server)
   \<and> fst (public_read handle_catalog eg_web (plain_request ''GET'' ''/public/catalog'' ''ku'') (eg_server\<lparr>sv_docs := Some eg_docs\<rparr>))
     = fst (public_read handle_catalog eg_web (plain_request ''GET'' ''/public/catalog'' ''nope'') (eg_server\<lparr>sv_docs := Some eg_docs\<rparr>))"
proof -
  have h: "handle_catalog \<in> set public_handlers" by (simp add: public_handlers_def)
  have q: "same_question eg_web (plain_request ''GET'' ''/public/catalog'' ''nope'') (plain_request ''GET'' ''/public/catalog'' ''ku'')"
    by (simp add: same_question_def plain_request_def request_ip_def first_value_def)
  show ?thesis
    using public_reads_confined [OF h, THEN conjunct1, of eg_server]
      public_reads_confined [OF h, THEN conjunct2, THEN conjunct2, THEN conjunct1, rule_format, OF q, of "eg_server\<lparr>sv_docs := Some eg_docs\<rparr>"]
    by simp
qed

text \<open>The shared cache is allowed to keep whatever the mirror answers for a minute, refusals included:
  a caller over its limit gets a 429 that is marked \<^verbatim>\<open>public, max-age=60\<close>.\<close>

lemma refusals_are_cacheable:
  assumes "sv_docs sv = Some d"
    and "fst (fst (allow (wd_round (wb_world wb)) (request_ip wb r) (wd_now (wb_world wb)) (sv_public sv))) = False"
  shows "rs_status (fst (public_read h wb r sv)) = 429
    \<and> (''Cache-Control'', ''public, max-age=60'') \<in> set (rs_headers (fst (public_read h wb r sv)))
    \<and> sv_engine (snd (public_read h wb r sv)) = sv_engine sv"
  using assms
  by (auto simp: public_read_def rate_limit_def too_many_def add_header_def respond_def public_request_ip split: prod.splits)

end
