(* ===== verification/Mcp_Server.thy ===== *)
theory Mcp_Server
  imports Web_Server
begin

text \<open>
  The MCP server (\<^verbatim>\<open>internal/mcp/server.go\<close>, \<^verbatim>\<open>internal/mcp/types.go\<close>): JSON-RPC messages, the tools
  over the engine, and the three transports: standard input, one request per POST, and an event stream
  with a session.
\<close>

section \<open>Messages\<close>

record message =
  mg_id :: "json option"
  mg_method :: string
  mg_params :: "json option"

text \<open>A field of type \<^verbatim>\<open>any\<close> and a field kept as raw JSON take the last value; \<^verbatim>\<open>null\<close> clears the first and
  is a text of its own for the second.\<close>

definition last_value :: "string \<Rightarrow> (string \<times> json) list \<Rightarrow> json option" where
  "last_value name kvs = (case field_values name kvs of [] \<Rightarrow> None | vs \<Rightarrow> Some (last vs))"

definition decode_message :: "json \<Rightarrow> message option" where
  "decode_message j =
     (case json_struct j of
        None \<Rightarrow> None
      | Some kvs \<Rightarrow>
          (case (str_field ''jsonrpc'' kvs, str_field ''method'' kvs) of
             (Some _, Some m) \<Rightarrow>
               Some \<lparr>mg_id = (case last_value ''id'' kvs of Some v \<Rightarrow> if v = JNull then None else Some v | None \<Rightarrow> None),
                     mg_method = m, mg_params = last_value ''params'' kvs\<rparr>
           | _ \<Rightarrow> None))"

datatype mcp_result =
    Initialized string
  | ToolNames "string list"
  | ToolText reply
  | ToolFailure engine_error
  | ResourceNames "string list"
  | ResourceText string reply
  | Pong

text \<open>The texts of errors are given where they are fixed; \<open>RpcFailed\<close> carries the text of an error value.\<close>

datatype rpc_reply =
    RpcResult mcp_result
  | RpcError int string
  | RpcFailed int engine_error

definition code_parse :: int where "code_parse = - 32700"
definition code_invalid :: int where "code_invalid = - 32600"
definition code_not_found :: int where "code_not_found = - 32601"
definition code_params :: int where "code_params = - 32602"
definition code_internal :: int where "code_internal = - 32603"

section \<open>Arguments\<close>

type_synonym arguments = "(string \<times> json) list"

definition str_arg :: "arguments \<Rightarrow> string \<Rightarrow> string" where
  "str_arg args k = (case map_value k args of Some (JStr s) \<Rightarrow> s | _ \<Rightarrow> [])"

definition opt_str_arg :: "arguments \<Rightarrow> string \<Rightarrow> string option" where
  "opt_str_arg args k = (case map_value k args of Some (JStr s) \<Rightarrow> Some s | _ \<Rightarrow> None)"

definition bool_arg :: "arguments \<Rightarrow> string \<Rightarrow> bool" where
  "bool_arg args k = (case map_value k args of Some (JBool b) \<Rightarrow> b | _ \<Rightarrow> False)"

text \<open>Numbers arrive as \<^verbatim>\<open>float64\<close> and are cut towards zero; what \<^verbatim>\<open>int(x)\<close> gives out of range depends on the
  processor: \<open>mc_overflow\<close>.\<close>

record mcp_session =
  ms_key :: string
  ms_queue :: "(json \<times> rpc_reply) list"

record mcp_server =
  mc_engine :: engine
  mc_sessions :: "string \<Rightarrow> mcp_session option"

record mcp_env =
  mc_web :: web
  mc_overflow :: "rat \<Rightarrow> int"

definition int_of_float :: "mcp_env \<Rightarrow> rat \<Rightarrow> int" where
  "int_of_float env q =
     (let n = (if q < 0 then \<lceil>q\<rceil> else \<lfloor>q\<rfloor>) in if - (2 ^ 63) \<le> n \<and> n < 2 ^ 63 then n else mc_overflow env q)"

definition int_arg :: "mcp_env \<Rightarrow> arguments \<Rightarrow> string \<Rightarrow> int option" where
  "int_arg env args k =
     (let fl = wd_round (wb_world (mc_web env)) in
      case map_value k args of
        Some (JInt n) \<Rightarrow> Some (int_of_float env (fl (of_int n)))
      | Some (JFloat q) \<Rightarrow> Some (int_of_float env (fl q))
      | _ \<Rightarrow> None)"

definition int_or_zero :: "mcp_env \<Rightarrow> arguments \<Rightarrow> string \<Rightarrow> int" where
  "int_or_zero env args k = (case int_arg env args k of None \<Rightarrow> 0 | Some n \<Rightarrow> n)"

section \<open>Tools\<close>

type_synonym tool_call = "mcp_env \<Rightarrow> string \<Rightarrow> arguments \<Rightarrow> engine \<Rightarrow> (engine_error + reply) \<times> engine"

definition tool_read :: "engine_error + 'a \<Rightarrow> ('a \<Rightarrow> reply) \<Rightarrow> engine \<Rightarrow> (engine_error + reply) \<times> engine" where
  "tool_read res f e = (case res of Inl err \<Rightarrow> Inl err | Inr x \<Rightarrow> Inr (f x), e)"

definition tool_write :: "engine_error + 'a \<times> engine \<Rightarrow> ('a \<Rightarrow> reply) \<Rightarrow> engine \<Rightarrow> (engine_error + reply) \<times> engine" where
  "tool_write res f e = (case res of Inl err \<Rightarrow> (Inl err, e) | Inr (x, e') \<Rightarrow> (Inr (f x), e'))"

abbreviation env_world :: "mcp_env \<Rightarrow> world" where "env_world env \<equiv> wb_world (mc_web env)"

definition catalog_handler :: tool_call where
  "catalog_handler env key args e =
     tool_read (engine_catalog (env_world env) e key (str_arg args ''prefix'') (int_or_zero env args ''depth'')) CatalogReply e"

definition search_handler :: tool_call where
  "search_handler env key args e =
     tool_read (engine_search (env_world env) e key (str_arg args ''q'') (str_arg args ''taxonomy'') (int_or_zero env args ''token_budget''))
       SearchReply e"

definition get_memory_handler :: tool_call where
  "get_memory_handler env key args e = tool_read (engine_get (env_world env) e key (str_arg args ''id'')) MemoryReply e"

definition write_args :: "arguments \<Rightarrow> write_input" where
  "write_args args =
     \<lparr>wi_title = str_arg args ''title'', wi_content = str_arg args ''content'', wi_taxonomy = str_arg args ''taxonomy'',
      wi_format = str_arg args ''format'', wi_agent = str_arg args ''agent''\<rparr>"

definition write_memory_handler :: tool_call where
  "write_memory_handler env key args e =
     tool_write (write_memory (env_world env) e key (wb_fresh (mc_web env) 0) (write_args args)) MemoryReply e"

definition update_args :: "mcp_env \<Rightarrow> arguments \<Rightarrow> update_input" where
  "update_args env args =
     \<lparr>ui_title = opt_str_arg args ''title'', ui_content = opt_str_arg args ''content'', ui_taxonomy = opt_str_arg args ''taxonomy'',
      ui_format = opt_str_arg args ''format'', ui_base = int_arg env args ''base_version'', ui_agent = str_arg args ''agent''\<rparr>"

definition update_memory_handler :: tool_call where
  "update_memory_handler env key args e =
     tool_write (engine_update (env_world env) e key (str_arg args ''id'') (update_args env args)) MemoryReply e"

definition list_teams_handler :: tool_call where
  "list_teams_handler env key args e = tool_read (my_teams (env_world env) e key) TeamRefs e"

definition deleted_memories_handler :: tool_call where
  "deleted_memories_handler env key args e =
     tool_read (deleted_memories (env_world env) e key (str_arg args ''taxonomy'') (int_or_zero env args ''limit'')) DeletedReply e"

definition memory_history_handler :: tool_call where
  "memory_history_handler env key args e = tool_read (memory_history (env_world env) e key (str_arg args ''id'')) HistoryReply e"

definition restore_revision_handler :: tool_call where
  "restore_revision_handler env key args e =
     (case int_arg env args ''version'' of
        None \<Rightarrow> (Inl (MissingFields [''version'']), e)
      | Some n \<Rightarrow> tool_write (restore_revision (env_world env) e key (str_arg args ''id'') n) MemoryReply e)"

definition delete_memory_handler :: tool_call where
  "delete_memory_handler env key args e =
     tool_write (no_result (engine_delete (env_world env) e key (str_arg args ''id'') (bool_arg args ''force'')))
       (\<lambda>_. Fields [(''deleted'', JStr (str_arg args ''id''))]) e"

definition memory_scope_handler :: tool_call where
  "memory_scope_handler env key args e =
     tool_read (engine_scope (env_world env) e key (str_arg args ''taxonomy'') (int_or_zero env args ''token_budget'')) ScopeReply e"

definition edge_health_handler :: tool_call where
  "edge_health_handler env key args e = tool_read (engine_edge_health (env_world env) e key) HealthReply e"

definition graph_handler :: tool_call where
  "graph_handler env key args e =
     tool_read (engine_graph (env_world env) e key (str_arg args ''center'') (int_or_zero env args ''depth'') (str_arg args ''taxonomy''))
       GraphReply e"

definition suggest_links_handler :: tool_call where
  "suggest_links_handler env key args e = tool_read (engine_suggest (env_world env) e key (int_or_zero env args ''limit'')) SuggestReply e"

definition rebuild_fts_handler :: tool_call where
  "rebuild_fts_handler env key args e =
     (case rebuild_fts (env_world env) e key of
        Inl err \<Rightarrow> (Inl err, e)
      | Inr (Some err, e') \<Rightarrow> (Inl err, e')
      | Inr (None, e') \<Rightarrow> (Inr (Fields [(''status'', JStr ''ok'')]), e'))"

text \<open>What \<^verbatim>\<open>tools/list\<close> says of a tool besides its prose: argument types, required arguments, the hints.\<close>

record tool =
  tl_name :: string
  tl_props :: "(string \<times> string) list"
  tl_required :: "string list"
  tl_read_only :: bool
  tl_destructive :: bool
  tl_call :: tool_call

definition reading_tool :: "string \<Rightarrow> (string \<times> string) list \<Rightarrow> string list \<Rightarrow> tool_call \<Rightarrow> tool" where
  "reading_tool name props req call =
     \<lparr>tl_name = name, tl_props = props, tl_required = req, tl_read_only = True, tl_destructive = False, tl_call = call\<rparr>"

definition writing_tool :: "string \<Rightarrow> (string \<times> string) list \<Rightarrow> string list \<Rightarrow> tool_call \<Rightarrow> tool" where
  "writing_tool name props req call =
     \<lparr>tl_name = name, tl_props = props, tl_required = req, tl_read_only = False, tl_destructive = True, tl_call = call\<rparr>"

definition tool_entries :: "tool list" where
  "tool_entries =
     [reading_tool ''catalog'' [(''prefix'', ''string''), (''depth'', ''number'')] [] catalog_handler,
      reading_tool ''search'' [(''q'', ''string''), (''taxonomy'', ''string''), (''token_budget'', ''number'')] [''q''] search_handler,
      reading_tool ''get_memory'' [(''id'', ''string'')] [''id''] get_memory_handler,
      writing_tool ''write_memory'' [(''title'', ''string''), (''taxonomy'', ''string''), (''content'', ''string''), (''format'', ''string''),
        (''agent'', ''string'')] [''title'', ''taxonomy''] write_memory_handler,
      writing_tool ''update_memory'' [(''id'', ''string''), (''title'', ''string''), (''content'', ''string''), (''taxonomy'', ''string''),
        (''format'', ''string''), (''base_version'', ''number''), (''agent'', ''string'')] [''id''] update_memory_handler,
      reading_tool ''list_teams'' [] [] list_teams_handler,
      reading_tool ''deleted_memories'' [(''taxonomy'', ''string''), (''limit'', ''number'')] [] deleted_memories_handler,
      reading_tool ''memory_history'' [(''id'', ''string'')] [''id''] memory_history_handler,
      writing_tool ''restore_revision'' [(''id'', ''string''), (''version'', ''number'')] [''id'', ''version''] restore_revision_handler,
      writing_tool ''delete_memory'' [(''id'', ''string''), (''force'', ''boolean'')] [''id''] delete_memory_handler,
      reading_tool ''memory_scope'' [(''taxonomy'', ''string''), (''token_budget'', ''number'')] [''taxonomy''] memory_scope_handler,
      writing_tool ''rebuild_fts'' [] [] rebuild_fts_handler,
      reading_tool ''edge_health'' [] [] edge_health_handler,
      reading_tool ''graph'' [(''center'', ''string''), (''depth'', ''number''), (''taxonomy'', ''string'')] [] graph_handler,
      reading_tool ''suggest_links'' [(''limit'', ''number'')] [] suggest_links_handler]"

definition tool_handler :: "string \<Rightarrow> tool option" where
  "tool_handler name = find (\<lambda>t. tl_name t = name) tool_entries"

section \<open>Dispatch\<close>

text \<open>\<^verbatim>\<open>map[string]any\<close> in a field: each object adds to the map, \<^verbatim>\<open>null\<close> empties it.\<close>

fun decode_map :: "arguments \<Rightarrow> json list \<Rightarrow> arguments option" where
  "decode_map acc [] = Some acc"
| "decode_map acc (v # vs) =
     (case v of JObj kvs \<Rightarrow> decode_map (acc @ kvs) vs | JNull \<Rightarrow> decode_map [] vs | _ \<Rightarrow> None)"

definition tool_params :: "json option \<Rightarrow> (string \<times> arguments) option" where
  "tool_params params =
     (case (case params of None \<Rightarrow> None | Some j \<Rightarrow> json_struct j) of
        None \<Rightarrow> None
      | Some kvs \<Rightarrow>
          (case (str_field ''name'' kvs, decode_map [] (field_values ''arguments'' kvs)) of
             (Some name, Some args) \<Rightarrow> Some (name, args)
           | _ \<Rightarrow> None))"

definition handle_tool_call :: "mcp_env \<Rightarrow> string \<Rightarrow> message \<Rightarrow> engine \<Rightarrow> rpc_reply \<times> engine" where
  "handle_tool_call env key msg e =
     (case tool_params (mg_params msg) of
        None \<Rightarrow> (RpcError code_params ''invalid params'', e)
      | Some (name, args) \<Rightarrow>
          (case tool_handler name of
             None \<Rightarrow> (RpcError code_not_found (''tool not found: '' @ name), e)
           | Some t \<Rightarrow>
               (case tl_call t env key args e of
                  (Inl err, e') \<Rightarrow> (RpcResult (ToolFailure err), e')
                | (Inr body, e') \<Rightarrow> (RpcResult (ToolText body), e'))))"

definition catalog_uri :: string where "catalog_uri = ''rekam://catalog''"
definition template_uri :: string where "template_uri = ''rekam://taxonomy-template''"

definition resource_read :: "string \<Rightarrow> engine_error + 'a \<Rightarrow> ('a \<Rightarrow> reply) \<Rightarrow> engine \<Rightarrow> rpc_reply \<times> engine" where
  "resource_read uri res f e =
     (case res of Inl err \<Rightarrow> RpcFailed code_internal err | Inr x \<Rightarrow> RpcResult (ResourceText uri (f x)), e)"

definition handle_resource_read :: "mcp_env \<Rightarrow> string \<Rightarrow> message \<Rightarrow> engine \<Rightarrow> rpc_reply \<times> engine" where
  "handle_resource_read env key msg e =
     (case (case (case mg_params msg of None \<Rightarrow> None | Some j \<Rightarrow> json_struct j) of None \<Rightarrow> None | Some kvs \<Rightarrow> str_field ''uri'' kvs) of
        None \<Rightarrow> (RpcError code_params ''invalid params'', e)
      | Some uri \<Rightarrow>
          if uri = catalog_uri then resource_read uri (engine_catalog (env_world env) e key [] 0) CatalogReply e
          else if uri = template_uri then resource_read uri (engine_template (env_world env) e key) TemplateReply e
          else (RpcError code_not_found (''resource not found: '' @ uri), e))"

text \<open>What \<^verbatim>\<open>initialize\<close> appends to the fixed instructions: the skills the caller may read.\<close>

definition line_feed :: string where "line_feed = [CHR 0x0A]"

definition skill_line :: "scoped_memory \<Rightarrow> string" where
  "skill_line s = line_feed @ ''- id:'' @ sm_id s @ ''  ['' @ sm_taxonomy s @ '']  '' @ sm_title s"

definition skills_text :: "scoped_memory list \<Rightarrow> string" where
  "skills_text ss =
     line_feed @ line_feed @ ''## Skills'' @ line_feed @ ''You have '' @ itoa (int (length ss))
       @ '' skill(s) defined. Before starting any task, load applicable ones with get_memory.'' @ line_feed
       @ concat (map skill_line ss)"

definition handle_initialize :: "mcp_env \<Rightarrow> string \<Rightarrow> engine \<Rightarrow> rpc_reply \<times> engine" where
  "handle_initialize env key e =
     (RpcResult (Initialized
        (if key = [] then []
         else (case skills_manifest (env_world env) e key of
                 Inl _ \<Rightarrow> []
               | Inr s \<Rightarrow> if sp_results s = [] then [] else skills_text (sp_results s)))), e)"

definition dispatch :: "mcp_env \<Rightarrow> string \<Rightarrow> message \<Rightarrow> engine \<Rightarrow> rpc_reply \<times> engine" where
  "dispatch env key msg e =
     (let m = mg_method msg in
      if m = ''initialize'' then handle_initialize env key e
      else if m = ''tools/list'' then (RpcResult (ToolNames (map tl_name tool_entries)), e)
      else if m = ''tools/call'' then handle_tool_call env key msg e
      else if m = ''resources/list'' then (RpcResult (ResourceNames [catalog_uri, template_uri]), e)
      else if m = ''resources/read'' then handle_resource_read env key msg e
      else if m = ''ping'' then (RpcResult Pong, e)
      else (RpcError code_not_found (''method not found: '' @ m), e))"

section \<open>Keys\<close>

definition bearer_key :: "request \<Rightarrow> string" where
  "bearer_key r = (let h = header_of r ''Authorization'' in if prefix ''Bearer '' h then drop 7 h else [])"

definition team_bound_key :: "mcp_env \<Rightarrow> engine \<Rightarrow> request \<Rightarrow> string" where
  "team_bound_key env e r =
     (let key = bearer_key r; team = header_of r ''X-Rekam-Team'' in
      if team \<noteq> [] \<and> key \<noteq> []
      then (case bearer_for_team (env_world env) e key team of Inr rebound \<Rightarrow> rebound | Inl _ \<Rightarrow> key)
      else key)"

section \<open>Standard input\<close>

text \<open>A line is empty, longer than the 4 MiB buffer, or text that parses as JSON or does not; each comes with what
  is outside when it is read.\<close>

datatype input_line = Blank | TooLong | Garbage | Line json

fun serve_lines :: "string \<Rightarrow> (mcp_env \<times> input_line) list \<Rightarrow> engine \<Rightarrow> (json option \<times> rpc_reply) list \<times> engine" where
  "serve_lines key [] e = ([], e)"
| "serve_lines key ((env, l) # ls) e =
     (let parse_error = (case serve_lines key ls e of (out, e') \<Rightarrow> ((None, RpcError code_parse ''parse error'') # out, e')) in
      case l of
        Blank \<Rightarrow> serve_lines key ls e
      | TooLong \<Rightarrow> ([], e)
      | Garbage \<Rightarrow> parse_error
      | Line j \<Rightarrow>
          (case decode_message j of
             None \<Rightarrow> parse_error
           | Some msg \<Rightarrow>
               (case mg_id msg of
                  None \<Rightarrow> serve_lines key ls e
                | Some i \<Rightarrow>
                    (case dispatch env key msg e of
                       (answer, e1) \<Rightarrow>
                         (case serve_lines key ls e1 of (out, e2) \<Rightarrow> ((Some i, answer) # out, e2))))))"

section \<open>HTTP\<close>

datatype mcp_body =
    NoBody
  | PlainBody string
  | RpcBody "json option" rpc_reply
  | EventStream string

record mcp_response =
  mr_status :: nat
  mr_headers :: "(string \<times> string) list"
  mr_body :: mcp_body

definition mcp_text :: "string \<Rightarrow> nat \<Rightarrow> mcp_response" where
  "mcp_text msg status =
     \<lparr>mr_status = status,
      mr_headers = [(''Content-Type'', ''text/plain; charset=utf-8''), (''X-Content-Type-Options'', ''nosniff'')],
      mr_body = PlainBody msg\<rparr>"

definition mcp_status :: "nat \<Rightarrow> (string \<times> string) list \<Rightarrow> mcp_response" where
  "mcp_status status headers = \<lparr>mr_status = status, mr_headers = headers, mr_body = NoBody\<rparr>"

definition write_json :: "nat \<Rightarrow> json option \<Rightarrow> rpc_reply \<Rightarrow> mcp_response" where
  "write_json status i answer =
     \<lparr>mr_status = status, mr_headers = [(''Content-Type'', ''application/json'')], mr_body = RpcBody i answer\<rparr>"

definition key_required :: mcp_response where
  "key_required = mcp_text ''Authorization: Bearer <key> required'' 401"

text \<open>The stream opens with the address its messages are posted to.\<close>

definition handle_sse :: "mcp_env \<Rightarrow> request \<Rightarrow> mcp_server \<Rightarrow> mcp_response \<times> mcp_server" where
  "handle_sse env r s =
     (let key = team_bound_key env (mc_engine s) r in
      if key = [] then (key_required, s)
      else (let sid = wb_fresh (mc_web env) 0;
                forwarded = header_of r ''X-Forwarded-Proto'';
                scheme = (if forwarded \<noteq> [] then forwarded else if rq_tls r then ''https'' else ''http'') in
            (\<lparr>mr_status = 200,
              mr_headers = [(''Content-Type'', ''text/event-stream''), (''Cache-Control'', ''no-cache''), (''Connection'', ''keep-alive''),
                            (''Access-Control-Allow-Origin'', ''*'')],
              mr_body = EventStream (scheme @ ''://'' @ rq_host r @ ''/mcp/message?session_id='' @ sid)\<rparr>,
             s\<lparr>mc_sessions := (mc_sessions s)(sid \<mapsto> \<lparr>ms_key = key, ms_queue = []\<rparr>)\<rparr>)))"

text \<open>The loop of the stream: the oldest answer goes out; at the end of the connection the session goes.\<close>

definition sse_forward :: "string \<Rightarrow> mcp_server \<Rightarrow> (json \<times> rpc_reply) option \<times> mcp_server" where
  "sse_forward sid s =
     (case mc_sessions s sid of
        None \<Rightarrow> (None, s)
      | Some ss \<Rightarrow>
          (case ms_queue ss of
             [] \<Rightarrow> (None, s)
           | x # q \<Rightarrow> (Some x, s\<lparr>mc_sessions := (mc_sessions s)(sid \<mapsto> ss\<lparr>ms_queue := q\<rparr>)\<rparr>)))"

definition sse_close :: "string \<Rightarrow> mcp_server \<Rightarrow> mcp_server" where
  "sse_close sid s = s\<lparr>mc_sessions := (mc_sessions s)(sid := None)\<rparr>"

text \<open>The channel of a session holds 16 answers; a message for a full one waits for the stream: \<open>None\<close>. Its
  work is done by then.\<close>

definition queue_room :: nat where "queue_room = 16"

definition handle_message :: "mcp_env \<Rightarrow> request \<Rightarrow> mcp_server \<Rightarrow> mcp_response option \<times> mcp_server" where
  "handle_message env r s =
     (if rq_method r = ''OPTIONS''
      then (Some (mcp_status 204 [(''Access-Control-Allow-Origin'', ''*''), (''Access-Control-Allow-Methods'', ''POST, OPTIONS''),
              (''Access-Control-Allow-Headers'', ''Content-Type, Authorization, X-Rekam-Team'')]), s)
      else if rq_method r \<noteq> ''POST'' then (Some (mcp_text ''method not allowed'' 405), s)
      else
     (let sid = query_of r ''session_id''; sess = (if sid = [] then None else mc_sessions s sid) in
      if sid \<noteq> [] \<and> sess = None
      then (Some (write_json 401 None (RpcError code_invalid ''unknown or expired session_id'')), s)
      else
     (let key = (case sess of Some ss \<Rightarrow> ms_key ss | None \<Rightarrow> team_bound_key env (mc_engine s) r) in
      case (case rq_json r of None \<Rightarrow> None | Some j \<Rightarrow> decode_message j) of
        None \<Rightarrow> (Some (write_json 400 None (RpcError code_parse ''parse error'')), s)
      | Some msg \<Rightarrow>
     (case mg_id msg of
        None \<Rightarrow> (Some (mcp_status 202 []), s)
      | Some i \<Rightarrow>
     (case dispatch env key msg (mc_engine s) of
        (answer, e) \<Rightarrow>
          (case sess of
             None \<Rightarrow> (Some (write_json 200 (Some i) answer), s\<lparr>mc_engine := e\<rparr>)
           | Some ss \<Rightarrow>
               if length (ms_queue ss) < queue_room
               then (Some (mcp_status 202 []),
                     s\<lparr>mc_engine := e, mc_sessions := (mc_sessions s)(sid \<mapsto> ss\<lparr>ms_queue := ms_queue ss @ [(i, answer)]\<rparr>)\<rparr>)
               else (None, s\<lparr>mc_engine := e\<rparr>)))))))"

definition handle_streamable :: "mcp_env \<Rightarrow> request \<Rightarrow> mcp_server \<Rightarrow> mcp_response \<times> mcp_server" where
  "handle_streamable env r s =
     (let cors = (\<lambda>m. m\<lparr>mr_headers := (''Access-Control-Allow-Origin'', ''*'') # mr_headers m\<rparr>);
          key = team_bound_key env (mc_engine s) r in
      if key = [] then (cors key_required, s)
      else
     (case (case rq_json r of None \<Rightarrow> None | Some j \<Rightarrow> decode_message j) of
        None \<Rightarrow> (cors (write_json 400 None (RpcError code_parse ''parse error'')), s)
      | Some msg \<Rightarrow>
     (case mg_id msg of
        None \<Rightarrow> (cors (mcp_status 202 []), s)
      | Some i \<Rightarrow>
     (case dispatch env key msg (mc_engine s) of
        (answer, e) \<Rightarrow>
          (let m = cors (write_json 200 (Some i) answer) in
           (if mg_method msg = ''initialize'' then m\<lparr>mr_headers := (''Mcp-Session-Id'', wb_fresh (mc_web env) 1) # mr_headers m\<rparr> else m,
            s\<lparr>mc_engine := e\<rparr>))))))"

definition sse_handler :: "mcp_env \<Rightarrow> request \<Rightarrow> mcp_server \<Rightarrow> mcp_response option \<times> mcp_server" where
  "sse_handler env r s =
     (let path = trim_prefix ''/mcp'' (url_path r); meth = rq_method r; now = (\<lambda>(m, s'). (Some m, s')) in
      if (path = [] \<or> path = ''/sse'') \<and> meth = ''GET'' then now (handle_sse env r s)
      else if path = ''/message'' \<and> meth = ''POST'' then handle_message env r s
      else if path = [] \<and> meth = ''POST'' then now (handle_streamable env r s)
      else if meth = ''OPTIONS''
      then (Some (mcp_status 204 [(''Access-Control-Allow-Origin'', ''*''), (''Access-Control-Allow-Methods'', ''GET, POST, OPTIONS''),
              (''Access-Control-Allow-Headers'', ''Content-Type, Authorization, Mcp-Session-Id, X-Rekam-Team'')]), s)
      else (Some (mcp_text ''404 page not found'' 404), s))"

end
