(* ===== verification/Web_Facts.thy ===== *)
theory Web_Facts
  imports Web_Contract
begin

text \<open>
  What the handlers do to the engine: each acts through calls of engine operations, whatever the request,
  and the readers do nothing. Hence the invariant of the engine holds behind the whole server.
\<close>

abbreviation steps :: "world \<Rightarrow> engine \<Rightarrow> engine \<Rightarrow> bool" where
  "steps w \<equiv> (engine_step w)\<^sup>*\<^sup>*"

section \<open>Readers\<close>

lemma reply_read_same [simp]: "snd (reply_read wb r e res f) = e"
  by (simp add: reply_read_def)

lemma admin_only_snd: "snd (admin_only msg h wb r e) = (if require_admin wb r e then snd (h wb r e) else e)"
  by (simp add: admin_only_def)

named_theorems reader_defs

declare handle_oauth_meta_def [reader_defs] handle_authorize_form_def [reader_defs] handle_ui_session_def [reader_defs]
  handle_scope_def [reader_defs] handle_me_def [reader_defs] handle_list_memories_def [reader_defs] handle_catalog_def [reader_defs]
  handle_taxonomy_template_def [reader_defs] handle_edge_health_def [reader_defs] handle_graph_def [reader_defs]
  handle_suggest_links_def [reader_defs] handle_review_due_def [reader_defs] handle_export_def [reader_defs]
  handle_export_memory_def [reader_defs] handle_search_def [reader_defs] handle_get_memory_def [reader_defs]
  handle_deleted_memories_def [reader_defs] handle_memory_history_def [reader_defs] handle_get_file_def [reader_defs]
  handle_robots_def [reader_defs] ui_files_def [reader_defs] spa_shell_def [reader_defs]

definition readers :: "handler list" where
  "readers =
     [handle_oauth_meta, handle_authorize_form, handle_ui_session, handle_metrics, handle_scope, handle_me,
      handle_list_identities, handle_list_memories, handle_catalog, handle_taxonomy_template, handle_edge_health, handle_graph,
      handle_suggest_links, handle_review_due, handle_export, handle_export_memory, handle_search, handle_get_memory,
      handle_deleted_memories, handle_memory_history, handle_get_file, handle_robots, ui_files, spa_shell]"

lemma reader_same:
  assumes "h \<in> set readers"
  shows "snd (h wb r e) = e"
proof -
  have "list_all (\<lambda>h. snd (h wb r e) = e) readers"
    by (simp add: readers_def reader_defs Let_def handle_metrics_def handle_list_identities_def admin_only_snd split: option.split sum.split)
  then show ?thesis using assms by (simp add: list_all_iff)
qed

section \<open>Writers\<close>

lemma step_then: "engine_step w e e1 \<Longrightarrow> steps w e1 e2 \<Longrightarrow> steps w e e2"
  by (rule converse_rtranclp_into_rtranclp)

lemma reply_write_steps:
  assumes "\<And>x e'. res = Inr (x, e') \<Longrightarrow> engine_step w e e'"
  shows "steps w e (snd (reply_write wb r e res f))"
  using assms by (auto simp: reply_write_def split: sum.split prod.split intro: r_into_rtranclp)

lemma reply_outcome_steps: "engine_step w e (snd out) \<Longrightarrow> steps w e (snd (reply_outcome wb r out f))"
  by (auto simp: reply_outcome_def)

lemma reply_outcome_snd [simp]: "snd (reply_outcome wb r out f) = snd out"
  by (simp add: reply_outcome_def)

lemma with_cookie_steps: "steps (wb_world wb) e (snd (with_cookie wb k r idn e))"
  by (auto simp: with_cookie_def set_session_cookie_def split: option.split intro: r_into_rtranclp engine_step.CreateSession)

lemma no_result_Inr: "no_result res = Inr (x, e') \<longleftrightarrow> res = Inr e'"
  by (auto simp: no_result_def split: sum.split)

lemma pair_step: "engine_step w e (snd out) \<Longrightarrow> out = (x, e') \<Longrightarrow> engine_step w e e'"
  by simp

lemmas pair_steps =
  engine_step.PutClient [THEN pair_step] engine_step.StoreCode [THEN pair_step] engine_step.TakeCode [THEN pair_step]
  engine_step.StoreTicket [THEN pair_step] engine_step.TakeTicket [THEN pair_step] engine_step.MintGrantByID [THEN pair_step]
  engine_step.ForgotPassword [THEN pair_step] engine_step.ResetPassword [THEN pair_step] engine_step.ConfirmEmail [THEN pair_step]
  engine_step.CreateUnconfirmed [THEN pair_step] engine_step.DeleteIdentity [THEN pair_step] engine_step.RevokeGrant [THEN pair_step]
  engine_step.UpdateUserFlags [THEN pair_step] engine_step.SetUserPassword [THEN pair_step] engine_step.PutFile [THEN pair_step]

lemma register_steps: "steps (wb_world wb) e (snd (handle_oauth_register wb r e))"
  by (auto simp: handle_oauth_register_def Let_def split: option.split sum.split prod.split intro!: r_into_rtranclp
      dest: pair_steps)

lemma finish_authorize_steps: "steps (wb_world wb) e (snd (finish_authorize wb k v i team e))"
  by (auto simp: finish_authorize_def Let_def split: option.split sum.split prod.split intro!: r_into_rtranclp dest: pair_steps)

lemma offer_workspaces_steps: "steps (wb_world wb) e (snd (offer_workspaces wb r i e))"
  by (auto simp: offer_workspaces_def Let_def finish_authorize_steps split: option.split sum.split prod.split
      intro!: r_into_rtranclp dest: pair_steps)

lemma authorize_submit_steps: "steps (wb_world wb) e (snd (handle_authorize_submit wb r e))"
  by (auto simp: handle_authorize_submit_def offer_workspaces_steps split: option.split sum.split)

lemma authorize_workspace_steps: "steps (wb_world wb) e (snd (handle_authorize_workspace wb r e))"
proof -
  have "steps (wb_world wb) e (snd (finish_authorize wb k v i team e1))"
    if "engine_take_ticket (wb_world wb) e t = (x, e1)" for k v i team t x e1
    using pair_steps(5) [OF that] finish_authorize_steps by (rule step_then)
  then show ?thesis
    by (auto simp: handle_authorize_workspace_def split: option.split sum.split prod.split intro: r_into_rtranclp dest: pair_steps)
qed

lemma token_steps: "steps (wb_world wb) e (snd (handle_oauth_token wb r e))"
proof -
  have "steps (wb_world wb) e e2"
    if "engine_take_code (wb_world wb) e t = (x, e1)" "mint_grant_by_id (wb_world wb) e1 g raw i c team = (y, e2)" for t x e1 g raw i c team y e2
    using pair_steps(3) [OF that(1)] r_into_rtranclp [where r = "engine_step (wb_world wb)", OF pair_steps(6) [OF that(2)]] by (rule step_then)
  then show ?thesis
    by (auto simp: handle_oauth_token_def split: option.split sum.split prod.split intro: r_into_rtranclp dest: pair_steps)
qed

lemma then_cookie: "out = (x, e1) \<Longrightarrow> engine_step (wb_world wb) e (snd out) \<Longrightarrow> steps (wb_world wb) e (snd (with_cookie wb k r idn e1))"
  by (rule step_then [OF _ with_cookie_steps]) simp

lemma ui_steps:
  "steps (wb_world wb) e (snd (handle_ui_login wb r e))"
  "steps (wb_world wb) e (snd (handle_ui_logout wb r e))"
  "steps (wb_world wb) e (snd (handle_ui_forgot wb r e))"
  "steps (wb_world wb) e (snd (handle_ui_reset wb r e))"
proof -
  show "steps (wb_world wb) e (snd (handle_ui_login wb r e))"
    by (auto simp: handle_ui_login_def Let_def with_cookie_steps split: sum.split)
  show "steps (wb_world wb) e (snd (handle_ui_logout wb r e))"
    by (auto simp: handle_ui_logout_def Let_def split: option.split intro: r_into_rtranclp engine_step.DeleteSession)
  show "steps (wb_world wb) e (snd (handle_ui_forgot wb r e))"
    by (auto simp: handle_ui_forgot_def Let_def split: option.split sum.split prod.split intro!: r_into_rtranclp dest: pair_steps)
  show "steps (wb_world wb) e (snd (handle_ui_reset wb r e))"
    by (auto simp: handle_ui_reset_def Let_def split: option.split sum.split prod.split
        intro: r_into_rtranclp then_cookie engine_step.ResetPassword dest: pair_steps)
qed

lemma memory_steps:
  "fresh_id e (wb_fresh wb 0) \<Longrightarrow> steps (wb_world wb) e (snd (handle_write_memory wb r e))"
  "steps (wb_world wb) e (snd (handle_update_memory wb r e))"
  "steps (wb_world wb) e (snd (handle_restore_revision wb r e))"
  "steps (wb_world wb) e (snd (handle_delete_memory wb r e))"
  "steps (wb_world wb) e (snd (handle_set_taxonomy_template wb r e))"
  "steps (wb_world wb) e (snd (handle_rebuild_fts wb r e))"
  "steps (wb_world wb) e (snd (handle_add_review wb r e))"
  "steps (wb_world wb) e (snd (handle_remove_review wb r e))"
  "steps (wb_world wb) e (snd (handle_grade_review wb r e))"
  by (auto simp: handle_write_memory_def handle_update_memory_def handle_restore_revision_def handle_delete_memory_def
      handle_set_taxonomy_template_def handle_rebuild_fts_def handle_add_review_def handle_remove_review_def
      handle_grade_review_def no_result_Inr split: option.split sum.split prod.split
      intro!: reply_write_steps intro: engine_step.intros r_into_rtranclp)

lemma account_steps:
  "steps (wb_world wb) e (snd (handle_revoke_identity wb r e))"
  "steps (wb_world wb) e (snd (handle_upload_file wb r e))"
proof -
  show "steps (wb_world wb) e (snd (handle_revoke_identity wb r e))"
    by (auto simp: handle_revoke_identity_def Let_def split: option.split sum.split prod.split intro!: r_into_rtranclp dest: pair_steps)
  show "steps (wb_world wb) e (snd (handle_upload_file wb r e))"
    by (auto simp: handle_upload_file_def split: option.split prod.split intro!: r_into_rtranclp engine_step.PutFile)
qed

section \<open>The server\<close>

lemma handler_steps:
  assumes "h \<in> set handlers" and "fresh_id e (wb_fresh wb 0)"
  shows "steps (wb_world wb) e (snd (h wb r e))"
proof (cases "h \<in> set readers")
  case True
  then show ?thesis by (simp add: reader_same)
next
  case False
  have "list_all (\<lambda>h. h \<in> set readers \<or> steps (wb_world wb) e (snd (h wb r e))) handlers"
    using register_steps authorize_submit_steps authorize_workspace_steps token_steps ui_steps memory_steps assms(2) account_steps
    by (simp add: handlers_def readers_def)
  then show ?thesis using assms(1) False by (auto simp: list_all_iff)
qed

end
