(* ===== verification/Web_Access.thy ===== *)
theory Web_Access
  imports Web_Facts Web_Examples
begin

text \<open>
  Who gets what over HTTP: every run of the server is a run of the engine, callers without a valid bearer
  reach no tenant's data, the operator's routes refuse everybody else.
\<close>

section \<open>Runs of the server\<close>

text \<open>Each request comes with what is outside at its time; a new id is fresh when it is drawn.\<close>

inductive web_run :: "world \<Rightarrow> server \<Rightarrow> server \<Rightarrow> bool" for w where
  Boot: "web_run w sv sv"
| Request: "web_run w sv sv1 \<Longrightarrow> same_algorithms w (wb_world wb) \<Longrightarrow> fresh_id (sv_engine sv1) (wb_fresh wb 0)
    \<Longrightarrow> web_run w sv (snd (serve wb r sv1))"

interpretation solo: route_contract wb all_routes "\<lambda>e r. True"
  "\<lambda>e e'. fresh_id e (wb_fresh wb 0) \<longrightarrow> steps (wb_world wb) e e'" for wb
proof
  fix rt sv r
  assume "rt \<in> set all_routes"
  then show "fresh_id (sv_engine sv) (wb_fresh wb 0) \<longrightarrow> steps (wb_world wb) (sv_engine sv) (sv_engine (snd (rt_serve rt wb r sv)))"
    by (rule route_engine) (simp_all add: handler_steps)
qed simp_all

lemma served_steps: "steps w' e1 e2 \<Longrightarrow> same_algorithms w w' \<Longrightarrow> served w e e1 \<Longrightarrow> served w e e2"
  by (induction rule: rtranclp_induct) (auto intro: served.Call)

text \<open>The server refines the engine: whatever requests arrive, on whatever routes, every run of the
  server is a run of calls of the engine, so what holds of every reachable engine, above all that tenant
  files, registry and blob stores are well formed, holds behind the server after any requests.\<close>

theorem server_refines_engine:
  assumes "web_run w sv sv'"
  shows "served w (sv_engine sv) (sv_engine sv')"
    and "rounding_ok w \<Longrightarrow> engine_ok w (sv_engine sv) \<Longrightarrow> engine_ok w (sv_engine sv')"
proof -
  show run: "served w (sv_engine sv) (sv_engine sv')"
    using assms
  proof (induction rule: web_run.induct)
    case (Request sv sv1 wb r)
    then show ?case using solo.serve_keeps [of sv1 wb r] by (auto simp: serve_def intro: served_steps)
  qed (rule served.Start)
  show "rounding_ok w \<Longrightarrow> engine_ok w (sv_engine sv) \<Longrightarrow> engine_ok w (sv_engine sv')"
    using served_ok [OF run] .
qed

lemma eg_fresh: "fresh_id eg_engine (wb_fresh eg_web 0)"
  by (auto simp: fresh_id_def eg_engine_def new_engine_def eg_file_value empty_store_def)

lemma server_refines_engine_witness:
  "served eg_world eg_engine (sv_engine (snd (serve eg_web (plain_request ''POST'' ''/memory'' ''ke'') eg_server)))
    \<and> engine_ok eg_world (sv_engine (snd (serve eg_web (plain_request ''POST'' ''/memory'' ''ke'') eg_server)))"
proof -
  have "web_run eg_world eg_server (snd (serve eg_web (plain_request ''POST'' ''/memory'' ''ke'') eg_server))"
    by (intro web_run.Request web_run.Boot) (simp_all add: same_algorithms_def eg_fresh [simplified])
  from server_refines_engine [OF this] show ?thesis using eg_rounding eg_engine_ok by simp
qed

section \<open>Nobody\<close>

text \<open>The tenant data of an engine, and an engine with other data.\<close>

definition with_data :: "(string \<Rightarrow> store) \<Rightarrow> (string \<Rightarrow> file_row list) \<Rightarrow> engine \<Rightarrow> engine" where
  "with_data files blobs e = e\<lparr>en_files := files, en_blobs := blobs\<rparr>"

definition same_data :: "engine \<Rightarrow> engine \<Rightarrow> bool" where
  "same_data e e' \<longleftrightarrow> en_files e' = en_files e \<and> en_blobs e' = en_blobs e"

text \<open>A request nobody stands behind.\<close>

definition anonymous :: "web \<Rightarrow> engine \<Rightarrow> request \<Rightarrow> bool" where
  "anonymous wb e r \<longleftrightarrow>
     (case resolve_bearer (wb_world wb) e (api_key_from_request r) of Inl _ \<Rightarrow> True | Inr _ \<Rightarrow> False)
     \<and> (wb_admin_key wb = [] \<or> api_key_from_request r \<noteq> wb_admin_key wb)"

lemma no_tenant:
  "anonymous wb e r \<Longrightarrow> \<exists>err. \<forall>rw f. with_tenant (wb_world wb) e (api_key_from_request r) rw f = Inl (AuthFailed err)"
  by (auto simp: anonymous_def with_tenant_def resolve_tenant_def split: sum.splits)

lemma no_admin: "anonymous wb e r \<Longrightarrow> \<not> require_admin wb r e"
  by (auto simp: anonymous_def require_admin_def get_current_identity_def resolve_tenant_def Let_def split: sum.splits)

lemma registry_only:
  "same_data e (snd (on_registry e f wrap))" "same_data e (snd (engine_store_code w e code ce))" "same_data e (snd (engine_take_code w e code))"
  "same_data e (snd (engine_store_ticket w e t ct))" "same_data e (snd (engine_take_ticket w e t))"
  "same_data e (snd (engine_put_client w e c us))" "same_data e (snd (mint_grant_by_id w e g raw i cl tm))"
  "same_data e (snd (forgot_password w e tok em))" "same_data e (snd (reset_password w e salt tok pw))"
  "same_data e (create_session w e raw i ttl)" "same_data e (engine_delete_session w e raw)"
  by (auto simp: same_data_def on_registry_def engine_store_code_def engine_take_code_def engine_store_ticket_def
      engine_take_ticket_def engine_put_client_def mint_grant_by_id_def forgot_password_def reset_password_def
      create_session_def engine_delete_session_def split: option.split sum.split prod.split)

lemma pair_data: "same_data e (snd out) \<Longrightarrow> out = (x, e') \<Longrightarrow> same_data e e'"
  by simp

lemmas pair_same = registry_only(2) [THEN pair_data] registry_only(3) [THEN pair_data] registry_only(4) [THEN pair_data]
  registry_only(5) [THEN pair_data] registry_only(6) [THEN pair_data] registry_only(7) [THEN pair_data]
  registry_only(8) [THEN pair_data] registry_only(9) [THEN pair_data]

lemma same_data_refl [simp]: "same_data e e"
  by (simp add: same_data_def)

lemma same_data_trans: "same_data e e1 \<Longrightarrow> same_data e1 e2 \<Longrightarrow> same_data e e2"
  by (simp add: same_data_def)

lemma finish_authorize_same: "same_data e (snd (finish_authorize wb k v i team e))"
  by (auto simp: finish_authorize_def Let_def split: option.split sum.split prod.split dest: pair_same)

lemma with_cookie_same: "same_data e (snd (with_cookie wb k r idn e))"
  by (auto simp: with_cookie_def set_session_cookie_def registry_only split: option.split)

lemma account_handlers_same:
  "same_data e (snd (handle_oauth_register wb r e))" "same_data e (snd (handle_authorize_submit wb r e))"
  "same_data e (snd (handle_authorize_workspace wb r e))" "same_data e (snd (handle_oauth_token wb r e))"
proof -
  show "same_data e (snd (handle_oauth_register wb r e))"
    by (auto simp: handle_oauth_register_def Let_def split: option.split sum.split prod.split dest: pair_same)
  have "same_data e (snd (offer_workspaces wb r i e))" for i
    by (auto simp: offer_workspaces_def Let_def finish_authorize_same split: option.split sum.split prod.split dest: pair_same)
  then show "same_data e (snd (handle_authorize_submit wb r e))"
    by (auto simp: handle_authorize_submit_def split: option.split sum.split)
  show "same_data e (snd (handle_authorize_workspace wb r e))"
    by (auto simp: handle_authorize_workspace_def split: option.split sum.split prod.split
        intro: same_data_trans [OF pair_same(4) finish_authorize_same] dest: pair_same)
  show "same_data e (snd (handle_oauth_token wb r e))"
    by (auto simp: handle_oauth_token_def split: option.split sum.split prod.split
        intro: same_data_trans [OF pair_same(2) pair_same(6)] dest: pair_same)
qed

lemma ui_handlers_same:
  "same_data e (snd (handle_ui_login wb r e))" "same_data e (snd (handle_ui_logout wb r e))"
  "same_data e (snd (handle_ui_forgot wb r e))" "same_data e (snd (handle_ui_reset wb r e))"
proof -
  show "same_data e (snd (handle_ui_login wb r e))"
    by (auto simp: handle_ui_login_def Let_def with_cookie_same split: sum.split)
  show "same_data e (snd (handle_ui_logout wb r e))"
    by (auto simp: handle_ui_logout_def Let_def registry_only split: option.split)
  show "same_data e (snd (handle_ui_forgot wb r e))"
    by (auto simp: handle_ui_forgot_def Let_def split: option.split sum.split prod.split dest: pair_same)
  show "same_data e (snd (handle_ui_reset wb r e))"
    by (auto simp: handle_ui_reset_def Let_def split: option.split sum.split prod.split
        intro: same_data_trans [OF pair_same(8) with_cookie_same] dest: pair_same)
qed

text \<open>A handler that answers the same whatever the data, and leaves everything as it is.\<close>

definition blind :: "handler \<Rightarrow> web \<Rightarrow> request \<Rightarrow> engine \<Rightarrow> bool" where
  "blind h wb r e \<longleftrightarrow> (\<forall>files blobs. h wb r (with_data files blobs e) = (fst (h wb r e), with_data files blobs e))"

lemma same_registry [simp]: "en_registry (with_data files blobs e) = en_registry e"
  by (simp add: with_data_def)

lemma with_data_same [simp]: "with_data (en_files e) (en_blobs e) e = e"
  by (simp add: with_data_def)

lemma resolve_with_data [simp]: "resolve_bearer w (with_data files blobs e) key = resolve_bearer w e key"
  by (simp add: resolve_bearer_def split: option.split sum.split)

lemma anonymous_with_data [simp]: "anonymous wb (with_data files blobs e) r = anonymous wb e r"
  by (simp add: anonymous_def)

lemma nobody:
  assumes "anonymous wb e r"
  obtains err where "\<And>files blobs rw. resolve_tenant (wb_world wb) (with_data files blobs e) (api_key_from_request r) rw = Inl (AuthFailed err)"
    and "\<And>rw. resolve_tenant (wb_world wb) e (api_key_from_request r) rw = Inl (AuthFailed err)"
    and "resolve_bearer (wb_world wb) e (api_key_from_request r) = Inl err"
    and "\<And>files blobs. require_admin wb r (with_data files blobs e) = False" and "require_admin wb r e = False"
proof -
  obtain err where err: "resolve_bearer (wb_world wb) e (api_key_from_request r) = Inl err"
    using assms by (auto simp: anonymous_def split: sum.splits)
  have "\<not> require_admin wb r (with_data files blobs e)" for files blobs
    using no_admin [of wb "with_data files blobs e" r] assms by simp
  moreover have "\<not> require_admin wb r e" using no_admin [OF assms] .
  ultimately show ?thesis using that [of err] err by (simp add: resolve_tenant_def)
qed

definition api_handlers :: "handler list" where
  "api_handlers =
     [handle_scope, handle_rebuild_fts, handle_me, handle_list_identities, handle_revoke_identity, handle_list_memories,
      handle_catalog, handle_taxonomy_template, handle_set_taxonomy_template, handle_edge_health, handle_graph,
      handle_suggest_links, handle_review_due, handle_add_review, handle_remove_review, handle_grade_review, handle_export,
      handle_export_memory, handle_search, handle_get_memory, handle_write_memory, handle_update_memory, handle_delete_memory,
      handle_deleted_memories, handle_memory_history, handle_restore_revision, handle_upload_file]"

lemmas read_defs = reply_read_def with_tenant_def engine_scope_def get_current_identity_def engine_list_def engine_catalog_def
  engine_template_def engine_edge_health_def engine_graph_def engine_suggest_def engine_due_def engine_search_def engine_get_def
  deleted_memories_def memory_history_def

lemma readers_blind:
  assumes "anonymous wb e r"
  shows "blind handle_scope wb r e" "blind handle_me wb r e" "blind handle_list_identities wb r e" "blind handle_list_memories wb r e"
    "blind handle_catalog wb r e" "blind handle_taxonomy_template wb r e" "blind handle_edge_health wb r e" "blind handle_graph wb r e"
    "blind handle_suggest_links wb r e" "blind handle_review_due wb r e" "blind handle_export wb r e" "blind handle_export_memory wb r e"
    "blind handle_search wb r e" "blind handle_get_memory wb r e" "blind handle_deleted_memories wb r e" "blind handle_memory_history wb r e"
proof -
  obtain err where err: "\<And>files blobs rw. resolve_tenant (wb_world wb) (with_data files blobs e) (api_key_from_request r) rw = Inl (AuthFailed err)"
    "\<And>rw. resolve_tenant (wb_world wb) e (api_key_from_request r) rw = Inl (AuthFailed err)"
    "resolve_bearer (wb_world wb) e (api_key_from_request r) = Inl err"
    and admin: "\<And>files blobs. require_admin wb r (with_data files blobs e) = False" "require_admin wb r e = False"
    using nobody [OF assms] by metis
  show "blind handle_scope wb r e" "blind handle_me wb r e" "blind handle_list_identities wb r e" "blind handle_list_memories wb r e"
    by (simp_all add: blind_def reader_defs read_defs admin_only_def handle_list_identities_def err admin Let_def split: option.split)
  show "blind handle_catalog wb r e" "blind handle_taxonomy_template wb r e" "blind handle_edge_health wb r e" "blind handle_graph wb r e"
    by (simp_all add: blind_def reader_defs read_defs admin_only_def handle_list_identities_def err admin Let_def split: option.split)
  show "blind handle_suggest_links wb r e" "blind handle_review_due wb r e" "blind handle_export wb r e" "blind handle_export_memory wb r e"
    by (simp_all add: blind_def reader_defs read_defs admin_only_def handle_list_identities_def err admin Let_def split: option.split)
  show "blind handle_search wb r e" "blind handle_get_memory wb r e" "blind handle_deleted_memories wb r e" "blind handle_memory_history wb r e"
    by (simp_all add: blind_def reader_defs read_defs admin_only_def handle_list_identities_def err admin Let_def split: option.split)
qed

lemmas write_defs = reply_write_def reply_outcome_def no_result_def with_tenant_def rebuild_fts_def get_current_identity_def
  engine_set_template_def engine_enrol_def engine_unenrol_def engine_grade_def write_memory_def engine_update_def engine_delete_def
  restore_revision_def upload_file_def resolve_identity_def handle_rebuild_fts_def handle_revoke_identity_def
  handle_set_taxonomy_template_def handle_add_review_def handle_remove_review_def handle_grade_review_def handle_write_memory_def
  handle_update_memory_def handle_delete_memory_def handle_restore_revision_def handle_upload_file_def

lemma writers_blind:
  assumes "anonymous wb e r"
  shows "blind handle_rebuild_fts wb r e" "blind handle_revoke_identity wb r e" "blind handle_set_taxonomy_template wb r e" "blind handle_add_review wb r e"
    "blind handle_remove_review wb r e" "blind handle_grade_review wb r e" "blind handle_write_memory wb r e" "blind handle_update_memory wb r e"
    "blind handle_delete_memory wb r e" "blind handle_restore_revision wb r e" "blind handle_upload_file wb r e"
proof -
  obtain err where err: "\<And>files blobs rw. resolve_tenant (wb_world wb) (with_data files blobs e) (api_key_from_request r) rw = Inl (AuthFailed err)"
    "\<And>rw. resolve_tenant (wb_world wb) e (api_key_from_request r) rw = Inl (AuthFailed err)"
    "resolve_bearer (wb_world wb) e (api_key_from_request r) = Inl err"
    and admin: "\<And>files blobs. require_admin wb r (with_data files blobs e) = False" "require_admin wb r e = False"
    using nobody [OF assms] by metis
  show "blind handle_rebuild_fts wb r e" "blind handle_revoke_identity wb r e" "blind handle_set_taxonomy_template wb r e" "blind handle_add_review wb r e"
    by (simp_all add: blind_def write_defs err admin Let_def split: option.split)
  show "blind handle_remove_review wb r e" "blind handle_grade_review wb r e" "blind handle_write_memory wb r e" "blind handle_update_memory wb r e"
    by (simp_all add: blind_def write_defs err admin Let_def split: option.split)
  show "blind handle_delete_memory wb r e" "blind handle_restore_revision wb r e" "blind handle_upload_file wb r e"
    by (simp_all add: blind_def write_defs err admin Let_def split: option.split)
qed

lemma api_blind:
  assumes "anonymous wb e r" and "h \<in> set api_handlers"
  shows "blind h wb r e"
proof -
  have "list_all (\<lambda>h. blind h wb r e) api_handlers"
    by (simp add: api_handlers_def readers_blind [OF assms(1)] writers_blind [OF assms(1)])
  then show ?thesis using assms(2) by (simp add: list_all_iff)
qed

lemma api_same: "blind h wb r e \<Longrightarrow> snd (h wb r e) = e"
  unfolding blind_def by (metis snd_conv with_data_same)

lemma handler_same_data:
  assumes "h \<in> set handlers" and "anonymous wb e r"
  shows "same_data e (snd (h wb r e))"
proof -
  have "list_all (\<lambda>h. h \<in> set readers \<or> h \<in> set api_handlers \<or> same_data e (snd (h wb r e))) handlers"
    using account_handlers_same ui_handlers_same by (simp add: handlers_def readers_def api_handlers_def)
  then have "h \<in> set readers \<or> h \<in> set api_handlers \<or> same_data e (snd (h wb r e))"
    using assms(1) by (auto simp: list_all_iff)
  then show ?thesis using reader_same [of h] api_same [OF api_blind [OF assms(2)]] by auto
qed

interpretation nobody: route_contract wb all_routes "anonymous wb" same_data for wb
proof
  fix rt r and sv :: server
  assume "rt \<in> set all_routes" and "anonymous wb (sv_engine sv) r"
  then show "same_data (sv_engine sv) (sv_engine (snd (rt_serve rt wb r sv)))"
    using handler_same_data [where wb = wb and e = "sv_engine sv" and r = r]
    by (intro route_engine [where R = same_data and e = "sv_engine sv"]) simp_all
next
  fix e r vs
  assume "anonymous wb e r"
  then show "anonymous wb e (r\<lparr>rq_vars := vs\<rparr>)" by (simp add: anonymous_def api_key_from_request_def)
qed simp

lemma in_api_handlers:
  "list_all (\<lambda>rt. rt_pattern rt = ''/files/{identity}/{id}'' \<or> (\<exists>h \<in> set api_handlers. rt_serve rt = handled h)) api_routes"
proof -
  have "\<And>h. h \<in> set api_handlers \<Longrightarrow> \<exists>h' \<in> set api_handlers. handled h = handled h'" by blast
  then show ?thesis by (simp add: api_routes_def api_handlers_def)
qed

lemma session_auth_request [simp]:
  "rq_method (session_auth wb e r) = rq_method r" "rq_path (session_auth wb e r) = rq_path r"
  "rq_query (session_auth wb e r) = rq_query r" "rq_broken (session_auth wb e r) = rq_broken r"
  by (simp_all add: session_auth_def set_header_def split: option.split)

lemma find_handler_headers: "find_handler rts (session_auth wb e r) = find_handler rts r"
proof -
  have "url_path (session_auth wb e r) = url_path r" by (simp add: url_path_def)
  then show ?thesis unfolding find_handler_def by (simp only: session_auth_request)
qed

lemma session_auth_with_data: "session_auth wb (with_data files blobs e) r = session_auth wb e r"
  by (simp add: session_auth_def engine_resolve_session_def split: option.split)

lemma serve_matched:
  assumes "find_handler rts r = Matched rt vars" and "\<not> rq_broken r"
  shows "fst (serve_routes rts wb r sv) =
     security_headers (fst (rt_serve rt wb ((session_auth wb (sv_engine sv) r)\<lparr>rq_vars := vars\<rparr>) sv))"
    and "sv_engine (snd (serve_routes rts wb r sv)) =
     sv_engine (snd (rt_serve rt wb ((session_auth wb (sv_engine sv) r)\<lparr>rq_vars := vars\<rparr>) sv))"
  using assms
  by (simp_all add: serve_routes_def buffer_body_def team_selector_def mux_serve_def find_handler_headers count_request_def split: prod.split)


lemma get_memories:
  "find_handler all_routes (plain_request ''GET'' ''/memories'' b)
    = Matched \<lparr>rt_method = ''GET'', rt_pattern = ''/memories'', rt_serve = handled handle_list_memories\<rparr> []"
  by (simp add: route_simps)

lemma eg_unknown: "resolve_bearer eg_world eg_engine ''nope'' = Inl (projl (resolve_bearer eg_world eg_engine ''nope''))"
  by code_simp


section \<open>Metric series\<close>

definition table_methods :: "string set" where
  "table_methods = {''GET'', ''HEAD'', ''POST'', ''PUT'', ''PATCH'', ''DELETE''}"

lemma route_methods: "rt \<in> set all_routes \<Longrightarrow> rt_method rt \<in> table_methods"
  by (auto simp: all_routes_def core_routes_def edition_routes_def account_routes_def api_routes_def page_routes_def table_methods_def)

lemma unknown_method: "meth \<notin> table_methods \<Longrightarrow> set rts \<subseteq> set all_routes \<Longrightarrow> find_route rts meth path = None"
proof (induction rts)
  case (Cons rt rts)
  then have "\<not> serves meth rt" using route_methods [of rt] by (auto simp: serves_def table_methods_def)
  then show ?case using Cons by simp
qed simp

lemma found_label:
  "find_route rts meth path = Some (rt, vars) \<Longrightarrow> rt \<in> set rts"
  by (induction rts) (auto split: option.splits if_splits)

lemma label_of_route: "rt \<in> set all_routes \<Longrightarrow> route_label (pattern_text (Some (rt, vars))) = rt_pattern rt"
  by (auto simp: all_routes_def core_routes_def edition_routes_def account_routes_def api_routes_def page_routes_def
      route_label_def pattern_text_def prefix_def)

text \<open>The route label of the request metrics is one of the registered patterns or \<^verbatim>\<open>unmatched\<close>, however
  many paths are probed; the method label is not bounded: every method name a client makes up starts a
  series of its own.\<close>

theorem metric_labels:
  shows "(route_label (found_pattern (find_handler all_routes r)) \<in> insert ''unmatched'' (rt_pattern ` set all_routes))
    \<and> (rq_method r \<notin> table_methods \<longrightarrow> (\<exists>status.
      sv_served (snd (serve wb r sv)) = (sv_served sv)((''unmatched'', rq_method r, status) := sv_served sv (''unmatched'', rq_method r, status) + 1)))"
proof (rule conjI; (intro impI)?)
  have lbl: "route_label (pattern_text m) \<in> insert ''unmatched'' (rt_pattern ` set all_routes)"
    if "m = find_route all_routes meth path" for m meth path
  proof (cases m)
    case None
    then show ?thesis by (simp add: pattern_text_def route_label_def)
  next
    case (Some p)
    have "fst p \<in> set all_routes" using found_label [of all_routes meth path "fst p" "snd p"] that Some by simp
    then show ?thesis using label_of_route [of "fst p" "snd p"] Some by simp
  qed
  have none: "route_label [] = ''unmatched''" by (simp add: route_label_def)
  show "route_label (found_pattern (find_handler all_routes r)) \<in> insert ''unmatched'' (rt_pattern ` set all_routes)"
  proof -
    define path where "path = (if rq_method r = ''CONNECT'' then rq_path r else clean_path (rq_path r))"
    have "found_pattern (find_handler all_routes r) \<in>
        {[], pattern_text (find_route all_routes (rq_method r) path), pattern_text (find_route all_routes (rq_method r) (path @ ''/''))}"
      unfolding find_handler_def Let_def path_def [symmetric]
      by (simp add: found_pattern_def split: option.split)
    then show ?thesis
      using lbl [OF refl, of "rq_method r" path] lbl [OF refl, of "rq_method r" "path @ ''/''"] none by auto
  qed
  assume m: "rq_method r \<notin> table_methods"
  then have nowhere: "find_route all_routes (rq_method r) path = None" for path by (simp add: unknown_method)
  then have f: "find_handler all_routes r = (if (if rq_method r = ''CONNECT'' then rq_path r else clean_path (rq_path r)) \<noteq> rq_path r
      then Moved (clean_path (rq_path r)) []
      else if allowed_methods all_routes (rq_path r) = [] then Unmatched else WrongMethod)"
    by (simp add: find_handler_def exact_match_def pattern_text_def Let_def)
  then have label: "route_label (found_pattern (find_handler all_routes r)) = ''unmatched''"
    by (simp add: found_pattern_def none)
  have "sv_served (snd (buffer_body (mux_serve all_routes) wb (team_selector (session_auth wb (sv_engine sv) r)) sv)) = sv_served sv"
    by (simp add: buffer_body_def team_selector_def mux_serve_def find_handler_headers f)
  then show "\<exists>status. sv_served (snd (serve wb r sv)) = (sv_served sv)((''unmatched'', rq_method r, status) := sv_served sv (''unmatched'', rq_method r, status) + 1)"
    unfolding serve_def serve_routes_def label
    by (auto simp: count_request_def split: prod.split)
qed

lemma metric_labels_witness:
  "\<exists>status. sv_served (snd (serve eg_web (plain_request ''XYZZY'' ''/'' ''k'') eg_server)) = (sv_served eg_server)((''unmatched'', ''XYZZY'', status) := 1)"
  using metric_labels [THEN conjunct2, of "plain_request ''XYZZY'' ''/'' ''k''" eg_web eg_server]
  by (simp add: table_methods_def eg_server_def new_server_def Let_def)

end
