(* ===== verification/Web_Flow.thy ===== *)
theory Web_Flow
  imports Web_Access
begin

text \<open>
  The authorization flow end to end: where a code goes and for whom, what its exchange needs and leaves
  behind, that the flow completes, and what an anonymous registration can do to it.
\<close>

section \<open>A code\<close>

text \<open>A code was issued: for the client and the challenge of the request, to a redirect URI registered for
  the client, standing for one identity and workspace for ten minutes.\<close>

definition issued :: "web \<Rightarrow> authorize_view \<Rightarrow> string \<Rightarrow> string \<Rightarrow> engine \<Rightarrow> response \<Rightarrow> engine \<Rightarrow> bool" where
  "issued wb v i team e rs e' \<longleftrightarrow> (\<exists>code row u.
     av_challenge v \<noteq> [] \<and> av_method v = ''S256''
     \<and> oauth_client (av_client v) (en_registry e) = Some row
     \<and> redirect_uri_allowed (wb_parse_url wb) (cl_uris row) (av_redirect v)
     \<and> wb_parse_url wb (av_redirect v) = Some u
     \<and> rs = redirect_to (wb_render_url wb (callback_url u code (av_state v)))
     \<and> tbl_get oc_code code (rg_codes (en_registry e')) = Some \<lparr>oc_code = code, oc_challenge = av_challenge v,
          oc_client = av_client v, oc_identity = i, oc_team = team, oc_expires = stamp (wd_now (wb_world wb) + ten_minutes)\<rparr>)"

lemma check_redirect_None:
  "check_redirect_uri wb e client uri = None \<longleftrightarrow>
     client \<noteq> [] \<and> (\<exists>row. oauth_client client (en_registry e) = Some row \<and> redirect_uri_allowed (wb_parse_url wb) (cl_uris row) uri)"
  by (auto simp: check_redirect_uri_def split: option.split)

lemma store_code_get:
  "engine_store_code w e code entry = (Inr x, e') \<Longrightarrow>
   tbl_get oc_code code (rg_codes (en_registry e')) = Some \<lparr>oc_code = code, oc_challenge = ce_challenge entry,
     oc_client = ce_client entry, oc_identity = ce_identity entry, oc_team = ce_team entry, oc_expires = stamp (ce_expiry entry)\<rparr>"
  by (auto simp: engine_store_code_def store_oauth_code_def Let_def split: option.splits prod.splits
      dest!: keyed_table.get_after_insert [OF keyed_table_tbl])

lemma errors_no_redirect [simp]:
  "rs_status (http_error msg n) = n" "rs_status (respond n b) = n" "rs_status (redirect_to u) = 302"
  "rs_status (render_authorize_form wb v n) = n" "rs_status (render_workspace_form wb v n) = n"
  "rs_status (add_header k val rs) = rs_status rs"
  by (simp_all add: http_error_def respond_def redirect_to_def render_authorize_form_def render_workspace_form_def html_page_def add_header_def)

lemma finish_issued:
  assumes "finish_authorize wb k v i team e = (rs, e')" and "rs_status rs = 302"
  shows "issued wb v i team e rs e'"
proof -
  from assms obtain code x u where "valid_pkce (av_challenge v) (av_method v)"
    and c: "check_redirect_uri wb e (av_client v) (av_redirect v) = None"
    and s: "engine_store_code (wb_world wb) e code
             \<lparr>ce_challenge = av_challenge v, ce_client = av_client v, ce_identity = i, ce_team = team,
              ce_expiry = wd_now (wb_world wb) + ten_minutes\<rparr> = (Inr x, e')"
    and u: "wb_parse_url wb (av_redirect v) = Some u" and rs: "rs = redirect_to (wb_render_url wb (callback_url u code (av_state v)))"
    by (auto simp: finish_authorize_def pkce_required_def plain_server_error_def split: if_splits option.splits sum.splits prod.splits)
  then show ?thesis
    using store_code_get [OF s] by (auto simp: issued_def valid_pkce_def check_redirect_None)
qed

lemma store_ticket_get:
  "engine_store_ticket w e ticket entry = (Inr x, e') \<Longrightarrow>
   tbl_get ct_ticket ticket (rg_consents (en_registry e')) = Some \<lparr>ct_ticket = ticket, ct_identity = co_identity entry,
     ct_teams = co_teams entry, ct_redirect = co_redirect entry, ct_state = co_state entry, ct_challenge = co_challenge entry,
     ct_method = co_method entry, ct_client = co_client entry, ct_expires = stamp (co_expiry entry)\<rparr>"
  by (auto simp: engine_store_ticket_def store_consent_ticket_def Let_def split: option.splits prod.splits
      dest!: keyed_table.get_after_insert [OF keyed_table_tbl])

text \<open>A ticket that stands for a password just given: for the person, the person's workspaces and the
  parameters of the form.\<close>

definition offered :: "web \<Rightarrow> request \<Rightarrow> string \<Rightarrow> engine \<Rightarrow> authorize_view \<Rightarrow> engine \<Rightarrow> bool" where
  "offered wb r i e v e' \<longleftrightarrow>
     tbl_get ct_ticket (av_ticket v) (rg_consents (en_registry e')) = Some \<lparr>ct_ticket = av_ticket v, ct_identity = i,
       ct_teams = map fst (workspaces_for wb e i), ct_redirect = form_value r ''redirect_uri'', ct_state = form_value r ''state'',
       ct_challenge = form_value r ''code_challenge'', ct_method = form_value r ''code_challenge_method'',
       ct_client = form_value r ''client_id'', ct_expires = stamp (wd_now (wb_world wb) + ten_minutes)\<rparr>"

definition signed_in :: "web \<Rightarrow> request \<Rightarrow> engine \<Rightarrow> string \<Rightarrow> bool" where
  "signed_in wb r e i \<longleftrightarrow> (\<exists>idn. iy_id idn = i \<and> is_confirmed i (en_registry e) = Inr True
     \<and> engine_authenticate (wb_world wb) e (form_value r ''email'') (form_value r ''password'') = Inr idn)"

lemma submit_signed_in:
  assumes "handle_authorize_submit wb r e = (rs, e')" and "rs_status rs \<in> {200, 302}"
  shows "\<exists>i. signed_in wb r e i \<and> offer_workspaces wb r i e = (rs, e')"
  using assms
  by (auto simp: handle_authorize_submit_def login_again_def plain_server_error_def signed_in_def split: if_splits option.splits sum.splits)

text \<open>C7: An authorization code leaves the server only for the password of a confirmed account, given with the
  request or with the one that drew the consent ticket, and only to a redirect URI registered for the
  client and with an S256 challenge; it is bound to client, challenge, person and a workspace that was
  offered to that person.\<close>

theorem code_goes_to_registered:
  shows "(handle_authorize_submit wb r e = (rs, e') \<longrightarrow> rs_status rs = 302 \<longrightarrow>
      (\<exists>i. signed_in wb r e i \<and> issued wb (form_view r) i [] e rs e'))
    \<and> (handle_authorize_submit wb r e = (rs, e') \<longrightarrow> rs_body rs = WorkspacePage v \<longrightarrow>
      (\<exists>i. signed_in wb r e i \<and> offered wb r i e v e'))
    \<and> (handle_authorize_workspace wb r e = (rs, e') \<longrightarrow> rs_status rs = 302 \<longrightarrow>
      (\<exists>t e1. engine_take_ticket (wb_world wb) e (form_value r ''ticket'') = (Inr (Some t), e1)
        \<and> form_value r ''team_id'' \<in> set (co_teams t)
        \<and> issued wb (ticket_view t) (co_identity t) (form_value r ''team_id'') e1 rs e'))"
proof (rule conjI [OF _ conjI]; (intro impI)?)
  { assume "handle_authorize_submit wb r e = (rs, e')" "rs_status rs = 302"
    then obtain i where "signed_in wb r e i" and o: "offer_workspaces wb r i e = (rs, e')" using submit_signed_in by blast
    moreover have "finish_authorize wb 0 (form_view r) i [] e = (rs, e')"
      using o \<open>rs_status rs = 302\<close>
      by (auto simp: offer_workspaces_def Let_def plain_server_error_def split: if_splits option.splits sum.splits prod.splits)
    ultimately show "\<exists>i. signed_in wb r e i \<and> issued wb (form_view r) i [] e rs e'"
      using finish_issued \<open>rs_status rs = 302\<close> by blast }
  { assume h: "handle_authorize_submit wb r e = (rs, e')" and b: "rs_body rs = WorkspacePage v"
    have bodies: "\<And>msg n. rs_body (http_error msg n) \<noteq> WorkspacePage v" "\<And>v' n. rs_body (render_authorize_form wb v' n) \<noteq> WorkspacePage v"
      "\<And>u. rs_body (redirect_to u) \<noteq> WorkspacePage v"
      by (simp_all add: http_error_def render_authorize_form_def html_page_def redirect_to_def)
    have f: "rs_body (fst (finish_authorize wb 0 v' i' [] e)) \<noteq> WorkspacePage v" for v' i'
      using bodies by (auto simp: finish_authorize_def pkce_required_def plain_server_error_def split: option.split sum.split prod.split)
    obtain i where si: "signed_in wb r e i" and o: "offer_workspaces wb r i e = (rs, e')"
      using h b bodies
      by (auto simp: handle_authorize_submit_def login_again_def plain_server_error_def signed_in_def
          split: if_splits option.splits sum.splits)
    have "offered wb r i e v e'"
      using o b f [of "form_view r" i] bodies(1)
      by (auto simp: offer_workspaces_def Let_def plain_server_error_def render_workspace_form_def html_page_def offered_def form_view_def
          split: if_splits option.splits sum.splits prod.splits dest!: store_ticket_get)
    then show "\<exists>i. signed_in wb r e i \<and> offered wb r i e v e'" using si by blast }
  { assume "handle_authorize_workspace wb r e = (rs, e')" "rs_status rs = 302"
    then show "\<exists>t e1. engine_take_ticket (wb_world wb) e (form_value r ''ticket'') = (Inr (Some t), e1)
        \<and> form_value r ''team_id'' \<in> set (co_teams t)
        \<and> issued wb (ticket_view t) (co_identity t) (form_value r ''team_id'') e1 rs e'"
      by (auto simp: handle_authorize_workspace_def plain_server_error_def split: if_splits option.splits sum.splits prod.splits
          intro: finish_issued) }
qed

section \<open>Its exchange\<close>

lemma take_code_Inr:
  "engine_take_code w e code = (Inr res, e') \<longleftrightarrow>
     require_registry_primary e = None \<and> res = fst (take_oauth_code code (wd_now w) (en_registry e))
     \<and> e' = put_registry (snd (take_oauth_code code (wd_now w) (en_registry e))) e"
  by (auto simp: engine_take_code_def on_registry_def split: option.split prod.split)

lemma find_last: "\<forall>x \<in> set xs. \<not> P x \<Longrightarrow> P y \<Longrightarrow> find P (xs @ [y]) = Some y"
  by (induction xs) auto

lemma minted:
  assumes "mint_grant_by_id w e g raw i client t = (Inr (key, gid), e')"
  shows "key = raw" and "rg_codes (en_registry e') = rg_codes (en_registry e)"
    and "\<exists>idn. iy_id idn = i \<and> resolve_grant (wd_hash w) key (en_registry e') = Some (idn, t)"
    and "t \<noteq> [] \<Longrightarrow> assert_member_of_team w e i t = None"
proof -
  from assms obtain idn gr r where i: "resolve_by_id i (en_registry e) = Inr idn"
    and m: "mint_delegated_grant (wd_hash w) g raw (client_or_unknown client) i t (wd_now w) (en_registry e) = Inr ((gr, key), r)"
    and t: "t \<noteq> [] \<Longrightarrow> assert_member_of_team w e i t = None" and e': "e' = put_registry r e"
    by (auto simp: mint_grant_by_id_def split: option.splits sum.splits prod.splits if_splits)
  then show "key = raw" "rg_codes (en_registry e') = rg_codes (en_registry e)" "t \<noteq> [] \<Longrightarrow> assert_member_of_team w e i t = None"
    by (auto simp: mint_delegated_grant_def insert_grant_def split: if_splits)
  let ?g = "\<lparr>gr_id = g, gr_client = client_or_unknown client, gr_identity = i, gr_created = stamp (wd_now w),
              gr_revoked = None, gr_key = Some (wd_hash w raw), gr_team = null_str t\<rparr>"
  have r: "r = (en_registry e)\<lparr>rg_grants := rg_grants (en_registry e) @ [?g]\<rparr>" and k: "key = raw"
    and fresh: "\<not> list_ex (grant_clash ?g) (rg_grants (en_registry e))"
    using m by (auto simp: mint_delegated_grant_def insert_grant_def split: if_splits)
  have "\<forall>x \<in> set (rg_grants (en_registry e)). gr_key x \<noteq> Some (wd_hash w raw)"
    using fresh by (auto simp: list_ex_iff grant_clash_def)
  then have "find (\<lambda>x. gr_key x = Some (wd_hash w raw) \<and> gr_revoked x = None) (rg_grants r) = Some ?g"
    unfolding r by (simp add: find_last)
  moreover have "resolve_by_id i r = Inr idn" using i unfolding r by (simp add: resolve_by_id_def)
  moreover have "iy_id idn = i" using i by (auto simp: resolve_by_id_def scan_identity_def split: option.splits dest: tbl_get_SomeD)
  moreover have "str_of (null_str t) = t" by (simp add: str_of_def null_str_def)
  ultimately show "\<exists>idn. iy_id idn = i \<and> resolve_grant (wd_hash w) key (en_registry e') = Some (idn, t)"
    unfolding e' k resolve_grant_def by (intro exI [of _ idn]) simp
qed

text \<open>C8: A grant is issued only against the code verifier of a code that is stored and has not expired; the
  key resolves to the person and workspace the code was issued for, and a workspace only to somebody who
  is still a member. Whatever the answer, the code presented is gone and no other code is touched.\<close>

theorem token_needs_verifier:
  assumes "handle_oauth_token wb r e = (rs, e')"
  shows "(rs_status rs = 200 \<longrightarrow> (\<exists>c idn. fst (take_oauth_code (form_value r ''code'') (wd_now (wb_world wb)) (en_registry e)) = Some c
      \<and> ce_challenge c \<noteq> [] \<and> pkce_challenge wb (form_value r ''code_verifier'') = ce_challenge c
      \<and> iy_id idn = ce_identity c \<and> resolve_grant (wd_hash (wb_world wb)) (wb_fresh wb 1) (en_registry e') = Some (idn, ce_team c)
      \<and> (ce_team c \<noteq> [] \<longrightarrow> assert_member_of_team (wb_world wb) e (ce_identity c) (ce_team c) = None)))
    \<and> (rq_form r \<noteq> None \<longrightarrow> require_registry_primary e = None \<longrightarrow>
      \<not> holds_code (form_value r ''code'') (en_registry e')
      \<and> (\<forall>k. k \<noteq> form_value r ''code'' \<longrightarrow> holds_code k (en_registry e') = holds_code k (en_registry e)))"
proof (rule conjI; (intro impI)?)
  let ?w = "wb_world wb" and ?code = "form_value r ''code''"
  have team: "assert_member_of_team ?w (put_registry (snd (take_oauth_code c n (en_registry e))) e) i t = assert_member_of_team ?w e i t"
    for c n i t
    by (simp add: assert_member_of_team_def team_by_id_def take_oauth_code_def Let_def split: option.split)
  show "rs_status rs = 200 \<Longrightarrow> \<exists>c idn. fst (take_oauth_code ?code (wd_now ?w) (en_registry e)) = Some c
      \<and> ce_challenge c \<noteq> [] \<and> pkce_challenge wb (form_value r ''code_verifier'') = ce_challenge c
      \<and> iy_id idn = ce_identity c \<and> resolve_grant (wd_hash ?w) (wb_fresh wb 1) (en_registry e') = Some (idn, ce_team c)
      \<and> (ce_team c \<noteq> [] \<longrightarrow> assert_member_of_team ?w e (ce_identity c) (ce_team c) = None)"
  proof -
    assume "rs_status rs = 200"
    then obtain c e1 key gid where tk: "engine_take_code ?w e ?code = (Inr (Some c), e1)" and c: "ce_challenge c \<noteq> []"
        "pkce_challenge wb (form_value r ''code_verifier'') = ce_challenge c"
      and m: "mint_grant_by_id ?w e1 (wb_fresh wb 0) (wb_fresh wb 1) (ce_identity c) (ce_client c) (ce_team c) = (Inr (key, gid), e')"
      using assms by (auto simp: handle_oauth_token_def invalid_grant_def split: if_splits option.splits sum.splits prod.splits)
    from tk have c1: "fst (take_oauth_code ?code (wd_now ?w) (en_registry e)) = Some c"
      and e1: "e1 = put_registry (snd (take_oauth_code ?code (wd_now ?w) (en_registry e))) e"
      by (simp_all add: take_code_Inr)
    obtain idn where "iy_id idn = ce_identity c" and "resolve_grant (wd_hash ?w) (wb_fresh wb 1) (en_registry e') = Some (idn, ce_team c)"
      using minted(1,3) [OF m] by auto
    then show ?thesis using c1 c minted(4) [OF m] unfolding e1 team by blast
  qed
  show "\<not> holds_code ?code (en_registry e') \<and> (\<forall>k. k \<noteq> ?code \<longrightarrow> holds_code k (en_registry e') = holds_code k (en_registry e))"
    if form: "rq_form r \<noteq> None" and lease: "require_registry_primary e = None"
  proof -
    obtain res r1 where tk: "take_oauth_code ?code (wd_now ?w) (en_registry e) = (res, r1)" by fastforce
    have e1: "engine_take_code ?w e ?code = (Inr res, put_registry r1 e)" using tk lease by (simp add: take_code_Inr)
    have minting: "rg_codes (en_registry e2) = rg_codes r1"
      if "mint_grant_by_id ?w (put_registry r1 e) g raw i cl t = (out, e2)" for g raw i cl t out e2
    proof (cases out)
      case (Inl err)
      then show ?thesis using that by (auto simp: mint_grant_by_id_def split: option.splits sum.splits prod.splits if_splits)
    next
      case (Inr x)
      then show ?thesis using minted(2) [of ?w "put_registry r1 e" g raw i cl t "fst x" "snd x" e2] that by simp
    qed
    have "rg_codes (en_registry e') = rg_codes r1"
      using assms form e1 by (auto simp: handle_oauth_token_def split: option.splits sum.splits prod.splits if_splits dest: minting)
    then have "holds_code k (en_registry e') = holds_code k r1" for k by (simp add: holds_code_def)
    then show ?thesis using codes.take_consumes [OF tk] codes.take_keeps [OF tk] by simp
  qed
qed

section \<open>A run\<close>

text \<open>One person with a password, one registered client.\<close>

definition eg_person :: registry where
  "eg_person = empty_registry\<lparr>rg_idents :=
        [\<lparr>ir_id = ''u'', ir_name = ''Ann'', ir_email = Some ''a@b'',
            ir_key = ''kraw'', ir_path = ''a.rekam'', ir_write = True,
            ir_admin = False,
            ir_pw = Some ''pbkdf2_sha256$1$c2FsdA$cGFzc3dvcmRzYWx0MDAwMDAwMDAwMDAwMDAwMDAwMDA'',
            ir_confirmed = True, ir_ctoken = None, ir_cexp = None,
            ir_rtoken = None, ir_rexp = None, ir_created = 1000\<rparr>]\<rparr>"

definition eg_flow :: engine where
  "eg_flow = new_engine (eg_person\<lparr>rg_clients := [\<lparr>cl_id = ''c'', cl_uris = [''https://c/cb''], cl_created = 1000\<rparr>]\<rparr>)
     (\<lambda>_. empty_store) (\<lambda>_. []) 2000 (None :: nat replication option) ''reg''"

definition eg_form :: "(string \<times> string) list \<Rightarrow> request" where
  "eg_form kvs = (plain_request ''POST'' ''/authorize'' [])\<lparr>rq_form := Some kvs\<rparr>"

definition eg_consent :: request where
  "eg_consent = eg_form [(''redirect_uri'', ''https://c/cb''), (''client_id'', ''c''), (''code_challenge'', ''dmVy''),
     (''code_challenge_method'', ''S256''), (''email'', ''a@b''), (''password'', ''password''), (''state'', ''s'')]"


lemma eg_consent_answer: "rs_status (fst (handle_authorize_submit eg_web eg_consent eg_flow)) = 302"
  by code_simp

lemma code_goes_to_registered_witness:
  "\<exists>i. signed_in eg_web eg_consent eg_flow i
     \<and> issued eg_web (form_view eg_consent) i [] eg_flow (fst (handle_authorize_submit eg_web eg_consent eg_flow))
         (snd (handle_authorize_submit eg_web eg_consent eg_flow))"
  by (rule code_goes_to_registered [THEN conjunct1, rule_format, OF surjective_pairing eg_consent_answer])

definition eg_coded :: engine where
  "eg_coded = put_registry ((en_registry eg_flow)\<lparr>rg_codes := [\<lparr>oc_code = ''r'', oc_challenge = ''dmVy'', oc_client = ''c'',
     oc_identity = ''u'', oc_team = [], oc_expires = 1600\<rparr>]\<rparr>) eg_flow"

definition eg_exchange :: request where
  "eg_exchange = eg_form [(''code'', ''r''), (''code_verifier'', ''ver'')]"

lemma eg_token_answer: "rs_status (fst (handle_oauth_token eg_web eg_exchange eg_coded)) = 200"
  by code_simp

lemma eg_token_taken: "rq_form eg_exchange \<noteq> None" "require_registry_primary eg_coded = None"
  by code_simp+

lemma token_needs_verifier_witness:
  "(\<exists>c idn. fst (take_oauth_code (form_value eg_exchange ''code'') (wd_now (wb_world eg_web)) (en_registry eg_coded)) = Some c
      \<and> ce_challenge c \<noteq> [] \<and> pkce_challenge eg_web (form_value eg_exchange ''code_verifier'') = ce_challenge c
      \<and> iy_id idn = ce_identity c
      \<and> resolve_grant (wd_hash (wb_world eg_web)) (wb_fresh eg_web 1) (en_registry (snd (handle_oauth_token eg_web eg_exchange eg_coded))) = Some (idn, ce_team c)
      \<and> (ce_team c \<noteq> [] \<longrightarrow> assert_member_of_team (wb_world eg_web) eg_coded (ce_identity c) (ce_team c) = None))
   \<and> \<not> holds_code (form_value eg_exchange ''code'') (en_registry (snd (handle_oauth_token eg_web eg_exchange eg_coded)))"
  using token_needs_verifier [OF surjective_pairing, of eg_web eg_exchange eg_coded] eg_token_answer eg_token_taken by blast

section \<open>The flow completes\<close>

lemma assert_home: "mint_grant_by_id w e g raw i client [] =
  (case require_registry_primary e of
     Some err \<Rightarrow> (Inl err, e)
   | None \<Rightarrow>
      (case resolve_by_id i (en_registry e) of
         Inl err \<Rightarrow> (Inl (AuthFailed err), e)
       | Inr _ \<Rightarrow>
          (case mint_delegated_grant (wd_hash w) g raw (client_or_unknown client) i [] (wd_now w) (en_registry e) of
             Inl err \<Rightarrow> (Inl (RegistryError err), e)
           | Inr ((gr, key), r) \<Rightarrow> (Inr (key, gt_id gr), put_registry r e))))"
  by (simp add: mint_grant_by_id_def split: option.split sum.split)

lemma store_fresh_code:
  assumes "require_registry_primary e = None" and "\<not> holds_code code (en_registry e)"
  shows "\<exists>r. engine_store_code w e code entry = (Inr (), put_registry r e)
     \<and> tbl_get oc_code code (rg_codes r) = Some \<lparr>oc_code = code, oc_challenge = ce_challenge entry,
          oc_client = ce_client entry, oc_identity = ce_identity entry, oc_team = ce_team entry, oc_expires = stamp (ce_expiry entry)\<rparr>
     \<and> rg_idents r = rg_idents (en_registry e) \<and> rg_grants r = rg_grants (en_registry e)"
proof -
  let ?row = "\<lparr>oc_code = code, oc_challenge = ce_challenge entry, oc_client = ce_client entry, oc_identity = ce_identity entry,
      oc_team = ce_team entry, oc_expires = stamp (ce_expiry entry)\<rparr>"
  let ?kept = "filter (\<lambda>c. \<not> oc_expires c < stamp (wd_now w)) (rg_codes (en_registry e))"
  have "code \<notin> oc_code ` set ?kept" using assms(2) by (auto simp: holds_code_def tbl_has_iff)
  then have ins: "tbl_ins oc_code ?row ?kept = Some (?kept @ [?row])" by (simp add: tbl_ins_Some_iff)
  show ?thesis
  proof (intro exI [of _ "(en_registry e)\<lparr>rg_codes := ?kept @ [?row]\<rparr>"] conjI)
    show "engine_store_code w e code entry = (Inr (), put_registry ((en_registry e)\<lparr>rg_codes := ?kept @ [?row]\<rparr>) e)"
      by (simp add: engine_store_code_def store_oauth_code_def Let_def assms(1) ins)
    show "tbl_get oc_code code (rg_codes ((en_registry e)\<lparr>rg_codes := ?kept @ [?row]\<rparr>)) = Some ?row"
      using keyed_table.get_after_insert [OF keyed_table_tbl ins] by simp
  qed simp_all
qed

lemma mint_fresh:
  assumes "require_registry_primary e = None" and "resolve_by_id i (en_registry e) = Inr idn"
    and "\<forall>x \<in> set (rg_grants (en_registry e)). gr_id x \<noteq> g \<and> gr_key x \<noteq> Some (wd_hash w raw)"
  shows "\<exists>gid e'. mint_grant_by_id w e g raw i client [] = (Inr (raw, gid), e')"
  using assms by (auto simp: assert_home mint_delegated_grant_def insert_grant_def list_ex_iff grant_clash_def)

lemma signed_in_person: "signed_in wb r e i \<Longrightarrow> \<exists>idn. resolve_by_id i (en_registry e) = Inr idn"
  by (auto simp: signed_in_def is_confirmed_def resolve_by_id_def split: option.splits)

text \<open>C31: The flow completes: a person with one workspace who gives the right password to a registered client
  is redirected with a code, and the client that knows the verifier exchanges it within ten minutes, on a
  node with the write lease, for a key that resolves to that person.\<close>

theorem oauth_flow_completes:
  assumes lease: "require_registry_primary e = None" and form: "rq_form r \<noteq> None" "rq_form r' \<noteq> None"
    and client: "check_redirect_uri wb e (form_value r ''client_id'') (form_value r ''redirect_uri'') = None"
    and target: "wb_parse_url wb (form_value r ''redirect_uri'') = Some u"
    and pkce: "valid_pkce (form_value r ''code_challenge'') (form_value r ''code_challenge_method'')"
    and person: "signed_in wb r e i" "length (workspaces_for wb e i) < 2"
    and draw: "wb_random wb 0 16 = Some code" "\<not> holds_code code (en_registry e)"
    and exchange: "form_value r' ''code'' = code" "pkce_challenge wb' (form_value r' ''code_verifier'') = form_value r ''code_challenge''"
    and time: "\<not> after (wd_now (wb_world wb')) (stamp (wd_now (wb_world wb) + ten_minutes))"
    and fresh: "\<forall>x \<in> set (rg_grants (en_registry e)). gr_id x \<noteq> wb_fresh wb' 0 \<and> gr_key x \<noteq> Some (wd_hash (wb_world wb') (wb_fresh wb' 1))"
  shows "\<exists>e1 rs e2 idn. handle_authorize_submit wb r e = (redirect_to (wb_render_url wb (callback_url u code (form_value r ''state''))), e1)
    \<and> handle_oauth_token wb' r' e1 = (rs, e2) \<and> rs_status rs = 200
    \<and> iy_id idn = i \<and> resolve_grant (wd_hash (wb_world wb')) (wb_fresh wb' 1) (en_registry e2) = Some (idn, [])"
proof -
  let ?entry = "\<lparr>ce_challenge = form_value r ''code_challenge'', ce_client = form_value r ''client_id'', ce_identity = i, ce_team = [],
      ce_expiry = wd_now (wb_world wb) + ten_minutes\<rparr>"
  obtain f f' where form1: "rq_form r = Some f" and form2: "rq_form r' = Some f'" using form by auto
  obtain r1 where st: "engine_store_code (wb_world wb) e code ?entry = (Inr (), put_registry r1 e)"
    and held: "tbl_get oc_code code (rg_codes r1) = Some \<lparr>oc_code = code, oc_challenge = form_value r ''code_challenge'',
        oc_client = form_value r ''client_id'', oc_identity = i, oc_team = [], oc_expires = stamp (wd_now (wb_world wb) + ten_minutes)\<rparr>"
    and kept: "rg_idents r1 = rg_idents (en_registry e)" "rg_grants r1 = rg_grants (en_registry e)"
    using store_fresh_code [OF lease draw(2), of "wb_world wb" ?entry] by auto
  obtain ident where auth: "engine_authenticate (wb_world wb) e (form_value r ''email'') (form_value r ''password'') = Inr ident"
    and id: "iy_id ident = i" and conf: "is_confirmed i (en_registry e) = Inr True"
    using person(1) by (auto simp: signed_in_def)
  have submit: "handle_authorize_submit wb r e = (redirect_to (wb_render_url wb (callback_url u code (form_value r ''state''))), put_registry r1 e)"
    using form1 client target pkce person(2) draw(1) st auth id conf
    by (simp add: handle_authorize_submit_def offer_workspaces_def finish_authorize_def form_view_def Let_def)
  obtain r2 where tk: "take_oauth_code code (wd_now (wb_world wb')) r1 = (Some (?entry\<lparr>ce_expiry := stamp (ce_expiry ?entry) * nanos\<rparr>), r2)"
    and same: "rg_idents r2 = rg_idents r1" "rg_grants r2 = rg_grants r1"
    using held time by (simp add: take_oauth_code_def Let_def)
  have lease1: "require_registry_primary (put_registry r2 e) = None" "require_registry_primary (put_registry r1 e) = None"
    using lease by (simp_all add: require_registry_primary_def)
  obtain idn where idn: "resolve_by_id i (en_registry (put_registry r2 e)) = Inr idn"
    using signed_in_person [OF person(1)] kept same by (auto simp: resolve_by_id_def)
  have unused: "\<forall>x \<in> set (rg_grants (en_registry (put_registry r2 e))). gr_id x \<noteq> wb_fresh wb' 0 \<and> gr_key x \<noteq> Some (wd_hash (wb_world wb') (wb_fresh wb' 1))"
    using fresh kept same by simp
  obtain gid e2 where mint: "mint_grant_by_id (wb_world wb') (put_registry r2 e) (wb_fresh wb' 0) (wb_fresh wb' 1) i (form_value r ''client_id'') []
      = (Inr (wb_fresh wb' 1, gid), e2)"
    using mint_fresh [OF lease1(1) idn unused] by blast
  have "engine_take_code (wb_world wb') (put_registry r1 e) code = (Inr (Some (?entry\<lparr>ce_expiry := stamp (ce_expiry ?entry) * nanos\<rparr>)), put_registry r2 e)"
    using tk lease1 by (simp add: take_code_Inr)
  then have "\<exists>rs. handle_oauth_token wb' r' (put_registry r1 e) = (rs, e2) \<and> rs_status rs = 200"
    using form2 exchange pkce mint by (simp add: handle_oauth_token_def valid_pkce_def)
  moreover obtain who where "iy_id who = i" "resolve_grant (wd_hash (wb_world wb')) (wb_fresh wb' 1) (en_registry e2) = Some (who, [])"
    using minted(3) [OF mint] by blast
  ultimately show ?thesis using submit by blast
qed

lemma oauth_flow_completes_witness:
  "\<exists>e1 rs e2 idn. handle_authorize_submit eg_web eg_consent eg_flow = (redirect_to (eg_render_url (callback_url (eg_url ''https'' ''c'') ''r'' ''s'')), e1)
    \<and> handle_oauth_token eg_web eg_exchange e1 = (rs, e2) \<and> rs_status rs = 200
    \<and> iy_id idn = ''u'' \<and> resolve_grant id ''fx'' (en_registry e2) = Some (idn, [])"
proof -
  have person: "signed_in eg_web eg_consent eg_flow ''u''"
    unfolding signed_in_def by (rule exI [of _ "projr (engine_authenticate eg_world eg_flow ''a@b'' ''password'')"], intro conjI) code_simp+
  have form: "rq_form eg_consent \<noteq> None" "rq_form eg_exchange \<noteq> None"
    "check_redirect_uri eg_web eg_flow (form_value eg_consent ''client_id'') (form_value eg_consent ''redirect_uri'') = None"
    "wb_parse_url eg_web (form_value eg_consent ''redirect_uri'') = Some (eg_url ''https'' ''c'')"
    "valid_pkce (form_value eg_consent ''code_challenge'') (form_value eg_consent ''code_challenge_method'')"
    "form_value eg_exchange ''code'' = ''r''"
    "pkce_challenge eg_web (form_value eg_exchange ''code_verifier'') = form_value eg_consent ''code_challenge''"
    by code_simp+
  have more: "require_registry_primary eg_flow = None" "length (workspaces_for eg_web eg_flow ''u'') < 2"
    "wb_random eg_web 0 16 = Some ''r''" "\<not> holds_code ''r'' (en_registry eg_flow)"
    "\<not> after (wd_now (wb_world eg_web)) (stamp (wd_now (wb_world eg_web) + ten_minutes))"
    "\<forall>x \<in> set (rg_grants (en_registry eg_flow)). gr_id x \<noteq> wb_fresh eg_web 0 \<and> gr_key x \<noteq> Some (wd_hash (wb_world eg_web) (wb_fresh eg_web 1))"
    by code_simp+
  have vals: "form_value eg_consent ''state'' = ''s''" "wd_hash eg_world = id"
    by (code_simp, simp add: eg_world_def)
  show ?thesis
    using oauth_flow_completes [OF more(1) form(1,2,3,4,5) person more(2,3,4) form(6,7) more(5,6)] vals by simp
qed

section \<open>Registration\<close>

text \<open>Registration is open to everybody and replaces: whoever names an existing \<^verbatim>\<open>client_id\<close>, without any
  credential, makes the own redirect URI the only one that client's codes go to, so a consent to the known
  client is delivered to the stranger, and the client's own URIs are refused from then on.\<close>

theorem registration_hijack:
  assumes lease: "require_registry_primary e = None" and known: "oauth_client c (en_registry e) = Some row"
    and body: "rq_json r = Some (JObj [(''client_id'', JStr c), (''redirect_uris'', JArr [JStr uri])])" "c \<noteq> []" "uri \<noteq> []"
    and target: "wb_parse_url wb uri = Some u"
  shows "\<exists>rs e'. handle_oauth_register wb r e = (rs, e') \<and> rs_status rs = 201
    \<and> check_redirect_uri wb e' c uri = None
    \<and> (\<forall>own. check_redirect_uri wb e' c own = None \<longleftrightarrow> redirect_uri_allowed (wb_parse_url wb) [uri] own)"
proof -
  let ?r = "(en_registry e)\<lparr>rg_clients := tbl_upd cl_id c (\<lambda>x. x\<lparr>cl_uris := [uri]\<rparr>) (rg_clients (en_registry e))\<rparr>"
  have put: "engine_put_client (wb_world wb) e c [uri] = (Inr (), put_registry ?r e)"
    using lease known body(2)
    by (auto simp: engine_put_client_def on_registry_def put_oauth_client_def oauth_client_def tbl_has_iff dest: tbl_get_SomeD)
  have row: "oauth_client c ?r = Some (row\<lparr>cl_uris := [uri]\<rparr>)"
    using known by (simp add: oauth_client_def tbl_get_upd)
  have check: "check_redirect_uri wb (put_registry ?r e) c own = None \<longleftrightarrow> redirect_uri_allowed (wb_parse_url wb) [uri] own" for own
    using row body(2) by (simp add: check_redirect_None)
  have "redirect_uri_allowed (wb_parse_url wb) [uri] uri"
    using target by (simp add: redirect_uri_allowed_def)
  moreover have "\<exists>rs. handle_oauth_register wb r e = (rs, put_registry ?r e) \<and> rs_status rs = 201"
    using body put by (simp add: handle_oauth_register_def map_value_def string_list_def)
  ultimately show ?thesis using check by blast
qed

definition eg_takeover :: request where
  "eg_takeover = (plain_request ''POST'' ''/register'' [])\<lparr>rq_json := Some (JObj [(''client_id'', JStr ''c''), (''redirect_uris'', JArr [JStr ''https://x/cb''])])\<rparr>"

lemma registration_hijack_witness:
  "\<exists>rs e'. handle_oauth_register eg_web eg_takeover eg_flow = (rs, e') \<and> rs_status rs = 201
    \<and> check_redirect_uri eg_web e' ''c'' ''https://x/cb'' = None
    \<and> (\<forall>own. check_redirect_uri eg_web e' ''c'' own = None \<longleftrightarrow> redirect_uri_allowed (wb_parse_url eg_web) [''https://x/cb''] own)"
proof -
  have lease: "require_registry_primary eg_flow = None" by code_simp
  have known: "oauth_client ''c'' (en_registry eg_flow) = Some \<lparr>cl_id = ''c'', cl_uris = [''https://c/cb''], cl_created = 1000\<rparr>"
    by code_simp
  show ?thesis
    by (rule registration_hijack [OF lease known, where u = "eg_url ''https'' ''x''"]) (simp_all add: eg_takeover_def eg_parse_url_def)
qed

end
