(* ===== verification/Web_Sessions.thy ===== *)
theory Web_Sessions
  imports Web_Flow
begin

text \<open>
  Browser sessions over HTTP: what a password reset takes when no mail goes out, and what becomes of a
  session whose write is passed on to another node.
\<close>

section \<open>Recovery without mail\<close>

lemma reset_pending:
  assumes ok: "idents_ok (rg_idents r)" and known: "tbl_get ir_email (Some m) (rg_idents r) = Some row"
    and unused: "\<forall>x \<in> set (rg_idents r). ir_rtoken x \<noteq> Some token"
    and live: "stamp now' < stamp (now + ttl)"
  shows "find (live_reset token now') (rg_idents (snd (set_reset_token token (ir_id row) ttl now r)))
    = Some (row\<lparr>ir_rtoken := Some token, ir_rexp := Some (stamp (now + ttl))\<rparr>)"
proof -
  let ?f = "\<lambda>x. x\<lparr>ir_rtoken := Some token, ir_rexp := Some (stamp (now + ttl))\<rparr> :: ident_row"
  have row: "row \<in> set (rg_idents r)" using known by (auto dest: tbl_get_SomeD)
  have only: "x = row" if "x \<in> set (rg_idents r)" "ir_id x = ir_id row" for x
    using idents_ok_unique [OF ok that(1) row] that(2) by (simp add: ident_clash_def)
  have "find (live_reset token now') (map (\<lambda>x. if ir_id x = ir_id row then ?f x else x) xs) = Some (?f row)"
    if "row \<in> set xs" "set xs \<subseteq> set (rg_idents r)" for xs
    using that
  proof (induction xs)
    case (Cons x xs)
    show ?case
    proof (cases "ir_id x = ir_id row")
      case True
      then have "x = row" using Cons.prems only by auto
      then show ?thesis using live by (simp add: live_reset_def)
    next
      case False
      then have "row \<in> set xs" using Cons.prems by auto
      moreover have "\<not> live_reset token now' x" using Cons.prems unused by (auto simp: live_reset_def)
      ultimately show ?thesis using Cons False by simp
    qed
  qed simp
  from this [OF row] show ?thesis by (simp add: set_reset_token_def update_identity_def tbl_upd_def)
qed

definition reset_link :: "request \<Rightarrow> string \<Rightarrow> string" where
  "reset_link r token = request_base_url r @ ''/ui/reset?token='' @ token"

lemma session_just_made:
  assumes "tbl_wf ss_hash (rg_sessions (en_registry e))"
  shows "engine_resolve_session w (create_session w e sid i session_ttl) sid = Some i"
proof -
  have n: "0 < nanos" by (simp add: nanos_def)
  have "session_ttl = 604800 * nanos" by (simp add: session_ttl_def)
  then have later: "stamp (wd_now w + session_ttl) = stamp (wd_now w) + 604800"
    using n div_mult_self2 [of nanos "wd_now w" 604800] by (simp add: stamp_def mult.commute)
  moreover have "wd_now w = stamp (wd_now w) * nanos + wd_now w mod nanos" by (simp add: stamp_def)
  moreover have "wd_now w mod nanos < nanos" using n by simp
  moreover have "(stamp (wd_now w) + 604800) * nanos = stamp (wd_now w) * nanos + 604800 * nanos" by (simp add: algebra_simps)
  ultimately have "\<not> after (wd_now w) (stamp (wd_now w + session_ttl))"
    using n unfolding after_def later by linarith
  then show ?thesis
    using resolve_after_store [OF assms order_refl]
    by (simp add: engine_resolve_session_def create_session_def)
qed

text \<open>Without a mail provider, or when the mail cannot be sent, knowing the e-mail address of an account
  is enough to own it: \<^verbatim>\<open>POST /ui/forgot\<close> hands the reset code to whoever asks, and with it
  \<^verbatim>\<open>POST /ui/reset\<close> sets a password and opens a session of that account. When a mail does go out, the
  link in it leads to the host the asking request named.\<close>

theorem recovery_without_mail:
  assumes ok: "reg_ok (en_registry e)" and lease: "require_registry_primary e = None"
    and asked: "body_string ''email'' r = Some m" and known: "lookup_by_email (normalize_email m) (en_registry e) = Some idn"
    and unused: "\<forall>x \<in> set (rg_idents (en_registry e)). ir_rtoken x \<noteq> Some (wb_fresh wb 0)"
  shows "try_send wb (iy_email idn) ((if is_https r then ''https'' else ''http'') @ ''://'' @ rq_host r @ ''/ui/reset?token='' @ wb_fresh wb 0) \<Longrightarrow>
      rs_body (fst (handle_ui_forgot wb r e)) = Fields [(''status'', JStr ''ok''), (''email_sent'', JBool True), (''email'', JStr (iy_email idn))]"
    and "\<not> try_send wb (iy_email idn) (reset_link r (wb_fresh wb 0))
      \<Longrightarrow> query_of r' ''token'' = wb_fresh wb 0 \<Longrightarrow> trim_space (wb_fresh wb 0) \<noteq> []
      \<Longrightarrow> body_string ''password'' r' = Some pw \<Longrightarrow> length pw \<in> {min_password..max_password}
      \<Longrightarrow> wd_kdf (wb_world wb') pw (wb_fresh wb' 0) pbkdf2_iter pbkdf2_key_len \<noteq> None
      \<Longrightarrow> wb_random wb' 0 24 = Some sid
      \<Longrightarrow> stamp (wd_now (wb_world wb')) < stamp (wd_now (wb_world wb) + minutes 30)
      \<Longrightarrow> \<exists>rs e1 rs' e2 kvs. handle_ui_forgot wb r e = (rs, e1) \<and> rs_body rs = Fields kvs
        \<and> (''reset_code'', JStr (wb_fresh wb 0)) \<in> set kvs
        \<and> handle_ui_reset wb' r' e1 = (rs', e2) \<and> rs_status rs' = 200
        \<and> map ck_value (rs_cookies rs') = [sid] \<and> engine_resolve_session (wb_world wb') e2 sid = Some (iy_id idn)"
proof -
  let ?token = "wb_fresh wb 0" and ?w = "wb_world wb"
  obtain row where row: "tbl_get ir_email (Some (normalize_email (normalize_email m))) (rg_idents (en_registry e)) = Some row"
    and idn: "idn = scan_identity row"
    using known by (auto simp: lookup_by_email_def)
  let ?r1 = "snd (set_reset_token ?token (ir_id row) (minutes 30) (wd_now ?w) (en_registry e))"
  have id: "iy_id idn = ir_id row" by (simp add: idn scan_identity_def)
  have forgot: "forgot_password ?w e ?token m = (Inr (Some idn, ?token), put_registry ?r1 e)"
    using lease known id by (simp add: forgot_password_def on_registry_def set_reset_token_def)
  show "rs_body (fst (handle_ui_forgot wb r e)) = Fields [(''status'', JStr ''ok''), (''email_sent'', JBool True), (''email'', JStr (iy_email idn))]"
    if "try_send wb (iy_email idn) ((if is_https r then ''https'' else ''http'') @ ''://'' @ rq_host r @ ''/ui/reset?token='' @ ?token)"
    using that asked forgot by (simp add: handle_ui_forgot_def request_base_url_def respond_def Let_def)
  assume sent: "\<not> try_send wb (iy_email idn) (reset_link r ?token)"
    and token: "query_of r' ''token'' = ?token" "trim_space ?token \<noteq> []"
    and pw: "body_string ''password'' r' = Some pw" "length pw \<in> {min_password..max_password}"
    and kdf: "wd_kdf (wb_world wb') pw (wb_fresh wb' 0) pbkdf2_iter pbkdf2_key_len \<noteq> None"
    and sid: "wb_random wb' 0 24 = Some sid"
    and time: "stamp (wd_now (wb_world wb')) < stamp (wd_now ?w + minutes 30)"
  let ?w' = "wb_world wb'" and ?row = "row\<lparr>ir_rtoken := Some ?token, ir_rexp := Some (stamp (wd_now ?w + minutes 30))\<rparr>"
  have idents: "idents_ok (rg_idents (en_registry e))" and sessions: "tbl_wf ss_hash (rg_sessions (en_registry e))"
    using ok by (simp_all add: reg_ok_def flow_ok_def)
  have found: "find (live_reset ?token (wd_now ?w')) (rg_idents ?r1) = Some ?row"
    using reset_pending [OF idents row unused time] .
  obtain enc where "hash_password (wd_kdf ?w') (wb_fresh wb' 0) pw = Inr enc"
    using kdf pw(2) by (auto simp: hash_password_def)
  then obtain r2 where res: "reset_password_by_token (wd_kdf ?w') (wb_fresh wb' 0) ?token pw (wd_now ?w') ?r1 = Inr (scan_identity ?row, r2)"
    and kept: "rg_sessions r2 = rg_sessions ?r1"
    using found by (auto simp: reset_password_by_token_def update_identity_def)
  have lease1: "require_registry_primary (put_registry ?r1 e) = None" using lease by (simp add: require_registry_primary_def)
  have reset: "reset_password ?w' (put_registry ?r1 e) (wb_fresh wb' 0) ?token pw = (Inr (scan_identity ?row), put_registry r2 e)"
    using lease1 pw(2) res by (simp add: reset_password_def on_registry_def)
  have wf: "tbl_wf ss_hash (rg_sessions (en_registry (put_registry r2 e)))"
    using sessions kept by (simp add: set_reset_token_def update_identity_def)
  have who: "iy_id (scan_identity ?row) = iy_id idn" by (simp add: id scan_identity_def)
  have "\<exists>rs kvs. handle_ui_forgot wb r e = (rs, put_registry ?r1 e) \<and> rs_body rs = Fields kvs \<and> (''reset_code'', JStr ?token) \<in> set kvs"
    using asked forgot sent by (simp add: handle_ui_forgot_def reset_link_def respond_def Let_def)
  moreover have "\<exists>rs' e2. handle_ui_reset wb' r' (put_registry ?r1 e) = (rs', e2) \<and> rs_status rs' = 200 \<and> map ck_value (rs_cookies rs') = [sid]
      \<and> engine_resolve_session ?w' e2 sid = Some (iy_id idn)"
    using token pw(1) reset sid who session_just_made [OF wf, of ?w' sid "iy_id idn"]
    by (simp add: handle_ui_reset_def Let_def with_cookie_def set_session_cookie_def respond_def)
  ultimately show "\<exists>rs e1 rs' e2 kvs. handle_ui_forgot wb r e = (rs, e1) \<and> rs_body rs = Fields kvs
        \<and> (''reset_code'', JStr ?token) \<in> set kvs \<and> handle_ui_reset wb' r' e1 = (rs', e2) \<and> rs_status rs' = 200
        \<and> map ck_value (rs_cookies rs') = [sid] \<and> engine_resolve_session ?w' e2 sid = Some (iy_id idn)"
    by (elim exE conjE) (intro exI conjI, assumption+)
qed

lemma eg_flow_ok: "reg_ok (en_registry eg_flow)"
  by (simp add: eg_flow_def new_engine_def eg_person_def empty_registry_def reg_ok_def idents_ok_def grants_ok_def index_ok_def ents_ok_def
      flow_ok_def tbl_wf_def)

definition eg_forgot :: request where
  "eg_forgot = (plain_request ''POST'' ''/ui/forgot'' [])\<lparr>rq_json := Some (JObj [(''email'', JStr ''a@b'')])\<rparr>"

definition eg_reset :: request where
  "eg_reset = (plain_request ''POST'' ''/ui/reset'' [])\<lparr>rq_query := [(''token'', ''f'')], rq_json := Some (JObj [(''password'', JStr ''password'')])\<rparr>"

lemma recovery_without_mail_witness:
  "\<exists>rs e1 rs' e2 kvs. handle_ui_forgot eg_web eg_forgot eg_flow = (rs, e1) \<and> rs_body rs = Fields kvs
     \<and> (''reset_code'', JStr ''f'') \<in> set kvs \<and> handle_ui_reset eg_web eg_reset e1 = (rs', e2) \<and> rs_status rs' = 200
     \<and> map ck_value (rs_cookies rs') = [''r''] \<and> engine_resolve_session eg_world e2 ''r'' = Some ''u''"
proof -
  have lease: "require_registry_primary eg_flow = None" by code_simp
  have asked: "body_string ''email'' eg_forgot = Some ''a@b''" "body_string ''password'' eg_reset = Some ''password''"
    "query_of eg_reset ''token'' = ''f''" "trim_space ''f'' \<noteq> []"
    by code_simp+
  have known: "lookup_by_email (normalize_email ''a@b'') (en_registry eg_flow) = Some \<lparr>iy_id = ''u'', iy_name = ''Ann'', iy_email = ''a@b'',
            iy_key = ''kraw'', iy_path = ''a.rekam'', iy_write = True, iy_admin = False, iy_created = 1000\<rparr>"
    by code_simp
  have rest: "length ''password'' \<in> {min_password..max_password}" "pbkdf2_iter = pbkdf2_iter"
    "stamp (wd_now (wb_world eg_web)) < stamp (wd_now (wb_world eg_web) + minutes 30)"
    "wd_kdf (wb_world eg_web) ''password'' (wb_fresh eg_web 0) pbkdf2_iter pbkdf2_key_len \<noteq> None"
    "\<forall>x \<in> set (rg_idents (en_registry eg_flow)). ir_rtoken x \<noteq> Some (wb_fresh eg_web 0)"
    by (simp_all add: min_password_def max_password_def eg_world_def stamp_def minutes_def nanos_def plain_kdf_def
        eg_flow_def new_engine_def eg_person_def)
  have vals: "wb_fresh eg_web 0 = ''f''" "wb_random eg_web 0 24 = Some ''r''" "\<not> wb_mailer eg_web" by simp_all
  show ?thesis
    using recovery_without_mail(2) [OF eg_flow_ok lease asked(1) known rest(5) _ _ _ asked(2) rest(1,4) vals(2) rest(3)] asked vals
    by (simp add: try_send_def)
qed

section \<open>A session on another node\<close>

text \<open>A write of a signed-in browser that arrives on a node without the write lease cannot succeed: it is
  passed on with the bearer this process signed, which the other process, having drawn a secret of its
  own, does not know, and the cookie that travels with it is not consulted, even where it is valid.\<close>

theorem forwarded_session_refused:
  assumes bare: "header_of r ''Authorization'' = []" and cookie: "cookie_of r session_cookie = Some sid"
    and here: "engine_resolve_session (wb_world wb) e sid = Some i" and id: "i \<noteq> []" "CHR ''|'' \<notin> set i"
    and secrets: "wd_mac (wb_world wb') i \<noteq> wd_mac (wb_world wb) i"
    and unknown: "resolve_grant (wd_hash (wb_world wb')) (session_token_for (wd_mac (wb_world wb)) i []) (en_registry e') = None"
      "resolve_key (wd_hash (wb_world wb')) (session_token_for (wd_mac (wb_world wb)) i []) (en_registry e') = Inl err"
  shows "session_auth wb' e' (set_header forwarded_header ''1'' (session_auth wb e r))
      = set_header forwarded_header ''1'' (session_auth wb e r)"
    and "resolve_bearer (wb_world wb') e' (api_key_from_request (set_header forwarded_header ''1'' (session_auth wb e r))) = Inl err"
    and "resolve_bearer (wb_world wb) e (api_key_from_request (session_auth wb e r)) =
      (case resolve_by_id i (en_registry e) of Inl x \<Rightarrow> Inl x | Inr idn \<Rightarrow> Inr (idn, []))"
proof -
  let ?tok = "session_token_for (wd_mac (wb_world wb)) i []"
  let ?f = "set_header forwarded_header ''1'' (session_auth wb e r)"
  have auth: "session_auth wb e r = set_header ''Authorization'' (''Bearer '' @ ?tok) r"
    using bare cookie here by (simp add: session_auth_def)
  have bearer: "header_of ?f ''Authorization'' = ''Bearer '' @ ?tok"
    by (simp add: auth set_header_def first_value_def forwarded_header_def)
  have tok: "?tok \<noteq> []" by (simp add: session_token_for_def session_prefix_def)
  have key: "api_key_from_request ?f = ?tok" using bearer tok by (simp add: api_key_from_request_def Let_def)
  show "session_auth wb' e' ?f = ?f" using bearer by (simp add: session_auth_def)
  have dot: "last_index_byte (CHR ''.'') (i @ CHR ''.'' # hex_encode (wd_mac (wb_world wb) i)) = Some (length i)"
    using last_index_append [OF hex_no_dot] .
  have "identity_from_session_token (wd_mac (wb_world wb')) ?tok = None"
    using dot id secrets secrets [symmetric]
    by (simp add: identity_from_session_token_def session_token_for_def session_prefix_def Let_def)
  then show "resolve_bearer (wb_world wb') e' (api_key_from_request ?f) = Inl err"
    using unknown by (simp add: resolve_bearer_def key)
  have "api_key_from_request (session_auth wb e r) = ?tok"
    using tok by (simp add: auth api_key_from_request_def set_header_def first_value_def Let_def)
  then show "resolve_bearer (wb_world wb) e (api_key_from_request (session_auth wb e r)) =
      (case resolve_by_id i (en_registry e) of Inl x \<Rightarrow> Inl x | Inr idn \<Rightarrow> Inr (idn, []))"
    using token_roundtrip [OF id(2,1), of "wd_mac (wb_world wb)" "[]"] by (simp add: resolve_bearer_def)
qed

definition eg_other :: web where
  "eg_other = eg_web\<lparr>wb_world := eg_world\<lparr>wd_mac := (\<lambda>s. s @ s)\<rparr>\<rparr>"

definition eg_login :: engine where
  "eg_login = create_session eg_world eg_flow ''cook'' ''u'' session_ttl"

definition eg_browser :: request where
  "eg_browser = (plain_request ''POST'' ''/memory'' [])\<lparr>rq_headers := [], rq_cookies := [(''rekam_session'', ''cook'')]\<rparr>"

lemma forwarded_session_refused_witness:
  "resolve_bearer (wb_world eg_other) eg_login
       (api_key_from_request (set_header forwarded_header ''1'' (session_auth eg_web eg_login eg_browser))) = Inl reg_error.UnknownKey
   \<and> engine_resolve_session (wb_world eg_other) eg_login ''cook'' = Some ''u''"
proof -
  have here: "engine_resolve_session (wb_world eg_web) eg_login ''cook'' = Some ''u''"
    "engine_resolve_session (wb_world eg_other) eg_login ''cook'' = Some ''u''"
    "header_of eg_browser ''Authorization'' = []" "cookie_of eg_browser session_cookie = Some ''cook''"
    by code_simp+
  have other: "wd_mac (wb_world eg_other) ''u'' \<noteq> wd_mac (wb_world eg_web) ''u''"
    "resolve_grant (wd_hash (wb_world eg_other)) (session_token_for (wd_mac (wb_world eg_web)) ''u'' []) (en_registry eg_login) = None"
    "resolve_key (wd_hash (wb_world eg_other)) (session_token_for (wd_mac (wb_world eg_web)) ''u'' []) (en_registry eg_login) = Inl reg_error.UnknownKey"
    by code_simp+
  show ?thesis
    using forwarded_session_refused(2) [OF here(3,4,1) _ _ other] here(2) by simp
qed

end
