(* ===== verification/Mcp_Properties.thy ===== *)
theory Mcp_Properties
  imports Mcp_Server Web_Sessions
begin

text \<open>
  The MCP server acts on the engine through its operations only, over every transport; its tool hints are
  true; what a session keeps of its key; what a tool makes of its arguments.
\<close>

section \<open>The contract of the transports\<close>

text \<open>\<open>K\<close> is what is known of the key a message acts with, \<open>R\<close> what its dispatch may do to the engine: the
  transports add nothing.\<close>

locale rpc_contract =
  fixes env :: mcp_env and K :: "engine \<Rightarrow> string \<Rightarrow> bool" and R :: "engine \<Rightarrow> engine \<Rightarrow> bool"
  assumes answer_keeps: "K e key \<Longrightarrow> R e (snd (dispatch env key msg e))" and rest: "R e e"
begin

lemma streamable_keeps:
  "K (mc_engine s) (team_bound_key env (mc_engine s) r) \<Longrightarrow> R (mc_engine s) (mc_engine (snd (handle_streamable env r s)))"
  using answer_keeps [of "mc_engine s"]
  by (auto simp: handle_streamable_def Let_def rest split: option.split prod.split) (metis snd_conv)

lemma message_keeps:
  assumes "query_of r ''session_id'' = [] \<Longrightarrow> K (mc_engine s) (team_bound_key env (mc_engine s) r)"
    and "\<And>ss. mc_sessions s (query_of r ''session_id'') = Some ss \<Longrightarrow> K (mc_engine s) (ms_key ss)"
  shows "R (mc_engine s) (mc_engine (snd (handle_message env r s)))"
  using assms answer_keeps [of "mc_engine s"]
  by (auto simp: handle_message_def Let_def rest split: option.split prod.split) (metis snd_conv)+

lemma sse_keeps: "R (mc_engine s) (mc_engine (snd (handle_sse env r s)))"
  by (simp add: handle_sse_def Let_def rest)

lemma transport_keeps:
  assumes "K (mc_engine s) (team_bound_key env (mc_engine s) r)"
    and "\<And>ss. mc_sessions s (query_of r ''session_id'') = Some ss \<Longrightarrow> K (mc_engine s) (ms_key ss)"
  shows "R (mc_engine s) (mc_engine (snd (sse_handler env r s)))"
  using streamable_keeps [OF assms(1)] message_keeps [OF assms] sse_keeps rest
  by (auto simp: sse_handler_def Let_def split: prod.split) (metis snd_conv)+

end

section \<open>Tools\<close>

lemma tool_read_same [simp]: "snd (tool_read res f e) = e"
  by (simp add: tool_read_def)

lemma tool_write_steps:
  assumes "\<And>x e'. res = Inr (x, e') \<Longrightarrow> engine_step w e e'"
  shows "steps w e (snd (tool_write res f e))"
  using assms by (auto simp: tool_write_def split: sum.split prod.split intro: r_into_rtranclp)

lemma reading_tools:
  assumes "t \<in> set tool_entries" and "tl_read_only t"
  shows "snd (tl_call t env key args e) = e"
proof -
  have "list_all (\<lambda>t. tl_read_only t \<longrightarrow> snd (tl_call t env key args e) = e) tool_entries"
    by (simp add: tool_entries_def reading_tool_def writing_tool_def catalog_handler_def search_handler_def get_memory_handler_def
        list_teams_handler_def deleted_memories_handler_def memory_history_handler_def memory_scope_handler_def
        edge_health_handler_def graph_handler_def suggest_links_handler_def)
  then show ?thesis using assms by (simp add: list_all_iff)
qed

lemma writing_tools:
  "fresh_id e (wb_fresh (mc_web env) 0) \<Longrightarrow> steps (env_world env) e (snd (write_memory_handler env key args e))"
  "steps (env_world env) e (snd (update_memory_handler env key args e))"
  "steps (env_world env) e (snd (restore_revision_handler env key args e))"
  "steps (env_world env) e (snd (delete_memory_handler env key args e))"
  "steps (env_world env) e (snd (rebuild_fts_handler env key args e))"
  by (auto simp: write_memory_handler_def update_memory_handler_def restore_revision_handler_def delete_memory_handler_def
      rebuild_fts_handler_def no_result_Inr split: option.split sum.split prod.split intro!: tool_write_steps
      intro: engine_step.intros r_into_rtranclp)

lemma tool_steps:
  assumes "t \<in> set tool_entries" and "fresh_id e (wb_fresh (mc_web env) 0)"
  shows "steps (env_world env) e (snd (tl_call t env key args e))"
proof (cases "tl_read_only t")
  case True
  then show ?thesis by (simp add: reading_tools [OF assms(1)])
next
  case False
  then have "tl_call t \<in> {write_memory_handler, update_memory_handler, restore_revision_handler, delete_memory_handler, rebuild_fts_handler}"
    using assms(1) by (auto simp: tool_entries_def reading_tool_def writing_tool_def)
  then show ?thesis using writing_tools assms(2) by auto
qed

lemma tool_handler_in: "tool_handler name = Some t \<Longrightarrow> t \<in> set tool_entries \<and> tl_name t = name"
  by (auto simp: tool_handler_def find_Some_iff)

lemma dispatch_other:
  "mg_method msg \<noteq> ''tools/call'' \<Longrightarrow> snd (dispatch env key msg e) = e"
  by (auto simp: dispatch_def Let_def handle_initialize_def handle_resource_read_def resource_read_def split: option.split)

lemma tool_call_snd:
  "snd (handle_tool_call env key msg e) = (case tool_params (mg_params msg) of
     None \<Rightarrow> e
   | Some (name, args) \<Rightarrow> (case tool_handler name of None \<Rightarrow> e | Some t \<Rightarrow> snd (tl_call t env key args e)))"
  by (simp add: handle_tool_call_def split: option.split prod.split sum.split)

lemma dispatch_steps:
  assumes "fresh_id e (wb_fresh (mc_web env) 0)"
  shows "steps (env_world env) e (snd (dispatch env key msg e))"
proof (cases "mg_method msg = ''tools/call''")
  case True
  then have "snd (dispatch env key msg e) = snd (handle_tool_call env key msg e)" by (simp add: dispatch_def)
  then show ?thesis using tool_steps assms tool_handler_in by (auto simp: tool_call_snd split: option.split)
next
  case False
  then show ?thesis by (simp add: dispatch_other)
qed

interpretation mcp: rpc_contract env "\<lambda>e key. True"
  "\<lambda>e e'. fresh_id e (wb_fresh (mc_web env) 0) \<longrightarrow> steps (env_world env) e e'" for env
  by unfold_locales (simp_all add: dispatch_steps)

text \<open>
  Runs: requests over HTTP, the loops of the event streams, ends of connections, and calls of the same
  engine from the other server.
\<close>

inductive mcp_run :: "world \<Rightarrow> mcp_server \<Rightarrow> mcp_server \<Rightarrow> bool" for w where
  Boot: "mcp_run w s s"
| Http: "mcp_run w s s1 \<Longrightarrow> same_algorithms w (env_world env) \<Longrightarrow> fresh_id (mc_engine s1) (wb_fresh (mc_web env) 0)
    \<Longrightarrow> mcp_run w s (snd (sse_handler env r s1))"
| Stream: "mcp_run w s s1 \<Longrightarrow> mcp_run w s (snd (sse_forward sid s1))"
| Hangup: "mcp_run w s s1 \<Longrightarrow> mcp_run w s (sse_close sid s1)"
| Elsewhere: "mcp_run w s s1 \<Longrightarrow> same_algorithms w w' \<Longrightarrow> engine_step w' (mc_engine s1) e \<Longrightarrow> mcp_run w s (s1\<lparr>mc_engine := e\<rparr>)"

text \<open>The MCP server refines the engine over every transport, interleaved with the other server as it may
  be; a tool with the read-only hint changes nothing whatever its arguments, every other tool carries the
  destructive hint.\<close>

theorem mcp_refines_engine:
  shows "mcp_run w s s' \<Longrightarrow> served w (mc_engine s) (mc_engine s')"
    and "t \<in> set tool_entries \<Longrightarrow> tl_read_only t \<Longrightarrow> snd (tl_call t env key args e) = e"
    and "t \<in> set tool_entries \<Longrightarrow> tl_read_only t = (\<not> tl_destructive t)"
proof -
  show "mcp_run w s s' \<Longrightarrow> served w (mc_engine s) (mc_engine s')"
  proof (induction rule: mcp_run.induct)
    case (Http s s1 env r)
    then show ?case using mcp.transport_keeps [of s1 r env] by (auto intro: served_steps)
  next
    case (Stream s s1 sid)
    then show ?case by (simp add: sse_forward_def split: option.split list.split)
  qed (auto simp: sse_close_def intro: served.intros)
  show "t \<in> set tool_entries \<Longrightarrow> tl_read_only t \<Longrightarrow> snd (tl_call t env key args e) = e" by (rule reading_tools)
  show "t \<in> set tool_entries \<Longrightarrow> tl_read_only t = (\<not> tl_destructive t)"
    by (auto simp: tool_entries_def reading_tool_def writing_tool_def)
qed

definition eg_env :: mcp_env where "eg_env = \<lparr>mc_web = eg_web, mc_overflow = (\<lambda>_. 0)\<rparr>"

definition eg_mcp :: mcp_server where "eg_mcp = \<lparr>mc_engine = eg_engine, mc_sessions = Map.empty\<rparr>"

lemma mcp_refines_engine_witness:
  "served eg_world eg_engine (mc_engine (snd (sse_handler eg_env (plain_request ''POST'' ''/mcp'' ''ke'') eg_mcp)))
   \<and> snd (tl_call (hd tool_entries) eg_env ''kv'' [] eg_engine) = eg_engine"
proof -
  have "mcp_run eg_world eg_mcp (snd (sse_handler eg_env (plain_request ''POST'' ''/mcp'' ''ke'') eg_mcp))"
    using eg_fresh by (intro mcp_run.Http mcp_run.Boot) (simp_all add: same_algorithms_def eg_env_def eg_mcp_def)
  from mcp_refines_engine(1) [OF this] mcp_refines_engine(2) [of "hd tool_entries" eg_env "''kv''" "[]" eg_engine] show ?thesis
    by (simp add: eg_mcp_def tool_entries_def reading_tool_def)
qed

section \<open>Sessions and revocation\<close>

lemma bound_key:
  assumes "identity_from_session_token (wd_mac w) key = None" and "resolve_grant (wd_hash w) key (en_registry e) = Some (idn, t)" and "team \<noteq> []"
  shows "bearer_for_team w e key team = Inr (session_token_for (wd_mac w) (iy_id idn) team)"
  using assms by (simp add: bearer_for_team_def resolve_bearer_def)

lemma revoked_unknown:
  assumes ok: "grants_ok (rg_grants r)" and g: "tbl_get gr_id g (rg_grants r) = Some row" "gr_key row = Some (hash key)"
    and rev: "revoke_grant g now r = Inr r'"
  shows "resolve_grant hash key r' = None" and "rg_idents r' = rg_idents r"
proof -
  have r': "r' = r\<lparr>rg_grants := tbl_upd gr_id g (\<lambda>x. x\<lparr>gr_revoked := Some (stamp now)\<rparr>) (rg_grants r)\<rparr>"
    using g rev by (auto simp: revoke_grant_def split: if_splits)
  then show "rg_idents r' = rg_idents r" by simp
  have row: "row \<in> set (rg_grants r)" "gr_id row = g" using g by (auto dest: tbl_get_SomeD)
  have "\<not> (gr_key x = Some (hash key) \<and> gr_revoked x = None)" if x: "x \<in> set (rg_grants r')" for x
  proof -
    from x obtain y where y: "y \<in> set (rg_grants r)"
      and xy: "x = (if gr_id y = g then y\<lparr>gr_revoked := Some (stamp now)\<rparr> else y)"
      unfolding r' by (auto simp: tbl_upd_def)
    then have "gr_key y = Some (hash key) \<Longrightarrow> y = row"
      using grants_ok_unique [OF ok y row(1)] g(2) by (simp add: grant_clash_def)
    then show ?thesis using xy row(2) by auto
  qed
  then have "find (\<lambda>x. gr_key x = Some (hash key) \<and> gr_revoked x = None) (rg_grants r') = None"
    by (simp add: find_None_iff)
  then show "resolve_grant hash key r' = None" by (simp add: resolve_grant_def)
qed


lemma handle_sse_engine [simp]: "mc_engine (snd (handle_sse env r s)) = mc_engine s"
  by (simp add: handle_sse_def Let_def)

definition eg_stream_request :: request where
  "eg_stream_request = (plain_request ''GET'' ''/mcp/sse'' [])\<lparr>rq_headers := [(''Authorization'', ''Bearer ku''), (''X-Rekam-Team'', ''t'')]\<rparr>"


section \<open>Arguments\<close>

lemma field_values_one:
  assumes "distinct (map fst kvs)" and "\<forall>kv \<in> set kvs. to_lower (fst kv) = fst kv"
  shows "field_values name kvs = (case map_value name kvs of None \<Rightarrow> [] | Some v \<Rightarrow> [v])"
  using assms
proof (induction kvs)
  case (Cons kv kvs)
  have last: "map_of (rev (kv # kvs)) name = (if fst kv = name then Some (snd kv) else map_of (rev kvs) name)"
  proof (cases "fst kv = name")
    case True
    then have "name \<notin> fst ` set kvs" using Cons.prems(1) by auto
    then have "map_of (rev kvs) name = None" by (simp add: map_of_eq_None_iff)
    then show ?thesis using True by (simp add: map_add_def)
  next
    case False
    then show ?thesis by (simp add: map_add_def split: option.split)
  qed
  have "field_values name (kv # kvs) = (if fst kv = name then [snd kv] else []) @ field_values name kvs"
    using Cons.prems(2) by (simp add: field_values_def)
  moreover have "fst kv = name \<Longrightarrow> map_value name kvs = None"
    using Cons.prems(1) by (auto simp: map_value_def map_of_eq_None_iff)
  ultimately show ?case using Cons last by (simp add: map_value_def)
qed (simp add: field_values_def map_value_def)

definition well_typed :: "mcp_env \<Rightarrow> arguments \<Rightarrow> bool" where
  "well_typed env kvs \<longleftrightarrow> distinct (map fst kvs) \<and> (\<forall>kv \<in> set kvs. to_lower (fst kv) = fst kv
     \<and> (if fst kv = ''base_version''
        then (\<exists>n. snd kv = JInt n \<and> - (2 ^ 63) \<le> n \<and> n < 2 ^ 63 \<and> wd_round (env_world env) (of_int n) = of_int n)
        else (\<exists>s. snd kv = JStr s)))"

lemma well_typed_str:
  assumes "well_typed env kvs" and "name \<noteq> ''base_version''"
  shows "str_field name kvs = Some (str_arg kvs name)" and "str_pointer name kvs = Some (opt_str_arg kvs name)"
proof -
  have one: "field_values name kvs = (case map_value name kvs of None \<Rightarrow> [] | Some v \<Rightarrow> [v])"
    by (rule field_values_one) (use assms in \<open>simp_all add: well_typed_def\<close>)
  have "\<exists>s. v = JStr s" if "map_value name kvs = Some v" for v
  proof -
    have "(name, v) \<in> set kvs" using map_of_SomeD [OF that [unfolded map_value_def]] by simp
    then show ?thesis using assms by (auto simp: well_typed_def)
  qed
  then show "str_field name kvs = Some (str_arg kvs name)" and "str_pointer name kvs = Some (opt_str_arg kvs name)"
    by (auto simp: str_field_def str_pointer_def str_arg_def opt_str_arg_def one split: option.split)
qed

lemma well_typed_base:
  assumes "well_typed env kvs"
  shows "int_pointer ''base_version'' kvs = Some (int_arg env kvs ''base_version'')"
proof -
  have one: "field_values ''base_version'' kvs = (case map_value ''base_version'' kvs of None \<Rightarrow> [] | Some v \<Rightarrow> [v])"
    by (rule field_values_one) (use assms in \<open>simp_all add: well_typed_def\<close>)
  have "\<exists>n. v = JInt n \<and> - (2 ^ 63) \<le> n \<and> n < 2 ^ 63 \<and> wd_round (env_world env) (of_int n) = of_int n"
    if "map_value ''base_version'' kvs = Some v" for v
  proof -
    have "(''base_version'', v) \<in> set kvs" using map_of_SomeD [OF that [unfolded map_value_def]] by simp
    then show ?thesis using assms by (auto simp: well_typed_def)
  qed
  then show ?thesis
    by (auto simp: int_pointer_def int_arg_def int_of_float_def one Let_def split: option.split)
qed


definition eg_args :: arguments where
  "eg_args = [(''id'', JStr ''m1''), (''content'', JStr ''c''), (''base_version'', JInt 1)]"

definition eg_edit :: request where
  "eg_edit = (plain_request ''PATCH'' ''/memory/m1'' ''ke'')\<lparr>rq_json := Some (JObj eg_args), rq_vars := [(''id'', ''m1'')]\<rparr>"

definition eg_text_args :: arguments where
  "eg_text_args = [(''id'', JStr ''m1''), (''content'', JStr ''c''), (''base_version'', JStr ''1'')]"


end
