(* ===== verification/Shell_Env.thy ===== *)
theory Shell_Env
  imports Web_Data
begin

text \<open>
  What the command reads before it does anything (\<^verbatim>\<open>cmd/rekam/main.go\<close>): the environment and the \<^verbatim>\<open>.env\<close> file
  that \<^verbatim>\<open>install\<close> writes, listen addresses, and the flags as the package \<^verbatim>\<open>flag\<close> parses them.
\<close>

section \<open>The environment\<close>

text \<open>\<^verbatim>\<open>os.Getenv\<close> answers the empty text for what is not set; \<^verbatim>\<open>os.Setenv\<close> refuses an empty name, a name with
  \<^verbatim>\<open>=\<close> and zero bytes.\<close>

type_synonym environ = "string \<Rightarrow> string"

definition setenv :: "string \<Rightarrow> string \<Rightarrow> environ \<Rightarrow> environ" where
  "setenv k v env =
     (if k = [] \<or> CHR ''='' \<in> set k \<or> CHR 0x00 \<in> set (k @ v) then env else env(k := v))"

definition env_or :: "string \<Rightarrow> string \<Rightarrow> environ \<Rightarrow> string" where
  "env_or k def env = (if env k \<noteq> [] then env k else def)"

definition env_int :: "string \<Rightarrow> int \<Rightarrow> environ \<Rightarrow> int" where
  "env_int k def env =
     (if env k = [] then def else (case atoi (env k) of Some n \<Rightarrow> n | None \<Rightarrow> def))"

definition env_line :: "string \<Rightarrow> environ \<Rightarrow> environ" where
  "env_line raw env =
     (let line = trim_space raw in
      if line = [] \<or> prefix ''#'' line then env
      else (case str_cut ''='' line of
              None \<Rightarrow> env
            | Some (k, v) \<Rightarrow> if env k = [] then setenv k v env else env))"

text \<open>\<open>data\<close> is what is in \<^verbatim>\<open>~/.rekam/.env\<close>, \<open>None\<close> without a home or the file.\<close>

definition auto_load_env :: "string option \<Rightarrow> environ \<Rightarrow> environ" where
  "auto_load_env data env =
     (if env ''REKAM_REGISTRY'' \<noteq> [] then env
      else (case data of
              None \<Rightarrow> env
            | Some text_of \<Rightarrow> fold env_line (split_on (CHR 0x0A) text_of) env))"

text \<open>The file \<^verbatim>\<open>install\<close> writes; its first line has a dash of three bytes.\<close>

definition env_lines :: "string \<Rightarrow> string \<Rightarrow> int \<Rightarrow> string \<Rightarrow> string list" where
  "env_lines registry addr budget key =
     [''# rekam '' @ [CHR 0xE2, CHR 0x80, CHR 0x94] @ '' generated by rekam install'',
      ''REKAM_REGISTRY='' @ registry, ''REKAM_ADDR='' @ addr, ''REKAM_TOKEN_BUDGET='' @ itoa budget, ''REKAM_API_KEY='' @ key]"

definition env_content :: "string \<Rightarrow> string \<Rightarrow> int \<Rightarrow> string \<Rightarrow> string" where
  "env_content registry addr budget key = concat (map (\<lambda>l. l @ [CHR 0x0A]) (env_lines registry addr budget key))"

section \<open>Addresses\<close>

definition normalize_addr :: "string \<Rightarrow> string" where
  "normalize_addr addr = (if addr \<noteq> [] \<and> CHR '':'' \<notin> set addr then CHR '':'' # addr else addr)"

definition default_listen_addr :: "string \<Rightarrow> string" where
  "default_listen_addr edition = (if edition = ''solo'' then ''127.0.0.1:5000'' else '':5000'')"

text \<open>The URL \<^verbatim>\<open>status\<close> asks.\<close>

definition server_addr :: "string \<Rightarrow> string" where
  "server_addr addr =
     (if prefix ''http'' addr then addr
      else if prefix '':'' addr then ''http://localhost'' @ addr
      else ''http://'' @ addr)"

definition ping_url :: "string \<Rightarrow> string" where
  "ping_url addr = rev (dropWhile (\<lambda>c. c = CHR ''/'') (rev (server_addr addr))) @ ''/catalog''"

section \<open>Flags\<close>

datatype flag_kind = Words | Switch | Number

datatype flag_fault = BadSyntax string | Undefined string | NeedsValue string | BadValue string string | HelpWanted

definition parse_bool :: "string \<Rightarrow> bool option" where
  "parse_bool s =
     (if s \<in> {''1'', ''t'', ''T'', ''TRUE'', ''true'', ''True''} then Some True
      else if s \<in> {''0'', ''f'', ''F'', ''FALSE'', ''false'', ''False''} then Some False
      else None)"

text \<open>\<^verbatim>\<open>strconv.ParseInt\<close> with base 0: the prefix names the base, underscores may separate digits.\<close>

definition alnum_value :: "char \<Rightarrow> nat option" where
  "alnum_value c =
     (let n = (of_char (ascii_lower c) :: nat) in
      if 48 \<le> n \<and> n \<le> 57 then Some (n - 48) else if 97 \<le> n \<and> n \<le> 122 then Some (n - 87) else None)"

definition digit_in :: "nat \<Rightarrow> char \<Rightarrow> nat option" where
  "digit_in base c = (case alnum_value c of Some d \<Rightarrow> if d < base then Some d else None | None \<Rightarrow> None)"

definition number_base :: "string \<Rightarrow> nat \<times> string" where
  "number_base s =
     (if hd s \<noteq> CHR ''0'' then (10, s)
      else if 3 \<le> length s \<and> ascii_lower (s ! 1) = CHR ''b'' then (2, drop 2 s)
      else if 3 \<le> length s \<and> ascii_lower (s ! 1) = CHR ''o'' then (8, drop 2 s)
      else if 3 \<le> length s \<and> ascii_lower (s ! 1) = CHR ''x'' then (16, drop 2 s)
      else (8, drop 1 s))"

datatype seen = Start | Digit | Underscore | Other

fun underscores_from :: "bool \<Rightarrow> seen \<Rightarrow> string \<Rightarrow> bool" where
  "underscores_from hex before [] = (before \<noteq> Underscore)"
| "underscores_from hex before (c # s) =
     (if digit_in (if hex then 16 else 10) c \<noteq> None then underscores_from hex Digit s
      else if c = CHR ''_'' then before = Digit \<and> underscores_from hex Underscore s
      else before \<noteq> Underscore \<and> underscores_from hex Other s)"

definition underscores_ok :: "string \<Rightarrow> bool" where
  "underscores_ok s =
     (if 2 \<le> length s \<and> hd s = CHR ''0'' \<and> ascii_lower (s ! 1) \<in> {CHR ''b'', CHR ''o'', CHR ''x''}
      then underscores_from (ascii_lower (s ! 1) = CHR ''x'') Digit (drop 2 s)
      else underscores_from False Start s)"

definition parse_int0 :: "string \<Rightarrow> int option" where
  "parse_int0 s =
     (let (neg, ds) = (case s of
            [] \<Rightarrow> (False, [])
          | c # cs \<Rightarrow> if c = CHR ''-'' then (True, cs) else if c = CHR ''+'' then (False, cs) else (False, s))
      in if ds = [] then None
         else (case number_base ds of (base, body) \<Rightarrow>
          (case all_some (map (digit_in base) (filter (\<lambda>c. c \<noteq> CHR ''_'') body)) of
             None \<Rightarrow> None
           | Some vs \<Rightarrow>
               (let n = int (foldl (\<lambda>a d. a * base + d) 0 vs); v = (if neg then - n else n)
                in if (CHR ''_'' \<in> set body \<and> \<not> underscores_ok ds) \<or> v < - (2 ^ 63) \<or> 2 ^ 63 \<le> v
                   then None else Some v))))"

fun flag_value_ok :: "flag_kind \<Rightarrow> string \<Rightarrow> bool" where
  "flag_value_ok Words v = True"
| "flag_value_ok Switch v = (parse_bool v \<noteq> None)"
| "flag_value_ok Number v = (parse_int0 v \<noteq> None)"

text \<open>A flag without a value of its own takes the next argument, a switch is set; the first argument that is no
  flag ends the flags. The last setting of a flag counts, so the settings are kept last first.\<close>

fun parse_flags :: "(string \<times> flag_kind) list \<Rightarrow> string list \<Rightarrow> (string \<times> string) list
    \<Rightarrow> flag_fault + (string \<times> string) list \<times> string list" where
  "parse_flags fs [] got = Inr (got, [])"
| "parse_flags fs (s # args) got =
     (if length s < 2 \<or> hd s \<noteq> CHR ''-'' then Inr (got, s # args)
      else if s = ''--'' then Inr (got, args)
      else
     (let name = drop (if s ! 1 = CHR ''-'' then 2 else 1) s in
      if name = [] \<or> hd name = CHR ''-'' \<or> hd name = CHR ''='' then Inl (BadSyntax s)
      else
     (let (n, own) = (case str_cut ''='' name of None \<Rightarrow> (name, None) | Some (n, v) \<Rightarrow> (n, Some v)) in
      case map_of fs n of
        None \<Rightarrow> Inl (if n = ''help'' \<or> n = ''h'' then HelpWanted else Undefined n)
      | Some kind \<Rightarrow>
     (case own of
        Some v \<Rightarrow> if flag_value_ok kind v then parse_flags fs args ((n, v) # got) else Inl (BadValue v n)
      | None \<Rightarrow>
          if kind = Switch then parse_flags fs args ((n, ''true'') # got)
          else
         (case args of
            [] \<Rightarrow> Inl (NeedsValue n)
          | v # rest \<Rightarrow> if flag_value_ok kind v then parse_flags fs rest ((n, v) # got) else Inl (BadValue v n))))))"

text \<open>The value of a flag after parsing, or its default.\<close>

definition flag_text :: "(string \<times> string) list \<Rightarrow> string \<Rightarrow> string \<Rightarrow> string" where
  "flag_text got n def = (case map_of got n of Some v \<Rightarrow> v | None \<Rightarrow> def)"

definition flag_bool :: "(string \<times> string) list \<Rightarrow> string \<Rightarrow> bool \<Rightarrow> bool" where
  "flag_bool got n def = (case map_of got n of Some v \<Rightarrow> parse_bool v = Some True | None \<Rightarrow> def)"

definition flag_int :: "(string \<times> string) list \<Rightarrow> string \<Rightarrow> int \<Rightarrow> int" where
  "flag_int got n def =
     (case map_of got n of Some v \<Rightarrow> (case parse_int0 v of Some k \<Rightarrow> k | None \<Rightarrow> def) | None \<Rightarrow> def)"

section \<open>Numbers as text\<close>

lemma all_some_append: "all_some (xs @ ys) = (case all_some xs of None \<Rightarrow> None | Some us \<Rightarrow> map_option ((@) us) (all_some ys))"
  by (induction xs rule: all_some.induct) (cases "all_some ys"; auto split: option.split)+

lemma digit_char: "d < 10 \<Longrightarrow> digit_val (char_of (48 + d)) = Some d"
  by (simp add: digit_val_def)

lemma decimal_digits:
  "\<exists>ds. all_some (map digit_val (decimal n)) = Some ds \<and> foldl (\<lambda>a d. a * 10 + d) 0 ds = n \<and> decimal n \<noteq> []"
proof (induction n rule: decimal.induct)
  case (1 n)
  show ?case
  proof (cases "n < 10")
    case True
    then show ?thesis by (simp add: decimal.simps [of n] digit_char)
  next
    case False
    from 1 [OF False] obtain ds where
      ds: "all_some (map digit_val (decimal (n div 10))) = Some ds" "foldl (\<lambda>a d. a * 10 + d) 0 ds = n div 10" by blast
    have "decimal n = decimal (n div 10) @ [char_of (48 + n mod 10)]" using False by (simp add: decimal.simps)
    then show ?thesis using ds by (simp add: all_some_append digit_char)
  qed
qed

lemma decimal_sign: "hd (decimal n) \<noteq> CHR ''-''" "hd (decimal n) \<noteq> CHR ''+''"
proof -
  obtain ds where "all_some (map digit_val (decimal n)) = Some ds" "decimal n \<noteq> []" using decimal_digits by blast
  then have "digit_val (hd (decimal n)) \<noteq> None" by (cases "decimal n") (auto split: option.splits elim: all_some.elims)
  then show "hd (decimal n) \<noteq> CHR ''-''" "hd (decimal n) \<noteq> CHR ''+''" by (auto simp: digit_val_def)
qed

lemma atoi_itoa:
  assumes "- (2 ^ 63) \<le> n" and "n < 2 ^ 63"
  shows "atoi (itoa n) = Some n"
proof -
  obtain ds where ds: "all_some (map digit_val (decimal (nat \<bar>n\<bar>))) = Some ds" "foldl (\<lambda>a d. a * 10 + d) 0 ds = nat \<bar>n\<bar>"
    "decimal (nat \<bar>n\<bar>) \<noteq> []" using decimal_digits by blast
  show ?thesis
  proof (cases "n < 0")
    case True
    then show ?thesis using ds assms by (simp add: atoi_def itoa_def)
  next
    case False
    then obtain c cs where "decimal (nat n) = c # cs" using ds(3) by (cases "decimal (nat n)") auto
    then show ?thesis using False ds assms decimal_sign [of "nat n"] by (simp add: atoi_def itoa_def)
  qed
qed

section \<open>What is written is read back\<close>

text \<open>A value a line can carry: no line break, no zero byte, no white space at the end.\<close>

definition plain_value :: "string \<Rightarrow> bool" where
  "plain_value v \<longleftrightarrow> CHR 0x0A \<notin> set v \<and> CHR 0x00 \<notin> set v \<and> (v = [] \<or> \<not> is_space (last v))"

lemma all_some_defined: "all_some xs = Some ys \<Longrightarrow> None \<notin> set xs"
  by (induction xs arbitrary: ys rule: all_some.induct) auto

lemma decimal_chars:
  assumes "c \<in> set (decimal n)"
  shows "digit_val c \<noteq> None"
proof -
  obtain ds where "all_some (map digit_val (decimal n)) = Some ds" using decimal_digits by blast
  then have "None \<notin> digit_val ` set (decimal n)" by (auto dest: all_some_defined)
  then show ?thesis using assms by force
qed

lemma plain_itoa: "plain_value (itoa n)"
proof -
  have chars: "digit_val c \<noteq> None \<or> c = CHR ''-''" if "c \<in> set (itoa n)" for c
    using that decimal_chars by (auto simp: itoa_def split: if_splits)
  have plain: "c \<noteq> CHR 0x0A \<and> c \<noteq> CHR 0x00 \<and> \<not> is_space c" if "digit_val c \<noteq> None \<or> c = CHR ''-''" for c
    using that by (auto simp: digit_val_def is_space_def Let_def split: if_splits)
  have all: "\<forall>c \<in> set (itoa n). c \<noteq> CHR 0x0A \<and> c \<noteq> CHR 0x00 \<and> \<not> is_space c" using chars plain by blast
  then have "CHR 0x0A \<notin> set (itoa n)" and "CHR 0x00 \<notin> set (itoa n)" by blast+
  moreover have "itoa n = [] \<or> \<not> is_space (last (itoa n))" using all last_in_set by blast
  ultimately show ?thesis by (simp add: plain_value_def)
qed

lemma equal_space: "\<not> is_space CHR ''=''"
  by (simp add: is_space_def)

lemma trim_value:
  assumes "plain_value v" and "k \<noteq> []" and "\<not> is_space (hd k)"
  shows "trim_space (k @ CHR ''='' # v) = k @ CHR ''='' # v"
proof -
  have "\<not> is_space (last (k @ CHR ''='' # v))" using assms(1) by (cases "v = []") (simp_all add: plain_value_def equal_space)
  moreover have "\<not> is_space (hd (k @ CHR ''='' # v))" using assms(2,3) by simp
  ultimately show ?thesis unfolding trim_space_def by (intro trim_by_trimmed disjI2 conjI)
qed

lemma cut_key: "CHR ''='' \<notin> set k \<Longrightarrow> str_cut ''='' (k @ CHR ''='' # v) = Some (k, v)"
  by (induction k) auto

lemma env_line_sets:
  assumes "plain_value v" and "k \<noteq> []" and "\<not> is_space (hd k)" and "hd k \<noteq> CHR ''#''" and "CHR ''='' \<notin> set k" and "CHR 0x00 \<notin> set k"
  shows "env_line (k @ CHR ''='' # v) env = (if env k = [] then env(k := v) else env)"
proof -
  have "\<not> prefix ''#'' (k @ CHR ''='' # v)" using assms(2,4) by (cases k) auto
  then show ?thesis
    using assms by (simp add: env_line_def trim_value cut_key setenv_def plain_value_def)
qed

lemma lines_split:
  assumes "\<forall>l \<in> set ls. CHR 0x0A \<notin> set l"
  shows "split_on (CHR 0x0A) (concat (map (\<lambda>l. l @ [CHR 0x0A]) ls)) = ls @ [[]]"
  using assms by (induction ls) (auto simp: split_on_append)

lemma env_line_skips: "trim_space l = [] \<or> prefix ''#'' (trim_space l) \<Longrightarrow> env_line l env = env"
  by (auto simp: env_line_def)

lemma split_env_content:
  assumes "plain_value registry" and "plain_value addr" and "plain_value key"
  shows "split_on (CHR 0x0A) (env_content registry addr budget key) = env_lines registry addr budget key @ [[]]"
  unfolding env_content_def
  by (rule lines_split) (use assms plain_itoa [of budget] in \<open>auto simp: env_lines_def plain_value_def\<close>)

text \<open>What \<^verbatim>\<open>install\<close> writes to its \<^verbatim>\<open>.env\<close> file is what the next command reads from it: in an environment that
  sets none of the four variables, \<^verbatim>\<open>autoLoadEnv\<close> gives them exactly the installed values, the budget as a
  number, and touches no other variable; with \<^verbatim>\<open>REKAM_REGISTRY\<close> set the file counts for nothing. The values are
  those a line can carry: no line break, no zero byte, no white space at the end.\<close>

theorem install_env_roundtrip:
  assumes "plain_value registry" and "plain_value addr" and "plain_value key"
    and "- (2 ^ 63) \<le> budget" and "budget < 2 ^ 63"
    and "\<forall>k \<in> {''REKAM_REGISTRY'', ''REKAM_ADDR'', ''REKAM_TOKEN_BUDGET'', ''REKAM_API_KEY''}. env k = []"
  shows "auto_load_env (Some (env_content registry addr budget key)) env =
      env(''REKAM_REGISTRY'' := registry, ''REKAM_ADDR'' := addr, ''REKAM_TOKEN_BUDGET'' := itoa budget, ''REKAM_API_KEY'' := key)"
    and "env_int ''REKAM_TOKEN_BUDGET'' def (auto_load_env (Some (env_content registry addr budget key)) env) = budget"
    and "env' ''REKAM_REGISTRY'' \<noteq> [] \<Longrightarrow> auto_load_env data env' = env'"
proof -
  have keys: "env_line (''REKAM_REGISTRY='' @ registry) e = (if e ''REKAM_REGISTRY'' = [] then e(''REKAM_REGISTRY'' := registry) else e)"
    "env_line (''REKAM_ADDR='' @ addr) e = (if e ''REKAM_ADDR'' = [] then e(''REKAM_ADDR'' := addr) else e)"
    "env_line (''REKAM_TOKEN_BUDGET='' @ itoa budget) e =
       (if e ''REKAM_TOKEN_BUDGET'' = [] then e(''REKAM_TOKEN_BUDGET'' := itoa budget) else e)"
    "env_line (''REKAM_API_KEY='' @ key) e = (if e ''REKAM_API_KEY'' = [] then e(''REKAM_API_KEY'' := key) else e)" for e
    using env_line_sets [OF assms(1), of "''REKAM_REGISTRY''" e] env_line_sets [OF assms(2), of "''REKAM_ADDR''" e]
      env_line_sets [OF plain_itoa, of "''REKAM_TOKEN_BUDGET''" budget e] env_line_sets [OF assms(3), of "''REKAM_API_KEY''" e]
    by (simp_all add: is_space_def)
  have comment: "env_line (hd (env_lines registry addr budget key)) e = e" for e
    by (rule env_line_skips) (simp add: env_lines_def trim_space_def trim_by_def is_space_def)
  have last_line: "env_line [] e = e" for e by (rule env_line_skips) (simp add: trim_space_def trim_by_def)
  show loaded: "auto_load_env (Some (env_content registry addr budget key)) env =
      env(''REKAM_REGISTRY'' := registry, ''REKAM_ADDR'' := addr, ''REKAM_TOKEN_BUDGET'' := itoa budget, ''REKAM_API_KEY'' := key)"
    using assms(6) comment by (simp add: auto_load_env_def split_env_content [OF assms(1-3)] env_lines_def keys [simplified] last_line)
  have "itoa budget \<noteq> []" using atoi_itoa [OF assms(4,5)] by (auto simp: atoi_def)
  then show "env_int ''REKAM_TOKEN_BUDGET'' def (auto_load_env (Some (env_content registry addr budget key)) env) = budget"
    unfolding loaded by (simp add: env_int_def atoi_itoa [OF assms(4,5)])
qed (simp add: auto_load_env_def)

end
