(* ===== verification/Update_Check.thy ===== *)
theory Update_Check
  imports Web_Data
begin

text \<open>
  The release check (\<^verbatim>\<open>internal/updatecheck/updatecheck.go\<close>): reading the manifest, comparing versions, and
  what the operator is told.
\<close>

section \<open>The manifest\<close>

record release =
  rr_latest :: string
  rr_min :: string
  rr_security :: bool
  rr_notes :: string

type_synonym manifest = "(string \<times> release) list"

definition decode_release :: "json \<Rightarrow> release option" where
  "decode_release j =
     (case json_struct j of
        None \<Rightarrow> None
      | Some kvs \<Rightarrow>
          (case (str_field ''latest'' kvs, str_field ''min_supported'' kvs, bool_field ''security'' kvs, str_field ''notes'' kvs) of
             (Some l, Some m, Some s, Some n) \<Rightarrow> Some \<lparr>rr_latest = l, rr_min = m, rr_security = s, rr_notes = n\<rparr>
           | _ \<Rightarrow> None))"

fun decode_manifest :: "json \<Rightarrow> manifest option" where
  "decode_manifest JNull = Some []"
| "decode_manifest (JObj kvs) =
     all_some (map (\<lambda>(k, v). map_option (Pair k) (decode_release v)) kvs)"
| "decode_manifest _ = None"

text \<open>\<open>answer\<close> is the status and the JSON of the first 64 KiB of the body, \<open>None\<close> without an answer; an entry
  that comes twice counts the last time.\<close>

definition fetch_manifest :: "(nat \<times> json option) option \<Rightarrow> manifest option" where
  "fetch_manifest answer =
     (case answer of
        None \<Rightarrow> None
      | Some (status, body) \<Rightarrow>
          if status \<noteq> 200 then None else (case body of None \<Rightarrow> None | Some j \<Rightarrow> decode_manifest j))"

section \<open>Versions\<close>

definition cut_suffix :: "string \<Rightarrow> string" where
  "cut_suffix v = takeWhile (\<lambda>c. c \<noteq> CHR ''-'' \<and> c \<noteq> CHR ''+'') v"

definition parse_part :: "string \<Rightarrow> int option" where
  "parse_part p = (case atoi p of None \<Rightarrow> None | Some n \<Rightarrow> if n < 0 then None else Some n)"

definition parse_version :: "string \<Rightarrow> int list option" where
  "parse_version v0 =
     (let t = trim_space v0; v = (if prefix ''v'' t then drop 1 t else t); parts = split_on (CHR ''.'') (cut_suffix v) in
      if length parts \<noteq> 3 then None else all_some (map parse_part parts))"

fun compare_parts :: "int list \<Rightarrow> int list \<Rightarrow> int" where
  "compare_parts (x # xs) (y # ys) = (if x \<noteq> y then (if x < y then - 1 else 1) else compare_parts xs ys)"
| "compare_parts _ _ = 0"

definition compare_versions :: "string \<Rightarrow> string \<Rightarrow> int option" where
  "compare_versions a b =
     (case parse_version a of
        None \<Rightarrow> None
      | Some pa \<Rightarrow> (case parse_version b of None \<Rightarrow> None | Some pb \<Rightarrow> Some (compare_parts pa pb)))"

definition older :: "string \<Rightarrow> string \<Rightarrow> bool" where
  "older a b = (case compare_versions a b of Some c \<Rightarrow> c < 0 | None \<Rightarrow> False)"

section \<open>What is said\<close>

record check_result =
  cx_available :: bool
  cx_security :: bool
  cx_unsupported :: bool
  cx_current :: string
  cx_latest :: string
  cx_notes :: string

definition no_news :: check_result where
  "no_news = \<lparr>cx_available = False, cx_security = False, cx_unsupported = False, cx_current = [], cx_latest = [], cx_notes = []\<rparr>"

definition compare_release :: "manifest \<Rightarrow> string \<Rightarrow> string \<Rightarrow> check_result" where
  "compare_release m edition current =
     (case map_of (rev m) edition of
        None \<Rightarrow> no_news
      | Some rel \<Rightarrow>
          if rr_latest rel = [] then no_news
          else (let behind = older current (rr_latest rel) in
                \<lparr>cx_available = behind, cx_security = behind \<and> rr_security rel,
                 cx_unsupported = rr_min rel \<noteq> [] \<and> older current (rr_min rel),
                 cx_current = current, cx_latest = rr_latest rel, cx_notes = rr_notes rel\<rparr>))"

definition with_notes :: "string \<Rightarrow> string \<Rightarrow> string" where
  "with_notes s notes = (if notes = [] then s else s @ '' - '' @ notes)"

definition result_message :: "check_result \<Rightarrow> string" where
  "result_message r =
     (if cx_unsupported r
      then with_notes (''this version ('' @ cx_current r @ '') is below the supported floor; upgrade to '' @ cx_latest r) (cx_notes r)
      else if cx_available r \<and> cx_security r
      then with_notes (''SECURITY: '' @ cx_latest r @ '' is available and fixes a vulnerability (running '' @ cx_current r @ '')'') (cx_notes r)
      else if cx_available r then ''rekam '' @ cx_latest r @ '' is available (running '' @ cx_current r @ '')''
      else [])"

section \<open>Facts\<close>

lemma all_some_length: "all_some xs = Some ys \<Longrightarrow> length ys = length xs"
  by (induction xs arbitrary: ys rule: all_some.induct) auto

lemma parsed_three: "parse_version v = Some p \<Longrightarrow> \<exists>x y z. p = [x, y, z]"
  by (auto simp: parse_version_def Let_def numeral_3_eq_3 length_Suc_conv dest!: all_some_length split: if_splits)

lemma older_iff:
  "older a b \<longleftrightarrow> (\<exists>x y z x' y' z'. parse_version a = Some [x, y, z] \<and> parse_version b = Some [x', y', z']
     \<and> (x < x' \<or> x = x' \<and> (y < y' \<or> y = y' \<and> z < z')))"
  by (auto simp: older_def compare_versions_def split: option.splits if_splits dest!: parsed_three)

text \<open>The operator is told something exactly when the running version is older than the latest release of the
  edition or than its supported floor, in an order on versions that is strict and total up to equal
  numbers; a build whose version is no version number is told nothing.\<close>

theorem update_told_exactly:
  shows "result_message (compare_release m edition current) \<noteq> [] \<longleftrightarrow>
      (\<exists>rel. map_of (rev m) edition = Some rel \<and> rr_latest rel \<noteq> []
         \<and> (older current (rr_latest rel) \<or> rr_min rel \<noteq> [] \<and> older current (rr_min rel)))"
    and "older a b \<Longrightarrow> older b c \<Longrightarrow> older a c" and "older a b \<Longrightarrow> \<not> older b a"
    and "parse_version a \<noteq> None \<Longrightarrow> parse_version b \<noteq> None \<Longrightarrow> older a b \<or> older b a \<or> parse_version a = parse_version b"
    and "parse_version current = None \<Longrightarrow> result_message (compare_release m edition current) = []"
proof -
  show said: "result_message (compare_release m edition current) \<noteq> [] \<longleftrightarrow>
      (\<exists>rel. map_of (rev m) edition = Some rel \<and> rr_latest rel \<noteq> []
         \<and> (older current (rr_latest rel) \<or> rr_min rel \<noteq> [] \<and> older current (rr_min rel)))"
    by (auto simp: compare_release_def result_message_def no_news_def with_notes_def Let_def split: option.splits)
  show "older a b \<Longrightarrow> older b c \<Longrightarrow> older a c" by (auto simp: older_iff)
  show "older a b \<Longrightarrow> \<not> older b a" by (auto simp: older_iff)
  show "parse_version a \<noteq> None \<Longrightarrow> parse_version b \<noteq> None \<Longrightarrow> older a b \<or> older b a \<or> parse_version a = parse_version b"
  proof -
    assume "parse_version a \<noteq> None" "parse_version b \<noteq> None"
    then obtain x y z x' y' z' where "parse_version a = Some [x, y, z]" "parse_version b = Some [x', y', z']"
      by (metis not_None_eq parsed_three)
    then show ?thesis by (auto simp: older_iff)
  qed
  show "parse_version current = None \<Longrightarrow> result_message (compare_release m edition current) = []"
    using said by (auto simp: older_iff)
qed

lemma update_told_exactly_witness:
  "older ''v1.2.3'' ''1.10.0-rc1'' \<and> result_message (compare_release
     [(''solo'', \<lparr>rr_latest = ''v2.0.0'', rr_min = [], rr_security = True, rr_notes = []\<rparr>)] ''solo'' ''dev'') = []"
proof -
  have "older ''v1.2.3'' ''v1.9.0''" "older ''v1.9.0'' ''1.10.0-rc1''" "parse_version ''dev'' = None" by code_simp+
  then show ?thesis using update_told_exactly(2) update_told_exactly(5) by blast
qed

end
