(* ===== verification/Command_Line.thy ===== *)
theory Command_Line
  imports Shell_Env Update_Check Engine_Machine
begin

text \<open>
  The commands of \<^verbatim>\<open>cmd/rekam/main.go\<close> that work on files and processes of the host: install, keys, grants,
  status, version, stop, restart. \<^verbatim>\<open>serve\<close> is in the theory \<^verbatim>\<open>Rekam_Process\<close>.
\<close>

section \<open>The host\<close>

text \<open>
  \<open>shell\<close> is what a command finds and what its calls to the operating system answer; \<open>host\<close> what they change:
  text files, registry databases by path, the argument lists of the processes that were run, signalled
  processes. A registry that is not there is created empty.
\<close>

record shell =
  sh_env :: environ
  sh_home :: "string option"
  sh_user :: string
  sh_systemd :: bool
  sh_exe :: "string option"
  sh_edition :: string
  sh_build :: "string \<times> string \<times> string"
  sh_runtime :: "string \<times> string"
  sh_answer :: string
  sh_abs :: "string \<Rightarrow> string option"
  sh_join :: "string \<Rightarrow> string \<Rightarrow> string"
  sh_dirname :: "string \<Rightarrow> string"
  sh_mkdir :: "string \<Rightarrow> bool"
  sh_chmod :: "string \<Rightarrow> bool"
  sh_writable :: "string \<Rightarrow> bool"
  sh_opens :: "string \<Rightarrow> bool"
  sh_run :: "string list \<Rightarrow> bool"
  sh_start :: "string list \<Rightarrow> int option"
  sh_signal :: "int \<Rightarrow> bool"
  sh_random :: "string option"
  sh_fresh :: string
  sh_now :: int
  sh_hash :: "string \<Rightarrow> string"
  sh_day :: "int \<Rightarrow> string"
  sh_ping :: "string \<Rightarrow> string \<Rightarrow> (json option) option"
  sh_show :: "json \<Rightarrow> string"
  sh_manifest :: "string \<Rightarrow> (nat \<times> json option) option"

record host =
  ho_files :: "string \<Rightarrow> string option"
  ho_registries :: "string \<Rightarrow> registry option"
  ho_processes :: "string list list"

text \<open>\<open>sh_build\<close> is version, commit and date of the binary, \<open>sh_runtime\<close> the Go version and the platform,
  \<open>sh_ping url key\<close> the JSON of the answer, \<open>None\<close> inside when the body is none.\<close>

datatype failure =
    NoRandom
  | Unopened string
  | Refused reg_error
  | NoDirectory string
  | Unwritable string
  | NoExecutable
  | Unrunnable "string list"
  | NoPidFile string
  | BadPid string
  | Unsignalled int
  | Unreachable string
  | NoBucket
  | NoReplication
  | NotRestored string
  | NotAnAddress string
  | EngineFailed engine_error

text \<open>A printed line, or one that ends with an error; how the process ends: \<^verbatim>\<open>fatalf\<close>, a usage message and exit
  status 1, the message of the package \<^verbatim>\<open>flag\<close> and exit status 2 (0 for help).\<close>

datatype said = Said string | Told string failure

datatype ending = Finished | Fatal string failure | Misused string | BadFlags flag_fault

type_synonym outcome_of = "said list \<times> ending \<times> host"

text \<open>\<^verbatim>\<open>OpenRegistry\<close> confirms every account with a password and without an open confirmation, at each start.\<close>

definition backfill_confirmed :: "registry \<Rightarrow> registry" where
  "backfill_confirmed r =
     r\<lparr>rg_idents := map (\<lambda>row. if str_of (ir_pw row) \<noteq> [] \<and> ir_ctoken row = None then row\<lparr>ir_confirmed := True\<rparr> else row) (rg_idents r)\<rparr>"

definition open_registry :: "shell \<Rightarrow> host \<Rightarrow> string \<Rightarrow> registry option" where
  "open_registry sh h path =
     (if sh_opens sh path then Some (backfill_confirmed (case ho_registries h path of Some r \<Rightarrow> r | None \<Rightarrow> empty_registry)) else None)"

definition put_host_registry :: "string \<Rightarrow> registry \<Rightarrow> host \<Rightarrow> host" where
  "put_host_registry path r h = h\<lparr>ho_registries := (ho_registries h)(path := Some r)\<rparr>"

definition put_text :: "string \<Rightarrow> string \<Rightarrow> host \<Rightarrow> host" where
  "put_text path s h = h\<lparr>ho_files := (ho_files h)(path := Some s)\<rparr>"

definition ran :: "string list \<Rightarrow> host \<Rightarrow> host" where
  "ran argv h = h\<lparr>ho_processes := ho_processes h @ [argv]\<rparr>"

definition yes_no :: "bool \<Rightarrow> string" where
  "yes_no b = (if b then ''true'' else ''false'')"

definition generate_key :: "shell \<Rightarrow> string option" where
  "generate_key sh = map_option (\<lambda>h. ''mkey_'' @ h) (sh_random sh)"

definition default_install_dir :: "shell \<Rightarrow> string" where
  "default_install_dir sh = (case sh_home sh of Some h \<Rightarrow> sh_join sh h ''.rekam'' | None \<Rightarrow> ''.rekam'')"

definition current_user :: "shell \<Rightarrow> string" where
  "current_user sh = (if sh_user sh \<noteq> [] then sh_user sh else ''user'')"

definition default_registry :: "shell \<Rightarrow> string" where
  "default_registry sh = env_or ''REKAM_REGISTRY'' ''registry.sqlite'' (sh_env sh)"

text \<open>Flags first: a fault ends the process before the command does anything.\<close>

definition with_flags ::
  "(string \<times> flag_kind) list \<Rightarrow> string list \<Rightarrow> host \<Rightarrow> ((string \<times> string) list \<Rightarrow> string list \<Rightarrow> outcome_of) \<Rightarrow> outcome_of" where
  "with_flags fs args h body =
     (case parse_flags fs args [] of Inl fault \<Rightarrow> ([], BadFlags fault, h) | Inr (got, rest) \<Rightarrow> body got rest)"

definition with_registry :: "shell \<Rightarrow> host \<Rightarrow> string \<Rightarrow> (registry \<Rightarrow> outcome_of) \<Rightarrow> outcome_of" where
  "with_registry sh h path body =
     (case open_registry sh h path of None \<Rightarrow> ([], Fatal ''open registry'' (Unopened path), h) | Some r \<Rightarrow> body r)"

section \<open>Keys\<close>

definition key_issue :: "shell \<Rightarrow> string list \<Rightarrow> host \<Rightarrow> outcome_of" where
  "key_issue sh args h =
     with_flags [(''name'', Words), (''memory'', Words), (''write'', Switch), (''registry'', Words)] args h (\<lambda>got _.
       let name = flag_text got ''name'' []; mem = flag_text got ''memory'' []; path = flag_text got ''registry'' (default_registry sh) in
       if name = [] \<or> mem = [] then ([], Misused ''error: --name and --memory are required'', h)
       else
      (case generate_key sh of
         None \<Rightarrow> ([], Fatal ''generate key'' NoRandom, h)
       | Some raw \<Rightarrow>
           with_registry sh h path (\<lambda>r.
             case create_identity (sh_hash sh) (sh_fresh sh) name raw mem (flag_bool got ''write'' True) (sh_now sh) r of
               Inl err \<Rightarrow> ([], Fatal ''create identity'' (Refused err), put_host_registry path r h)
             | Inr (idn, r') \<Rightarrow>
                 ([Said (''ID:      '' @ iy_id idn), Said (''Name:    '' @ iy_name idn), Said (''Memory:  '' @ iy_path idn),
                   Said (''Write:   '' @ yes_no (iy_write idn)), Said [], Said ''API Key (shown once):'', Said (''  '' @ raw)],
                  Finished, put_host_registry path r' h))))"

text \<open>Rows as they are handed to \<^verbatim>\<open>tabwriter\<close>, which aligns their columns.\<close>

definition row_text :: "string list \<Rightarrow> said" where
  "row_text cells = Said (join_with [CHR 0x09] cells)"

definition identity_cells :: "shell \<Rightarrow> identity \<Rightarrow> string list" where
  "identity_cells sh idn = [iy_id idn, iy_name idn, yes_no (iy_write idn), iy_path idn, sh_day sh (iy_created idn)]"

definition key_list :: "shell \<Rightarrow> string list \<Rightarrow> host \<Rightarrow> outcome_of" where
  "key_list sh args h =
     with_flags [(''registry'', Words)] args h (\<lambda>got _.
       let path = flag_text got ''registry'' (default_registry sh) in
       with_registry sh h path (\<lambda>r.
         let ids = list_identities r in
         (if ids = [] then [Said ''no identities'']
          else row_text [''ID'', ''NAME'', ''WRITE'', ''MEMORY'', ''CREATED''] # map (row_text \<circ> identity_cells sh) ids,
          Finished, put_host_registry path r h)))"

definition key_revoke :: "shell \<Rightarrow> string list \<Rightarrow> host \<Rightarrow> outcome_of" where
  "key_revoke sh args h =
     with_flags [(''registry'', Words)] args h (\<lambda>got rest.
       let path = flag_text got ''registry'' (default_registry sh) in
       case rest of
         [] \<Rightarrow> ([], Misused ''usage: rekam key revoke <identity-id>'', h)
       | i # _ \<Rightarrow>
           with_registry sh h path (\<lambda>r.
             case delete_identity i r of
               Inl err \<Rightarrow> ([], Fatal ''revoke'' (Refused err), put_host_registry path r h)
             | Inr r' \<Rightarrow> ([Said (''revoked '' @ i)], Finished, put_host_registry path r' h)))"

definition cmd_key :: "shell \<Rightarrow> string list \<Rightarrow> host \<Rightarrow> outcome_of" where
  "cmd_key sh args h =
     (case args of
        [] \<Rightarrow> ([], Misused ''usage: rekam key <issue|list|revoke>'', h)
      | sub # rest \<Rightarrow>
          if sub = ''issue'' then key_issue sh rest h
          else if sub = ''list'' then key_list sh rest h
          else if sub = ''revoke'' then key_revoke sh rest h
          else ([], Misused (''unknown key subcommand: '' @ sub), h))"

section \<open>Grants\<close>

definition grant_cells :: "shell \<Rightarrow> grant \<Rightarrow> string list" where
  "grant_cells sh g =
     [gt_id g, gt_client g, if gt_revoked g \<noteq> None then ''revoked'' else ''active'', sh_day sh (gt_created g)]"

definition grant_list :: "shell \<Rightarrow> string list \<Rightarrow> host \<Rightarrow> outcome_of" where
  "grant_list sh args h =
     with_flags [(''registry'', Words)] args h (\<lambda>got _.
       let path = flag_text got ''registry'' (default_registry sh) in
       with_registry sh h path (\<lambda>r.
         let gs = list_grants r in
         (if gs = [] then [Said ''no grants'']
          else row_text [''GRANT ID'', ''CLIENT'', ''STATUS'', ''CREATED''] # map (row_text \<circ> grant_cells sh) gs,
          Finished, put_host_registry path r h)))"

definition grant_revoke :: "shell \<Rightarrow> string list \<Rightarrow> host \<Rightarrow> outcome_of" where
  "grant_revoke sh args h =
     with_flags [(''registry'', Words)] args h (\<lambda>got rest.
       let path = flag_text got ''registry'' (default_registry sh) in
       case rest of
         [] \<Rightarrow> ([], Misused ''usage: rekam grant revoke <grant-id>'', h)
       | g # _ \<Rightarrow>
           with_registry sh h path (\<lambda>r.
             case revoke_grant g (sh_now sh) r of
               Inl err \<Rightarrow> ([], Fatal ''revoke grant'' (Refused err), put_host_registry path r h)
             | Inr r' \<Rightarrow> ([Said (''revoked grant '' @ g)], Finished, put_host_registry path r' h)))"

definition cmd_grant :: "shell \<Rightarrow> string list \<Rightarrow> host \<Rightarrow> outcome_of" where
  "cmd_grant sh args h =
     (case args of
        [] \<Rightarrow> ([], Misused ''usage: rekam grant <list|revoke>'', h)
      | sub # rest \<Rightarrow>
          if sub = ''list'' then grant_list sh rest h
          else if sub = ''revoke'' then grant_revoke sh rest h
          else ([], Misused (''unknown grant subcommand: '' @ sub), h))"

section \<open>The server in the background\<close>

text \<open>Without systemd: a detached \<^verbatim>\<open>rekam serve\<close> and a file with its process id. The child gets the environment of the
  command and no arguments beside \<^verbatim>\<open>serve\<close>.\<close>

definition pid_path :: "shell \<Rightarrow> string \<Rightarrow> string" where
  "pid_path sh dir = sh_join sh dir ''rekam.pid''"

definition touch_log :: "shell \<Rightarrow> string \<Rightarrow> host \<Rightarrow> host" where
  "touch_log sh path h =
     (if sh_writable sh path \<and> ho_files h path = None then put_text path [] h else h)"

definition start_background :: "shell \<Rightarrow> string \<Rightarrow> host \<Rightarrow> failure option \<times> host" where
  "start_background sh dir h =
     (case sh_exe sh of
        None \<Rightarrow> (Some NoExecutable, h)
      | Some exe \<Rightarrow>
     (let h1 = touch_log sh (sh_join sh dir ''server.log'') h; argv = [exe, ''serve''] in
      case sh_start sh argv of
        None \<Rightarrow> (Some (Unrunnable argv), h1)
      | Some pid \<Rightarrow>
          if sh_writable sh (pid_path sh dir)
          then (None, put_text (pid_path sh dir) (itoa pid @ [CHR 0x0A]) (ran argv h1))
          else (Some (Unwritable (pid_path sh dir)), ran argv h1)))"

definition stop_background :: "shell \<Rightarrow> string \<Rightarrow> host \<Rightarrow> failure option \<times> host" where
  "stop_background sh dir h =
     (case ho_files h (pid_path sh dir) of
        None \<Rightarrow> (Some (NoPidFile (pid_path sh dir)), h)
      | Some data \<Rightarrow>
     (case atoi (trim_space data) of
        None \<Rightarrow> (Some (BadPid (trim_space data)), h)
      | Some pid \<Rightarrow>
          if sh_signal sh pid then (None, h\<lparr>ho_files := (ho_files h)(pid_path sh dir := None)\<rparr>)
          else (Some (Unsignalled pid), h)))"

text \<open>With systemd: the unit is written as \<^verbatim>\<open>rekam.service\<close>; the commands name the unit \<^verbatim>\<open>memory\<close>.\<close>

definition unit_text :: "string \<Rightarrow> string \<Rightarrow> string \<Rightarrow> string" where
  "unit_text exe env_path dir =
     concat (map (\<lambda>l. l @ [CHR 0x0A])
       [''[Unit]'', ''Description=rekam OS'', ''After=default.target'', [], ''[Service]'', ''ExecStart='' @ exe @ '' serve'',
        ''EnvironmentFile='' @ env_path, ''Restart=on-failure'', ''WorkingDirectory='' @ dir, ''KillMode=mixed'', ''TimeoutStopSec=15'',
        [], ''[Install]'', ''WantedBy=default.target''])"

fun run_all :: "shell \<Rightarrow> string list list \<Rightarrow> host \<Rightarrow> failure option \<times> host" where
  "run_all sh [] h = (None, h)"
| "run_all sh (argv # rest) h =
     (if sh_run sh argv then run_all sh rest (ran argv h) else (Some (Unrunnable argv), ran argv h))"

definition install_user_service :: "shell \<Rightarrow> string \<Rightarrow> string \<Rightarrow> host \<Rightarrow> failure option \<times> host" where
  "install_user_service sh dir env_path h =
     (case sh_exe sh of
        None \<Rightarrow> (Some NoExecutable, h)
      | Some exe \<Rightarrow>
     (let unit_dir = sh_join sh (sh_join sh (sh_join sh (sh_env sh ''HOME'') ''.config'') ''systemd'') ''user'';
          unit_path = sh_join sh unit_dir ''rekam.service'' in
      if \<not> sh_mkdir sh unit_dir then (Some (NoDirectory unit_dir), h)
      else if \<not> sh_writable sh unit_path then (Some (Unwritable unit_path), h)
      else run_all sh [[''systemctl'', ''--user'', ''daemon-reload''], [''systemctl'', ''--user'', ''enable'', ''--now'', ''memory'']]
             (put_text unit_path (unit_text exe env_path dir) h)))"

definition cmd_stop :: "shell \<Rightarrow> string list \<Rightarrow> host \<Rightarrow> outcome_of" where
  "cmd_stop sh args h =
     with_flags [(''dir'', Words)] args h (\<lambda>got _.
       if sh_systemd sh
       then (case run_all sh [[''systemctl'', ''--user'', ''stop'', ''memory'']] h of
               (Some err, h') \<Rightarrow> ([], Fatal ''systemctl stop'' err, h')
             | (None, h') \<Rightarrow> ([Said ''stopped''], Finished, h'))
       else (case stop_background sh (flag_text got ''dir'' (default_install_dir sh)) h of
               (Some err, h') \<Rightarrow> ([], Fatal ''stop'' err, h')
             | (None, h') \<Rightarrow> ([Said ''stopped''], Finished, h')))"

definition cmd_restart :: "shell \<Rightarrow> string list \<Rightarrow> host \<Rightarrow> outcome_of" where
  "cmd_restart sh args h =
     with_flags [(''dir'', Words)] args h (\<lambda>got _.
       if sh_systemd sh
       then (case run_all sh [[''systemctl'', ''--user'', ''restart'', ''memory'']] h of
               (Some err, h') \<Rightarrow> ([], Fatal ''systemctl restart'' err, h')
             | (None, h') \<Rightarrow> ([Said ''restarted''], Finished, h'))
       else
      (let dir = flag_text got ''dir'' (default_install_dir sh);
           (stopped, h1) = stop_background sh dir h;
           note = (case stopped of Some err \<Rightarrow> [Told ''note: not stopping existing server: '' err] | None \<Rightarrow> []) in
       case start_background sh dir h1 of
         (Some err, h2) \<Rightarrow> (note, Fatal ''start'' err, h2)
       | (None, h2) \<Rightarrow> (note @ [Said ''restarted''], Finished, h2)))"

section \<open>Install\<close>

text \<open>The last step: the server is started, a failure is only a warning.\<close>

definition start_installed :: "shell \<Rightarrow> string \<Rightarrow> string \<Rightarrow> string \<Rightarrow> host \<Rightarrow> said list \<times> host" where
  "start_installed sh dir addr env_path h =
     (if sh_systemd sh
      then (case install_user_service sh dir env_path h of
              (Some err, h') \<Rightarrow> ([Told ''warning: could not install systemd service: '' err, Said ''run manually: rekam serve''], h')
            | (None, h') \<Rightarrow> ([Said (''Server running on '' @ addr), Said ''  systemctl --user status memory'',
                              Said ''  journalctl --user -u memory -f''], h'))
      else (case start_background sh dir h of
              (Some err, h') \<Rightarrow> ([Told ''warning: could not start server: '' err, Said ''run manually: rekam serve''], h')
            | (None, h') \<Rightarrow> ([Said (''Server running on '' @ addr @ '' (pid: '' @ pid_path sh dir @ '')'')], h')))"

definition confirmed_prompt :: "string \<Rightarrow> bool" where
  "confirmed_prompt answer = (trim_space (to_lower answer) \<in> {[], ''y'', ''yes''})"

definition install_at ::
  "shell \<Rightarrow> string \<Rightarrow> string \<Rightarrow> string \<Rightarrow> int \<Rightarrow> said list \<Rightarrow> host \<Rightarrow> outcome_of" where
  "install_at sh dir name addr budget intro h =
     (let registry = sh_join sh dir ''registry.sqlite''; mem = sh_join sh dir ''default.rekam''; env_path = sh_join sh dir ''.env'' in
      if \<not> sh_mkdir sh dir then (intro, Fatal ''create directory'' (NoDirectory dir), h)
      else if \<not> sh_chmod sh dir then (intro, Fatal ''secure directory'' (NoDirectory dir), h)
      else
     (case open_registry sh h registry of
        None \<Rightarrow> (intro, Fatal ''open registry'' (Unopened registry), h)
      | Some r \<Rightarrow>
     (case generate_key sh of
        None \<Rightarrow> (intro, Fatal ''generate key'' NoRandom, put_host_registry registry r h)
      | Some raw \<Rightarrow>
     (case create_identity (sh_hash sh) (sh_fresh sh) name raw mem True (sh_now sh) r of
        Inl err \<Rightarrow> (intro, Fatal ''create identity'' (Refused err), put_host_registry registry r h)
      | Inr (idn, r') \<Rightarrow>
     (let h1 = put_host_registry registry r' h in
      if \<not> sh_opens sh mem then (intro, Fatal ''initialise memory file'' (Unopened mem), h1)
      else if \<not> sh_writable sh env_path then (intro, Fatal ''write .env'' (Unwritable env_path), h1)
      else
     (case start_installed sh dir addr env_path (put_text env_path (env_content registry addr budget raw) h1) of
        (news, h2) \<Rightarrow>
          (intro @ [Said [], Said ''Done.'', Said [], Said (''Identity:  '' @ iy_name idn @ '' ('' @ iy_id idn @ '')''),
             Said (''API Key:   '' @ raw), Said (''           (also saved to '' @ env_path @ '')''), Said []] @ news, Finished, h2)))))))"

definition cmd_install :: "shell \<Rightarrow> string list \<Rightarrow> host \<Rightarrow> outcome_of" where
  "cmd_install sh args h =
     with_flags [(''dir'', Words), (''name'', Words), (''addr'', Words), (''token-budget'', Number), (''yes'', Switch)] args h (\<lambda>got _.
       let name = flag_text got ''name'' (current_user sh);
           addr = normalize_addr (flag_text got ''addr'' (default_listen_addr (sh_edition sh))) in
       case sh_abs sh (flag_text got ''dir'' (default_install_dir sh)) of
         None \<Rightarrow> ([], Fatal ''resolve dir'' (NoDirectory (flag_text got ''dir'' (default_install_dir sh))), h)
       | Some dir \<Rightarrow>
           (let intro = [Said ''rekam install'', Said (''  Directory:  '' @ dir), Said (''  Registry:   '' @ sh_join sh dir ''registry.sqlite''),
                  Said (''  Memory:     '' @ sh_join sh dir ''default.rekam''), Said (''  Identity:   '' @ name @ '' (write=yes)''),
                  Said (''  Listen:     '' @ addr), Said []] in
            if \<not> flag_bool got ''yes'' False \<and> \<not> confirmed_prompt (sh_answer sh)
            then (intro @ [Said ''aborted''], Finished, h)
            else install_at sh dir name addr (flag_int got ''token-budget'' 6000) intro h))"

section \<open>Status and version\<close>

definition default_manifest_url :: string where "default_manifest_url = ''https://rekam.net/version.json''"

definition update_message :: "shell \<Rightarrow> string" where
  "update_message sh =
     (case fetch_manifest (sh_manifest sh (env_or ''REKAM_UPDATE_URL'' default_manifest_url (sh_env sh))) of
        None \<Rightarrow> []
      | Some m \<Rightarrow> result_message (compare_release m (sh_edition sh) (fst (sh_build sh))))"

text \<open>What one round of \<^verbatim>\<open>watchForUpdates\<close> prints.\<close>

definition update_report :: "shell \<Rightarrow> string list" where
  "update_report sh = (let msg = update_message sh in if msg = [] then [] else [''rekam: '' @ msg])"

definition cmd_version :: "shell \<Rightarrow> host \<Rightarrow> outcome_of" where
  "cmd_version sh h =
     (case sh_build sh of (version, commit, built) \<Rightarrow> case sh_runtime sh of (go, platform) \<Rightarrow>
     (let msg = update_message sh in
      ([Said (''rekam '' @ version), Said (''  edition: '' @ sh_edition sh), Said (''  commit:  '' @ commit), Said (''  built:   '' @ built),
        Said (''  go:      '' @ go), Said (''  os/arch: '' @ platform)] @ (if msg = [] then [] else [Said [], Said (''  '' @ msg)]), Finished, h)))"

definition taxonomy_lines :: "shell \<Rightarrow> json option \<Rightarrow> said list" where
  "taxonomy_lines sh body =
     (case body of
        Some (JObj kvs) \<Rightarrow>
          (case map_value ''taxonomy'' kvs of
             Some (JArr ps) \<Rightarrow>
               Said (''taxonomy:  '' @ itoa (int (length ps)) @ '' paths'') # map (\<lambda>p. Said (''           '' @ sh_show sh p)) ps
           | _ \<Rightarrow> [])
      | _ \<Rightarrow> [])"

definition cmd_status :: "shell \<Rightarrow> string list \<Rightarrow> host \<Rightarrow> outcome_of" where
  "cmd_status sh args h =
     with_flags [(''registry'', Words), (''addr'', Words), (''key'', Words)] args h (\<lambda>got _.
       let path = flag_text got ''registry'' (default_registry sh);
           addr = flag_text got ''addr'' (env_or ''REKAM_ADDR'' ''http://localhost:5000'' (sh_env sh));
           key = flag_text got ''key'' (sh_env sh ''REKAM_API_KEY'');
           (version, commit, built) = sh_build sh;
           (count, h1) = (case open_registry sh h path of
              None \<Rightarrow> (Told ''registry:  ERROR - '' (Unopened path), h)
            | Some r \<Rightarrow> (Said (''identities: '' @ itoa (int (length (list_identities r)))), put_host_registry path r h)) in
       ([Said (''version:   '' @ version @ '' ('' @ commit @ '') built '' @ built), Said (''registry:  '' @ path), count] @
        (case sh_ping sh (ping_url addr) key of
           None \<Rightarrow> [Told ''server:    offline '' (Unreachable (ping_url addr))]
         | Some body \<Rightarrow> Said (''server:    online ('' @ server_addr addr @ '')'') # taxonomy_lines sh body), Finished, h1))"

section \<open>Dispatch\<close>

text \<open>\<open>srv\<close> is the command \<^verbatim>\<open>serve\<close>.\<close>

definition loaded_shell :: "shell \<Rightarrow> host \<Rightarrow> shell" where
  "loaded_shell sh h =
     sh\<lparr>sh_env := auto_load_env
          (case sh_home sh of None \<Rightarrow> None | Some home \<Rightarrow> ho_files h (sh_join sh (sh_join sh home ''.rekam'') ''.env'')) (sh_env sh)\<rparr>"

definition rekam_main ::
  "(shell \<Rightarrow> string list \<Rightarrow> host \<Rightarrow> outcome_of) \<Rightarrow> shell \<Rightarrow> string list \<Rightarrow> host \<Rightarrow> outcome_of" where
  "rekam_main srv sh0 args h =
     (let sh = loaded_shell sh0 h in
      case args of
        [] \<Rightarrow> ([], Misused ''usage: rekam <command> [flags]'', h)
      | c # rest \<Rightarrow>
          if c = ''install'' then cmd_install sh rest h
          else if c = ''serve'' then srv sh rest h
          else if c = ''stop'' then cmd_stop sh rest h
          else if c = ''restart'' then cmd_restart sh rest h
          else if c = ''status'' then cmd_status sh rest h
          else if c = ''version'' \<or> c = ''--version'' \<or> c = ''-v'' then cmd_version sh h
          else if c = ''key'' then cmd_key sh rest h
          else if c = ''grant'' then cmd_grant sh rest h
          else ([], Misused (''unknown command: '' @ c), h))"

end
