(* ===== verification/Rekam_Process.thy ===== *)
theory Rekam_Process
  imports Mcp_Properties Command_Line
begin

text \<open>
  The whole process (\<^verbatim>\<open>cmdServe\<close> of \<^verbatim>\<open>cmd/rekam/main.go\<close>): the start, with the administrator it makes sure of,
  and the two servers behind one mux on one engine.
\<close>

section \<open>The administrator\<close>

definition admin_email :: "environ \<Rightarrow> string" where
  "admin_email env = env_or ''REKAM_ADMIN_EMAIL'' ''admin@rekam.local'' env"

definition admin_password :: "environ \<Rightarrow> string" where
  "admin_password env = env_or ''REKAM_ADMIN_PASSWORD'' ''test'' env"

text \<open>\<open>wb_fresh wb\<close> are the salt of an adoption, then id, key and salt of a new account.\<close>

definition bootstrap_admin :: "web \<Rightarrow> environ \<Rightarrow> string \<Rightarrow> string \<Rightarrow> engine \<Rightarrow> said list \<times> engine" where
  "bootstrap_admin wb env users_dir master e =
     (if admin_exists (en_registry e) then ([], e)
      else
     (let w = wb_world wb; email = admin_email env;
          password = admin_password env;
          warned = (if password = ''test''
                    then [Said ''warning: REKAM_ADMIN_PASSWORD is the default \"test\" - set it before exposing rekam publicly''] else []);
          fresh_account = (case engine_create_user w e (wb_fresh wb 1) (wb_fresh wb 2) (wb_fresh wb 3) ''admin'' email password
                               (wb_join wb users_dir ''admin.rekam'') True True of
             (Inl err, e') \<Rightarrow> (warned @ [Told ''warning: could not bootstrap admin account: '' (EngineFailed err)], e')
           | (Inr _, e') \<Rightarrow> (warned @ [Said (''bootstrapped admin account: '' @ email @ '' (log in via the web UI)'')], e')) in
      if master = [] then fresh_account
      else (case promote_to_admin w e (wb_fresh wb 0) master email password of
              (Inr idn, e') \<Rightarrow>
                (warned @ [Said (''adopted master identity \"'' @ iy_name idn @ ''\" as admin: '' @ email @ '' (log in via the web UI)'')], e')
            | (Inl _, _) \<Rightarrow> fresh_account)))"

section \<open>The start\<close>

definition serve_flags :: "(string \<times> flag_kind) list" where
  "serve_flags =
     [(''registry'', Words), (''addr'', Words), (''token-budget'', Number), (''stdio'', Switch), (''key'', Words),
      (''replicate'', Switch), (''replicate-bucket'', Words), (''replicate-prefix'', Words), (''replicate-region'', Words),
      (''replicate-endpoint'', Words), (''replicate-owner'', Words)]"

text \<open>The configuration of the server beside what changes from request to request.\<close>

definition serve_web :: "shell \<Rightarrow> web \<Rightarrow> string \<Rightarrow> string + web" where
  "serve_web sh wb users_dir =
     (let env = sh_env sh;
          conf = wb\<lparr>wb_admin_key := env ''REKAM_ADMIN_KEY'', wb_users_dir := users_dir, wb_edition := sh_edition sh,
                    wb_trusted := default_trusted_proxies,
                    wb_mailer := (env ''RESEND_API_KEY'' \<noteq> [] \<and> env ''RESEND_FROM'' \<noteq> [])\<rparr> in
      if env ''REKAM_TRUSTED_PROXIES'' = [] then Inr conf
      else (case parse_trusted_proxies (env ''REKAM_TRUSTED_PROXIES'') of
              Inl field \<Rightarrow> Inl field | Inr ps \<Rightarrow> Inr (conf\<lparr>wb_trusted := ps\<rparr>)))"

record process =
  pr_server :: server
  pr_sessions :: "string \<Rightarrow> mcp_session option"

text \<open>How a start ends: the process is over, speaks MCP on its standard streams with one key, or listens.\<close>

datatype started = Over ending | Stdio string engine | Listening web string process

text \<open>
  \<open>repl\<close> is the replication, \<open>None\<close> when it does not come up, \<open>restored\<close> whether the registry was; \<open>files\<close> and
  \<open>blobs\<close> are the tenant files on disk; \<open>order\<close> and \<open>es\<close> as for \<^const>\<open>enable_docs\<close>, whose
  error is not printed here.
\<close>

definition start_docs ::
  "shell \<Rightarrow> web \<Rightarrow> (memory list \<Rightarrow> memory list) \<Rightarrow> entry list \<Rightarrow> string \<Rightarrow> server \<Rightarrow> said list \<times> server" where
  "start_docs sh wb order es users_dir sv =
     (if sh_edition sh = ''managed'' \<and> to_lower (sh_env sh ''REKAM_DOCS'') \<noteq> ''off''
      then (let path = env_or ''REKAM_DOCS_PATH'' (wb_join wb users_dir ''docs.rekam'') (sh_env sh) in
            case enable_docs wb order es path (sv_engine sv) of
              (Inl _, e) \<Rightarrow> ([Said ''rekam: public docs disabled''], sv\<lparr>sv_engine := e\<rparr>)
            | (Inr d, e) \<Rightarrow>
                (case docs_sync_counts (Some d) of (ins, upd, rem) \<Rightarrow>
                  ([Said (''rekam: public docs at /docs - '' @ itoa (int ins) @ '' added, '' @ itoa (int upd) @ '' updated, '' @ itoa (int rem)
                      @ '' removed ('' @ path @ '')'')], sv\<lparr>sv_engine := e, sv_docs := Some d\<rparr>)))
      else ([], sv))"

definition start_engine ::
  "shell \<Rightarrow> web \<Rightarrow> 'l replication option \<Rightarrow> bool \<Rightarrow> (string \<Rightarrow> store) \<Rightarrow> (string \<Rightarrow> file_row list)
     \<Rightarrow> (string \<times> string) list \<Rightarrow> host \<Rightarrow> (ending + engine) \<times> host" where
  "start_engine sh wb repl restored files blobs got h =
     (let env = sh_env sh; path = flag_text got ''registry'' (default_registry sh);
          budget = flag_int got ''token-budget'' (env_int ''REKAM_TOKEN_BUDGET'' 6000 env);
          replicate = flag_bool got ''replicate'' (env_or ''REKAM_REPLICATE'' [] env \<noteq> []) in
      if replicate \<and> flag_text got ''replicate-bucket'' (env ''REKAM_REPLICATE_BUCKET'') = [] then (Inl (Fatal ''replicate'' NoBucket), h)
      else if replicate \<and> repl = None then (Inl (Fatal ''start replication'' NoReplication), h)
      else if replicate \<and> \<not> restored then (Inl (Fatal ''restore registry'' (NotRestored path)), h)
      else (case open_registry sh h path of
              None \<Rightarrow> (Inl (Fatal ''open registry'' (Unopened path)), h)
            | Some r \<Rightarrow>
                (Inr (new_engine r files blobs budget (if replicate then repl else None) (if replicate then path else [])),
                 put_host_registry path r h)))"

definition cmd_serve ::
  "shell \<Rightarrow> web \<Rightarrow> 'l replication option \<Rightarrow> bool \<Rightarrow> (string \<Rightarrow> store) \<Rightarrow> (string \<Rightarrow> file_row list)
     \<Rightarrow> (memory list \<Rightarrow> memory list) \<Rightarrow> entry list \<Rightarrow> string list \<Rightarrow> host \<Rightarrow> said list \<times> started \<times> host" where
  "cmd_serve sh wb repl restored files blobs order es args h =
     (case parse_flags serve_flags args [] of
        Inl fault \<Rightarrow> ([], Over (BadFlags fault), h)
      | Inr (got, _) \<Rightarrow>
     (case start_engine sh wb repl restored files blobs got h of
        (Inl over, h1) \<Rightarrow> ([], Over over, h1)
      | (Inr e, h1) \<Rightarrow>
     (let env = sh_env sh; path = flag_text got ''registry'' (default_registry sh);
          users_dir = sh_join sh (sh_dirname sh path) ''users'';
          addr = normalize_addr (flag_text got ''addr'' (env_or ''REKAM_ADDR'' (default_listen_addr (sh_edition sh)) env));
          key = flag_text got ''key'' (env ''REKAM_API_KEY'') in
      if \<not> sh_mkdir sh users_dir then ([], Over (Fatal ''create users directory'' (NoDirectory users_dir)), h1)
      else
     (case bootstrap_admin wb env users_dir key e of
        (lines, e1) \<Rightarrow>
          if flag_bool got ''stdio'' False
          then (lines @ [Said (''rekam '' @ fst (sh_build sh) @ '': MCP stdio (registry: '' @ path @ '')'')], Stdio key e1, h1)
          else
         (case serve_web sh wb users_dir of
            Inl field \<Rightarrow> (lines, Over (Fatal ''REKAM_TRUSTED_PROXIES'' (NotAnAddress field)), h1)
          | Inr conf \<Rightarrow>
              (case start_docs sh conf order es users_dir (new_server conf e1) of (docs_lines, sv) \<Rightarrow>
              (lines @ [Said (if wb_mailer conf then ''rekam: email delivery enabled via Resend ('' @ env ''RESEND_FROM'' @ '')''
                        else ''rekam: WARNING: RESEND_API_KEY or RESEND_FROM not set - outgoing emails disabled, tokens will fall back to inline API responses (dev mode only)'')] @ docs_lines @
                [Said (''rekam '' @ fst (sh_build sh) @ '' ('' @ sh_edition sh @ '' edition): listening on '' @ addr @ '' (REST + MCP SSE at /mcp)'')],
               Listening conf addr \<lparr>pr_server = sv, pr_sessions = Map.empty\<rparr>, h1)))))))"

section \<open>Two servers on one engine\<close>

definition pr_engine :: "process \<Rightarrow> engine" where "pr_engine p = sv_engine (pr_server p)"

definition mcp_side :: "process \<Rightarrow> mcp_server" where
  "mcp_side p = \<lparr>mc_engine = pr_engine p, mc_sessions = pr_sessions p\<rparr>"

definition with_mcp :: "mcp_server \<Rightarrow> process \<Rightarrow> process" where
  "with_mcp s p = \<lparr>pr_server = (pr_server p)\<lparr>sv_engine := mc_engine s\<rparr>, pr_sessions = mc_sessions s\<rparr>"

text \<open>The patterns \<^verbatim>\<open>/mcp\<close> and \<^verbatim>\<open>/mcp/\<close>; everything else goes to the API.\<close>

definition mcp_path :: "string \<Rightarrow> bool" where
  "mcp_path path \<longleftrightarrow>
     match_segments (segments_of ''/mcp'') (segments_of path) \<noteq> None \<or> match_segments (segments_of ''/mcp/'') (segments_of path) \<noteq> None"

datatype answer = ApiAnswer response | McpAnswer "mcp_response option"

definition process_request :: "mcp_env \<Rightarrow> request \<Rightarrow> process \<Rightarrow> answer \<times> process" where
  "process_request env r p =
     (let wb = mc_web env; path = (if rq_method r = ''CONNECT'' then rq_path r else clean_path (rq_path r)) in
      if path \<noteq> rq_path r
      then (ApiAnswer ((redirect_to (wb_render_url wb \<lparr>ur_scheme = [], ur_host = [], ur_hostname = [], ur_path = path,
                            ur_query = rq_query r, ur_rest = []\<rparr>))\<lparr>rs_status := 307\<rparr>), p)
      else if mcp_path path then (case sse_handler env r (mcp_side p) of (m, s) \<Rightarrow> (McpAnswer m, with_mcp s p))
      else (case serve wb r (pr_server p) of (rs, sv) \<Rightarrow> (ApiAnswer rs, p\<lparr>pr_server := sv\<rparr>)))"

text \<open>Runs: requests to either server, the loops of the event streams, ends of connections.\<close>

inductive process_run :: "world \<Rightarrow> process \<Rightarrow> process \<Rightarrow> bool" for w where
  Boot: "process_run w p p"
| Request: "process_run w p p1 \<Longrightarrow> same_algorithms w (env_world env) \<Longrightarrow> fresh_id (pr_engine p1) (wb_fresh (mc_web env) 0)
    \<Longrightarrow> process_run w p (snd (process_request env r p1))"
| Stream: "process_run w p p1 \<Longrightarrow> process_run w p (with_mcp (snd (sse_forward sid (mcp_side p1))) p1)"
| Hangup: "process_run w p p1 \<Longrightarrow> process_run w p (with_mcp (sse_close sid (mcp_side p1)) p1)"

end
