(* ===== verification/Process_Properties.thy ===== *)
theory Process_Properties
  imports Rekam_Process
begin

text \<open>
  What holds of the process as a whole: its runs are runs of the engine, and what the start does about an
  administrator.
\<close>

section \<open>Runs of the process\<close>

lemma mcp_side_simps [simp]: "mc_engine (mcp_side p) = pr_engine p" "pr_engine (with_mcp s p) = mc_engine s"
  "mc_sessions (mcp_side p) = pr_sessions p"
  by (simp_all add: mcp_side_def with_mcp_def pr_engine_def)

lemma stream_engine [simp]: "mc_engine (snd (sse_forward sid s)) = mc_engine s" "mc_engine (sse_close sid s) = mc_engine s"
  by (simp_all add: sse_forward_def sse_close_def split: option.split list.split)

lemma request_steps:
  assumes "fresh_id (pr_engine p) (wb_fresh (mc_web env) 0)"
  shows "steps (env_world env) (pr_engine p) (pr_engine (snd (process_request env r p)))"
proof -
  have "steps (env_world env) (pr_engine p) (mc_engine (snd (sse_handler env r (mcp_side p))))"
    using mcp.transport_keeps [of "mcp_side p" r env] assms by simp
  moreover have "steps (env_world env) (pr_engine p) (sv_engine (snd (serve (mc_web env) r (pr_server p))))"
    using solo.serve_keeps [of "pr_server p" "mc_web env" r] assms by (simp add: serve_def pr_engine_def)
  ultimately show ?thesis
    by (cases "sse_handler env r (mcp_side p)"; cases "serve (mc_web env) r (pr_server p)")
       (auto simp: process_request_def Let_def pr_engine_def with_mcp_def)
qed

lemma bootstrap_steps: "steps (wb_world wb) e (snd (bootstrap_admin wb env dir key e))"
proof -
  let ?w = "wb_world wb"
  have create: "steps ?w e e'" if "engine_create_user ?w e i raw salt name email pw path aw adm = (x, e')"
    for i raw salt name email pw path aw adm x e'
    using engine_step.CreateUser [of ?w e i raw salt name email pw path aw adm] that by (simp add: r_into_rtranclp)
  have promote: "steps ?w e e'" if "promote_to_admin ?w e salt k email pw = (x, e')" for salt k email pw x e'
    using engine_step.PromoteToAdmin [of ?w e salt k email pw] that by (simp add: r_into_rtranclp)
  show ?thesis
    by (auto simp: bootstrap_admin_def Let_def dest: create promote split: prod.split sum.split)
qed

text \<open>C5: The whole program refines the engine: from the boot on, whatever requests reach the REST server or the
  MCP server, over any transport and in any interleaving, with event streams served and cut off at any time,
  the state of the process is one that calls of the engine produce; the bootstrap of the administrator
  is such calls too. So every tenant file, the registry and every blob store stay well formed behind
  the listening process.\<close>

theorem process_refines_engine:
  shows "(process_run w p p' \<longrightarrow> served w (pr_engine p) (pr_engine p'))
    \<and> (process_run w p p' \<longrightarrow> rounding_ok w \<longrightarrow> engine_ok w (pr_engine p) \<longrightarrow> engine_ok w (pr_engine p'))
    \<and> (served (wb_world wb) e (snd (bootstrap_admin wb env dir key e)))"
proof (rule conjI [OF _ conjI]; (intro impI)?)
  show run: "process_run w p p' \<Longrightarrow> served w (pr_engine p) (pr_engine p')"
  proof (induction rule: process_run.induct)
    case (Request p p1 env r)
    then show ?case by (auto intro: served_steps request_steps)
  qed (simp_all add: served.Start)
  show "engine_ok w (pr_engine p')" if "process_run w p p'" "rounding_ok w" "engine_ok w (pr_engine p)"
    using served_ok [OF run [OF that(1)] that(2,3)] .
  show "served (wb_world wb) e (snd (bootstrap_admin wb env dir key e))"
    by (rule served_steps [OF bootstrap_steps _ served.Start]) (simp add: same_algorithms_def)
qed

definition eg_process :: process where "eg_process = \<lparr>pr_server = eg_server, pr_sessions = Map.empty\<rparr>"

lemma process_refines_engine_witness:
  "\<exists>p. process_run eg_world eg_process p \<and> p = snd (process_request eg_env (plain_request ''POST'' ''/mcp'' ''ke'') eg_process)
     \<and> served eg_world eg_engine (pr_engine p) \<and> engine_ok eg_world (pr_engine p)"
proof -
  let ?p = "snd (process_request eg_env (plain_request ''POST'' ''/mcp'' ''ke'') eg_process)"
  have e: "pr_engine eg_process = eg_engine" by (simp add: pr_engine_def eg_process_def)
  have run: "process_run eg_world eg_process ?p"
    using eg_fresh by (intro process_run.Request process_run.Boot) (simp_all add: same_algorithms_def eg_env_def e)
  from process_refines_engine [of eg_world eg_process ?p] show ?thesis
    using run eg_rounding eg_engine_ok by (auto simp: e)
qed

section \<open>The administrator\<close>

lemma short_password:
  assumes "length pw < min_password"
  shows "\<exists>err. engine_create_user w e i raw salt name email pw path aw adm = (Inl err, e)"
    and "\<exists>err. promote_to_admin w e salt key email pw = (Inl err, e)"
  using assms
  by (auto simp: engine_create_user_def on_registry_def create_user_def promote_to_admin_def set_credentials_def hash_password_def
      Let_def split: option.split sum.split prod.split)

text \<open>With the default settings no administrator is ever created: the built-in password \<^verbatim>\<open>test\<close>, like every
  one shorter than eight bytes, is refused by both ways of \<^verbatim>\<open>bootstrapAdmin\<close>, at every start again; the
  process warns, leaves everything as it was, and serves.\<close>

theorem default_bootstrap_fails:
  shows "length (admin_password env) < min_password \<Longrightarrow> snd (bootstrap_admin wb env dir key e) = e"
    and "env ''REKAM_ADMIN_PASSWORD'' = [] \<Longrightarrow> length (admin_password env) < min_password"
proof -
  show "snd (bootstrap_admin wb env dir key e) = e" if short: "length (admin_password env) < min_password"
  proof -
    obtain err where "engine_create_user (wb_world wb) e (wb_fresh wb 1) (wb_fresh wb 2) (wb_fresh wb 3) ''admin''
        (admin_email env) (admin_password env)
        (wb_join wb dir ''admin.rekam'') True True = (Inl err, e)"
      using short_password(1) [OF short] by blast
    moreover obtain err' where "promote_to_admin (wb_world wb) e (wb_fresh wb 0) key
        (admin_email env) (admin_password env) = (Inl err', e)"
      using short_password(2) [OF short] by blast
    ultimately show ?thesis by (simp add: bootstrap_admin_def Let_def)
  qed
qed (simp add: admin_password_def env_or_def min_password_def)

lemma default_bootstrap_fails_witness:
  "snd (bootstrap_admin eg_web (\<lambda>_. []) ''users'' ''kv'' eg_engine) = eg_engine"
  by (rule default_bootstrap_fails(1)) (rule default_bootstrap_fails(2), rule refl)

lemma registry_of_put [simp]: "require_registry_primary (put_registry r e) = require_registry_primary e"
  by (simp add: require_registry_primary_def put_registry_def)

text \<open>The account that a key names is adopted.\<close>

lemma adopted:
  assumes primary: "require_registry_primary e = None" and admin: "\<not> admin_exists (en_registry e)" and key: "master \<noteq> []"
    and row: "tbl_get ir_key (wd_hash (wb_world wb) master) (rg_idents (en_registry e)) = Some row"
    and email: "validate_email (normalize_email (admin_email env)) = None"
    and free: "\<forall>x \<in> set (rg_idents (en_registry e)). ir_id x \<noteq> ir_id row
        \<longrightarrow> \<not> email_clash (Some (normalize_email (admin_email env))) (ir_email x)"
    and enc: "hash_password (wd_kdf (wb_world wb)) (wb_fresh wb 0) (admin_password env) = Inr enc"
  shows "snd (bootstrap_admin wb env dir master e) =
      put_registry (update_identity (ir_id row) (\<lambda>x. x\<lparr>ir_email := Some (normalize_email (admin_email env)),
         ir_pw := Some enc, ir_admin := True\<rparr>) (en_registry e)) e"
proof -
  let ?r = "update_identity (ir_id row) (\<lambda>x. x\<lparr>ir_email := Some (normalize_email (admin_email env)), ir_pw := Some enc, ir_admin := True\<rparr>) (en_registry e)"
  have mem: "row \<in> set (rg_idents (en_registry e))" using row by (auto simp: tbl_get_def find_Some_iff)
  have creds: "set_credentials (wd_kdf (wb_world wb)) (wb_fresh wb 0) (ir_id row) (admin_email env)
      (admin_password env) True (en_registry e) = Inr ?r"
    using email free enc mem by (auto simp: set_credentials_def tbl_has_iff list_ex_iff Let_def)
  have "\<exists>idn. resolve_by_id (ir_id row) ?r = Inr idn"
  proof -
    have "tbl_get ir_id (ir_id row) (rg_idents (en_registry e)) \<noteq> None"
      using mem by (auto simp: tbl_get_def find_None_iff)
    then show ?thesis by (auto simp: resolve_by_id_def update_identity_def tbl_get_upd)
  qed
  then obtain idn where "promote_to_admin (wb_world wb) e (wb_fresh wb 0) master (admin_email env) (admin_password env)
      = (Inr idn, put_registry ?r e)"
    using creds row primary by (auto simp: promote_to_admin_def on_registry_def resolve_key_def)
  then show ?thesis using admin key by (simp add: bootstrap_admin_def Let_def)
qed

lemma tbl_get_map: "(\<And>x. key (f x) = key x) \<Longrightarrow> tbl_get key k (map f rows) = map_option f (tbl_get key k rows)"
  by (induction rows) (simp_all add: tbl_get_def)

definition confirm_row :: "ident_row \<Rightarrow> ident_row" where
  "confirm_row row = (if str_of (ir_pw row) \<noteq> [] \<and> ir_ctoken row = None then row\<lparr>ir_confirmed := True\<rparr> else row)"

lemma confirm_row_simps [simp]: "ir_email (confirm_row row) = ir_email row" "ir_id (confirm_row row) = ir_id row"
  "ir_pw (confirm_row row) = ir_pw row" "scan_identity (confirm_row row) = scan_identity row"
  by (simp_all add: confirm_row_def scan_identity_def)

lemma backfill_rows: "rg_idents (backfill_confirmed r) = map confirm_row (rg_idents r)"
  by (simp add: backfill_confirmed_def confirm_row_def)

text \<open>What a password check finds after an update of the one account with the address.\<close>

lemma authenticate_after:
  assumes ok: "reg_ok r" and mem: "row \<in> set (rg_idents r)"
    and free: "\<forall>x \<in> set (rg_idents r). ir_id x \<noteq> ir_id row \<longrightarrow> \<not> email_clash (Some m) (ir_email x)" and m: "m \<noteq> []"
    and enc: "hash_password kdf salt pw = Inr enc" and len: "\<And>p s n k d. kdf p s n k = Some d \<Longrightarrow> length d = k"
    and upd: "r' = update_identity (ir_id row) (\<lambda>x. x\<lparr>ir_email := Some m, ir_pw := Some enc, ir_admin := True\<rparr>) r"
    and mail: "normalize_email email = m"
  shows "authenticate_password kdf email pw r' = Inr (scan_identity (row\<lparr>ir_email := Some m, ir_pw := Some enc, ir_admin := True\<rparr>))"
    and "tbl_get ir_id (ir_id row) (rg_idents r') = Some (row\<lparr>ir_email := Some m, ir_pw := Some enc, ir_admin := True\<rparr>)"
    and "authenticate_password kdf email pw (backfill_confirmed r') = authenticate_password kdf email pw r'"
proof -
  let ?f = "\<lambda>x. x\<lparr>ir_email := Some m, ir_pw := Some enc, ir_admin := True\<rparr> :: ident_row"
  have ids: "idents_ok (rg_idents r)" using ok by (simp add: reg_ok_def)
  have only: "x = row" if "x \<in> set (rg_idents r)" "ir_id x = ir_id row" for x
    using idents_ok_unique [OF ids that(1) mem] that(2) by (simp add: ident_clash_def)
  have set': "set (rg_idents r') = (\<lambda>x. if ir_id x = ir_id row then ?f x else x) ` set (rg_idents r)"
    by (simp add: upd update_identity_def tbl_upd_def)
  have hit: "tbl_get ir_email (Some m) (rg_idents r') = Some (?f row)"
  proof (rule tbl_get_only)
    show "?f row \<in> set (rg_idents r')" using mem unfolding set' by force
    show "y = ?f row" if "y \<in> set (rg_idents r')" "ir_email y = Some m" for y
      using that free only m unfolding set' by (auto simp: email_clash_def split: if_splits)
  qed simp
  obtain dk where dk: "kdf pw salt pbkdf2_iter pbkdf2_key_len = Some dk"
    and enc': "enc = ''pbkdf2_sha256$210000$'' @ base64_encode salt @ ''$'' @ base64_encode dk"
    by (rule hash_password_shape [OF enc])
  have verify: "verify_password kdf enc pw" "enc \<noteq> []"
    using verify_encoded [of kdf salt dk pw] len [OF dk] dk by (simp_all add: enc')
  show auth: "authenticate_password kdf email pw r' = Inr (scan_identity (?f row))"
    using hit verify by (simp add: authenticate_password_def mail)
  have "tbl_get ir_id (ir_id row) (rg_idents r) = Some row"
    by (rule tbl_get_only [OF mem]) (simp_all add: only)
  then show "tbl_get ir_id (ir_id row) (rg_idents r') = Some (?f row)"
    by (simp add: upd update_identity_def tbl_get_upd)
  show "authenticate_password kdf email pw (backfill_confirmed r') = authenticate_password kdf email pw r'"
    by (simp add: authenticate_password_def backfill_rows tbl_get_map mail hit)
qed

lemma tbl_get_member: "tbl_get key k rows = Some row \<Longrightarrow> row \<in> set rows"
  by (auto simp: tbl_get_def find_Some_iff)


definition eg_shell_env :: environ where
  "eg_shell_env = (\<lambda>_. [])(''REKAM_ADMIN_PASSWORD'' := ''password'', ''REKAM_API_KEY'' := ''k1'')"

definition eg_login :: request where
  "eg_login = (plain_request ''POST'' ''/ui/login'' [])\<lparr>rq_form := Some [(''email'', ''admin@rekam.local''), (''password'', ''password'')]\<rparr>"

lemma eg_admin_env: "admin_email eg_shell_env = ''admin@rekam.local''" "admin_password eg_shell_env = ''password''"
  by (simp_all add: admin_email_def admin_password_def env_or_def eg_shell_env_def)

lemma eg_login_credentials: "cr_email (read_credentials eg_login) = ''admin@rekam.local''" "cr_password (read_credentials eg_login) = ''password''"
  by code_simp+


section \<open>Install\<close>

lemma start_installed_keeps:
  assumes "sh_join sh = (\<lambda>a b. a @ CHR ''/'' # b)"
  shows "ho_registries (snd (start_installed sh dir addr env_path h)) = ho_registries h"
    and "ho_files (snd (start_installed sh dir addr env_path h)) (d @ ''/.env'') = ho_files h (d @ ''/.env'')"
proof -
  have other: "d @ ''/.env'' \<noteq> x @ ''/rekam.pid''" "d @ ''/.env'' \<noteq> x @ ''/server.log''" "d @ ''/.env'' \<noteq> x @ ''/rekam.service''" for x
    by (auto dest: arg_cong [where f = last])
  have run: "ho_registries (snd (run_all sh cmds k)) = ho_registries k" "ho_files (snd (run_all sh cmds k)) = ho_files k" for cmds k
    by (induction cmds arbitrary: k) (simp_all add: ran_def)
  note defs = start_installed_def install_user_service_def start_background_def touch_log_def pid_path_def put_text_def ran_def Let_def assms
  show "ho_registries (snd (start_installed sh dir addr env_path h)) = ho_registries h"
    using run by (simp add: defs split: prod.split option.split)
  show "ho_files (snd (start_installed sh dir addr env_path h)) (d @ ''/.env'') = ho_files h (d @ ''/.env'')"
    using run other by (simp add: defs split: prod.split option.split)
qed

lemma created_key:
  assumes "create_identity hash i name raw path aw now r = Inr (idn, r')"
  shows "resolve_key hash raw r' = Inr idn" and "iy_path idn = path" and "iy_write idn = aw" and "iy_name idn = name"
proof -
  let ?row = "bare_identity i name (hash raw) path aw (stamp now)"
  have ins: "insert_identity ?row r = Inr r'" and idn: "idn = scan_identity ?row"
    using assms by (auto simp: create_identity_def Let_def split: option.splits sum.splits)
  then have r': "rg_idents r' = rg_idents r @ [?row]" and none: "\<forall>x \<in> set (rg_idents r). \<not> ident_clash ?row x"
    by (auto simp: insert_identity_def list_ex_iff split: if_splits)
  have "tbl_get ir_key (hash raw) (rg_idents r') = Some ?row"
    by (rule tbl_get_only) (use none in \<open>auto simp: r' ident_clash_def bare_identity_def\<close>)
  then show "resolve_key hash raw r' = Inr idn" by (simp add: resolve_key_def idn)
  show "iy_path idn = path" "iy_write idn = aw" "iy_name idn = name" by (simp_all add: idn bare_identity_def)
qed

lemma backfill_key [simp]: "resolve_key hash raw (backfill_confirmed r) = resolve_key hash raw r"
proof -
  have "ir_key (confirm_row x) = ir_key x" for x by (simp add: confirm_row_def)
  then show ?thesis by (simp add: resolve_key_def backfill_rows tbl_get_map split: option.split)
qed

text \<open>What an install that went through has left.\<close>

lemma installed:
  assumes res: "install_at sh dir name addr budget intro h = (lines, Finished, h')" and join: "sh_join sh = (\<lambda>a b. a @ CHR ''/'' # b)"
  obtains rnd r idn where "sh_random sh = Some rnd" and "ho_registries h' (dir @ ''/registry.sqlite'') = Some r"
    and "resolve_key (sh_hash sh) (''mkey_'' @ rnd) r = Inr idn" and "iy_path idn = dir @ ''/default.rekam''" and "iy_write idn" and "iy_name idn = name"
    and "ho_files h' (dir @ ''/.env'') = Some (env_content (dir @ ''/registry.sqlite'') addr budget (''mkey_'' @ rnd))"
proof -
  obtain rnd r0 idn r where rnd: "sh_random sh = Some rnd"
    and made: "create_identity (sh_hash sh) (sh_fresh sh) name (''mkey_'' @ rnd) (dir @ ''/default.rekam'') True (sh_now sh) r0 = Inr (idn, r)"
    and h': "h' = snd (start_installed sh dir addr (dir @ ''/.env'')
        (put_text (dir @ ''/.env'') (env_content (dir @ ''/registry.sqlite'') addr budget (''mkey_'' @ rnd)) (put_host_registry (dir @ ''/registry.sqlite'') r h)))"
    using res by (auto simp: install_at_def join Let_def generate_key_def split: if_splits option.splits sum.splits prod.splits)
  show thesis
    by (rule that [OF rnd _ created_key(1) [OF made] created_key(2) [OF made] _ created_key(4) [OF made]])
       (simp_all add: h' start_installed_keeps [OF join] put_text_def put_host_registry_def created_key(3) [OF made])
qed

text \<open>C32: What \<^verbatim>\<open>install\<close> leaves is what the next command works with: in an environment that sets none of the four
  variables, with the install in \<^verbatim>\<open>~/.rekam\<close>, \<^verbatim>\<open>main\<close> loads exactly the installed registry path, address, token budget
  and key from the \<^verbatim>\<open>.env\<close> file, and in the registry it then opens that key resolves to the installed
  identity, which may write to the installed memory file. (The directory has no line break or zero byte; the
  address is text a line can carry.)\<close>

theorem install_then_use:
  assumes res: "install_at sh dir name addr budget intro h = (lines, Finished, h')"
    and join: "sh_join sh = (\<lambda>a b. a @ CHR ''/'' # b)" "sh_join sh' = sh_join sh"
    and home: "sh_home sh' = Some home" "dir = home @ ''/.rekam''"
    and clean: "CHR 0x0A \<notin> set dir" "CHR 0x00 \<notin> set dir" "plain_value addr" "\<And>rnd. sh_random sh = Some rnd \<Longrightarrow> plain_value rnd"
    and budget: "- (2 ^ 63) \<le> budget" "budget < 2 ^ 63"
    and unset: "\<forall>k \<in> {''REKAM_REGISTRY'', ''REKAM_ADDR'', ''REKAM_TOKEN_BUDGET'', ''REKAM_API_KEY''}. sh_env sh' k = []"
    and same: "sh_hash sh' = sh_hash sh" and opens: "sh_opens sh' (dir @ ''/registry.sqlite'')"
    and sh1: "sh1 = loaded_shell sh' h'"
  shows "(default_registry sh1 = dir @ ''/registry.sqlite'')
    \<and> (sh_env sh1 ''REKAM_ADDR'' = addr)
    \<and> (env_int ''REKAM_TOKEN_BUDGET'' 6000 (sh_env sh1) = budget)
    \<and> (\<exists>r idn. open_registry sh1 h' (default_registry sh1) = Some r
          \<and> resolve_key (sh_hash sh1) (sh_env sh1 ''REKAM_API_KEY'') r = Inr idn
          \<and> iy_name idn = name \<and> iy_write idn \<and> iy_path idn = dir @ ''/default.rekam'')"
proof (rule conjI [OF _ conjI [OF _ conjI]])
  obtain rnd r idn where rnd: "sh_random sh = Some rnd" and reg: "ho_registries h' (dir @ ''/registry.sqlite'') = Some r"
    and key: "resolve_key (sh_hash sh) (''mkey_'' @ rnd) r = Inr idn" "iy_path idn = dir @ ''/default.rekam''" "iy_write idn" "iy_name idn = name"
    and env: "ho_files h' (dir @ ''/.env'') = Some (env_content (dir @ ''/registry.sqlite'') addr budget (''mkey_'' @ rnd))"
    by (rule installed [OF res join(1)])
  have plain: "plain_value (dir @ ''/registry.sqlite'')" "plain_value (''mkey_'' @ rnd)"
    using clean(1,2) clean(4) [OF rnd] by (auto simp: plain_value_def is_space_def)
  note reloaded = install_env_roundtrip(1,2) [OF plain(1) clean(3) plain(2) budget unset]
  have loaded: "sh_env sh1 = auto_load_env (Some (env_content (dir @ ''/registry.sqlite'') addr budget (''mkey_'' @ rnd))) (sh_env sh')"
    using env by (simp add: sh1 loaded_shell_def home join)
  note env1 = trans [OF loaded reloaded(1)]
  show reg1: "default_registry sh1 = dir @ ''/registry.sqlite''"
    by (simp add: default_registry_def env_or_def env1)
  show "sh_env sh1 ''REKAM_ADDR'' = addr" by (simp add: env1)
  show "env_int ''REKAM_TOKEN_BUDGET'' 6000 (sh_env sh1) = budget" unfolding loaded by (rule reloaded(2))
  have key1: "sh_env sh1 ''REKAM_API_KEY'' = ''mkey_'' @ rnd" by (simp add: env1)
  have "sh_hash sh1 = sh_hash sh" "sh_opens sh1 = sh_opens sh'" by (simp_all add: sh1 loaded_shell_def same)
  then show "\<exists>r idn. open_registry sh1 h' (default_registry sh1) = Some r
          \<and> resolve_key (sh_hash sh1) (sh_env sh1 ''REKAM_API_KEY'') r = Inr idn
          \<and> iy_name idn = name \<and> iy_write idn \<and> iy_path idn = dir @ ''/default.rekam''"
    using key opens reg unfolding reg1 key1 by (simp add: open_registry_def)
qed

definition eg_shell :: shell where
  "eg_shell =
     \<lparr>sh_env = (\<lambda>_. []), sh_home = Some ''/h'', sh_user = ''ann'', sh_systemd = False, sh_exe = Some ''/bin/rekam'', sh_edition = ''solo'',
      sh_build = (''dev'', ''unknown'', ''unknown''), sh_runtime = (''go'', ''linux/amd64''), sh_answer = [], sh_abs = Some,
      sh_join = (\<lambda>a b. a @ CHR ''/'' # b), sh_dirname = (\<lambda>_. ''/h/.rekam''), sh_mkdir = (\<lambda>_. True), sh_chmod = (\<lambda>_. True),
      sh_writable = (\<lambda>_. True), sh_opens = (\<lambda>_. True), sh_run = (\<lambda>_. True), sh_start = (\<lambda>_. Some 7), sh_signal = (\<lambda>_. True),
      sh_random = Some ''ab'', sh_fresh = ''u'', sh_now = 0, sh_hash = id, sh_day = (\<lambda>_. []), sh_ping = (\<lambda>_ _. None),
      sh_show = (\<lambda>_. []), sh_manifest = (\<lambda>_. None)\<rparr>"

definition eg_host :: host where
  "eg_host = \<lparr>ho_files = (\<lambda>_. None), ho_registries = (\<lambda>_. None), ho_processes = []\<rparr>"

lemma eg_installed:
  "\<exists>lines h'. install_at eg_shell ''/h/.rekam'' ''ann'' '':5000'' 6000 [] eg_host = (lines, Finished, h')"
  by (simp add: install_at_def eg_shell_def eg_host_def open_registry_def generate_key_def empty_registry_def backfill_confirmed_def
      create_identity_def validate_identity_fields_def trim_space_def trim_by_def is_space_def is_control_def max_identity_name_len_def
      max_memory_path_len_def insert_identity_def Let_def start_installed_def start_background_def put_text_def put_host_registry_def)

lemma install_then_use_witness:
  "\<exists>h'. default_registry (loaded_shell eg_shell h') = ''/h/.rekam/registry.sqlite''
     \<and> (\<exists>r idn. open_registry (loaded_shell eg_shell h') h' ''/h/.rekam/registry.sqlite'' = Some r
          \<and> resolve_key id (sh_env (loaded_shell eg_shell h') ''REKAM_API_KEY'') r = Inr idn \<and> iy_name idn = ''ann'')"
proof -
  obtain lines h' where inst: "install_at eg_shell ''/h/.rekam'' ''ann'' '':5000'' 6000 [] eg_host = (lines, Finished, h')"
    using eg_installed by blast
  have join: "sh_join eg_shell = (\<lambda>a b. a @ CHR ''/'' # b)" and home: "sh_home eg_shell = Some ''/h''" "''/h/.rekam'' = ''/h'' @ ''/.rekam''"
    and clean: "CHR 0x0A \<notin> set ''/h/.rekam''" "CHR 0x00 \<notin> set ''/h/.rekam''" "plain_value '':5000''"
    and rnd: "\<And>rnd. sh_random eg_shell = Some rnd \<Longrightarrow> plain_value rnd" and small: "- (2 ^ 63) \<le> (6000 :: int)" "(6000 :: int) < 2 ^ 63"
    and unset: "\<forall>k \<in> {''REKAM_REGISTRY'', ''REKAM_ADDR'', ''REKAM_TOKEN_BUDGET'', ''REKAM_API_KEY''}. sh_env eg_shell k = []"
    and opens: "sh_opens eg_shell (''/h/.rekam'' @ ''/registry.sqlite'')" and hash: "sh_hash (loaded_shell eg_shell h') = id"
    by (auto simp: eg_shell_def plain_value_def is_space_def loaded_shell_def)
  note use = install_then_use [OF inst join refl home clean rnd small unset refl opens refl]
  show ?thesis using use unfolding hash by auto
qed

end
