(* ===== verification/Docs_Properties.thy ===== *)
theory Docs_Properties
  imports Docs_Sync Tenant_Examples "HOL-Library.Multiset"
begin

text \<open>
  What a sync of the documentation leaves: the corpus is the documents, and a second sync writes nothing.
\<close>

section \<open>The documents\<close>

lemma load_docs_titles:
  "load_docs es seen = Inr ds \<Longrightarrow> distinct (map dc_title ds) \<and> (\<forall>t \<in> set (map dc_title ds). t \<notin> set seen)"
  by (induction es seen arbitrary: ds rule: load_docs.induct) (fastforce split: if_splits sum.splits)+

lemma sorted_docs_titles: "sorted_docs es = Inr ds \<Longrightarrow> distinct (map dc_title ds)"
  by (auto simp: sorted_docs_def distinct_map dest!: load_docs_titles split: sum.splits)

text \<open>The row of a tenant file that a document asks for.\<close>

definition holds_doc :: "doc \<Rightarrow> mem_row \<Rightarrow> bool" where
  "holds_doc d r = (m_title r = dc_title d \<and> doc_matches d (scan_memory r))"

definition titles_distinct :: "store \<Rightarrow> bool" where
  "titles_distinct st = distinct (map m_title (st_mems st))"

lemma one_title: "titles_distinct st \<Longrightarrow> r \<in> set (st_mems st) \<Longrightarrow> r' \<in> set (st_mems st) \<Longrightarrow> m_title r = m_title r' \<Longrightarrow> r = r'"
  by (auto simp: titles_distinct_def distinct_map dest: inj_onD)

lemma titles_distinct_insert:
  "titles_distinct st \<Longrightarrow> m_title r \<notin> m_title ` set (st_mems st) \<Longrightarrow> st_mems st' = st_mems st @ [r] \<Longrightarrow> titles_distinct st'"
  by (simp add: titles_distinct_def)

lemma titles_upd: "(\<And>r. m_title (f r) = m_title r) \<Longrightarrow> map m_title (tbl_upd key k f rows) = map m_title rows"
  by (simp add: tbl_upd_def)

lemma scan_title [simp]: "mem_title (scan_memory r) = m_title r" "mem_id (scan_memory r) = m_id r"
  by (simp_all add: scan_memory_def)

lemma doc_format_given [simp]: "doc_format d \<noteq> []" "format_or_default (doc_format d) = doc_format d"
  by (simp_all add: doc_format_def format_or_default_def)

section \<open>The listing a sync starts from\<close>

definition listed :: "store \<Rightarrow> memory list" where "listed st = fst (list_memories st full_scope [] 0 0)"

lemma set_listed: "set (listed st) = scan_memory ` set (st_mems st)"
  by (simp add: listed_def list_memories_all list_rows_def order_desc_def branch_filter_def)

lemma by_title_listed:
  assumes "titles_distinct st"
  shows "by_title (listed st) t = Some m \<longleftrightarrow> (\<exists>r \<in> set (st_mems st). m_title r = t \<and> m = scan_memory r)"
proof
  assume "by_title (listed st) t = Some m"
  then have "m \<in> set (rev (listed st)) \<and> mem_title m = t"
    unfolding by_title_def find_Some_iff by (metis nth_mem)
  then show "\<exists>r \<in> set (st_mems st). m_title r = t \<and> m = scan_memory r"
    by (auto simp: set_listed)
next
  assume "\<exists>r \<in> set (st_mems st). m_title r = t \<and> m = scan_memory r"
  then obtain r where r: "r \<in> set (st_mems st)" "m_title r = t" "m = scan_memory r" by blast
  show "by_title (listed st) t = Some m"
  proof (cases "by_title (listed st) t")
    case None
    then show ?thesis using r by (force simp: by_title_def find_None_iff set_listed)
  next
    case (Some m')
    then have "m' \<in> set (rev (listed st)) \<and> mem_title m' = t"
      unfolding by_title_def find_Some_iff by (metis nth_mem)
    then obtain r' where "r' \<in> set (st_mems st)" "m_title r' = t" "m' = scan_memory r'" by (auto simp: set_listed)
    then show ?thesis using r Some one_title [OF assms, of r' r] by simp
  qed
qed

section \<open>One document\<close>

text \<open>\<open>found\<close> says that the listing still tells the truth about one title.\<close>

definition found :: "memory list \<Rightarrow> store \<Rightarrow> string \<Rightarrow> bool" where
  "found existing st t = (\<forall>m. by_title existing t = Some m \<longleftrightarrow> (\<exists>r \<in> set (st_mems st). m_title r = t \<and> m = scan_memory r))"

definition other_rows :: "string set \<Rightarrow> store \<Rightarrow> mem_row set" where
  "other_rows T st = {r \<in> set (st_mems st). m_title r \<notin> T}"

definition corpus_ok :: "store \<Rightarrow> bool" where "corpus_ok st = (store_inv st \<and> titles_distinct st)"

lemma sync_doc_effect:
  assumes res: "sync_doc ids now author existing d s = (None, s')" and ok: "corpus_ok (sy_store s)"
    and found: "found existing (sy_store s) (dc_title d)" and fresh: "\<forall>k. ids k \<notin> tomb_ids (sy_store s)"
  shows "corpus_ok (sy_store s') \<and> tomb_ids (sy_store s') = tomb_ids (sy_store s)
    \<and> other_rows {dc_title d} (sy_store s') = other_rows {dc_title d} (sy_store s)
    \<and> (\<exists>r \<in> set (st_mems (sy_store s')). holds_doc d r)"
proof (cases "by_title existing (dc_title d)")
  case None
  then have new: "dc_title d \<notin> m_title ` set (st_mems (sy_store s))" using found by (force simp: found_def)
  obtain mem where ins: "insert_memory (ids (sy_inserted s)) now (doc_memory d) author sync_agent (sy_store s) = Inr (mem, sy_store s')"
    using res None by (auto simp: sync_doc_def split: sum.splits)
  have inv: "store_inv (sy_store s)" and t: "titles_distinct (sy_store s)" using ok by (simp_all add: corpus_ok_def)
  have st': "sy_store s' = inserted (ids (sy_inserted s)) now (doc_memory d) author sync_agent (sy_store s)"
    using insert_memory_cases [OF inv ins] by simp
  let ?r = "new_row (ids (sy_inserted s)) now (doc_memory d) (sy_store s)"
  have title: "m_title ?r = dc_title d" by (simp add: doc_memory_def)
  have "holds_doc d ?r" by (simp add: holds_doc_def doc_matches_def scan_memory_def doc_memory_def)
  moreover have "store_inv (sy_store s')" by (rule insert_memory_inv [OF inv _ ins]) (use fresh in blast)
  moreover have "titles_distinct (sy_store s')"
    by (rule titles_distinct_insert [OF t, of ?r]) (use new title st' in simp_all)
  ultimately show ?thesis using title unfolding st' by (auto simp: corpus_ok_def other_rows_def)
next
  case (Some m)
  then obtain r where r: "r \<in> set (st_mems (sy_store s))" "m_title r = dc_title d" "m = scan_memory r"
    using found Some unfolding found_def by blast
  have inv: "store_inv (sy_store s)" and t: "titles_distinct (sy_store s)" using ok by (simp_all add: corpus_ok_def)
  show ?thesis
  proof (cases "doc_matches d m")
    case True
    then have "s' = s" using res Some by (simp add: sync_doc_def)
    then show ?thesis using ok r True by (auto simp: holds_doc_def)
  next
    case False
    obtain mem where upd: "update_memory (m_id r) (doc_updates d) author sync_agent None now (sy_store s) = Inr (mem, sy_store s')"
      using res Some False r by (auto simp: sync_doc_def split: sum.splits)
    obtain old where old: "tbl_get m_id (m_id r) (st_mems (sy_store s)) = Some old"
      and st': "sy_store s' = updated (m_id r) (doc_updates d) author sync_agent now old (sy_store s)"
      using update_memory_cases [OF inv upd] by blast
    let ?f = "apply_updates (doc_updates d) now"
    have title: "m_title (?f x) = m_title x" for x by (simp add: apply_updates_def doc_updates_def)
    have only: "x = r" if "x \<in> set (st_mems (sy_store s))" "m_id x = m_id r" for x
      using that r inv by (auto simp: store_inv_def inv_mems_def tbl_wf_def distinct_map dest: inj_onD)
    have rows: "set (st_mems (sy_store s')) = (\<lambda>x. if m_id x = m_id r then ?f x else x) ` set (st_mems (sy_store s))"
      by (simp add: st' tbl_upd_def)
    have "titles_distinct (sy_store s')"
      using t titles_upd [of ?f m_id, OF title] by (simp add: titles_distinct_def st')
    moreover have "store_inv (sy_store s')" using update_memory_inv [OF inv upd] .
    moreover have "?f r \<in> set (st_mems (sy_store s'))" using r unfolding rows by force
    moreover have "holds_doc d (?f r)"
      using r by (simp add: holds_doc_def doc_matches_def scan_memory_def apply_updates_def doc_updates_def)
    moreover have "other_rows {dc_title d} (sy_store s') = other_rows {dc_title d} (sy_store s)"
      using only r title unfolding other_rows_def rows by (force split: if_splits)
    ultimately show ?thesis unfolding corpus_ok_def by (auto simp: st')
  qed
qed

section \<open>The loops\<close>

lemma found_elsewhere:
  assumes "other_rows T st' = other_rows T st" and "t \<notin> T" and "found existing st t"
  shows "found existing st' t"
proof -
  have "r \<in> set (st_mems st') \<longleftrightarrow> r \<in> set (st_mems st)" if "m_title r = t" for r
    using assms(1,2) that unfolding other_rows_def set_eq_iff by blast
  then show ?thesis using assms(3) unfolding found_def by metis
qed

lemma sync_docs_effect:
  assumes "sync_docs ids now author existing ds s = (None, s')" and "corpus_ok (sy_store s)" and "distinct (map dc_title ds)"
    and "\<forall>d \<in> set ds. found existing (sy_store s) (dc_title d)" and "\<forall>k. ids k \<notin> tomb_ids (sy_store s)"
  shows "corpus_ok (sy_store s') \<and> other_rows (dc_title ` set ds) (sy_store s') = other_rows (dc_title ` set ds) (sy_store s)
    \<and> (\<forall>d \<in> set ds. \<exists>r \<in> set (st_mems (sy_store s')). holds_doc d r)"
  using assms
proof (induction ds arbitrary: s)
  case (Cons d ds)
  obtain s1 where one: "sync_doc ids now author existing d s = (None, s1)" and rest: "sync_docs ids now author existing ds s1 = (None, s')"
    using Cons.prems(1) by (auto split: prod.splits option.splits)
  from sync_doc_effect [OF one Cons.prems(2)] Cons.prems(4,5)
  have s1: "corpus_ok (sy_store s1)" "tomb_ids (sy_store s1) = tomb_ids (sy_store s)"
    "other_rows {dc_title d} (sy_store s1) = other_rows {dc_title d} (sy_store s)" and d: "\<exists>r \<in> set (st_mems (sy_store s1)). holds_doc d r"
    by auto
  have "\<forall>x \<in> set ds. dc_title x \<noteq> dc_title d" using Cons.prems(3) by (auto simp: image_iff eq_commute)
  then have "\<forall>x \<in> set ds. found existing (sy_store s1) (dc_title x)"
    using Cons.prems(4) by (auto intro!: found_elsewhere [OF s1(3)])
  with Cons.IH [OF rest s1(1)] Cons.prems(3,5) s1(2)
  have s': "corpus_ok (sy_store s')" "other_rows (dc_title ` set ds) (sy_store s') = other_rows (dc_title ` set ds) (sy_store s1)"
    "\<forall>x \<in> set ds. \<exists>r \<in> set (st_mems (sy_store s')). holds_doc x r"
    by auto
  have sub: "other_rows (insert t T) st = {r \<in> other_rows T st. m_title r \<noteq> t}" for t T st
    by (auto simp: other_rows_def)
  have "other_rows (insert (dc_title d) (dc_title ` set ds)) (sy_store s') = other_rows (insert (dc_title d) (dc_title ` set ds)) (sy_store s)"
    using s1(3) s'(2) unfolding other_rows_def set_eq_iff by blast
  moreover have "\<exists>r \<in> set (st_mems (sy_store s')). holds_doc d r"
    using d s'(2) Cons.prems(3) unfolding other_rows_def set_eq_iff holds_doc_def by (metis (no_types, lifting) mem_Collect_eq distinct.simps(2) list.simps(9) set_map)
  ultimately show ?case using s' by simp
qed simp

lemma sync_removals_effect:
  assumes "sync_removals now author ms s = (None, s')" and "corpus_ok (sy_store s)"
  shows "corpus_ok (sy_store s') \<and> set (st_mems (sy_store s')) = {r \<in> set (st_mems (sy_store s)). m_id r \<notin> mem_id ` set ms}"
  using assms
proof (induction ms arbitrary: s)
  case (Cons m ms)
  obtain st1 where del: "delete_memory (mem_id m) author now (sy_store s) = Inr st1"
    and rest: "sync_removals now author ms (s\<lparr>sy_store := st1, sy_removed := Suc (sy_removed s)\<rparr>) = (None, s')"
    using Cons.prems(1) by (auto split: sum.splits)
  have inv: "store_inv (sy_store s)" and t: "titles_distinct (sy_store s)" using Cons.prems(2) by (simp_all add: corpus_ok_def)
  obtain r where st1: "st1 = deleted (mem_id m) author now r (sy_store s)" using delete_memory_cases [OF inv del] by blast
  have "corpus_ok st1"
    using delete_memory_inv [OF inv del] t
    by (auto simp: corpus_ok_def titles_distinct_def st1 tbl_del_def distinct_map intro: inj_on_subset)
  with Cons.IH [OF rest] show ?case by (auto simp: st1 set_tbl_del)
qed simp

lemma rebuild_again:
  assumes "store_inv st" and "rebuild_edges st = Inr st'"
  shows "rebuild_edges st' = Inr st'" and "st_mems st' = st_mems st" and "store_inv st'"
proof -
  obtain es where es: "st' = st\<lparr>st_edges := es\<rparr>" "store_inv st'" using rebuild_edges_ok [OF assms(1)] assms(2) by auto
  then show "store_inv st'" "st_mems st' = st_mems st" by simp_all
  show "rebuild_edges st' = Inr st'" using assms(2) es by (simp add: rebuild_edges_def)
qed

section \<open>The whole sync\<close>

definition doc_row :: "doc \<Rightarrow> string \<times> string \<times> string \<times> string" where
  "doc_row d = (dc_title d, dc_content d, dc_taxonomy d, doc_format d)"

definition corpus_rows :: "store \<Rightarrow> (string \<times> string \<times> string \<times> string) set" where
  "corpus_rows st = (\<lambda>r. (m_title r, str_of (m_content r), str_of (m_taxonomy r), m_format r)) ` set (st_mems st)"

lemma doc_row_iff: "(m_title r, str_of (m_content r), str_of (m_taxonomy r), m_format r) = doc_row d \<longleftrightarrow> holds_doc d r"
  by (auto simp: doc_row_def holds_doc_def doc_matches_def scan_memory_def)

lemma images_equal: "f ` A = g ` B \<longleftrightarrow> (\<forall>a \<in> A. \<exists>b \<in> B. f a = g b) \<and> (\<forall>b \<in> B. \<exists>a \<in> A. f a = g b)"
proof (intro iffI conjI ballI)
  show "\<exists>b \<in> B. f a = g b" if "f ` A = g ` B" "a \<in> A" for a using that by (metis imageE imageI)
  show "\<exists>a \<in> A. f a = g b" if "f ` A = g ` B" "b \<in> B" for b using that by (metis imageE imageI)
  show "f ` A = g ` B" if "(\<forall>a \<in> A. \<exists>b \<in> B. f a = g b) \<and> (\<forall>b \<in> B. \<exists>a \<in> A. f a = g b)"
    using that by (intro equalityI subsetI) (auto, metis imageI)
qed

lemma corpus_rows_iff:
  "corpus_rows st = doc_row ` set ds \<longleftrightarrow>
     (\<forall>r \<in> set (st_mems st). \<exists>d \<in> set ds. holds_doc d r) \<and> (\<forall>d \<in> set ds. \<exists>r \<in> set (st_mems st). holds_doc d r)"
  unfolding corpus_rows_def images_equal doc_row_iff ..

lemma set_unwanted:
  assumes "titles_distinct st"
  shows "set (unwanted ds (listed st)) = scan_memory ` other_rows (dc_title ` set ds) st"
proof -
  have "by_title (listed st) (m_title r) = Some (scan_memory r)" if "r \<in> set (st_mems st)" for r
    using that by_title_listed [OF assms] by blast
  then have "unwanted ds (listed st) = filter (\<lambda>m. mem_title m \<notin> dc_title ` set ds) (listed st)"
    unfolding unwanted_def by (intro filter_cong) (auto simp: set_listed)
  then show ?thesis by (auto simp: set_listed other_rows_def)
qed

lemma sync_corpus_effect:
  assumes docs: "sorted_docs es = Inr ds" and ok: "corpus_ok st" and fresh: "\<forall>k. ids k \<notin> tomb_ids st"
    and order: "\<And>ms. set (order ms) = set ms" and res: "sync_corpus ids order now author es st = (None, s)"
  shows "corpus_ok (sy_store s) \<and> corpus_rows (sy_store s) = doc_row ` set ds \<and> rebuild_edges (sy_store s) = Inr (sy_store s)"
proof -
  let ?s0 = "\<lparr>sy_store = st, sy_inserted = 0, sy_updated = 0, sy_removed = 0\<rparr>" and ?T = "dc_title ` set ds"
  obtain s1 s2 where one: "sync_docs ids now author (listed st) ds ?s0 = (None, s1)"
    and two: "sync_removals now author (order (unwanted ds (listed st))) s1 = (None, s2)"
    and three: "rebuild_edges (sy_store s2) = Inr (sy_store s)"
    using res docs by (auto simp: sync_corpus_def listed_def Let_def split: prod.splits option.splits sum.splits)
  have t: "titles_distinct st" using ok by (simp add: corpus_ok_def)
  have s1: "corpus_ok (sy_store s1)" "other_rows ?T (sy_store s1) = other_rows ?T st"
    "\<forall>d \<in> set ds. \<exists>r \<in> set (st_mems (sy_store s1)). holds_doc d r"
    using sync_docs_effect [OF one _ sorted_docs_titles [OF docs]] ok fresh by_title_listed [OF t] by (auto simp: found_def)
  have s2: "corpus_ok (sy_store s2)" and gone: "set (st_mems (sy_store s2)) =
      {r \<in> set (st_mems (sy_store s1)). m_id r \<notin> mem_id ` set (unwanted ds (listed st))}"
    using sync_removals_effect [OF two s1(1)] by (simp_all add: order)
  have unwanted: "mem_id ` set (unwanted ds (listed st)) = m_id ` other_rows ?T (sy_store s1)"
    unfolding s1(2) set_unwanted [OF t] by (simp add: image_image)
  have ids1: "m_id r = m_id r' \<Longrightarrow> r = r'" if "r \<in> set (st_mems (sy_store s1))" "r' \<in> set (st_mems (sy_store s1))" for r r'
    using that s1(1) by (auto simp: corpus_ok_def store_inv_def inv_mems_def tbl_wf_def distinct_map dest: inj_onD)
  have rows: "set (st_mems (sy_store s2)) = {r \<in> set (st_mems (sy_store s1)). m_title r \<in> ?T}"
    unfolding gone unwanted using ids1 by (auto simp: other_rows_def)
  have asked: "\<exists>d \<in> set ds. holds_doc d r" if r: "r \<in> set (st_mems (sy_store s2))" for r
  proof -
    obtain d where d: "d \<in> set ds" "m_title r = dc_title d" using r unfolding rows by blast
    then obtain r' where "r' \<in> set (st_mems (sy_store s1))" "holds_doc d r'" using s1(3) by blast
    moreover have "r' = r" using one_title [of "sy_store s1" r' r] calculation r d s1(1) unfolding rows
      by (simp add: corpus_ok_def holds_doc_def)
    ultimately show ?thesis using d by blast
  qed
  have there: "\<exists>r \<in> set (st_mems (sy_store s2)). holds_doc d r" if d: "d \<in> set ds" for d
  proof -
    obtain r where "r \<in> set (st_mems (sy_store s1))" "holds_doc d r" using s1(3) d by blast
    then show ?thesis using d unfolding rows by (intro bexI [of _ r]) (auto simp: holds_doc_def)
  qed
  have "corpus_rows (sy_store s2) = doc_row ` set ds" using asked there by (simp add: corpus_rows_iff)
  then show ?thesis using s2 rebuild_again [OF _ three] by (simp add: corpus_ok_def corpus_rows_def titles_distinct_def)
qed

section \<open>A second sync\<close>

lemma sync_docs_idle:
  "\<forall>d \<in> set ds. \<exists>m. by_title existing (dc_title d) = Some m \<and> doc_matches d m \<Longrightarrow> sync_docs ids now author existing ds s = (None, s)"
  by (induction ds) (auto simp: sync_doc_def)

lemma sync_again:
  assumes docs: "sorted_docs es = Inr ds" and ok: "corpus_ok st" and rows: "corpus_rows st = doc_row ` set ds"
    and edges: "rebuild_edges st = Inr st" and order: "\<And>ms. set (order ms) = set ms"
  shows "sync_corpus ids order now author es st = (None, \<lparr>sy_store = st, sy_inserted = 0, sy_updated = 0, sy_removed = 0\<rparr>)"
proof -
  have t: "titles_distinct st" using ok by (simp add: corpus_ok_def)
  have there: "\<exists>r \<in> set (st_mems st). holds_doc d r" if "d \<in> set ds" for d
    using that rows by (simp add: corpus_rows_iff)
  have asked: "m_title r \<in> dc_title ` set ds" if "r \<in> set (st_mems st)" for r
    using that rows unfolding corpus_rows_iff holds_doc_def by auto
  have "\<forall>d \<in> set ds. \<exists>m. by_title (listed st) (dc_title d) = Some m \<and> doc_matches d m"
    using there by_title_listed [OF t] unfolding holds_doc_def by metis
  note idle = sync_docs_idle [OF this]
  have "unwanted ds (listed st) = []"
    using set_unwanted [OF t, of ds] asked by (simp add: other_rows_def flip: set_empty)
  then have none: "order (unwanted ds (listed st)) = []" using order [of "[]"] by simp
  show ?thesis using docs idle none edges by (simp add: sync_corpus_def Let_def flip: listed_def)
qed

section \<open>When a sync goes through\<close>

text \<open>No other title of \<open>T\<close> is the document's title in the eyes of the store.\<close>

definition clear_title :: "string set \<Rightarrow> doc \<Rightarrow> bool" where
  "clear_title T d = (\<forall>t \<in> T. sql_lower_trim t = to_lower (trim_space (dc_title d)) \<longrightarrow> t = dc_title d)"

definition store_titles :: "store \<Rightarrow> string set" where "store_titles st = m_title ` set (st_mems st)"

lemma sync_doc_succeeds:
  assumes ok: "corpus_ok (sy_store s)" and found: "found existing (sy_store s) (dc_title d)"
    and clear: "clear_title (store_titles (sy_store s)) d" and new: "ids (sy_inserted s) \<notin> mem_ids (sy_store s)"
  shows "\<exists>s'. sync_doc ids now author existing d s = (None, s')
    \<and> store_titles (sy_store s') \<subseteq> insert (dc_title d) (store_titles (sy_store s))
    \<and> sy_inserted s \<le> sy_inserted s' \<and> mem_ids (sy_store s') \<subseteq> mem_ids (sy_store s) \<union> ids ` {sy_inserted s ..< sy_inserted s'}"
proof (cases "by_title existing (dc_title d)")
  case None
  have "title_conflict (sy_store s) (nm_title (doc_memory d)) (ids (sy_inserted s)) = None"
    using None found clear by (force simp: title_conflict_None clear_title_def store_titles_def found_def doc_memory_def)
  then obtain m where "insert_memory (ids (sy_inserted s)) now (doc_memory d) author sync_agent (sy_store s) =
      Inr (m, inserted (ids (sy_inserted s)) now (doc_memory d) author sync_agent (sy_store s))"
    using insert_memory_eq [of "sy_store s" "doc_memory d" "ids (sy_inserted s)"] ok new unfolding corpus_ok_def by blast
  then show ?thesis using None by (auto simp: sync_doc_def store_titles_def doc_memory_def)
next
  case (Some m)
  then obtain r where r: "r \<in> set (st_mems (sy_store s))" "m_title r = dc_title d" "m = scan_memory r"
    using found unfolding found_def by blast
  have inv: "store_inv (sy_store s)" using ok by (simp add: corpus_ok_def)
  have get: "tbl_get m_id (m_id r) (st_mems (sy_store s)) = Some r"
    using mem_by_id r inv by (simp add: store_inv_def)
  have "update_title_clash (sy_store s) (m_id r) (doc_updates d) = None" by (simp add: update_title_clash_def doc_updates_def)
  then obtain m' where "update_memory (m_id r) (doc_updates d) author sync_agent None now (sy_store s) =
      Inr (m', updated (m_id r) (doc_updates d) author sync_agent now r (sy_store s))"
    using update_memory_eq [OF inv get, of None] by blast
  moreover have "store_titles (updated (m_id r) (doc_updates d) author sync_agent now r (sy_store s)) = store_titles (sy_store s)"
    using titles_upd [of "apply_updates (doc_updates d) now" m_id "m_id r" "st_mems (sy_store s)"]
    by (simp add: store_titles_def apply_updates_def doc_updates_def flip: set_map)
  ultimately show ?thesis using Some r by (auto simp: sync_doc_def)
qed

lemma clear_title_mono: "clear_title T d \<Longrightarrow> T' \<subseteq> T \<Longrightarrow> clear_title T' d"
  by (auto simp: clear_title_def)

lemma sync_docs_succeeds:
  assumes "corpus_ok (sy_store s)" and "distinct (map dc_title ds)" and "\<forall>d \<in> set ds. found existing (sy_store s) (dc_title d)"
    and "\<forall>k. ids k \<notin> tomb_ids (sy_store s)" and "\<forall>d \<in> set ds. clear_title (T \<union> dc_title ` set ds) d"
    and "store_titles (sy_store s) \<subseteq> T" and "inj ids" and "\<forall>k \<ge> sy_inserted s. ids k \<notin> mem_ids (sy_store s)"
  shows "\<exists>s'. sync_docs ids now author existing ds s = (None, s')"
  using assms
proof (induction ds arbitrary: s T)
  case (Cons d ds)
  have "clear_title (store_titles (sy_store s)) d" using Cons.prems(5,6) by (auto intro: clear_title_mono)
  with sync_doc_succeeds [OF Cons.prems(1), of existing d ids now author] Cons.prems(3,8)
  obtain s1 where one: "sync_doc ids now author existing d s = (None, s1)"
    and titles: "store_titles (sy_store s1) \<subseteq> insert (dc_title d) (store_titles (sy_store s))"
    and count: "sy_inserted s \<le> sy_inserted s1" "mem_ids (sy_store s1) \<subseteq> mem_ids (sy_store s) \<union> ids ` {sy_inserted s ..< sy_inserted s1}"
    by auto
  from sync_doc_effect [OF one Cons.prems(1)] Cons.prems(3,4)
  have s1: "corpus_ok (sy_store s1)" "tomb_ids (sy_store s1) = tomb_ids (sy_store s)"
    "other_rows {dc_title d} (sy_store s1) = other_rows {dc_title d} (sy_store s)"
    by auto
  have "\<forall>x \<in> set ds. dc_title x \<noteq> dc_title d" using Cons.prems(2) by (auto simp: image_iff eq_commute)
  then have found: "\<forall>x \<in> set ds. found existing (sy_store s1) (dc_title x)"
    using Cons.prems(3) by (auto intro!: found_elsewhere [OF s1(3)])
  have "\<forall>k \<ge> sy_inserted s1. ids k \<notin> mem_ids (sy_store s1)"
  proof (intro allI impI)
    fix k assume k: "sy_inserted s1 \<le> k"
    then have "ids k \<notin> ids ` {sy_inserted s ..< sy_inserted s1}" by (auto simp: inj_eq [OF Cons.prems(7)])
    then show "ids k \<notin> mem_ids (sy_store s1)" using k count Cons.prems(8) by (meson UnE order_trans subsetD)
  qed
  moreover have "\<forall>x \<in> set ds. clear_title (insert (dc_title d) T \<union> dc_title ` set ds) x"
    using Cons.prems(5) by (auto intro: clear_title_mono)
  moreover have "store_titles (sy_store s1) \<subseteq> insert (dc_title d) T" using titles Cons.prems(6) by blast
  ultimately obtain s' where "sync_docs ids now author existing ds s1 = (None, s')"
    using Cons.IH [OF s1(1), of "insert (dc_title d) T"] found Cons.prems(2,4,7) s1(2) by auto
  then show ?case using one by simp
qed simp

lemma deleted_ids: "m_id ` set (tbl_del m_id i rows) = m_id ` set rows - {i}"
proof -
  have "m_id ` {r \<in> set rows. m_id r \<noteq> i} = m_id ` set rows - {i}" by blast
  then show ?thesis by (simp add: set_tbl_del)
qed

lemma sync_removals_succeeds:
  assumes "corpus_ok (sy_store s)" and "distinct (map mem_id ms)" and "mem_id ` set ms \<subseteq> mem_ids (sy_store s)"
  shows "\<exists>s'. sync_removals now author ms s = (None, s')"
  using assms
proof (induction ms arbitrary: s)
  case (Cons m ms)
  have inv: "store_inv (sy_store s)" and t: "titles_distinct (sy_store s)" using Cons.prems(1) by (simp_all add: corpus_ok_def)
  obtain r where get: "tbl_get m_id (mem_id m) (st_mems (sy_store s)) = Some r"
    using Cons.prems(3) by (cases "tbl_get m_id (mem_id m) (st_mems (sy_store s))") (auto simp: tbl_get_None_iff)
  note del = delete_memory_eq [OF inv get, of author now]
  let ?s = "s\<lparr>sy_store := deleted (mem_id m) author now r (sy_store s), sy_removed := Suc (sy_removed s)\<rparr>"
  have ok: "corpus_ok (sy_store ?s)"
    using delete_memory_inv [OF inv del] t
    by (auto simp: corpus_ok_def titles_distinct_def tbl_del_def distinct_map intro: inj_on_subset)
  have "mem_ids (sy_store ?s) = mem_ids (sy_store s) - {mem_id m}" by (simp add: deleted_ids)
  moreover have "mem_id m \<notin> mem_id ` set ms" "mem_id ` set ms \<subseteq> mem_ids (sy_store s)" using Cons.prems(2,3) by simp_all
  ultimately have "mem_id ` set ms \<subseteq> mem_ids (sy_store ?s)" by (simp only: subset_Diff_insert Diff_empty simp_thms)
  with Cons.IH [OF ok] Cons.prems(2) show ?case by (simp add: del)
qed simp

lemma unwanted_distinct:
  assumes "store_inv st" and "mset (order (unwanted ds (listed st))) = mset (unwanted ds (listed st))"
  shows "distinct (map mem_id (order (unwanted ds (listed st))))"
proof -
  have "distinct (map m_id (order_desc m_updated (st_mems st)))"
    using assms(1) mset_map by (auto simp: store_inv_def inv_mems_def tbl_wf_def distinct_map order_desc_def)
  then have "distinct (map mem_id (unwanted ds (listed st)))"
    by (simp add: unwanted_def listed_def list_memories_all list_rows_def branch_filter_def comp_def distinct_map_filter)
  then show ?thesis using assms(2) by (metis mset_eq_imp_distinct_iff mset_map)
qed

text \<open>C38: A sync of the documentation goes through and leaves the documents: if the store takes no other title for that of a
  document and the new ids are new, every document is a memory with exactly its title, content, taxonomy and format, and
  there is no other memory; records whose file is gone are removed, in whatever order the map is walked. The file stays
  well formed, and a second sync, by whomever and whenever, writes nothing: no insert, no update, no removal, and the file
  is the same down to its edges.\<close>

theorem sync_mirrors:
  assumes docs: "sorted_docs es = Inr ds" and inv: "store_inv st" and titles: "titles_distinct st"
    and clear: "\<forall>d \<in> set ds. clear_title (store_titles st \<union> dc_title ` set ds) d"
    and fresh: "inj ids" "\<forall>k. ids k \<notin> mem_ids st \<union> tomb_ids st" and order: "\<And>ms. mset (order ms) = mset ms"
  shows "\<exists>s. sync_corpus ids order now author es st = (None, s)
    \<and> corpus_rows (sy_store s) = doc_row ` set ds \<and> store_inv (sy_store s) \<and> titles_distinct (sy_store s)
    \<and> sync_corpus ids' order now' author' es (sy_store s)
        = (None, \<lparr>sy_store = sy_store s, sy_inserted = 0, sy_updated = 0, sy_removed = 0\<rparr>)"
proof -
  let ?s0 = "\<lparr>sy_store = st, sy_inserted = 0, sy_updated = 0, sy_removed = 0\<rparr>"
  have ok: "corpus_ok st" using inv titles by (simp add: corpus_ok_def)
  have found: "\<forall>d \<in> set ds. found (listed st) st (dc_title d)" using by_title_listed [OF titles] by (simp add: found_def)
  have set_order: "set (order ms) = set ms" for ms by (rule mset_eq_setD [OF order])
  obtain s1 where one: "sync_docs ids now author (listed st) ds ?s0 = (None, s1)"
    using sync_docs_succeeds [of ?s0 ds "listed st" ids "store_titles st" now author] ok found clear fresh sorted_docs_titles [OF docs] by auto
  then have s1: "corpus_ok (sy_store s1)" "other_rows (dc_title ` set ds) (sy_store s1) = other_rows (dc_title ` set ds) st"
    using sync_docs_effect [OF one] ok found fresh sorted_docs_titles [OF docs] by simp_all
  have "mem_id ` set (order (unwanted ds (listed st))) \<subseteq> mem_ids (sy_store s1)"
    using s1(2) by (auto simp: set_order set_unwanted [OF titles] other_rows_def)
  then obtain s2 where two: "sync_removals now author (order (unwanted ds (listed st))) s1 = (None, s2)"
    using sync_removals_succeeds [OF s1(1)] unwanted_distinct [where order = order, OF inv order] by blast
  then have "store_inv (sy_store s2)" using sync_removals_effect [OF two s1(1)] by (simp add: corpus_ok_def)
  then obtain es' where "rebuild_edges (sy_store s2) = Inr ((sy_store s2)\<lparr>st_edges := es'\<rparr>)" using rebuild_edges_ok by blast
  then obtain s where res: "sync_corpus ids order now author es st = (None, s)"
    using docs one two by (auto simp: sync_corpus_def Let_def simp flip: listed_def)
  from sync_corpus_effect [OF docs ok _ set_order res] fresh
  have s: "corpus_ok (sy_store s)" "corpus_rows (sy_store s) = doc_row ` set ds" "rebuild_edges (sy_store s) = Inr (sy_store s)" by auto
  show ?thesis
    using res s sync_again [OF docs s set_order] by (auto simp: corpus_ok_def)
qed

definition eg_line :: "string \<Rightarrow> string" where "eg_line s = s @ [newline]"

definition eg_page :: "string \<Rightarrow> string \<Rightarrow> string" where
  "eg_page title body = eg_line ''---'' @ eg_line (''title: '' @ title) @ eg_line ''taxonomy: docs'' @ eg_line ''---'' @ body"

definition eg_corpus :: "entry list" where
  "eg_corpus = [(''b.md'', False, eg_page ''Plan'' ''see [[Guide]]''), (''a.md'', False, eg_page ''Guide'' ''start''), (''x.txt'', False, [])]"

lemma eg_corpus_docs: "sorted_docs eg_corpus = Inr (projr (sorted_docs eg_corpus))"
  by code_simp

lemma sync_mirrors_witness:
  "\<exists>s. sync_corpus (\<lambda>k. replicate (Suc k) CHR ''n'') rev 50 ''docs'' eg_corpus file2 = (None, s)
     \<and> corpus_rows (sy_store s) = {(''Guide'', ''start'', ''docs'', ''markdown''), (''Plan'', ''see [[Guide]]'', ''docs'', ''markdown'')}"
proof -
  have fresh: "\<forall>k. replicate (Suc k) CHR ''n'' \<notin> mem_ids file2 \<union> tomb_ids file2"
  proof -
    have "mem_ids file2 \<union> tomb_ids file2 = {''a'', ''b''}" by code_simp
    then show ?thesis by simp
  qed
  have inj: "inj (\<lambda>k. replicate (Suc k) CHR ''n'')" by (rule injI) (auto dest: arg_cong [where f = length])
  have titles: "titles_distinct file2" by code_simp
  have clear: "\<forall>d \<in> set (projr (sorted_docs eg_corpus)). clear_title (store_titles file2 \<union> dc_title ` set (projr (sorted_docs eg_corpus))) d"
    by code_simp
  have rows: "doc_row ` set (projr (sorted_docs eg_corpus))
      = {(''Guide'', ''start'', ''docs'', ''markdown''), (''Plan'', ''see [[Guide]]'', ''docs'', ''markdown'')}" by code_simp
  from sync_mirrors [OF eg_corpus_docs file_invs(2) titles clear inj fresh mset_rev] show ?thesis unfolding rows by blast
qed

text \<open>A document that changes its title in case only is new to the match and old to the store: this and every later
  sync fail, before the removals.\<close>

theorem case_change_blocks:
  "fst (sync_corpus (\<lambda>k. replicate (Suc k) CHR ''n'') rev 50 ''docs'' [(''b.md'', False, eg_page ''PLAN'' ''x'')] file2)
     = Some (StoreFailed (TitleConflict ''PLAN'' ''a''))"
  by code_simp

end
