(* ===== verification/Spec2Isabelle.thy ===== *)
theory Spec2Isabelle
  imports Link_Properties Graph_Properties Handle_Manager Registry_Properties Replication_Facts
    Engine_Access Team_Properties
    Web_Mirror Process_Properties Docs_Properties
begin

text \<open>
  A verification development for rekam, a memory server for people and their agents: notes with
  wiki-links, filed in a taxonomy, kept in one SQLite file per tenant, shared with a team and reached
  over a REST server, an MCP server and a command line. The edition modelled is the one the repository
  holds (build tag \<^verbatim>\<open>solo\<close>). Theorems marked C1, C2, ... are the main properties; what each states is in
  the text before it.

  \<^bold>\<open>The program and its model.\<close> A bearer (key, grant key or session token) reaches a handler, the
  handler calls an operation of the engine, the engine resolves the bearer in the registry, finds the
  tenant file and the scope of the member, asks the lease whether this node may write, and runs one
  transaction of the store. The theories follow these layers from below.

  \<^item> Foundations. \<open>Go_Prelude\<close>: Go strings as lists of bytes, the library functions the code calls, tables as
    lists of rows with the locale \<open>keyed_table\<close> of a table with a primary key, which the tables of
    files, reviews and members interpret.

  \<^item> Tenant file (\<^verbatim>\<open>internal/db\<close>). \<open>Tenant_Data\<close>: the rows and the record \<open>store\<close> (\<^verbatim>\<open>MemoryDB\<close>). \<open>Scope\<close>
    (\<^verbatim>\<open>scope.go\<close>): the Go predicate and the SQL condition of a scope, as two interpretations of the locale
    \<open>scope_filter\<close>. \<open>Wiki_Links\<close> (\<^verbatim>\<open>links.go\<close>). \<open>Memory_Store\<close>, \<open>Memory_Query\<close> (\<^verbatim>\<open>memory.go\<close>): write and read
    paths. \<open>Review_Deck\<close> (\<^verbatim>\<open>srs.go\<close>), \<open>Link_Graph\<close> (\<^verbatim>\<open>graph.go\<close>), \<open>Link_Suggest\<close> (\<^verbatim>\<open>suggest.go\<close>),
    \<open>Tenant_Members\<close> (\<^verbatim>\<open>members.go\<close>), \<open>Taxonomy_Template\<close> (\<^verbatim>\<open>taxonomy_template.go\<close>), \<open>File_Store\<close>
    (\<^verbatim>\<open>files.go\<close>). \<open>Store_Writes\<close>, \<open>Store_Removal\<close>: each write as an equation; \<open>Store_Invariant\<close>,
    \<open>Store_Machine\<close>: the invariant \<open>store_inv\<close>, the step relation of committed transactions and its
    reachable files. \<open>Query_Facts\<close>, \<open>Tenant_Properties\<close>, \<open>Link_Properties\<close>, \<open>Read_Properties\<close>,
    \<open>Graph_Properties\<close>: edits with a base version, revisions, tombstones, titles, edges, disclosure, paging,
    the breadth-first slice as bounded reachability. \<open>Tenant_Examples\<close>: the files of the witnesses.

  \<^item> Handles and leases (\<^verbatim>\<open>internal/db\<close>). \<open>Handle_Manager\<close> (\<^verbatim>\<open>manager.go\<close>): every region under the lock is a
    step and the steps of the goroutines interleave freely. \<open>Replication\<close>, \<open>Replication_Facts\<close>
    (\<^verbatim>\<open>replicate.go\<close>): tenant states, lease attempts, activation, the sweep, and when a node believes it is
    primary.

  \<^item> Registry (\<^verbatim>\<open>internal/db\<close>). \<open>Registry_Data\<close>, \<open>Registry_Accounts\<close>, \<open>Registry_Teams\<close>, \<open>Registry_Grants\<close>
    (\<^verbatim>\<open>registry.go\<close>, \<^verbatim>\<open>users.go\<close>, \<^verbatim>\<open>entitlements.go\<close>, \<^verbatim>\<open>oauth_clients.go\<close>), \<open>Password\<close>: the record \<open>registry\<close> with
    every mutation; codes and consent tickets interpret the locale \<open>one_shot\<close>. \<open>Registry_Machine\<close>,
    \<open>Registry_Properties\<close>: the invariant \<open>reg_ok\<close>, one-shot secrets, final revocation, the cap on
    teams, and the refinement of a table of logins by the session table.

  \<^item> Engine (\<^verbatim>\<open>internal/engine\<close>). \<open>Engine_Core\<close>: the record \<open>engine\<close> (registry, tenant files, blob stores,
    leases), bearers, tokens, routing. \<open>Engine_Taxonomy\<close>, \<open>Engine_Memory\<close>, \<open>Engine_Team\<close>,
    \<open>Engine_Accounts\<close>: one definition per method, with what is left behind when one fails half-way.
    \<open>Engine_Machine\<close>, \<open>Engine_Reachable\<close>: a step is one call of any operation by anybody; it is a sequence of
    committed moves of the parts, so the invariants of the parts hold in every reachable engine.
    \<open>Engine_Properties\<close>, \<open>Engine_Access\<close>, \<open>Team_Properties\<close>: confinement of writes, reading back, absent and
    unreadable memories alike, owners, seats, tokens. \<open>Engine_Examples\<close>: the engine of the witnesses.

  \<^item> HTTP server (\<^verbatim>\<open>internal/api\<close>). \<open>Net_Address\<close>, \<open>Rate_Limit\<close> (\<^verbatim>\<open>ratelimit.go\<close>), \<open>Redirect_Check\<close>
    (\<^verbatim>\<open>redirect_uri.go\<close>), \<open>Web_Data\<close>: requests, responses, decoding. \<open>Web_Errors\<close> (\<^verbatim>\<open>forward.go\<close>),
    \<open>Web_Session\<close> (\<^verbatim>\<open>session.go\<close>), \<open>Web_OAuth\<close> (\<^verbatim>\<open>oauth_handlers.go\<close>), \<open>Web_Memory\<close> (\<^verbatim>\<open>handlers.go\<close>), \<open>Web_Admin\<close>
    (\<^verbatim>\<open>admin_handlers.go\<close>, \<^verbatim>\<open>files_handlers.go\<close>), \<open>Web_Export\<close> (\<^verbatim>\<open>export.go\<close>), \<open>Web_Public\<close> (\<^verbatim>\<open>public.go\<close>),
    \<open>Web_Server\<close> (\<^verbatim>\<open>server.go\<close>, \<^verbatim>\<open>metrics.go\<close> and the rest of the chain), \<open>Web_Routes\<close>: the route table and
    its look-up as \<^verbatim>\<open>ServeMux\<close> does it. \<open>Web_Contract\<close>: the locale \<open>route_contract\<close>, what the chain needs of
    every route; \<open>Web_Access\<close> interprets it on the table of the solo edition twice, for everybody and
    for callers without a valid bearer. \<open>Web_Facts\<close>, \<open>Web_Flow\<close>, \<open>Web_Sessions\<close>, \<open>Web_Mirror\<close>: the properties
    of the handlers, of the OAuth flow end to end, of browser sessions and of the public mirror.
    \<open>Web_Examples\<close>: the server of the witnesses.

  \<^item> MCP server (\<^verbatim>\<open>internal/mcp\<close>). \<open>Mcp_Server\<close>: messages, the fifteen tools, resources, three transports.
    \<open>Mcp_Properties\<close>: the locale \<open>rpc_contract\<close>, agreement with the REST handlers, streams.

  \<^item> Documentation and releases. \<open>Docs_Sync\<close> (\<^verbatim>\<open>internal/docs\<close>); \<open>Docs_Properties\<close>: a sync leaves exactly the
    documents and a second one writes nothing. \<open>Update_Check\<close> (\<^verbatim>\<open>internal/updatecheck\<close>).

  \<^item> Process (\<^verbatim>\<open>cmd/rekam\<close>). \<open>Shell_Env\<close>: flags, environment, \<^verbatim>\<open>.env\<close>. \<open>Command_Line\<close>: the commands, on a
    record \<open>host\<close> of files, registries and started processes. \<open>Rekam_Process\<close>: the start of the server and the
    mux of both servers over one engine. \<open>Process_Properties\<close>: every run of the process is a run of the
    engine, what an install leaves, what becomes of the administrator.

  \<^bold>\<open>Conventions.\<close> Strings are bytes; case mapping and white space are those of ASCII. Stored times are
  seconds, the clock is in nanoseconds and \<open>stamp\<close> rounds it down. What the code draws at random is an
  argument. Errors are values of a sum type, with the texts of messages where a caller can tell them apart. Each
  engine call, and so each request, is one atomic step; inside the handle manager and the replication
  the regions under a lock are the steps. JSON bodies come decoded, HTML pages are their template data. Go's
  \<^verbatim>\<open>int\<close> is an unbounded integer where no arithmetic of the code can leave 64 bits, and the bound is written out where
  input can (number parsing, the token budget); addresses and base64 work on machine words.

  \<^bold>\<open>Parameters.\<close> SHA-256, HMAC, PBKDF2, the match and rank of full-text search, the rounding of floating-point
  numbers, the URL parser, path joining, the lease service, the answers of other nodes, mail and
  operating-system calls are arguments (records \<open>world\<close>, \<open>web\<close>, \<open>environ\<close>, \<open>shell\<close>). What a theorem needs
  of them is a hypothesis of it, and its witness instantiates them with functions that compute.

  \<^bold>\<open>Loops and bounds.\<close> The scanners of \<open>Wiki_Links\<close> are total by measures on the remaining text. The eviction
  loop of the handle manager has the number of open handles as fuel; a round closes one handle, and
  \<open>budget_result\<close> shows the loop ended for the code's own reason. The breadth-first search of the graph runs
  a round per hop, at most four. Everything else is structural recursion.

  \<^bold>\<open>Not modelled.\<close> \<^verbatim>\<open>open.go\<close> (opening SQLite files), \<^verbatim>\<open>replicate_s3.go\<close> (configuration of third-party clients),
  the mail client: pure I/O around libraries. Migrations of old files, except the confirmation
  back-fill that every opening of the registry repeats. Descriptions, input schemas and the instruction
  text of the MCP tools, the usage text: texts for the client. Gauges, latencies, compression, the embedded front end, graceful
  shutdown and the ticker of the release check. Setters for payment and sign-in providers, whose routes
  belong to editions that are not in the repository. Concurrency between two requests inside one engine
  call is not modelled, beyond what the handle manager and the base version of an edit make of it.

  \<^bold>\<open>Where code and intent differ.\<close> Some theorems state what the code does although a comment or a reader
  would expect something else: an underscore in a grant matches any character (\<open>Scope\<close>), a rebuild forgets bindings to
  deleted memories (\<open>Link_Properties\<close>), restoring a revision skips the taxonomy of that revision
  (\<open>Engine_Access\<close>), an invite can demote the last owner
  (\<open>Team_Properties\<close>), an event stream outlives the grant that opened it (\<open>Mcp_Properties\<close>), an open
  registration can redirect a client (\<open>Web_Flow\<close>), the adopted administrator is locked out until the next start and the
  built-in password creates none (\<open>Process_Properties\<close>).
\<close>

end
